(* ===== verification/Py_Prelude.thy ===== *)
theory Py_Prelude
  imports Main "HOL-Library.AList"
begin

text \<open>
  What the components share: the exceptions the code raises, the Python values that travel
  as JSON, the string methods of the standard library the code calls (on \<open>string\<close>, with the
  separators it uses), dictionaries as association lists in insertion order
  (\<open>AList.update\<close> overwrites in place or appends, as a Python dict does), and the lemma
  collection \<open>py_simps\<close> the component proofs simplify with.
\<close>

named_theorems py_simps \<open>equations about the Python primitives\<close>

section \<open>Errors and results\<close>

text \<open>
  One constructor per exception class that the modelled code raises, catches or lets escape.
\<close>

datatype py_error =
    KeyError string
  | IndexError
  | ValueError
  | TypeError
  | AttributeError
  | UnboundLocalError
  | FileNotFoundError
  | NotImplementedError
  | ValidationError
  | RuntimeError
  | IntegrityError
  | MultipleResultsFound
  | InvalidTokenError
  | AuthValidationFailed
  | WebAuthFailed
  | MissingAuthorizationHeader
  | WorkflowRegisterError
  | WorkflowRegisterClientError
  | WorkflowNotFound
  | WorkflowDisabled
  | RuntimeNotFound
  | RuntimeCreationError
  | ProjectCreateError
  | ProjectUploadError
  | PrivateKeyNotFound
  | WorkflowStateNotSetError
  | LoginError
  | HistoryNotebookError
  | ClusterAPIError
  | KeyReadError
  | KeyWriteError
  | CommandExecutionException
  | OverflowError
  | RetryError
  | PermissionError
  | AssertionError
  | ConnectError
  | ModuleNotFoundError
  | PendingRollbackError
  | CalledProcessError
  | SystemExit int

type_synonym 'a result = "py_error + 'a"

fun rbind :: "'a result \<Rightarrow> ('a \<Rightarrow> 'b result) \<Rightarrow> 'b result" where
  "rbind (Inl e) f = Inl e"
| "rbind (Inr x) f = f x"

lemma rbind_Inr_iff [py_simps]: "rbind r f = Inr y \<longleftrightarrow> (\<exists>x. r = Inr x \<and> f x = Inr y)"
  by (cases r) auto

lemma rbind_Inl_iff:
  "rbind r f = Inl e \<longleftrightarrow> r = Inl e \<or> (\<exists>x. r = Inr x \<and> f x = Inl e)"
  by (cases r) auto

fun is_ok :: "'a result \<Rightarrow> bool" where
  "is_ok (Inl _) = False"
| "is_ok (Inr _) = True"

text \<open>Mapping a fallible function over a list stops at the first error, as a comprehension does.\<close>

fun rmap :: "('a \<Rightarrow> 'b result) \<Rightarrow> 'a list \<Rightarrow> 'b list result" where
  "rmap f [] = Inr []"
| "rmap f (x # xs) = rbind (f x) (\<lambda>y. rbind (rmap f xs) (\<lambda>ys. Inr (y # ys)))"

lemma rmap_Inr_length: "rmap f xs = Inr ys \<Longrightarrow> length ys = length xs"
  by (induction xs arbitrary: ys) (auto simp: rbind_Inr_iff)

lemma rmap_total: "(\<And>x. x \<in> set xs \<Longrightarrow> f x = Inr (g x)) \<Longrightarrow> rmap f xs = Inr (map g xs)"
  by (induction xs) auto

section \<open>Python values\<close>

datatype pyval =
    PNone
  | PBool bool
  | PInt int
  | PStr string
  | PList "pyval list"
  | PDict "(string \<times> pyval) list"

fun truthy :: "pyval \<Rightarrow> bool" where
  "truthy PNone = False"
| "truthy (PBool b) = b"
| "truthy (PInt i) = (i \<noteq> 0)"
| "truthy (PStr s) = (s \<noteq> [])"
| "truthy (PList xs) = (xs \<noteq> [])"
| "truthy (PDict d) = (d \<noteq> [])"

text \<open>\<open>x or y\<close> on optional strings: both \<open>None\<close> and the empty string are false.\<close>

fun or_str :: "string option \<Rightarrow> string \<Rightarrow> string" where
  "or_str None d = d"
| "or_str (Some s) d = (if s = [] then d else s)"

fun opt_truthy :: "string option \<Rightarrow> bool" where
  "opt_truthy None = False"
| "opt_truthy (Some s) = (s \<noteq> [])"

fun or_opt :: "string option \<Rightarrow> string option \<Rightarrow> string option" where
  "or_opt x y = (if opt_truthy x then x else y)"

text \<open>\<open>f"{x}"\<close> of an optional string prints \<open>None\<close>.\<close>

fun fmt_opt :: "string option \<Rightarrow> string" where
  "fmt_opt None = ''None''"
| "fmt_opt (Some s) = s"

section \<open>Dictionaries\<close>

type_synonym 'v dict = "(string \<times> 'v) list"

definition dict_get :: "'v dict \<Rightarrow> string \<Rightarrow> 'v result" where
  "dict_get d k = (case map_of d k of None \<Rightarrow> Inl (KeyError k) | Some v \<Rightarrow> Inr v)"

definition dict_set :: "string \<Rightarrow> 'v \<Rightarrow> 'v dict \<Rightarrow> 'v dict" where
  "dict_set k v d = AList.update k v d"

definition dict_del :: "string \<Rightarrow> 'v dict \<Rightarrow> 'v dict" where
  "dict_del k d = AList.delete k d"

definition dict_keys :: "'v dict \<Rightarrow> string list" where
  "dict_keys d = map fst d"

definition wf_dict :: "'v dict \<Rightarrow> bool" where
  "wf_dict d \<longleftrightarrow> distinct (map fst d)"

lemma map_of_dict_set [simp, py_simps]: "map_of (dict_set k v d) = (map_of d)(k \<mapsto> v)"
  by (simp add: dict_set_def update_conv')

lemma map_of_dict_del [simp, py_simps]: "map_of (dict_del k d) = (map_of d)(k := None)"
  by (simp add: dict_del_def delete_conv')

lemma wf_dict_Nil [simp]: "wf_dict []"
  by (simp add: wf_dict_def)

lemma wf_dict_set [simp, intro]: "wf_dict d \<Longrightarrow> wf_dict (dict_set k v d)"
  by (simp add: wf_dict_def dict_set_def distinct_update)

lemma wf_dict_del [simp, intro]: "wf_dict d \<Longrightarrow> wf_dict (dict_del k d)"
  by (simp add: wf_dict_def dict_del_def distinct_delete)

lemma keys_dict_set [simp]: "fst ` set (dict_set k v d) = insert k (fst ` set d)"
  by (simp add: dict_set_def dom_update)

lemma keys_dict_del [simp]: "fst ` set (dict_del k d) = fst ` set d - {k}"
  by (auto simp: dict_del_def delete_conv' simp flip: dom_map_of_conv_image_fst split: if_splits)

lemma dict_get_set [py_simps]:
  "dict_get (dict_set k v d) j = (if j = k then Inr v else dict_get d j)"
  by (simp add: dict_get_def)

lemma dict_get_Inr_iff [py_simps]: "dict_get d k = Inr v \<longleftrightarrow> map_of d k = Some v"
  by (simp add: dict_get_def split: option.splits)

lemma map_of_Some_iff_mem: "wf_dict d \<Longrightarrow> map_of d k = Some v \<longleftrightarrow> (k, v) \<in> set d"
  by (simp add: wf_dict_def)

section \<open>Rows with a key\<close>

lemma filter_key_single: "distinct (map f xs) \<Longrightarrow> v \<in> set xs \<Longrightarrow> filter (\<lambda>u. f u = f v) xs = [v]"
  by (induction xs) (auto simp: filter_empty_conv image_iff)

section \<open>Strings\<close>

text \<open>\<open>s.split(c, maxsplit=1)\<close> that finds its separator, as a pair.\<close>

fun split_once :: "char \<Rightarrow> string \<Rightarrow> (string \<times> string) option" where
  "split_once c [] = None"
| "split_once c (x # xs) =
     (if x = c then Some ([], xs)
      else map_option (\<lambda>(a, b). (x # a, b)) (split_once c xs))"

text \<open>\<open>s.split(c)\<close>: never the empty list.\<close>

fun split_on :: "char \<Rightarrow> string \<Rightarrow> string list" where
  "split_on c [] = [[]]"
| "split_on c (x # xs) =
     (if x = c then [] # split_on c xs
      else (case split_on c xs of [] \<Rightarrow> [[x]] | w # ws \<Rightarrow> (x # w) # ws))"

text \<open>\<open>s.rsplit(c, maxsplit=1)\<close> that finds its separator, as a pair.\<close>

definition rsplit_once :: "char \<Rightarrow> string \<Rightarrow> (string \<times> string) option" where
  "rsplit_once c s = map_option (\<lambda>(a, b). (rev b, rev a)) (split_once c (rev s))"

definition strip_chars :: "(char \<Rightarrow> bool) \<Rightarrow> string \<Rightarrow> string" where
  "strip_chars P s = rev (dropWhile P (rev (dropWhile P s)))"

text \<open>The code points below 256 for which \<open>str.isspace\<close> holds.\<close>

definition py_isspace :: "char \<Rightarrow> bool" where
  "py_isspace c \<longleftrightarrow> of_char c \<in> {9, 10, 11, 12, 13, 28, 29, 30, 31, 32, 133, 160 :: nat}"

definition strip :: "string \<Rightarrow> string" where
  "strip s = strip_chars py_isspace s"

text \<open>\<open>s.split()\<close>: the maximal runs of characters that are not white space.\<close>

fun split_ws_acc :: "string \<Rightarrow> string \<Rightarrow> string list" where
  "split_ws_acc w [] = (if w = [] then [] else [rev w])"
| "split_ws_acc w (x # xs) =
     (if py_isspace x then (if w = [] then split_ws_acc [] xs else rev w # split_ws_acc [] xs)
      else split_ws_acc (x # w) xs)"

definition split_ws :: "string \<Rightarrow> string list" where
  "split_ws s = split_ws_acc [] s"

fun join :: "string \<Rightarrow> string list \<Rightarrow> string" where
  "join sep [] = []"
| "join sep [w] = w"
| "join sep (w # v # ws) = w @ sep @ join sep (v # ws)"

definition startswith :: "string \<Rightarrow> string \<Rightarrow> bool" where
  "startswith p s \<longleftrightarrow> take (length p) s = p"

definition endswith :: "string \<Rightarrow> string \<Rightarrow> bool" where
  "endswith p s \<longleftrightarrow> startswith (rev p) (rev s)"

text \<open>\<open>s.replace(c, r)\<close> for a separator of one character.\<close>

definition replace_char :: "char \<Rightarrow> string \<Rightarrow> string \<Rightarrow> string" where
  "replace_char c r s = concat (map (\<lambda>x. if x = c then r else [x]) s)"

definition lower_char :: "char \<Rightarrow> char" where
  "lower_char c = (let n = of_char c :: nat in if 65 \<le> n \<and> n \<le> 90 then char_of (n + 32) else c)"

definition upper_char :: "char \<Rightarrow> char" where
  "upper_char c = (let n = of_char c :: nat in if 97 \<le> n \<and> n \<le> 122 then char_of (n - 32) else c)"

definition lower :: "string \<Rightarrow> string" where
  "lower s = map lower_char s"

definition upper :: "string \<Rightarrow> string" where
  "upper s = map upper_char s"

text \<open>The decimal digits of \<open>str(n)\<close>.\<close>

definition digit :: "nat \<Rightarrow> char" where
  "digit d = char_of (48 + d)"

lemma digit_numerals [simp]:
  "digit 0 = CHR ''0''" "digit (Suc 0) = CHR ''1''" "digit 2 = CHR ''2''" "digit 3 = CHR ''3''" "digit 4 = CHR ''4''"
  "digit 5 = CHR ''5''" "digit 6 = CHR ''6''" "digit 7 = CHR ''7''" "digit 8 = CHR ''8''" "digit 9 = CHR ''9''"
  by code_simp+

fun str_nat :: "nat \<Rightarrow> string" where
  "str_nat n = (if n < 10 then [digit n] else str_nat (n div 10) @ [digit (n mod 10)])"

declare str_nat.simps [simp del]

definition str_int :: "int \<Rightarrow> string" where
  "str_int i = (if i < 0 then CHR ''-'' # str_nat (nat (- i)) else str_nat (nat i))"

text \<open>\<open>binascii.hexlify\<close> and \<open>int.to_bytes(n, "big")\<close>.\<close>

definition hex_digit :: "nat \<Rightarrow> char" where
  "hex_digit d = (if d < 10 then char_of (48 + d) else char_of (87 + d))"

definition hexlify :: "nat list \<Rightarrow> string" where
  "hexlify bs = concat (map (\<lambda>b. [hex_digit (b div 16), hex_digit (b mod 16)]) bs)"

fun to_bytes_be :: "nat \<Rightarrow> nat \<Rightarrow> nat list result" where
  "to_bytes_be 0 n = (if n = 0 then Inr [] else Inl OverflowError)"
| "to_bytes_be (Suc k) n = rbind (to_bytes_be k (n div 256)) (\<lambda>bs. Inr (bs @ [n mod 256]))"

text \<open>\<open>int(s)\<close>: white space around, one sign, and digits with single underscores between them.\<close>

definition is_digit :: "char \<Rightarrow> bool" where
  "is_digit c \<longleftrightarrow> 48 \<le> (of_char c :: nat) \<and> (of_char c :: nat) \<le> 57"

fun py_digits :: "nat \<Rightarrow> string \<Rightarrow> nat result" where
  "py_digits acc [] = Inr acc"
| "py_digits acc (c # cs) =
     (if is_digit c then py_digits (10 * acc + (of_char c - 48)) cs
      else if c = CHR ''_'' then
        (case cs of [] \<Rightarrow> Inl ValueError
         | d # _ \<Rightarrow> if is_digit d then py_digits acc cs else Inl ValueError)
      else Inl ValueError)"

definition py_nat :: "string \<Rightarrow> nat result" where
  "py_nat s = (case s of [] \<Rightarrow> Inl ValueError
     | c # cs \<Rightarrow> if is_digit c then py_digits 0 s else Inl ValueError)"

definition py_int :: "string \<Rightarrow> int result" where
  "py_int s =
     (case strip s of
        [] \<Rightarrow> Inl ValueError
      | c # cs \<Rightarrow>
          if c = CHR ''-'' then rbind (py_nat cs) (\<lambda>n. Inr (- int n))
          else rbind (py_nat (if c = CHR ''+'' then cs else c # cs)) (\<lambda>n. Inr (int n)))"

section \<open>Lemmas about the string methods\<close>

lemma split_once_None_iff [py_simps]: "split_once c s = None \<longleftrightarrow> c \<notin> set s"
  by (induction s) auto

lemma split_once_Some [py_simps]:
  "split_once c s = Some (a, b) \<longleftrightarrow> s = a @ c # b \<and> c \<notin> set a"
proof (induction s arbitrary: a)
  case Nil
  then show ?case by simp
next
  case (Cons x xs)
  then show ?case by (cases a) auto
qed

lemma split_once_append: "c \<notin> set a \<Longrightarrow> split_once c (a @ c # b) = Some (a, b)"
  by (simp add: split_once_Some)

lemma split_on_not_Nil [simp]: "split_on c s \<noteq> []"
  by (induction s) (auto split: list.splits)

lemma split_on_no_sep [py_simps]: "c \<notin> set s \<Longrightarrow> split_on c s = [s]"
  by (induction s) auto

lemma split_on_append [py_simps]:
  "c \<notin> set a \<Longrightarrow> split_on c (a @ c # b) = a # split_on c b"
  by (induction a) auto

lemma split_on_words: "w \<in> set (split_on c s) \<Longrightarrow> c \<notin> set w \<and> set w \<subseteq> set s"
proof (induction s arbitrary: w)
  case Nil
  then show ?case by simp
next
  case (Cons x xs)
  obtain v vs where v: "split_on c xs = v # vs"
    by (cases "split_on c xs") auto
  with Cons.IH [of v] Cons.IH [of w] Cons.prems show ?case
    by (auto split: if_splits)
qed

lemma join_split_on: "join [c] (split_on c s) = s"
proof (induction s)
  case Nil
  then show ?case by simp
next
  case (Cons x xs)
  then show ?case
    by (cases "split_on c xs"; cases "tl (split_on c xs)") auto
qed

lemma join_append_single:
  "ws \<noteq> [] \<Longrightarrow> join sep (w # ws) = w @ sep @ join sep ws"
  by (cases ws) auto

lemma split_on_join:
  "ws \<noteq> [] \<Longrightarrow> (\<And>w. w \<in> set ws \<Longrightarrow> c \<notin> set w) \<Longrightarrow> split_on c (join [c] ws) = ws"
proof (induction ws)
  case Nil
  then show ?case by simp
next
  case (Cons w ws)
  show ?case
  proof (cases ws)
    case Nil
    with Cons.prems show ?thesis by (simp add: split_on_no_sep)
  next
    case (Cons v vs)
    have "split_on c (join [c] ws) = ws"
      using Cons.IH Cons.prems Cons by auto
    then show ?thesis
      using Cons.prems Cons by (simp add: split_on_append)
  qed
qed

lemma rsplit_once_None_iff [py_simps]: "rsplit_once c s = None \<longleftrightarrow> c \<notin> set s"
  by (simp add: rsplit_once_def split_once_None_iff)

lemma rsplit_once_append [py_simps]:
  assumes "c \<notin> set b"
  shows "rsplit_once c (a @ c # b) = Some (a, b)"
proof -
  have "split_once c (rev (a @ c # b)) = Some (rev b, rev a)"
    using assms by (simp add: split_once_Some)
  then show ?thesis by (simp add: rsplit_once_def)
qed

lemma startswith_append [simp]: "startswith p (p @ s)"
  by (simp add: startswith_def)

lemma startswith_iff: "startswith p s \<longleftrightarrow> (\<exists>t. s = p @ t)"
  by (auto simp: startswith_def) (metis append_take_drop_id)

lemma endswith_iff: "endswith p s \<longleftrightarrow> (\<exists>t. s = t @ p)"
  by (auto simp: endswith_def startswith_iff) (metis rev_append rev_rev_ident)

lemma strip_chars_id:
  "s = [] \<or> (\<not> P (hd s) \<and> \<not> P (last s)) \<Longrightarrow> strip_chars P s = s"
  by (cases s) (auto simp: strip_chars_def dropWhile_eq_self_iff hd_rev hd_append)

lemma set_strip_chars: "set (strip_chars P s) \<subseteq> set s"
  by (auto simp: strip_chars_def dest!: set_dropWhileD)

lemma strip_chars_ends:
  assumes "strip_chars P s \<noteq> []"
  shows "\<not> P (hd (strip_chars P s))" and "\<not> P (last (strip_chars P s))"
proof -
  let ?a = "dropWhile P s" and ?r = "dropWhile P (rev (dropWhile P s))"
  have r: "?r \<noteq> []" using assms by (simp add: strip_chars_def)
  then show "\<not> P (last (strip_chars P s))"
    using hd_dropWhile [OF r] by (simp add: strip_chars_def last_rev)
  have a: "?a \<noteq> []"
  proof
    assume e: "?a = []"
    have "?r = []" by (simp only: e rev.simps dropWhile.simps)
    with r show False by (rule notE)
  qed
  obtain t where "rev ?a = t @ ?r"
    by (metis takeWhile_dropWhile_id)
  then have "?a = rev ?r @ rev t"
    by (metis rev_append rev_rev_ident)
  then have "hd ?a = hd (rev ?r)"
    using r by (metis hd_append2 rev_is_Nil_conv)
  then show "\<not> P (hd (strip_chars P s))"
    using hd_dropWhile [OF a] by (simp add: strip_chars_def)
qed

lemma strip_idem [simp]: "strip_chars P (strip_chars P s) = strip_chars P s"
  using strip_chars_ends [of P s] by (intro strip_chars_id) auto

lemma replace_char_absent: "c \<notin> set s \<Longrightarrow> replace_char c r s = s"
  by (induction s) (auto simp: replace_char_def)

lemma replace_char_append [simp]:
  "replace_char c r (s @ t) = replace_char c r s @ replace_char c r t"
  by (simp add: replace_char_def)

lemma replace_char_gone: "c \<notin> set r \<Longrightarrow> c \<notin> set (replace_char c r s)"
  by (auto simp: replace_char_def)

end
