(* ===== verification/Py_Path.thy ===== *)
theory Py_Path
  imports Py_Prelude
begin

text \<open>
  Pure POSIX paths as \<open>pathlib.Path\<close> has them: a root (empty, one slash, or exactly two) and
  the parts, without empty parts and single dots; joining with an absolute path drops the left
  side. \<open>resolve_parts\<close> is what the file system makes of the parts, \<open>..\<close> going up (no symbolic
  links), so two key strings name the same file exactly when they resolve alike.
\<close>

type_synonym path = "string \<times> string list"

definition path_root :: "string \<Rightarrow> string" where
  "path_root s =
     (let n = length (takeWhile (\<lambda>c. c = CHR ''/'') s)
      in if n = 0 then [] else if n = 2 then ''//'' else ''/'')"

definition path_parts :: "string \<Rightarrow> string list" where
  "path_parts s = filter (\<lambda>w. w \<noteq> [] \<and> w \<noteq> ''.'') (split_on CHR ''/'' s)"

definition py_path :: "string \<Rightarrow> path" where
  "py_path s = (path_root s, path_parts s)"

definition path_join :: "path \<Rightarrow> path \<Rightarrow> path" where
  "path_join p q = (if fst q \<noteq> [] then q else (fst p, snd p @ snd q))"

definition path_str :: "path \<Rightarrow> string" where
  "path_str p = (if fst p = [] \<and> snd p = [] then ''.'' else fst p @ join ''/'' (snd p))"

fun resolve_acc :: "string list \<Rightarrow> string list \<Rightarrow> string list" where
  "resolve_acc done [] = rev done"
| "resolve_acc done (w # ws) =
     (if w = ''..'' then resolve_acc (tl done) ws else resolve_acc (w # done) ws)"

definition resolve_parts :: "string list \<Rightarrow> string list" where
  "resolve_parts ws = resolve_acc [] ws"

definition file_of :: "string \<Rightarrow> string list" where
  "file_of s = resolve_parts (path_parts s)"

section \<open>Lemmas\<close>

lemma split_on_append_sep:
  "split_on c (a @ c # b) = split_on c a @ split_on c b"
proof (induction a)
  case Nil
  then show ?case by simp
next
  case (Cons x a)
  then show ?case by (cases "split_on c a") auto
qed

lemma path_parts_slash: "path_parts (a @ CHR ''/'' # b) = path_parts a @ path_parts b"
  by (simp add: path_parts_def split_on_append_sep)

definition plain_part :: "string \<Rightarrow> bool" where
  "plain_part w \<longleftrightarrow> w \<noteq> [] \<and> w \<noteq> ''.'' \<and> w \<noteq> ''..'' \<and> CHR ''/'' \<notin> set w"

lemma path_parts_plain: "plain_part w \<Longrightarrow> path_parts w = [w]"
  by (simp add: path_parts_def plain_part_def split_on_no_sep)

lemma path_root_plain: "plain_part w \<Longrightarrow> path_root w = []"
  by (cases w) (auto simp: path_root_def plain_part_def)

lemma py_path_plain [simp]: "plain_part w \<Longrightarrow> py_path w = ([], [w])"
  by (simp add: py_path_def path_parts_plain path_root_plain)

lemma resolve_acc_plain:
  "(\<And>w. w \<in> set ws \<Longrightarrow> w \<noteq> ''..'') \<Longrightarrow> resolve_acc d ws = rev d @ ws"
  by (induction ws arbitrary: d) auto

lemma resolve_parts_plain: "(\<And>w. w \<in> set ws \<Longrightarrow> w \<noteq> ''..'') \<Longrightarrow> resolve_parts ws = ws"
  by (simp add: resolve_parts_def resolve_acc_plain)

lemma resolve_parts_prefix:
  "(\<And>w. w \<in> set ps \<Longrightarrow> w \<noteq> ''..'') \<Longrightarrow> resolve_parts (ps @ ws) = resolve_acc (rev ps) ws"
proof -
  assume p: "\<And>w. w \<in> set ps \<Longrightarrow> w \<noteq> ''..''"
  have "resolve_acc d (ps @ ws) = resolve_acc (rev ps @ d) ws" for d
    using p by (induction ps arbitrary: d) auto
  then show ?thesis by (simp add: resolve_parts_def)
qed

lemma file_of_join:
  "file_of (a @ CHR ''/'' # b) = resolve_parts (path_parts a @ path_parts b)"
  by (simp add: file_of_def path_parts_slash)

end
