(* ===== verification/Utils.thy ===== *)
theory Utils
  imports Py_Path
begin

text \<open>
  \<open>utils.py\<close>, \<open>db/utils.py\<close> and the parsing half of \<open>secrets.py\<close>: file names that are safe to
  store, sizes and ages as text, query parameters, pages, chunks of a file. The operating
  system's separators are the record \<open>os_env\<close>; Unicode normalisation, the file system and
  \<open>subprocess\<close> are arguments.
\<close>

section \<open>File names\<close>

record os_env =
  os_sep :: string
  os_altsep :: "string option"
  os_nt :: bool

definition posix :: os_env where
  "posix = \<lparr>os_sep = ''/'', os_altsep = None, os_nt = False\<rparr>"

definition windows :: os_env where
  "windows = \<lparr>os_sep = [CHR 0x5C], os_altsep = Some ''/'', os_nt = True\<rparr>"

definition is_ascii :: "char \<Rightarrow> bool" where
  "is_ascii c \<longleftrightarrow> (of_char c :: nat) < 128"

definition filename_char :: "char \<Rightarrow> bool" where
  "filename_char c \<longleftrightarrow>
     (let n = of_char c :: nat
      in 65 \<le> n \<and> n \<le> 90 \<or> 97 \<le> n \<and> n \<le> 122 \<or> 48 \<le> n \<and> n \<le> 57 \<or>
         c = CHR ''_'' \<or> c = CHR ''.'' \<or> c = CHR ''-'')"

definition windows_device_files :: "string list" where
  "windows_device_files =
     [''CON'', ''AUX'', ''COM1'', ''COM2'', ''COM3'', ''COM4'', ''LPT1'', ''LPT2'', ''LPT3'', ''PRN'', ''NUL'']"

fun replace_seps :: "string list \<Rightarrow> string \<Rightarrow> string" where
  "replace_seps [] s = s"
| "replace_seps (sep # seps) s =
     replace_seps seps (case sep of [c] \<Rightarrow> replace_char c '' '' s | _ \<Rightarrow> s)"

definition secure_filename :: "os_env \<Rightarrow> (string \<Rightarrow> string) \<Rightarrow> string \<Rightarrow> string" where
  "secure_filename os nfkd filename =
     (let f1 = filter is_ascii (nfkd filename);
          f2 = replace_seps (os_sep os # (case os_altsep os of None \<Rightarrow> [] | Some a \<Rightarrow> [a])) f1;
          f3 = strip_chars (\<lambda>c. c = CHR ''.'' \<or> c = CHR ''_'') (filter filename_char (join ''_'' (split_ws f2)))
      in if os_nt os \<and> f3 \<noteq> [] \<and> upper (hd (split_on CHR ''.'' f3)) \<in> set windows_device_files
         then CHR ''_'' # f3 else f3)"

definition normalize_name :: "os_env \<Rightarrow> (string \<Rightarrow> string) \<Rightarrow> string \<Rightarrow> string" where
  "normalize_name os nfkd name =
     (let evaluate = lower name;
          evaluate = replace_char CHR '' '' ''_'' evaluate;
          evaluate = secure_filename os nfkd name
      in evaluate)"

section \<open>Sizes and ages\<close>

text \<open>Division rounded to the nearest integer, ties to even: what Python's \<open>round\<close> does, and its
  formatting of a float with a fixed number of decimals.\<close>

definition round_div :: "nat \<Rightarrow> nat \<Rightarrow> nat" where
  "round_div a b =
     (let q = a div b; r = a mod b
      in if 2 * r < b \<or> (2 * r = b \<and> even q) then q else q + 1)"

text \<open>The integer nearest to \<open>n\<close> among those that fit the 53 bits of a float's mantissa.\<close>

fun bit_len :: "nat \<Rightarrow> nat" where
  "bit_len n = (if n = 0 then 0 else Suc (bit_len (n div 2)))"

declare bit_len.simps [simp del]

definition float_int :: "nat \<Rightarrow> nat" where
  "float_int n =
     (if bit_len n \<le> 53 then n
      else (let e = bit_len n - 53 in round_div n (2 ^ e) * 2 ^ e))"

definition fmt_2f :: "nat \<Rightarrow> nat \<Rightarrow> string" where
  "fmt_2f a b =
     (let h = round_div (100 * a) b
      in str_nat (h div 100) @ CHR ''.'' # [digit (h div 10 mod 10), digit (h mod 10)])"

text \<open>\<open>k * 0.9\<close> is the float \<open>8106479329266893 / 2 ^ 53\<close> scaled by a power of two; the comparison
  of an integer with a float is exact.\<close>

definition reaches :: "nat \<Rightarrow> nat \<Rightarrow> bool" where
  "reaches n k \<longleftrightarrow> 8106479329266893 * k \<le> n * 2 ^ 53"

definition byte_units :: "(string \<times> nat) list" where
  "byte_units = [(''Pi'', 2 ^ 50), (''Ti'', 2 ^ 40), (''Gi'', 2 ^ 30), (''Mi'', 2 ^ 20), (''ki'', 2 ^ 10)]"

fun format_bytes_in :: "(string \<times> nat) list \<Rightarrow> nat \<Rightarrow> string" where
  "format_bytes_in [] n = str_nat n @ '' B''"
| "format_bytes_in ((prefix, k) # units) n =
     (if reaches n k then fmt_2f (float_int n) k @ CHR '' '' # prefix @ ''B''
      else format_bytes_in units n)"

definition format_bytes :: "nat \<Rightarrow> string" where
  "format_bytes n = format_bytes_in byte_units n"

definition format_seconds :: "nat \<Rightarrow> string" where
  "format_seconds secs =
     (if secs > 60 \<and> secs < 3600 then str_nat (round_div secs 60) @ '' minutes ago''
      else if secs \<ge> 3600 then str_nat (round_div secs 3600) @ '' hours ago''
      else str_nat secs @ '' seconds ago'')"

section \<open>Query parameters\<close>

text \<open>
  \<open>get_arg args key default\<close> is the web framework's \<open>request.args.get\<close>; indexing its answer with
  0 takes the first element of a list and the first character of a string.
\<close>

type_synonym query_args = "(string \<times> string list) list"

fun index0 :: "pyval \<Rightarrow> pyval result" where
  "index0 (PList xs) = (case xs of [] \<Rightarrow> Inl IndexError | x # _ \<Rightarrow> Inr x)"
| "index0 (PStr s) = (case s of [] \<Rightarrow> Inl IndexError | c # _ \<Rightarrow> Inr (PStr [c]))"
| "index0 (PDict d) = Inl (KeyError ''0'')"
| "index0 _ = Inl TypeError"

definition get_query_param ::
  "(query_args \<Rightarrow> string \<Rightarrow> pyval \<Rightarrow> pyval) \<Rightarrow> query_args \<Rightarrow> string \<Rightarrow> pyval \<Rightarrow> pyval result" where
  "get_query_param get_arg args key default_val =
     index0 (get_arg args key (PList [default_val]))"

fun int_of :: "pyval \<Rightarrow> int result" where
  "int_of (PStr s) = py_int s"
| "int_of (PInt i) = Inr i"
| "int_of (PBool b) = Inr (if b then 1 else 0)"
| "int_of _ = Inl TypeError"

definition parse_page_limit ::
  "(query_args \<Rightarrow> string \<Rightarrow> pyval \<Rightarrow> pyval) \<Rightarrow> query_args \<Rightarrow> string \<Rightarrow> string \<Rightarrow> (int \<times> int) result" where
  "parse_page_limit get_arg args def_pg def_lt =
     rbind (index0 (get_arg args ''page'' (PList [PStr def_pg]))) (\<lambda>strpage.
     rbind (index0 (get_arg args ''limit'' (PList [PStr def_lt]))) (\<lambda>strlimit.
     rbind (int_of strpage) (\<lambda>page.
     rbind (int_of strlimit) (\<lambda>limit. Inr (page, limit)))))"

text \<open>What the framework documents: \<open>get\<close> returns the first value of the key, or the default.\<close>

definition first_value :: "query_args \<Rightarrow> string \<Rightarrow> pyval \<Rightarrow> pyval" where
  "first_value args key d =
     (case map_of args key of Some (v # _) \<Rightarrow> PStr v | _ \<Rightarrow> d)"

section \<open>Pages\<close>

record page_calc =
  pg_limit :: int
  pg_offset :: int
  pg_next :: int

definition calculate_page :: "int \<Rightarrow> int \<Rightarrow> int \<Rightarrow> page_calc" where
  "calculate_page total_rows limit page =
     (let offset = limit * (page - 1);
          next_offset = limit * page;
          next_page = (if next_offset \<ge> total_rows then -1 else page + 1)
      in \<lparr>pg_limit = limit, pg_offset = offset, pg_next = next_page\<rparr>)"

text \<open>A \<open>SELECT\<close> with the limit and offset of a page.\<close>

definition select_page :: "'a list \<Rightarrow> page_calc \<Rightarrow> 'a list" where
  "select_page rows p = take (nat (pg_limit p)) (drop (nat (pg_offset p)) rows)"

text \<open>Reading page after page until \<open>next_page\<close> is -1, with fuel.\<close>

fun read_pages :: "nat \<Rightarrow> 'a list \<Rightarrow> int \<Rightarrow> int \<Rightarrow> 'a list option" where
  "read_pages 0 rows limit page = None"
| "read_pages (Suc fuel) rows limit page =
     (let p = calculate_page (int (length rows)) limit page
      in if pg_next p = -1 then Some (select_page rows p)
         else map_option (\<lambda>rest. select_page rows p @ rest) (read_pages fuel rows limit (pg_next p)))"

section \<open>Text and files\<close>

definition flatten_list :: "'a list list \<Rightarrow> 'a list" where
  "flatten_list xs = concat xs"

text \<open>\<open>line.split("=", maxsplit=1)\<close>, for a line with or without the sign.\<close>

definition split_eq :: "string \<Rightarrow> string list" where
  "split_eq line = (case split_once CHR ''='' line of None \<Rightarrow> [line] | Some (a, b) \<Rightarrow> [a, b])"

definition list_nth :: "'a list \<Rightarrow> nat \<Rightarrow> 'a result" where
  "list_nth xs i = (if i < length xs then Inr (xs ! i) else Inl IndexError)"

definition newline :: char where
  "newline = CHR 0x0A"

definition parse_var_line :: "string \<Rightarrow> (string \<times> string) result" where
  "parse_var_line line =
     rbind (list_nth (split_eq line) 0) (\<lambda>k.
     rbind (list_nth (split_eq line) 1) (\<lambda>v.
       Inr (strip k, strip (strip_chars (\<lambda>c. c = newline) (replace_char CHR ''\"'' [] v)))))"

definition path_relative :: "string \<Rightarrow> string" where
  "path_relative fp = path_str (py_path fp)"

definition get_parent_folder :: "string \<Rightarrow> string" where
  "get_parent_folder cwd =
     (case rsplit_once CHR ''/'' (path_str (py_path cwd)) of None \<Rightarrow> path_str (py_path cwd) | Some (a, b) \<Rightarrow> b)"

definition split_class_path :: "string \<Rightarrow> (string \<times> string) result" where
  "split_class_path p =
     (case rsplit_once CHR ''.'' p of None \<Rightarrow> Inl ValueError | Some (m, c) \<Rightarrow> Inr (m, c))"

definition get_class ::
  "(string \<Rightarrow> 'm result) \<Rightarrow> ('m \<Rightarrow> string \<Rightarrow> 'c result) \<Rightarrow> string \<Rightarrow> 'c result" where
  "get_class import_module getattr fullclass_path =
     rbind (split_class_path fullclass_path) (\<lambda>(module, cls).
     rbind (import_module module) (\<lambda>loaded. getattr loaded cls))"

text \<open>\<open>execute_cmd\<close> over what \<open>Popen.communicate\<close> gives; \<open>get_version\<close> over the lines of the file.\<close>

definition execute_cmd :: "(string list \<Rightarrow> string \<times> string) \<Rightarrow> string \<Rightarrow> string result" where
  "execute_cmd run cmd =
     (let (out, err) = run (split_ws cmd)
      in if err \<noteq> [] then Inl CommandExecutionException else Inr (strip out))"

fun version_from :: "string \<Rightarrow> string list \<Rightarrow> string result" where
  "version_from field [] = Inl RuntimeError"
| "version_from field (line # lines) =
     (if startswith field line
      then (let delim = (if CHR ''\"'' \<in> set line then CHR ''\"'' else CHR 0x27)
            in list_nth (split_on delim line) 1)
      else version_from field lines)"

definition get_version :: "string list \<Rightarrow> string result" where
  "get_version lines = version_from ''__version__'' lines"

definition get_api_version :: "string list \<Rightarrow> string result" where
  "get_api_version lines = version_from ''__api_version__'' lines"

text \<open>\<open>binary_file_reader\<close>: what the generator yields, for a chunk size of at least 0.\<close>

function file_chunks :: "nat \<Rightarrow> 'a list \<Rightarrow> 'a list list" where
  "file_chunks n f = (if take n f = [] then [] else take n f # file_chunks n (drop n f))"
  by pat_completeness auto
termination by (relation "measure (length \<circ> snd)") (auto simp: take_eq_Nil)

declare file_chunks.simps [simp del]

section \<open>Safe file names\<close>

lemma filename_char_plain:
  "filename_char c \<Longrightarrow> c \<noteq> CHR ''/'' \<and> \<not> py_isspace c \<and> is_ascii c"
  by (auto simp: filename_char_def py_isspace_def is_ascii_def Let_def)

abbreviation edge_char :: "char \<Rightarrow> bool" where
  "edge_char c \<equiv> c = CHR ''.'' \<or> c = CHR ''_''"

lemma secure_filename_posix:
  "secure_filename posix nfkd s =
     strip_chars edge_char (filter filename_char (join ''_''
       (split_ws (replace_char CHR ''/'' '' '' (filter is_ascii (nfkd s))))))"
  by (simp add: secure_filename_def posix_def Let_def)

lemma set_secure_filename: "set (secure_filename posix nfkd s) \<subseteq> {c. filename_char c}"
  unfolding secure_filename_posix by (rule subset_trans [OF set_strip_chars]) auto

lemma secure_filename_edges:
  assumes "secure_filename posix nfkd s \<noteq> []"
  shows "\<not> edge_char (hd (secure_filename posix nfkd s))"
    and "\<not> edge_char (last (secure_filename posix nfkd s))"
  using assms unfolding secure_filename_posix by (rule strip_chars_ends)+

lemma secure_filename_plain:
  assumes "secure_filename posix nfkd s \<noteq> []"
  shows "plain_part (secure_filename posix nfkd s)"
proof -
  have "CHR ''/'' \<notin> set (secure_filename posix nfkd s)"
    using set_secure_filename [of nfkd s] filename_char_plain by blast
  then show ?thesis
    using assms secure_filename_edges [OF assms] by (auto simp: plain_part_def)
qed

text \<open>C22. On a POSIX system the name \<open>secure_filename\<close> returns, whatever the input and the Unicode
  normalisation, is empty or a single path component: only letters, digits, \<open>_ . -\<close>, no
  separator, no dot or underscore at either end, so never \<open>.\<close> nor \<open>..\<close>.\<close>

theorem secure_filename_safe:
  "secure_filename posix nfkd s = [] \<or>
   (plain_part (secure_filename posix nfkd s) \<and>
    set (secure_filename posix nfkd s) \<subseteq> {c. filename_char c} \<and>
    hd (secure_filename posix nfkd s) \<notin> {CHR ''.'', CHR ''_''} \<and>
    last (secure_filename posix nfkd s) \<notin> {CHR ''.'', CHR ''_''})"
  using secure_filename_plain secure_filename_edges set_secure_filename [of nfkd s] by blast

lemma split_ws_acc_no_space:
  "(\<And>c. c \<in> set s \<Longrightarrow> \<not> py_isspace c) \<Longrightarrow>
     split_ws_acc w s = (if w = [] \<and> s = [] then [] else [rev w @ s])"
  by (induction s arbitrary: w) auto

lemma secure_filename_fixes:
  assumes ascii: "nfkd s = s" and chars: "set s \<subseteq> {c. filename_char c}"
    and edges: "s = [] \<or> \<not> edge_char (hd s) \<and> \<not> edge_char (last s)"
  shows "secure_filename posix nfkd s = s"
proof -
  have slash: "CHR ''/'' \<notin> set s"
    using chars filename_char_plain by blast
  have "filter is_ascii s = s" and "replace_char CHR ''/'' '' '' s = s" and "filter filename_char s = s"
    using chars filename_char_plain slash by (auto simp: filter_id_conv replace_char_absent)
  moreover have "join ''_'' (split_ws s) = s"
    using chars filename_char_plain by (auto simp: split_ws_def split_ws_acc_no_space subset_eq)
  ultimately show ?thesis
    using edges ascii by (simp add: secure_filename_posix strip_chars_id)
qed

lemma secure_filename_idem:
  assumes "\<And>t. (\<And>c. c \<in> set t \<Longrightarrow> is_ascii c) \<Longrightarrow> nfkd t = t"
  shows "secure_filename posix nfkd (secure_filename posix nfkd s) = secure_filename posix nfkd s"
proof (rule secure_filename_fixes)
  show "nfkd (secure_filename posix nfkd s) = secure_filename posix nfkd s"
    using set_secure_filename [of nfkd s] filename_char_plain by (intro assms) auto
  show "secure_filename posix nfkd s = [] \<or>
      \<not> edge_char (hd (secure_filename posix nfkd s)) \<and> \<not> edge_char (last (secure_filename posix nfkd s))"
    unfolding secure_filename_posix using strip_chars_ends by blast
qed (rule set_secure_filename)

section \<open>The width of a formatted size\<close>

lemma length_str_nat_le: "n < 10 ^ k \<Longrightarrow> 0 < k \<Longrightarrow> length (str_nat n) \<le> k"
proof (induction n arbitrary: k rule: str_nat.induct)
  case (1 n)
  show ?case
  proof (cases "n < 10")
    case True
    then show ?thesis using 1(3) by (simp add: str_nat.simps [of n])
  next
    case False
    with 1(2,3) obtain j where k: "k = Suc j" "0 < j"
      by (cases k; cases "k - 1") auto
    with 1(2) have "n div 10 < 10 ^ j"
      by (simp add: less_mult_imp_div_less mult.commute)
    with 1(1) [OF False] k False show ?thesis
      by (simp add: str_nat.simps [of n])
  qed
qed

lemma round_div_le: "0 < b \<Longrightarrow> a \<le> q * b \<Longrightarrow> round_div a b \<le> q"
proof -
  assume b: "0 < b" and a: "a \<le> q * b"
  then have "a div b \<le> q"
    using div_le_mono [of a "q * b" b] by simp
  moreover have "a div b = q \<Longrightarrow> a mod b = 0"
    using a div_mult_mod_eq [of a b] by (metis add_le_same_cancel1 le_zero_eq)
  ultimately show ?thesis
    using b by (cases "a div b = q") (auto simp: round_div_def Let_def)
qed

lemma length_fmt_2f:
  assumes "0 < b" and "100 * a \<le> 99999 * b"
  shows "length (fmt_2f a b) \<le> 6"
proof -
  have "round_div (100 * a) b \<le> 99999"
    using assms by (rule round_div_le)
  then have "round_div (100 * a) b div 100 < 10 ^ 3" by simp
  then have "length (str_nat (round_div (100 * a) b div 100)) \<le> 3"
    by (rule length_str_nat_le) simp
  then show ?thesis by (simp add: fmt_2f_def Let_def)
qed

lemma bit_len_le: "n < 2 ^ k \<Longrightarrow> bit_len n \<le> k"
proof (induction k arbitrary: n)
  case 0
  then show ?case by (simp add: bit_len.simps)
next
  case (Suc k)
  then have "bit_len (n div 2) \<le> k" by (intro Suc.IH) simp
  then show ?case by (simp add: bit_len.simps [of n])
qed

lemma bit_len_1000: "bit_len (1000 * 2 ^ 50) = 60"
proof -
  have double: "bit_len (n * 2 ^ k) = bit_len n + k" if "0 < n" for n k
    using that
    by (induction k) (simp_all add: bit_len.simps [of "n * (2 * 2 ^ k)" for k] mult.left_commute)
  have "bit_len 1000 = 10" by (simp add: bit_len.simps)
  then show ?thesis using double [of 1000 50] by simp
qed

lemma float_int_le:
  assumes "n < 2 ^ 60"
  shows "float_int n \<le> n + 128"
proof (cases "bit_len n \<le> 53")
  case False
  let ?b = "2 ^ (bit_len n - 53) :: nat"
  have "bit_len n - 53 \<le> 7"
    using bit_len_le [OF assms] by simp
  then have b: "?b \<le> 2 ^ 7"
    by (intro power_increasing) simp_all
  have "round_div n ?b \<le> n div ?b + 1"
    by (simp add: round_div_def Let_def)
  then have "round_div n ?b * ?b \<le> (n div ?b + 1) * ?b"
    by (rule mult_le_mono1)
  also have "\<dots> \<le> n + ?b"
    by (simp add: algebra_simps)
  finally show ?thesis using False b by (simp add: float_int_def Let_def)
qed (simp add: float_int_def)

lemma length_fmt_unit:
  assumes "n \<le> 999 * k" and "1024 \<le> k" and "n < 2 ^ 60"
  shows "length (fmt_2f (float_int n) k) \<le> 6"
proof (rule length_fmt_2f)
  have "float_int n \<le> 999 * k + 128"
    using float_int_le [OF assms(3)] assms(1) by simp
  then have "100 * float_int n \<le> 99900 * k + 12800" by simp
  also have "\<dots> \<le> 99999 * k" using assms(2) by simp
  finally show "100 * float_int n \<le> 99999 * k" .
qed (use assms(2) in simp)

text \<open>A formatted size has at most ten characters for every size up to 999 PiB; at 1000 PiB,
  still below the \<open>2 ** 60\<close> the comment of \<open>format_bytes\<close> promises, it has eleven.\<close>

lemma format_bytes_width:
  "(n \<le> 999 * 2 ^ 50 \<longrightarrow> length (format_bytes n) \<le> 10) \<and>
   length (format_bytes (1000 * 2 ^ 50)) = 11 \<and> 1000 * 2 ^ 50 < (2 ^ 60 :: nat)"
proof (intro conjI impI)
  assume n: "n \<le> 999 * 2 ^ 50"
  have small: "length (str_nat n) \<le> 8" if "\<not> 8106479329266893 \<le> 8796093022208 * n"
    using that length_str_nat_le [of n 8] by simp
  show "length (format_bytes n) \<le> 10"
    using n length_fmt_unit [of n "2 ^ 50"] length_fmt_unit [of n "2 ^ 40"]
      length_fmt_unit [of n "2 ^ 30"] length_fmt_unit [of n "2 ^ 20"] length_fmt_unit [of n "2 ^ 10"] small
    by (simp add: format_bytes_def byte_units_def reaches_def)
next
  have f: "float_int (1000 * 2 ^ 50) = 1000 * 2 ^ 50"
    by (simp only: float_int_def bit_len_1000 Let_def) (simp add: round_div_def)
  have "fmt_2f (1000 * 2 ^ 50) (2 ^ 50) = str_nat 1000 @ ''.00''"
    by (simp add: fmt_2f_def round_div_def)
  then have "format_bytes (1000 * 2 ^ 50) = str_nat 1000 @ ''.00'' @ '' PiB''"
    unfolding format_bytes_def byte_units_def format_bytes_in.simps f
    by (simp only: if_True append_assoc append_Cons append_Nil reaches_def) simp
  then show "length (format_bytes (1000 * 2 ^ 50)) = 11"
    by (simp add: str_nat.simps)
qed simp

section \<open>Pages and chunks\<close>

lemma read_pages_from:
  assumes "1 \<le> limit" and "length rows \<le> k * nat limit + fuel" and "0 < fuel" and "1 \<le> page"
    and "k = nat (page - 1)"
  shows "read_pages fuel rows limit page = Some (drop (k * nat limit) rows)"
  using assms(2-)
proof (induction fuel arbitrary: page k)
  case 0
  then show ?case by simp
next
  case (Suc fuel)
  let ?p = "calculate_page (int (length rows)) limit page"
  have off: "nat (limit * (page - 1)) = k * nat limit" "nat (limit * page) = Suc k * nat limit"
    using Suc.prems(3,4) assms(1) by (simp_all add: nat_mult_distrib mult.commute nat_diff_distrib)
  have sel: "select_page rows ?p = take (nat limit) (drop (k * nat limit) rows)"
    by (simp add: select_page_def calculate_page_def Let_def off)
  show ?case
  proof (cases "int (length rows) \<le> limit * page")
    case True
    then have "length rows \<le> Suc k * nat limit"
      using off(2) by linarith
    with True sel show ?thesis
      by (simp add: calculate_page_def Let_def)
  next
    case False
    moreover have "0 \<le> limit * page" using assms(1) Suc.prems(3) by simp
    ultimately have "nat (limit * page) < length rows" by linarith
    then have more: "Suc k * nat limit < length rows" by (simp only: off)
    moreover have "0 < nat limit" using assms(1) by simp
    ultimately have "read_pages fuel rows limit (page + 1) = Some (drop (Suc k * nat limit) rows)"
      using Suc.prems by (intro Suc.IH) (auto simp: nat_add_distrib)
    moreover have "pg_next ?p = page + 1" and "page + 1 \<noteq> -1"
      using False Suc.prems(3) by (simp_all add: calculate_page_def Let_def)
    moreover have "drop (k * nat limit) rows =
        take (nat limit) (drop (k * nat limit) rows) @ drop (Suc k * nat limit) rows"
      by (metis append_take_drop_id drop_drop add.commute mult_Suc)
    ultimately show ?thesis using sel by (simp add: Let_def)
  qed
qed

text \<open>C23. Following \<open>next_page\<close> from page 1, with any limit of at least 1, ends after at most one
  page per row and returns every row once, in order.\<close>

theorem pages_cover:
  assumes "1 \<le> limit"
  shows "read_pages (Suc (length rows)) rows limit 1 = Some rows"
  using read_pages_from [OF assms, of rows 0 "Suc (length rows)" 1] by simp

theorem pages_cover_witness: "read_pages 4 ''abc'' 2 1 = Some ''abc''"
  using pages_cover [of 2 "''abc''"] by (simp add: numeral_eq_Suc del: read_pages.simps)

text \<open>\<open>parse_page_limit\<close> reads only the first character of each parameter: the framework's \<open>get\<close>
  already returns the first value, and the code takes element 0 of that string. So page 12
  with limit 50 is page 1 with limit 5.\<close>

lemma parse_page_limit_first_digit:
  assumes "\<And>as k d. get_arg as k d = first_value as k d"
    and "map_of args ''page'' = Some ((c # cs) # ps)" and "map_of args ''limit'' = Some ((d # ds) # ls)"
    and "is_digit c" and "is_digit d"
  shows "parse_page_limit get_arg args def_pg def_lt =
           Inr (int (of_char c - 48), int (of_char d - 48))"
proof -
  have "py_int [x] = Inr (int (of_char x - 48))" if "is_digit x" for x
  proof -
    have "\<not> py_isspace x" "x \<noteq> CHR ''-''" "x \<noteq> CHR ''+''"
      using that by (auto simp: is_digit_def py_isspace_def)
    then show ?thesis
      using that by (simp add: py_int_def strip_def strip_chars_def py_nat_def)
  qed
  then show ?thesis
    using assms by (simp add: parse_page_limit_def first_value_def)
qed

lemma concat_file_chunks: "0 < n \<Longrightarrow> concat (file_chunks n f) = f"
proof (induction n f rule: file_chunks.induct)
  case (1 n f)
  then show ?case
    by (cases "take n f = []") (auto simp: file_chunks.simps [of n f] file_chunks.simps [of n "[]"])
qed

lemma file_chunks_sizes: "x \<in> set (file_chunks n f) \<Longrightarrow> 0 < length x \<and> length x \<le> n"
proof (induction n f rule: file_chunks.induct)
  case (1 n f)
  then show ?case
    by (subst (asm) file_chunks.simps) (auto split: if_splits simp del: length_greater_0_conv)
qed

lemma strip_line_break:
  assumes "newline \<notin> set v"
  shows "strip_chars (\<lambda>c. c = newline) (v @ [newline]) = v" and "strip_chars (\<lambda>c. c = newline) v = v"
proof -
  have "dropWhile (\<lambda>c. c = newline) v = v"
    using assms by (cases v) auto
  moreover have "dropWhile (\<lambda>c. c = newline) (rev v) = rev v"
    using assms by (cases v rule: rev_cases) auto
  moreover have "dropWhile (\<lambda>c. c = newline) (v @ [newline]) = (if v = [] then [] else v @ [newline])"
    using assms by (cases v) auto
  ultimately show "strip_chars (\<lambda>c. c = newline) (v @ [newline]) = v" "strip_chars (\<lambda>c. c = newline) v = v"
    by (simp_all add: strip_chars_def)
qed

lemma parse_var_line_quoted:
  assumes "CHR ''='' \<notin> set k" and "CHR ''\"'' \<notin> set v" and "newline \<notin> set v"
  shows "parse_var_line (k @ CHR ''='' # CHR ''\"'' # v @ [CHR ''\"'', newline]) = Inr (strip k, strip v)"
proof -
  have "replace_char CHR ''\"'' [] (CHR ''\"'' # v @ [CHR ''\"'', newline]) = v @ [newline]"
    using replace_char_absent [OF assms(2), of "[]"]
    by (simp add: replace_char_def newline_def)
  then show ?thesis
    using assms(1) by (simp add: strip_line_break [OF assms(3)] parse_var_line_def split_eq_def split_once_append list_nth_def)
qed

end
