(* ===== verification/Types.thy ===== *)
theory Types
  imports Py_Prelude
begin

text \<open>
  The data that travels between the parts (\<open>types/core.py\<close>, \<open>types/projects.py\<close>,
  \<open>types/runtimes.py\<close>, \<open>types/user.py\<close>, \<open>types/docker.py\<close>, \<open>defaults.py\<close>): each pydantic model is a
  record, \<open>Optional\<close> fields are options, \<open>Dict[str, Any]\<close> is a dictionary of Python values; a
  definition named after the model builds it with the declared defaults.
\<close>

section \<open>Defaults\<close>

definition MACHINE_TYPE :: string where "MACHINE_TYPE = ''cpu''"
definition CLUSTER_NAME :: string where "CLUSTER_NAME = ''default''"
definition NOTEBOOKS_DIR :: string where "NOTEBOOKS_DIR = ''notebooks/''"
definition NB_OUTPUTS :: string where "NB_OUTPUTS = ''outputs''"
definition PROJECT_UPLOADS :: string where "PROJECT_UPLOADS = ''uploads''"
definition DOCKERFILE_IMAGE :: string where "DOCKERFILE_IMAGE = ''nuxion/labfunctions''"
definition DOCKER_AUTHOR :: string where "DOCKER_AUTHOR = ''labfunctions''"
definition WFID_LEN :: nat where "WFID_LEN = 11"
definition EXECID_LEN :: nat where "EXECID_LEN = 14"
definition AGENT_LEN :: nat where "AGENT_LEN = 8"
definition PROJECTID_MIN_LEN :: nat where "PROJECTID_MIN_LEN = 10"
definition AGENT_USER_PREFIX :: string where "AGENT_USER_PREFIX = ''agt''"
definition AGENT_SCOPES :: string where "AGENT_SCOPES = ''agent:rw''"
definition AGENT_ADMIN_SCOPES :: string where "AGENT_ADMIN_SCOPES = ''agent:r:w,admin:r''"
definition CONTROL_QUEUE :: string where "CONTROL_QUEUE = ''default.control''"
definition BUILD_QUEUE :: string where "BUILD_QUEUE = ''default.build''"
definition PROJECT_ID_ALPHABET :: string where
  "PROJECT_ID_ALPHABET = ''0123456789abcdefghijklmnopqrstuvwxyz''"
definition NANO_ID_ALPHABET :: string where
  "NANO_ID_ALPHABET = ''0123456789ABCDEFGHIJKLMNOPQRSTUVWXYZ_abcdefghijklmnopqrstuvwxyz-''"
definition NANO_URLSAFE_ALPHABET :: string where
  "NANO_URLSAFE_ALPHABET = ''0123456789abcdefghijklmnopqrstuvwxyz-_''"
definition NANO_MACHINE_ALPHABET :: string where
  "NANO_MACHINE_ALPHABET = ''0123456789abcdefghijklmnopqrstuvwxyz''"

section \<open>Tasks and their results\<close>

record schedule_data =
  sd_start_in_min :: int
  sd_repeat :: "int option"
  sd_cron :: "string option"
  sd_interval :: "string option"

record nbtask =
  nb_name :: string
  nb_params :: "pyval dict"
  nb_remote_input :: "string option"
  nb_remote_output :: "string option"
  nb_runtime :: "string option"
  nb_version :: "string option"
  nb_machine :: string
  nb_cluster :: string
  nb_gpu_support :: bool
  nb_description :: "string option"
  nb_timeout :: int
  nb_notifications_ok :: "string list option"
  nb_notifications_fail :: "string list option"

definition NBTask :: "string \<Rightarrow> pyval dict \<Rightarrow> nbtask" where
  "NBTask name params =
     \<lparr>nb_name = name, nb_params = params, nb_remote_input = None, nb_remote_output = None,
      nb_runtime = None, nb_version = None, nb_machine = MACHINE_TYPE, nb_cluster = CLUSTER_NAME,
      nb_gpu_support = False, nb_description = None, nb_timeout = 10800,
      nb_notifications_ok = None, nb_notifications_fail = None\<rparr>"

record exec_task =
  et_projectid :: string
  et_wfid :: string
  et_execid :: string
  et_nb_name :: string
  et_params :: "pyval dict"
  et_runtime :: string
  et_pm_input :: string
  et_pm_output :: string
  et_output_name :: string
  et_output_dir :: string
  et_error_dir :: string
  et_today :: string
  et_timeout :: int
  et_created_at :: string
  et_gpu_support :: bool
  et_cluster :: string
  et_machine :: string
  et_remote_input :: "string option"
  et_remote_output :: "string option"
  et_notifications_ok :: "string list option"
  et_notifications_fail :: "string list option"

text \<open>
  A time stamp that the code keeps as an ISO text, or as a time of the database, and only copies
  and compares is a natural number. \<open>elapsed_secs\<close> is a float; the code only stores it, rounded to hundredths: an \<open>int\<close> of hundredths.
\<close>

record exec_result =
  er_projectid :: string
  er_execid :: string
  er_wfid :: string
  er_name :: string
  er_params :: "pyval dict"
  er_input :: string
  er_error :: bool
  er_elapsed_cs :: int
  er_created_at :: string
  er_cluster :: "string option"
  er_machine :: "string option"
  er_runtime :: "string option"
  er_docker_name :: "string option"
  er_output_name :: "string option"
  er_output_dir :: "string option"
  er_error_dir :: "string option"
  er_error_msg :: "string option"

record history_result =
  hi_wfid :: string
  hi_status :: int
  hi_result :: "exec_result option"
  hi_execid :: "string option"
  hi_created_at :: "nat option"

record workflow_data_web =
  wd_alias :: string
  wd_nbtask :: nbtask
  wd_enabled :: bool
  wd_wfid :: "string option"
  wd_schedule :: "schedule_data option"

record task_status =
  tk_execid :: string
  tk_status :: string
  tk_queue :: string
  tk_retries :: int

section \<open>Projects, users and runtimes\<close>

record project_data =
  pd_name :: string
  pd_projectid :: string
  pd_owner :: "string option"
  pd_agent :: "string option"
  pd_users :: "string list option"
  pd_description :: "string option"
  pd_repository :: "string option"

record project_req =
  pq_name :: string
  pq_private_key :: string
  pq_projectid :: "string option"
  pq_description :: "string option"
  pq_repository :: "string option"

record user_orm =
  uo_username :: string
  uo_id :: "nat option"
  uo_email :: "string option"
  uo_password :: "string option"
  uo_scopes :: string
  uo_is_superuser :: bool
  uo_is_active :: bool
  uo_is_agent :: bool
  uo_projects :: "string list"

record docker_gpu_spec =
  dg_cuda :: string
  dg_cudnn :: string
  dg_cudnn_major_version :: string
  dg_nvidia_gpg_key :: string
  dg_nvidia_gpg_version :: string

record docker_spec =
  ds_image :: string
  ds_maintainer :: string
  ds_build_packages :: "string option"
  ds_final_packages :: "string option"
  ds_user_uid :: int
  ds_user_gid :: int
  ds_base_template :: string
  ds_requirements :: string
  ds_gpu :: "docker_gpu_spec option"
  ds_extra :: "pyval dict option"

record runtime_spec =
  rs_name :: string
  rs_container :: docker_spec
  rs_description :: "string option"
  rs_gpu_support :: bool
  rs_version :: "string option"
  rs_registry :: "string option"

record runtime_req =
  rq_runtime_name :: string
  rq_docker_name :: string
  rq_spec :: runtime_spec
  rq_project_id :: string
  rq_version :: string
  rq_registry :: "string option"

record runtime_data =
  rd_runtimeid :: string
  rd_runtime_name :: string
  rd_docker_name :: string
  rd_spec :: runtime_spec
  rd_project_id :: string
  rd_version :: string
  rd_created_at :: "nat option"
  rd_registry :: "string option"
  rd_id :: "nat option"

record project_bundle_file =
  bf_runtime_name :: string
  bf_version :: string
  bf_filepath :: string
  bf_filename :: string
  bf_commit :: "string option"
  bf_stash :: "bool option"
  bf_current :: "bool option"
  bf_format_type :: string

record build_ctx =
  bx_projectid :: string
  bx_spec :: runtime_spec
  bx_docker_name :: string
  bx_version :: string
  bx_dockerfile :: string
  bx_zip_name :: string
  bx_download_zip :: string
  bx_execid :: string
  bx_project_store_class :: string
  bx_project_store_bucket :: string
  bx_registry :: "string option"

end
