(* ===== verification/Contexts.thy ===== *)
theory Contexts
  imports Utils Types "HOL-Library.Char_ord" "HOL-Library.List_Lexorder"
begin

text \<open>
  Identifiers and execution contexts: \<open>hashes.py\<close>, \<open>executors/execid.py\<close>,
  \<open>notebooks/context.py\<close>, \<open>context.py\<close> and \<open>runtimes/context.py\<close>. The random generator
  (\<open>nanoid.generate\<close>, from an alphabet and a size) is an argument, one per draw; the day, the
  time stamp and the package version are arguments.
\<close>

section \<open>Random identifiers\<close>

type_synonym nanoid = "string \<Rightarrow> nat \<Rightarrow> string"

definition generate_random :: "nanoid \<Rightarrow> nat \<Rightarrow> string \<Rightarrow> string \<Rightarrow> string result" where
  "generate_random gen len strategy alphabet =
     (if strategy = ''nanoid'' then Inr (gen alphabet len) else Inl NotImplementedError)"

text \<open>The call with the default strategy and alphabet.\<close>

definition random_id :: "nanoid \<Rightarrow> nat \<Rightarrow> string" where
  "random_id gen len = gen NANO_ID_ALPHABET len"

definition nanoid_contract :: "nanoid \<Rightarrow> bool" where
  "nanoid_contract gen \<longleftrightarrow> (\<forall>a n. a \<noteq> [] \<longrightarrow> length (gen a n) = n \<and> set (gen a n) \<subseteq> set a)"

text \<open>\<open>Hash96.time_random_string\<close>, from the clock and the bytes drawn: the integer and its text.\<close>

fun from_bytes_be :: "nat list \<Rightarrow> nat" where
  "from_bytes_be [] = 0"
| "from_bytes_be (b # bs) = b * 256 ^ length bs + from_bytes_be bs"

definition time_random_string :: "nat \<Rightarrow> nat list \<Rightarrow> (nat \<times> string) result" where
  "time_random_string ts drawn =
     (let num = from_bytes_be drawn mod 2 ^ 55;
          int_id = or (push_bit 55 ts) (push_bit 0 num)
      in rbind (to_bytes_be 12 int_id) (\<lambda>bytes. Inr (int_id, hexlify bytes)))"

section \<open>Execution ids\<close>

definition firms_types :: "string dict" where
  "firms_types = [(''start'', ''0''), (''build'', ''bld''), (''dispatcher'', ''dsp''), (''docker'', ''dck''),
     (''web'', ''web''), (''local'', ''loc''), (''machine'', ''mch'')]"

definition execid_init :: "nanoid \<Rightarrow> string option \<Rightarrow> nat \<Rightarrow> string option \<Rightarrow> string" where
  "execid_init gen execid len prefix =
     (let base = or_str execid (random_id gen len)
      in if opt_truthy prefix then the prefix @ base else base)"

definition firm_with :: "string \<Rightarrow> string \<Rightarrow> string" where
  "firm_with firm i = firm @ CHR ''.'' # i"

definition firm_by_type :: "string \<Rightarrow> string \<Rightarrow> string result" where
  "firm_by_type firm_type i =
     (case map_of firms_types firm_type of None \<Rightarrow> Inl AttributeError | Some f \<Rightarrow> Inr (firm_with f i))"

definition execid_pure :: "string \<Rightarrow> string" where
  "execid_pure i = (case rsplit_once CHR ''.'' i of None \<Rightarrow> i | Some (_, p) \<Rightarrow> p)"

section \<open>Contexts of notebooks\<close>

definition WFID_PREFIX :: string where "WFID_PREFIX = ''tmp''"

definition nb_execid_for_build :: "nanoid \<Rightarrow> string" where
  "nb_execid_for_build gen = firm_with ''bld'' (execid_init gen None EXECID_LEN None)"

definition dummy_wfid :: "nanoid \<Rightarrow> string" where
  "dummy_wfid gen = WFID_PREFIX @ random_id gen (WFID_LEN - length WFID_PREFIX)"

text \<open>\<open>show_rd\<close> is how a \<open>RuntimeData\<close> object prints inside an f-string.\<close>

definition nb_prepare_runtime ::
  "(runtime_data \<Rightarrow> string) \<Rightarrow> string \<Rightarrow> runtime_data option \<Rightarrow> bool \<Rightarrow> string" where
  "nb_prepare_runtime show_rd version runtime gpu_support =
     (case runtime of
        None \<Rightarrow>
          if gpu_support then DOCKERFILE_IMAGE @ CHR '':'' # version @ ''-client-gpu''
          else DOCKERFILE_IMAGE @ CHR '':'' # version @ ''-client''
      | Some rd \<Rightarrow>
          if opt_truthy (rd_registry rd) then the (rd_registry rd) @ CHR ''/'' # show_rd rd
          else rd_docker_name rd @ CHR '':'' # rd_version rd)"

definition nb_create_ctx ::
  "(runtime_data \<Rightarrow> string) \<Rightarrow> string \<Rightarrow> nanoid \<Rightarrow> nanoid \<Rightarrow> string \<Rightarrow> string \<Rightarrow>
   string \<Rightarrow> nbtask \<Rightarrow> string option \<Rightarrow> runtime_data option \<Rightarrow> string option \<Rightarrow> exec_task" where
  "nb_create_ctx show_rd version gen gen' today now projectid task execid runtime wfid =
     (let root = py_path NOTEBOOKS_DIR;
          wfid = or_str wfid (dummy_wfid gen);
          execid = or_str execid (execid_init gen' None EXECID_LEN None);
          params = dict_set ''NOW'' (PStr now) (dict_set ''EXECID'' (PStr execid)
                     (dict_set ''WFID'' (PStr wfid) (nb_params task)));
          nb_filename = nb_name task @ ''.ipynb'';
          papermill_input = path_str (path_join root (py_path nb_filename));
          output_dir = NB_OUTPUTS @ ''/ok/'' @ today;
          error_dir = NB_OUTPUTS @ ''/errors/'' @ today;
          output_name = wfid @ CHR ''.'' # nb_name task @ CHR ''.'' # execid @ ''.ipynb'';
          cluster = (if nb_cluster task \<noteq> [] then nb_cluster task else CLUSTER_NAME)
      in \<lparr>et_projectid = projectid, et_wfid = wfid, et_execid = execid, et_nb_name = nb_name task,
          et_params = params, et_runtime = nb_prepare_runtime show_rd version runtime (nb_gpu_support task),
          et_pm_input = papermill_input, et_pm_output = output_dir @ CHR ''/'' # output_name,
          et_output_name = output_name, et_output_dir = output_dir, et_error_dir = error_dir,
          et_today = today, et_timeout = nb_timeout task, et_created_at = now,
          et_gpu_support = nb_gpu_support task, et_cluster = cluster, et_machine = nb_machine task,
          et_remote_input = None, et_remote_output = None,
          et_notifications_ok = nb_notifications_ok task, et_notifications_fail = nb_notifications_fail task\<rparr>)"

definition nb_create_dummy_ctx ::
  "(runtime_data \<Rightarrow> string) \<Rightarrow> string \<Rightarrow> nanoid \<Rightarrow> nanoid \<Rightarrow> string \<Rightarrow> string \<Rightarrow>
   string \<Rightarrow> string option \<Rightarrow> exec_task" where
  "nb_create_dummy_ctx show_rd version gen gen' today now projectid execid =
     (let dummy_id = or_str execid (WFID_PREFIX @ CHR ''.'' # random_id gen' WFID_LEN);
          task = NBTask ''welcome'' []
      in nb_create_ctx show_rd version gen gen' today now projectid task (Some dummy_id) None None)"

definition make_error_result :: "exec_task \<Rightarrow> int \<Rightarrow> exec_result" where
  "make_error_result ctx elapsed_cs =
     \<lparr>er_projectid = et_projectid ctx, er_execid = et_execid ctx, er_wfid = et_wfid ctx,
      er_name = et_nb_name ctx, er_params = et_params ctx, er_input = et_pm_input ctx, er_error = True,
      er_elapsed_cs = elapsed_cs, er_created_at = et_created_at ctx, er_cluster = None,
      er_machine = None, er_runtime = None, er_docker_name = None,
      er_output_name = Some (et_output_name ctx), er_output_dir = Some (et_output_dir ctx),
      er_error_dir = Some (et_error_dir ctx), er_error_msg = None\<rparr>"

text \<open>\<open>context.py\<close>, the variant the client uses.\<close>

definition ctx_dummy_wfid :: "nanoid \<Rightarrow> string" where
  "ctx_dummy_wfid gen = ''tmp'' @ execid_init gen None (WFID_LEN - length ''tmp'') None"

definition ctx_prepare_runtime ::
  "(runtime_data \<Rightarrow> string) \<Rightarrow> string \<Rightarrow> runtime_data option \<Rightarrow> string" where
  "ctx_prepare_runtime show_rd version runtime =
     (case runtime of
        None \<Rightarrow> DOCKERFILE_IMAGE @ CHR '':'' # version
      | Some rd \<Rightarrow>
          if opt_truthy (rd_registry rd) then the (rd_registry rd) @ CHR ''/'' # show_rd rd
          else rd_docker_name rd @ CHR '':'' # rd_version rd)"

definition ctx_create_ctx ::
  "(runtime_data \<Rightarrow> string) \<Rightarrow> string \<Rightarrow> nanoid \<Rightarrow> nanoid \<Rightarrow> string \<Rightarrow> string \<Rightarrow>
   string \<Rightarrow> nbtask \<Rightarrow> string option \<Rightarrow> runtime_data option \<Rightarrow> string option \<Rightarrow> exec_task" where
  "ctx_create_ctx show_rd version gen gen' today now projectid task execid runtime wfid =
     (let root = py_path NOTEBOOKS_DIR;
          wfid = or_str wfid (ctx_dummy_wfid gen);
          execid = or_str execid (execid_init gen' None EXECID_LEN None);
          params = dict_set ''NOW'' (PStr now) (dict_set ''EXECID'' (PStr execid)
                     (dict_set ''WFID'' (PStr wfid) (nb_params task)));
          nb_filename = nb_name task @ ''.ipynb'';
          papermill_input = path_str (path_join root (py_path nb_filename));
          output_dir = NB_OUTPUTS @ ''/ok/'' @ today;
          error_dir = NB_OUTPUTS @ ''/errors/'' @ today;
          output_name = wfid @ CHR ''.'' # nb_name task @ CHR ''.'' # execid @ ''.ipynb''
      in \<lparr>et_projectid = projectid, et_wfid = wfid, et_execid = execid, et_nb_name = nb_name task,
          et_params = params, et_runtime = ctx_prepare_runtime show_rd version runtime,
          et_pm_input = papermill_input, et_pm_output = output_dir @ CHR ''/'' # output_name,
          et_output_name = output_name, et_output_dir = output_dir, et_error_dir = error_dir,
          et_today = today, et_timeout = nb_timeout task, et_created_at = now,
          et_gpu_support = False, et_cluster = CLUSTER_NAME, et_machine = nb_machine task,
          et_remote_input = None, et_remote_output = None,
          et_notifications_ok = nb_notifications_ok task, et_notifications_fail = nb_notifications_fail task\<rparr>)"

definition ctx_create_dummy_ctx ::
  "(runtime_data \<Rightarrow> string) \<Rightarrow> string \<Rightarrow> nanoid \<Rightarrow> nanoid \<Rightarrow> string \<Rightarrow> string \<Rightarrow>
   string \<Rightarrow> string \<Rightarrow> pyval dict \<Rightarrow> string option \<Rightarrow> exec_task" where
  "ctx_create_dummy_ctx show_rd version gen gen' today now projectid name params execid =
     (let dummy_id = or_str execid (ctx_dummy_wfid gen')
      in ctx_create_ctx show_rd version gen gen' today now projectid (NBTask name params) (Some dummy_id) None None)"

section \<open>Contexts of builds\<close>

definition make_docker_name :: "string \<Rightarrow> runtime_spec \<Rightarrow> string" where
  "make_docker_name projectid spec = DOCKER_AUTHOR @ CHR ''/'' # projectid @ CHR ''-'' # rs_name spec"

definition local_spec2runtime :: "string \<Rightarrow> runtime_spec \<Rightarrow> string \<Rightarrow> runtime_data" where
  "local_spec2runtime projectid spec version =
     \<lparr>rd_runtimeid = projectid @ CHR ''/'' # rs_name spec @ CHR ''/'' # version,
      rd_runtime_name = rs_name spec, rd_docker_name = make_docker_name projectid spec, rd_spec = spec,
      rd_project_id = projectid, rd_version = version, rd_created_at = None,
      rd_registry = rs_registry spec, rd_id = None\<rparr>"

text \<open>The runtimes file, parsed: the specs by name. \<open>RuntimeSpec(name=k, **v)\<close> fails on a value that
  names itself.\<close>

definition get_runtimes_specs ::
  "(string \<Rightarrow> pyval \<Rightarrow> runtime_spec result) \<Rightarrow> pyval result \<Rightarrow> runtime_spec dict result" where
  "get_runtimes_specs parse file =
     rbind file (\<lambda>data.
       case data of
         PDict d \<Rightarrow>
           rbind (dict_get d ''runtimes'') (\<lambda>rs.
             case rs of
               PDict items \<Rightarrow> rmap (\<lambda>(k, v). rbind (parse k v) (\<lambda>sp. Inr (k, sp))) items
             | _ \<Rightarrow> Inl AttributeError)
       | _ \<Rightarrow> Inl TypeError)"

definition get_spec_from_file ::
  "(string \<Rightarrow> pyval \<Rightarrow> runtime_spec result) \<Rightarrow> string \<Rightarrow> pyval result \<Rightarrow> runtime_spec result" where
  "get_spec_from_file parse name file =
     rbind (get_runtimes_specs parse file) (\<lambda>specs. dict_get specs name)"

definition local_runtime_data ::
  "(string \<Rightarrow> pyval \<Rightarrow> runtime_spec result) \<Rightarrow> string \<Rightarrow> string \<Rightarrow> pyval result \<Rightarrow> string \<Rightarrow> runtime_data result" where
  "local_runtime_data parse projectid spec_name file version =
     rbind (get_spec_from_file parse spec_name file) (\<lambda>spec. Inr (local_spec2runtime projectid spec version))"

definition execid_for_build :: "nanoid \<Rightarrow> nat \<Rightarrow> string" where
  "execid_for_build gen len = ''bld'' @ random_id gen len"

definition build_upload_uri ::
  "os_env \<Rightarrow> (string \<Rightarrow> string) \<Rightarrow> string \<Rightarrow> string \<Rightarrow> string \<Rightarrow> string" where
  "build_upload_uri os nfkd projectid runtime_name version =
     (let name = secure_filename os nfkd (runtime_name @ CHR ''.'' # version @ ''.zip'');
          root = py_path projectid
      in path_str (path_join (path_join root (py_path PROJECT_UPLOADS)) (py_path name)))"

definition create_build_ctx ::
  "os_env \<Rightarrow> (string \<Rightarrow> string) \<Rightarrow> nanoid \<Rightarrow> string \<Rightarrow> runtime_spec \<Rightarrow> string \<Rightarrow> string \<Rightarrow> string \<Rightarrow>
   string option \<Rightarrow> build_ctx" where
  "create_build_ctx os nfkd gen projectid spec version store_class store_bucket registry =
     (let uri = build_upload_uri os nfkd projectid (rs_name spec) version
      in \<lparr>bx_projectid = projectid, bx_spec = spec, bx_docker_name = make_docker_name projectid spec,
          bx_version = version, bx_dockerfile = ''Dockerfile.'' @ rs_name spec,
          bx_zip_name = last (split_on CHR ''/'' uri), bx_download_zip = uri,
          bx_execid = execid_for_build gen EXECID_LEN, bx_project_store_class = store_class,
          bx_project_store_bucket = store_bucket, bx_registry = registry\<rparr>)"

section \<open>Identifiers: lemmas\<close>

lemma pure_no_dot: "CHR ''.'' \<notin> set i \<Longrightarrow> execid_pure i = i"
  by (simp add: execid_pure_def rsplit_once_None_iff [THEN iffD2])

lemma pure_firm_with [simp]: "execid_pure (firm_with f i) = execid_pure i"
proof (cases "CHR ''.'' \<in> set i")
  case True
  then obtain a b where i: "i = a @ CHR ''.'' # b" and b: "CHR ''.'' \<notin> set b"
    by (meson split_list_last)
  have "f @ CHR ''.'' # i = (f @ CHR ''.'' # a) @ CHR ''.'' # b" by (simp add: i)
  then show ?thesis
    using b by (simp add: execid_pure_def firm_with_def i rsplit_once_append [where c = "CHR ''.''"] del: append_Cons)
       (simp add: rsplit_once_append [of "CHR ''.''" b "f @ CHR ''.'' # a", simplified] rsplit_once_append)
next
  case False
  then show ?thesis by (simp add: execid_pure_def firm_with_def rsplit_once_append rsplit_once_None_iff [THEN iffD2])
qed

lemma pure_firms [simp]: "execid_pure (foldr firm_with fs i) = execid_pure i"
  by (induction fs) simp_all

lemma dot_not_in_alphabet: "CHR ''.'' \<notin> set NANO_ID_ALPHABET"
  by (simp add: NANO_ID_ALPHABET_def)

lemma random_id_contract:
  assumes "nanoid_contract gen"
  shows "length (random_id gen n) = n" and "set (random_id gen n) \<subseteq> set NANO_ID_ALPHABET"
proof -
  have "NANO_ID_ALPHABET \<noteq> []" by (simp add: NANO_ID_ALPHABET_def)
  with assms show "length (random_id gen n) = n" and "set (random_id gen n) \<subseteq> set NANO_ID_ALPHABET"
    unfolding nanoid_contract_def random_id_def by blast+
qed

text \<open>However many components sign an execution id on its way, with whatever signs, \<open>pure\<close> gives
  back the 14 characters that were drawn for it.\<close>

lemma execid_pure_recovers:
  assumes "nanoid_contract gen"
  shows "execid_pure (foldr firm_with fs (execid_init gen None EXECID_LEN None)) = random_id gen EXECID_LEN \<and>
     length (execid_pure (foldr firm_with fs (execid_init gen None EXECID_LEN None))) = 14"
proof -
  have "CHR ''.'' \<notin> set (random_id gen EXECID_LEN)"
    using random_id_contract(2) [OF assms] dot_not_in_alphabet by blast
  then show ?thesis
    using random_id_contract(1) [OF assms, of EXECID_LEN]
    by (simp add: execid_init_def pure_no_dot EXECID_LEN_def)
qed

definition demo_nanoid :: nanoid where
  "demo_nanoid a n = replicate n (hd a)"

lemma demo_nanoid_contract: "nanoid_contract demo_nanoid"
  by (auto simp: nanoid_contract_def demo_nanoid_def)

section \<open>Time-ordered identifiers\<close>

lemma to_bytes_be_total: "n < 256 ^ k \<Longrightarrow> \<exists>bs. to_bytes_be k n = Inr bs"
proof (induction k arbitrary: n)
  case (Suc k)
  then have "n div 256 < 256 ^ k" by (simp add: less_mult_imp_div_less mult.commute)
  with Suc.IH show ?case by fastforce
qed simp

lemma length_to_bytes_be: "to_bytes_be k n = Inr bs \<Longrightarrow> length bs = k"
  by (induction k arbitrary: n bs) (auto simp: rbind_Inr_iff split: if_splits)

lemma length_hexlify: "length (hexlify bs) = 2 * length bs"
  by (induction bs) (simp_all add: hexlify_def)

lemma hexlify_append: "hexlify (xs @ ys) = hexlify xs @ hexlify ys"
  by (simp add: hexlify_def)

lemma hex_digit_less: "d < e \<Longrightarrow> e < 16 \<Longrightarrow> hex_digit d < hex_digit e"
  by (simp add: hex_digit_def less_char_def)

lemma less_append_left: "u < v \<Longrightarrow> x @ u < x @ (v :: string)"
  by (auto simp: list_less_def intro: lexord_append_leftI)

lemma less_append_both: "u < (v :: string) \<Longrightarrow> length u = length v \<Longrightarrow> u @ x < v @ y"
  by (auto simp: list_less_def intro: lexord_sufI)

lemma hexlify_byte_less:
  assumes "a < b" and "b < 256"
  shows "hexlify [a] < hexlify [b]"
proof (cases "a div 16 = b div 16")
  case True
  then have "a mod 16 < b mod 16"
    using assms(1) div_mult_mod_eq [of a 16] div_mult_mod_eq [of b 16] by linarith
  then have "hex_digit (a mod 16) < hex_digit (b mod 16)" by (rule hex_digit_less) simp
  with True show ?thesis by (simp add: hexlify_def)
next
  case False
  then have "a div 16 < b div 16"
    using assms(1) by (metis div_le_mono le_neq_implies_less less_imp_le)
  then have "hex_digit (a div 16) < hex_digit (b div 16)" by (rule hex_digit_less) (use assms(2) in simp)
  then show ?thesis by (simp add: hexlify_def)
qed

lemma hexlify_less:
  assumes "to_bytes_be k n = Inr bs" and "to_bytes_be k m = Inr cs" and "n < m"
  shows "hexlify bs < hexlify cs"
  using assms
proof (induction k arbitrary: n m bs cs)
  case (Suc k)
  then obtain xs ys where x: "to_bytes_be k (n div 256) = Inr xs" "bs = xs @ [n mod 256]"
    and y: "to_bytes_be k (m div 256) = Inr ys" "cs = ys @ [m mod 256]"
    by (auto simp: rbind_Inr_iff)
  show ?case
  proof (cases "n div 256 = m div 256")
    case True
    then have "n mod 256 < m mod 256"
      using Suc.prems(3) div_mult_mod_eq [of n 256] div_mult_mod_eq [of m 256] by linarith
    then have "hexlify [n mod 256] < hexlify [m mod 256]" by (rule hexlify_byte_less) simp
    with True x y show ?thesis by (auto simp: hexlify_append intro: less_append_left)
  next
    case False
    then have "n div 256 < m div 256"
      using Suc.prems(3) by (metis div_le_mono le_neq_implies_less less_imp_le)
    then have "hexlify xs < hexlify ys" by (rule Suc.IH [OF x(1) y(1)])
    moreover have "length (hexlify xs) = length (hexlify ys)"
      using x(1) y(1) by (simp add: length_hexlify length_to_bytes_be)
    ultimately show ?thesis using x y by (simp add: hexlify_append less_append_both)
  qed
qed (auto split: if_splits)

lemma or_shift_add: "r < 2 ^ k \<Longrightarrow> or (push_bit k t) r = t * 2 ^ k + (r :: nat)"
proof -
  assume r: "r < 2 ^ k"
  then have "take_bit k r = r" by (simp add: take_bit_nat_eq_self)
  then have b: "bit r i \<Longrightarrow> i < k" for i
    by (metis bit_take_bit_iff)
  have "push_bit k t + r = or (push_bit k t) r"
    by (rule disjunctive_add) (auto simp: bit_push_bit_iff dest: b)
  then show ?thesis by (simp add: push_bit_eq_mult)
qed

lemma time_random_string_char:
  assumes "ts < 2 ^ 41"
  shows "\<exists>bs. to_bytes_be 12 (ts * 2 ^ 55 + from_bytes_be d mod 2 ^ 55) = Inr bs \<and>
     time_random_string ts d = Inr (ts * 2 ^ 55 + from_bytes_be d mod 2 ^ 55, hexlify bs)"
proof -
  let ?r = "from_bytes_be d mod 2 ^ 55"
  have r: "?r < 2 ^ 55" by simp
  have "ts * 2 ^ 55 + ?r < (ts + 1) * 2 ^ 55" using r by (simp add: algebra_simps)
  also have "\<dots> \<le> 2 ^ 41 * 2 ^ 55" by (rule mult_le_mono1) (use assms in simp)
  finally have "ts * 2 ^ 55 + ?r < 256 ^ 12" by simp
  then obtain bs where "to_bytes_be 12 (ts * 2 ^ 55 + ?r) = Inr bs"
    using to_bytes_be_total by blast
  moreover have "or (push_bit 55 ts) ?r = ts * 2 ^ 55 + ?r"
    using r by (rule or_shift_add)
  ultimately show ?thesis by (simp add: time_random_string_def Let_def)
qed

text \<open>C30. While the clock fits its 41 bits the generated id is 24 hexadecimal characters long and a
  later clock gives a greater id, as a number and as a text, whatever the random bytes.\<close>

theorem time_random_string_ordered:
  assumes "ts < ts'" and "ts' < 2 ^ 41"
  shows "\<exists>i h i' h'. time_random_string ts d = Inr (i, h) \<and> time_random_string ts' d' = Inr (i', h') \<and>
     length h = 24 \<and> length h' = 24 \<and> i < i' \<and> h < h'"
proof -
  let ?r = "from_bytes_be d mod 2 ^ 55" and ?s = "from_bytes_be d' mod 2 ^ 55"
  have ts: "ts < 2 ^ 41" using assms by simp
  obtain bs where b: "to_bytes_be 12 (ts * 2 ^ 55 + ?r) = Inr bs"
    "time_random_string ts d = Inr (ts * 2 ^ 55 + ?r, hexlify bs)"
    using time_random_string_char [OF ts, of d] by blast
  obtain cs where c: "to_bytes_be 12 (ts' * 2 ^ 55 + ?s) = Inr cs"
    "time_random_string ts' d' = Inr (ts' * 2 ^ 55 + ?s, hexlify cs)"
    using time_random_string_char [OF assms(2), of d'] by blast
  have "ts * 2 ^ 55 + ?r < (ts + 1) * 2 ^ 55" by (simp add: algebra_simps)
  also have "\<dots> \<le> ts' * 2 ^ 55" by (rule mult_le_mono1) (use assms in simp)
  finally have lt: "ts * 2 ^ 55 + ?r < ts' * 2 ^ 55 + ?s" by simp
  then show ?thesis
    using b c hexlify_less [OF b(1) c(1) lt] by (simp add: length_hexlify length_to_bytes_be)
qed

theorem time_random_string_ordered_witness:
  "\<exists>i h i' h'. time_random_string 1 [255] = Inr (i, h) \<and> time_random_string 2 [] = Inr (i', h') \<and>
     length h = 24 \<and> length h' = 24 \<and> i < i' \<and> h < h'"
  using time_random_string_ordered [of 1 2 "[255]" "[]"] by simp

section \<open>What a context holds\<close>

text \<open>The context of a notebook: the three reserved parameters are the ids and the time of this
  execution, whatever the task passed under those names; every other parameter is the task's;
  the output lies in the output directory of the day; \<open>context.py\<close> builds the same context but
  for the runtime image, the GPU flag and the cluster, which it forgets.\<close>

lemma nb_create_ctx_spec:
  "let c = nb_create_ctx show_rd version gen gen' today now projectid task execid runtime wfid
   in map_of (et_params c) =
        (map_of (nb_params task))(''WFID'' \<mapsto> PStr (et_wfid c), ''EXECID'' \<mapsto> PStr (et_execid c), ''NOW'' \<mapsto> PStr now) \<and>
      et_pm_output c = ''outputs/ok/'' @ today @ CHR ''/'' # et_output_name c \<and>
      et_wfid c = (if opt_truthy wfid then the wfid else dummy_wfid gen) \<and>
      ctx_create_ctx show_rd version gen gen' today now projectid task execid runtime wfid =
        c\<lparr>et_runtime := ctx_prepare_runtime show_rd version runtime, et_gpu_support := False,
          et_cluster := CLUSTER_NAME\<rparr>"
proof -
  have "or_str wfid x = (if opt_truthy wfid then the wfid else x)" for x by (cases wfid) simp_all
  moreover have "ctx_dummy_wfid gen = dummy_wfid gen"
    by (simp add: ctx_dummy_wfid_def dummy_wfid_def WFID_PREFIX_def execid_init_def)
  ultimately show ?thesis
    by (simp add: nb_create_ctx_def ctx_create_ctx_def Let_def NB_OUTPUTS_def)
qed

lemma path_str_append: "fst p = [] \<Longrightarrow> snd p \<noteq> [] \<Longrightarrow> path_str p = join ''/'' (snd p)"
  by (simp add: path_str_def)

lemma notebooks_path: "py_path NOTEBOOKS_DIR = ([], [''notebooks''])"
  by (simp add: py_path_def NOTEBOOKS_DIR_def path_root_def path_parts_def)

lemma uploads_path: "py_path PROJECT_UPLOADS = ([], [''uploads''])"
  by (simp add: PROJECT_UPLOADS_def plain_part_def)

text \<open>A notebook with a plain name is read from the notebooks directory; a name with an absolute path
  is read from there.\<close>

lemma nb_input_plain:
  assumes "plain_part (nb_name task @ ''.ipynb'')"
  shows "et_pm_input (nb_create_ctx show_rd version gen gen' today now projectid task execid runtime wfid) =
     ''notebooks/'' @ nb_name task @ ''.ipynb''"
  using assms by (simp add: nb_create_ctx_def Let_def notebooks_path path_join_def path_str_append)

lemma nb_input_absolute:
  "et_pm_input (nb_create_ctx show_rd version gen gen' today now projectid
     (NBTask ''/etc/x'' []) execid runtime wfid) = ''/etc/x.ipynb''"
  by (simp add: nb_create_ctx_def Let_def notebooks_path path_join_def path_str_def py_path_def
      path_root_def path_parts_def NBTask_def)

text \<open>With a registry, the image of a notebook is not the one a build pushes there,
  \<open>registry/docker_name:version\<close>: the code formats the whole runtime object, whose text
  begins with its first field, instead of the name it computed.\<close>

lemma prepare_runtime_registry:
  assumes "startswith ''runtimeid='' (show_rd rd)" and "rd_registry rd = Some reg" and "reg \<noteq> []"
    and "rd_docker_name rd = make_docker_name projectid spec"
  shows "nb_prepare_runtime show_rd version (Some rd) gpu = reg @ CHR ''/'' # show_rd rd \<and>
    nb_prepare_runtime show_rd version (Some rd) gpu \<noteq>
      reg @ CHR ''/'' # rd_docker_name rd @ CHR '':'' # rd_version rd"
  using assms
  by (auto simp: nb_prepare_runtime_def make_docker_name_def DOCKER_AUTHOR_def startswith_iff)

definition demo_spec :: runtime_spec where
  "demo_spec = \<lparr>rs_name = ''cpu'', rs_container = \<lparr>ds_image = ''python'', ds_maintainer = ''me'',
      ds_build_packages = None, ds_final_packages = None, ds_user_uid = 1089, ds_user_gid = 1089,
      ds_base_template = ''Dockerfile.default'', ds_requirements = ''requirements.txt'', ds_gpu = None,
      ds_extra = None\<rparr>, rs_description = None, rs_gpu_support = False, rs_version = None,
      rs_registry = Some ''reg.io''\<rparr>"

text \<open>The bundle a build downloads is the one an upload of the same project, runtime and version
  stored: both use \<open>projectid/uploads/name\<close> with one safe component for the name, and the
  zip name of the build is that component.\<close>

lemma build_ctx_uri:
  assumes "plain_part projectid"
    and "secure_filename posix nfkd (rs_name spec @ CHR ''.'' # version @ ''.zip'') \<noteq> []"
  shows "let b = create_build_ctx posix nfkd gen projectid spec version cls bucket registry
     in bx_download_zip b = build_upload_uri posix nfkd projectid (rs_name spec) version \<and>
        bx_zip_name b = secure_filename posix nfkd (rs_name spec @ CHR ''.'' # version @ ''.zip'') \<and>
        bx_download_zip b = projectid @ ''/uploads/'' @ bx_zip_name b \<and> plain_part (bx_zip_name b)"
proof -
  let ?n = "secure_filename posix nfkd (rs_name spec @ CHR ''.'' # version @ ''.zip'')"
  have n: "plain_part ?n" using secure_filename_plain assms(2) by blast
  have uri: "build_upload_uri posix nfkd projectid (rs_name spec) version = projectid @ ''/uploads/'' @ ?n"
    using n assms(1)
    by (simp add: build_upload_uri_def Let_def path_join_def path_str_append uploads_path)
  have slash: "CHR ''/'' \<notin> set projectid" "CHR ''/'' \<notin> set ?n"
    using n assms(1) by (simp_all add: plain_part_def)
  have "split_on CHR ''/'' (projectid @ ''/uploads/'' @ ?n) = [projectid, ''uploads'', ?n]"
    using slash by (simp add: split_on_append split_on_no_sep)
  then show ?thesis using n by (simp add: create_build_ctx_def Let_def uri)
qed

end
