(* ===== verification/Database.thy ===== *)
theory Database
  imports Contexts
begin

text \<open>
  The relational store the managers work on (\<open>models.py\<close>): one record per row class, the tables
  as lists in insertion order, and the writes a session makes, each of which raises
  \<open>IntegrityError\<close> when it breaks a unique or a foreign key constraint of the schema. The state
  is what one transaction sees; the operations of the managers are functions on it.

  Rows keep the surrogate key where the code reads it. A JSON column holds the record the code
  stores in it (\<open>None\<close> in \<open>wf_schedule\<close> is the JSON \<open>null\<close>). Identifiers drawn by a sequence
  come from one counter. Column widths are not modelled.
\<close>

section \<open>Tables\<close>

record user_row =
  us_id :: nat
  us_username :: string
  us_email :: "string option"
  us_password :: "string option"
  us_scopes :: string
  us_is_superuser :: bool
  us_is_active :: bool
  us_is_agent :: bool
  us_updated_at :: nat

record project_row =
  pr_id :: nat
  pr_projectid :: string
  pr_name :: string
  pr_private_key :: string
  pr_description :: "string option"
  pr_repository :: "string option"
  pr_owner_id :: "nat option"
  pr_updated_at :: nat

record workflow_row =
  wf_wfid :: string
  wf_alias :: string
  wf_nbtask :: nbtask
  wf_schedule :: "schedule_data option"
  wf_enabled :: bool
  wf_project_id :: "string option"
  wf_updated_at :: nat

record runtime_row =
  rt_id :: nat
  rt_runtimeid :: string
  rt_runtime_name :: string
  rt_docker_name :: string
  rt_spec :: runtime_spec
  rt_version :: string
  rt_registry :: "string option"
  rt_project_id :: "string option"
  rt_created_at :: nat

record history_row =
  hs_wfid :: string
  hs_execid :: string
  hs_nb_name :: string
  hs_result :: exec_result
  hs_elapsed_cs :: int
  hs_status :: int
  hs_project_id :: "string option"
  hs_created_at :: nat

record db =
  db_users :: "user_row list"
  db_projects :: "project_row list"
  db_members :: "(string \<times> nat) list"
  db_workflows :: "workflow_row list"
  db_runtimes :: "runtime_row list"
  db_history :: "history_row list"
  db_seq :: nat

definition empty_db :: db where
  "empty_db = \<lparr>db_users = [], db_projects = [], db_members = [], db_workflows = [],
     db_runtimes = [], db_history = [], db_seq = 1\<rparr>"

section \<open>The constraints of the schema\<close>

definition projectids :: "db \<Rightarrow> string set" where
  "projectids db = pr_projectid ` set (db_projects db)"

definition userids :: "db \<Rightarrow> nat set" where
  "userids db = us_id ` set (db_users db)"

fun ref_ok :: "'a option \<Rightarrow> 'a set \<Rightarrow> bool" where
  "ref_ok None A = True"
| "ref_ok (Some x) A = (x \<in> A)"

text \<open>Two rows clash on \<open>(alias, project_id)\<close> only when the project is not \<open>NULL\<close>.\<close>

definition alias_keys :: "workflow_row list \<Rightarrow> (string \<times> string) list" where
  "alias_keys ws = [(wf_alias w, the (wf_project_id w)). w \<leftarrow> ws, wf_project_id w \<noteq> None]"

definition db_unique :: "db \<Rightarrow> bool" where
  "db_unique db \<longleftrightarrow>
     distinct (map us_id (db_users db)) \<and> distinct (map us_username (db_users db)) \<and>
     distinct (map pr_id (db_projects db)) \<and> distinct (map pr_projectid (db_projects db)) \<and>
     distinct (map pr_name (db_projects db)) \<and>
     distinct (map wf_wfid (db_workflows db)) \<and> distinct (alias_keys (db_workflows db)) \<and>
     distinct (map rt_id (db_runtimes db)) \<and> distinct (map rt_runtimeid (db_runtimes db))"

definition db_refs :: "db \<Rightarrow> bool" where
  "db_refs db \<longleftrightarrow>
     list_all (\<lambda>p. ref_ok (pr_owner_id p) (userids db)) (db_projects db) \<and>
     list_all (\<lambda>(p, u). p \<in> projectids db \<and> u \<in> userids db) (db_members db) \<and>
     list_all (\<lambda>w. ref_ok (wf_project_id w) (projectids db)) (db_workflows db) \<and>
     list_all (\<lambda>r. ref_ok (rt_project_id r) (projectids db)) (db_runtimes db) \<and>
     list_all (\<lambda>h. ref_ok (hs_project_id h) (projectids db)) (db_history db)"

definition db_ok :: "db \<Rightarrow> bool" where
  "db_ok db \<longleftrightarrow> db_unique db \<and> db_refs db"

section \<open>Writes\<close>

text \<open>An insert compares the new row with the unique indexes of its table and looks up the rows its
  foreign keys name.\<close>

definition insert_user :: "user_row \<Rightarrow> db \<Rightarrow> db result" where
  "insert_user u db =
     (if us_id u \<in> userids db \<or> us_username u \<in> us_username ` set (db_users db) then Inl IntegrityError
      else Inr (db\<lparr>db_users := db_users db @ [u], db_seq := Suc (db_seq db)\<rparr>))"

definition insert_project :: "project_row \<Rightarrow> db \<Rightarrow> db result" where
  "insert_project p db =
     (if pr_id p \<in> pr_id ` set (db_projects db) \<or> pr_projectid p \<in> projectids db \<or>
         pr_name p \<in> pr_name ` set (db_projects db) \<or> \<not> ref_ok (pr_owner_id p) (userids db)
      then Inl IntegrityError
      else Inr (db\<lparr>db_projects := db_projects db @ [p], db_seq := Suc (db_seq db)\<rparr>))"

definition insert_member :: "string \<Rightarrow> nat \<Rightarrow> db \<Rightarrow> db result" where
  "insert_member pid uid db =
     (if pid \<in> projectids db \<and> uid \<in> userids db
      then Inr (db\<lparr>db_members := db_members db @ [(pid, uid)]\<rparr>) else Inl IntegrityError)"

definition insert_workflow :: "workflow_row \<Rightarrow> db \<Rightarrow> db result" where
  "insert_workflow w db =
     (if wf_wfid w \<in> wf_wfid ` set (db_workflows db) \<or>
         set (alias_keys [w]) \<inter> set (alias_keys (db_workflows db)) \<noteq> {} \<or>
         \<not> ref_ok (wf_project_id w) (projectids db)
      then Inl IntegrityError
      else Inr (db\<lparr>db_workflows := db_workflows db @ [w], db_seq := Suc (db_seq db)\<rparr>))"

definition insert_runtime :: "runtime_row \<Rightarrow> db \<Rightarrow> db result" where
  "insert_runtime r db =
     (if rt_id r \<in> rt_id ` set (db_runtimes db) \<or>
         rt_runtimeid r \<in> rt_runtimeid ` set (db_runtimes db) \<or>
         \<not> ref_ok (rt_project_id r) (projectids db)
      then Inl IntegrityError
      else Inr (db\<lparr>db_runtimes := db_runtimes db @ [r], db_seq := Suc (db_seq db)\<rparr>))"

definition insert_history :: "history_row \<Rightarrow> db \<Rightarrow> db result" where
  "insert_history h db =
     (if \<not> ref_ok (hs_project_id h) (projectids db) then Inl IntegrityError
      else Inr (db\<lparr>db_history := db_history db @ [h], db_seq := Suc (db_seq db)\<rparr>))"

text \<open>An update or a delete leaves the primary keys alone; the indexes of the written columns are
  checked on the table it leaves, and a deleted key must not be named by \<open>lf_projects_users\<close>.\<close>

definition map_if :: "('a \<Rightarrow> bool) \<Rightarrow> ('a \<Rightarrow> 'a) \<Rightarrow> 'a list \<Rightarrow> 'a list" where
  "map_if P f xs = map (\<lambda>x. if P x then f x else x) xs"

definition update_users :: "(user_row \<Rightarrow> bool) \<Rightarrow> (user_row \<Rightarrow> user_row) \<Rightarrow> db \<Rightarrow> db result" where
  "update_users P f db =
     (let us = map_if P f (db_users db)
      in if distinct (map us_username us) then Inr (db\<lparr>db_users := us\<rparr>) else Inl IntegrityError)"

definition update_projects :: "(project_row \<Rightarrow> bool) \<Rightarrow> (project_row \<Rightarrow> project_row) \<Rightarrow> db \<Rightarrow> db result" where
  "update_projects P f db =
     (let ps = map_if P f (db_projects db)
      in if distinct (map pr_projectid ps) \<and> distinct (map pr_name ps) \<and>
            list_all (\<lambda>p. ref_ok (pr_owner_id p) (userids db)) ps \<and>
            list_all (\<lambda>(p, u). p \<in> pr_projectid ` set ps) (db_members db)
         then Inr (db\<lparr>db_projects := ps\<rparr>) else Inl IntegrityError)"

definition update_workflows :: "(workflow_row \<Rightarrow> bool) \<Rightarrow> (workflow_row \<Rightarrow> workflow_row) \<Rightarrow> db \<Rightarrow> db result" where
  "update_workflows P f db =
     (let ws = map_if P f (db_workflows db)
      in if distinct (map wf_wfid ws) \<and> distinct (alias_keys ws)
         then Inr (db\<lparr>db_workflows := ws\<rparr>) else Inl IntegrityError)"

text \<open>
  A deleted user or project leaves \<open>NULL\<close> in the columns declared with \<open>ON DELETE SET NULL\<close>; the
  rows of \<open>lf_projects_users\<close> that name it stay, which the foreign key refuses. The ORM's
  \<open>session.delete(user)\<close> removes the user's rows there first.
\<close>

definition clear_ref :: "'a set \<Rightarrow> 'a option \<Rightarrow> 'a option" where
  "clear_ref gone x = (case x of None \<Rightarrow> None | Some y \<Rightarrow> if y \<in> gone then None else Some y)"

definition delete_users :: "(user_row \<Rightarrow> bool) \<Rightarrow> db \<Rightarrow> db result" where
  "delete_users P db =
     (let gone = us_id ` {u \<in> set (db_users db). P u}
      in if list_ex (\<lambda>(p, i). i \<in> gone) (db_members db) then Inl IntegrityError
         else Inr (db\<lparr>db_users := filter (\<lambda>u. \<not> P u) (db_users db),
            db_projects := map (\<lambda>p. p\<lparr>pr_owner_id := clear_ref gone (pr_owner_id p)\<rparr>) (db_projects db)\<rparr>))"

definition orm_delete_user :: "user_row \<Rightarrow> db \<Rightarrow> db result" where
  "orm_delete_user u db =
     delete_users (\<lambda>v. us_id v = us_id u)
       (db\<lparr>db_members := filter (\<lambda>(p, i). i \<noteq> us_id u) (db_members db)\<rparr>)"

definition delete_projects :: "(project_row \<Rightarrow> bool) \<Rightarrow> db \<Rightarrow> db result" where
  "delete_projects P db =
     (let gone = pr_projectid ` {p \<in> set (db_projects db). P p}
      in if list_ex (\<lambda>(p, i). p \<in> gone) (db_members db) then Inl IntegrityError
         else Inr (db\<lparr>db_projects := filter (\<lambda>p. \<not> P p) (db_projects db),
           db_workflows := map (\<lambda>w. w\<lparr>wf_project_id := clear_ref gone (wf_project_id w)\<rparr>) (db_workflows db),
           db_runtimes := map (\<lambda>r. r\<lparr>rt_project_id := clear_ref gone (rt_project_id r)\<rparr>) (db_runtimes db),
           db_history := map (\<lambda>h. h\<lparr>hs_project_id := clear_ref gone (hs_project_id h)\<rparr>) (db_history db)\<rparr>))"

definition delete_workflows :: "(workflow_row \<Rightarrow> bool) \<Rightarrow> db \<Rightarrow> db" where
  "delete_workflows P db = db\<lparr>db_workflows := filter (\<lambda>w. \<not> P w) (db_workflows db)\<rparr>"

definition delete_runtimes :: "(runtime_row \<Rightarrow> bool) \<Rightarrow> db \<Rightarrow> db" where
  "delete_runtimes P db = db\<lparr>db_runtimes := filter (\<lambda>r. \<not> P r) (db_runtimes db)\<rparr>"

section \<open>Every write keeps the constraints\<close>

lemmas db_ok_defs = db_ok_def db_unique_def db_refs_def userids_def projectids_def

named_theorems db_writes \<open>writes that keep \<open>db_ok\<close>\<close>

lemma ref_ok_mono: "ref_ok x A \<Longrightarrow> A \<subseteq> B \<Longrightarrow> ref_ok x B"
  by (cases x) auto

lemma ref_ok_insert [simp]: "ref_ok x A \<Longrightarrow> ref_ok x (insert a A)"
  by (cases x) auto

lemma ref_ok_clear: "ref_ok x A \<Longrightarrow> ref_ok (clear_ref G x) (A - G)"
  by (auto simp: clear_ref_def split: option.splits)

lemma alias_keys_append [simp]: "alias_keys (xs @ ys) = alias_keys xs @ alias_keys ys"
  by (simp add: alias_keys_def)

lemma in_alias_keys: "(a, p) \<in> set (alias_keys ws) \<longleftrightarrow> (\<exists>w \<in> set ws. wf_alias w = a \<and> wf_project_id w = Some p)"
  by (force simp: alias_keys_def)

lemma distinct_alias_keys_single [simp]: "distinct (alias_keys [w])"
  by (simp add: alias_keys_def)

lemma clear_ref_Some [simp]: "clear_ref G x = Some y \<longleftrightarrow> x = Some y \<and> y \<notin> G"
  by (auto simp: clear_ref_def split: option.splits)

lemma clear_ref_simps [simp]:
  "clear_ref G None = None" "clear_ref G (Some y) = (if y \<in> G then None else Some y)"
  by (simp_all add: clear_ref_def)

lemma empty_db_ok: "db_ok empty_db"
  by (simp add: db_ok_defs empty_db_def alias_keys_def)

lemma insert_user_ok [db_writes]: "db_ok db \<Longrightarrow> insert_user u db = Inr db' \<Longrightarrow> db_ok db'"
  by (auto simp: insert_user_def db_ok_defs list_all_iff split: if_splits)

lemma insert_project_ok [db_writes]: "db_ok db \<Longrightarrow> insert_project p db = Inr db' \<Longrightarrow> db_ok db'"
  by (auto simp: insert_project_def db_ok_defs list_all_iff split: if_splits)

lemma insert_member_ok [db_writes]: "db_ok db \<Longrightarrow> insert_member p u db = Inr db' \<Longrightarrow> db_ok db'"
  by (auto simp: insert_member_def db_ok_defs list_all_iff split: if_splits)

lemma insert_workflow_ok [db_writes]: "db_ok db \<Longrightarrow> insert_workflow w db = Inr db' \<Longrightarrow> db_ok db'"
  by (auto simp: insert_workflow_def db_ok_defs list_all_iff split: if_splits)

lemma insert_runtime_ok [db_writes]: "db_ok db \<Longrightarrow> insert_runtime r db = Inr db' \<Longrightarrow> db_ok db'"
  by (auto simp: insert_runtime_def db_ok_defs list_all_iff split: if_splits)

lemma insert_history_ok [db_writes]: "db_ok db \<Longrightarrow> insert_history h db = Inr db' \<Longrightarrow> db_ok db'"
  by (auto simp: insert_history_def db_ok_defs list_all_iff split: if_splits)

lemma map_map_if: "(\<And>x. g (f x) = g x) \<Longrightarrow> map g (map_if P f xs) = map g xs"
  by (induction xs) (auto simp: map_if_def)

lemma image_map_if: "(\<And>x. g (f x) = g x) \<Longrightarrow> g ` set (map_if P f xs) = g ` set xs"
  using map_map_if [of g f P xs] by (metis list.set_map)

lemma update_users_ok [db_writes]:
  assumes "db_ok db" and "update_users P f db = Inr db'" and "\<And>u. us_id (f u) = us_id u"
  shows "db_ok db'"
  using assms map_map_if [of us_id f P "db_users db"] image_map_if [of us_id f P "db_users db"]
  by (auto simp: update_users_def Let_def db_ok_defs split: if_splits)

lemma update_projects_ok [db_writes]:
  assumes "db_ok db" and "update_projects P f db = Inr db'"
    and "\<And>p. pr_id (f p) = pr_id p" and "\<And>p. pr_projectid (f p) = pr_projectid p"
  shows "db_ok db'"
  using assms map_map_if [of pr_id f P "db_projects db"] image_map_if [of pr_projectid f P "db_projects db"]
  by (auto simp: update_projects_def Let_def db_ok_defs split: if_splits)

lemma update_workflows_ok [db_writes]:
  assumes "db_ok db" and "update_workflows P f db = Inr db'"
    and "\<And>w. wf_project_id (f w) = wf_project_id w"
  shows "db_ok db'"
proof -
  have "list_all (\<lambda>w. ref_ok (wf_project_id w) A) (map_if P f ws) =
      list_all (\<lambda>w. ref_ok (wf_project_id w) A) ws" for A ws
    using assms(3) by (induction ws) (auto simp: map_if_def)
  then show ?thesis
    using assms(1,2) by (auto simp: update_workflows_def Let_def db_ok_defs split: if_splits)
qed

lemma distinct_map_filter_kept: "distinct (map f xs) \<Longrightarrow> distinct (map f (filter P xs))"
  by (induction xs) auto

lemma in_filter_image:
  "distinct (map f xs) \<Longrightarrow> y \<in> f ` set xs \<Longrightarrow> y \<notin> f ` {x \<in> set xs. P x} \<Longrightarrow>
     y \<in> f ` set (filter (\<lambda>x. \<not> P x) xs)"
  by auto

lemma ref_ok_clear_filter:
  "ref_ok x (f ` set xs) \<Longrightarrow>
     ref_ok (clear_ref (f ` {x \<in> set xs. P x}) x) (f ` set (filter (\<lambda>x. \<not> P x) xs))"
  by (cases x) (auto simp: clear_ref_def image_iff)

lemma alias_keys_cleared:
  "distinct (alias_keys ws) \<Longrightarrow>
     distinct (alias_keys (map (\<lambda>w. w\<lparr>wf_project_id := clear_ref G (wf_project_id w)\<rparr>) ws))"
proof (induction ws)
  case Nil
  then show ?case by (simp add: alias_keys_def)
next
  case (Cons w ws)
  have "set (alias_keys (map (\<lambda>w. w\<lparr>wf_project_id := clear_ref G (wf_project_id w)\<rparr>) xs)) \<subseteq> set (alias_keys xs)" for xs
    by (auto simp: in_alias_keys)
  moreover have "alias_keys (x # xs) =
      (case wf_project_id x of None \<Rightarrow> [] | Some p \<Rightarrow> [(wf_alias x, p)]) @ alias_keys xs" for x xs
    by (simp add: alias_keys_def split: option.splits)
  ultimately show ?case
    using Cons by (auto split: option.splits if_splits)
qed

lemma delete_users_ok [db_writes]:
  assumes "db_ok db" and "delete_users P db = Inr db'"
  shows "db_ok db'"
proof -
  have "list_all (\<lambda>p. ref_ok (pr_owner_id p) (us_id ` set (db_users db))) (db_projects db)"
    using assms(1) by (simp add: db_ok_defs)
  then have "list_all (\<lambda>p. ref_ok (clear_ref (us_id ` {u \<in> set (db_users db). P u}) (pr_owner_id p))
      (us_id ` set (filter (\<lambda>u. \<not> P u) (db_users db)))) (db_projects db)"
    using ref_ok_clear_filter [of _ us_id "db_users db" P] by (auto simp: list_all_iff)
  then show ?thesis
    using assms
    by (auto simp: delete_users_def Let_def db_ok_defs list_all_iff list_ex_iff distinct_map_filter_kept
        comp_def image_image split: if_splits) (fastforce simp: image_iff)+
qed

lemma orm_delete_user_ok [db_writes]:
  assumes "db_ok db" and "orm_delete_user u db = Inr db'"
  shows "db_ok db'"
proof (rule delete_users_ok)
  show "db_ok (db\<lparr>db_members := filter (\<lambda>(p, i). i \<noteq> us_id u) (db_members db)\<rparr>)"
    using assms(1) by (auto simp: db_ok_defs list_all_iff)
qed (use assms(2) in \<open>simp add: orm_delete_user_def\<close>)

lemma delete_projects_ok [db_writes]:
  assumes "db_ok db" and "delete_projects P db = Inr db'"
  shows "db_ok db'"
proof -
  let ?G = "pr_projectid ` {p \<in> set (db_projects db). P p}"
  let ?A = "pr_projectid ` set (filter (\<lambda>p. \<not> P p) (db_projects db))"
  have clear: "ref_ok x (pr_projectid ` set (db_projects db)) \<Longrightarrow> ref_ok (clear_ref ?G x) ?A" for x
    by (rule ref_ok_clear_filter)
  show ?thesis
    using assms clear alias_keys_cleared
    by (auto simp: delete_projects_def Let_def db_ok_defs list_all_iff list_ex_iff distinct_map_filter_kept
        comp_def split: if_splits) (fastforce simp: image_iff)+
qed

lemma distinct_alias_filter: "distinct (alias_keys ws) \<Longrightarrow> distinct (alias_keys (filter P ws))"
proof (induction ws)
  case (Cons w ws)
  have "set (alias_keys (filter P xs)) \<subseteq> set (alias_keys xs)" for xs
    by (auto simp: in_alias_keys)
  then show ?case using Cons by (auto simp: alias_keys_def split: if_splits)
qed simp

lemma delete_workflows_ok [db_writes]: "db_ok db \<Longrightarrow> db_ok (delete_workflows P db)"
  by (auto simp: delete_workflows_def db_ok_defs list_all_iff distinct_map_filter_kept distinct_alias_filter)

lemma delete_runtimes_ok [db_writes]: "db_ok db \<Longrightarrow> db_ok (delete_runtimes P db)"
  by (auto simp: delete_runtimes_def db_ok_defs list_all_iff distinct_map_filter_kept)

end
