(* ===== verification/Scopes.thy ===== *)
theory Scopes
  imports Py_Prelude
begin

text \<open>
  \<open>security/scopes.py\<close>: a scope is a string \<open>ns:action:action...\<close>; \<open>scope2dict\<close> groups a list
  of scopes by namespace and \<open>scopes_validate\<close> decides whether the scopes of a user satisfy
  the scopes an endpoint requires. Python's sets of actions are HOL sets computed from
  lists; the dictionary is an association list in insertion order.
\<close>

section \<open>The code\<close>

definition parse_scope :: "string \<Rightarrow> string \<times> string set" where
  "parse_scope s =
     (let (ns, action) = (case split_once CHR '':'' s of Some p \<Rightarrow> p | None \<Rightarrow> (s, ''any''));
          ns = (if ns \<noteq> [] then ns else ''any'')
      in (ns, set (split_on CHR '':'' action)))"

fun scope2dict_loop :: "string list \<Rightarrow> string set dict \<Rightarrow> string set dict" where
  "scope2dict_loop [] permissions = permissions"
| "scope2dict_loop (s # scopes) permissions =
     (let (ns, actions) = parse_scope s
      in scope2dict_loop scopes (dict_set ns actions permissions))"

definition scope2dict :: "string list \<Rightarrow> string set dict" where
  "scope2dict scopes = scope2dict_loop scopes []"

text \<open>
  \<open>intersection == 0\<close> compares a set with an integer, which Python answers with \<open>False\<close>
  whatever the set holds.
\<close>

definition set_eq_int :: "'a set \<Rightarrow> int \<Rightarrow> bool" where
  "set_eq_int A i = False"

definition ns_actions :: "string set dict \<Rightarrow> string \<Rightarrow> string set" where
  "ns_actions d ns = (case map_of d ns of None \<Rightarrow> {} | Some A \<Rightarrow> A)"

definition scopes_validate :: "string list \<Rightarrow> string list \<Rightarrow> bool \<Rightarrow> bool \<Rightarrow> bool" where
  "scopes_validate scopes user_scopes require_all require_all_actions =
     (let user_perms = scope2dict user_scopes;
          required = scope2dict scopes;
          names = set (dict_keys user_perms);
          required_names = set (dict_keys required);
          inter = required_names \<inter> names
      in if require_all \<and> card required_names \<noteq> card inter \<and> ''any'' \<notin> required_names then False
         else if \<not> require_all \<and> set_eq_int inter 0 \<and> ''any'' \<notin> required_names then False
         else
           (let matches = filter (\<lambda>ns. ns \<in> inter \<and>
                  (ns_actions required ns \<inter> ns_actions user_perms ns \<noteq> {}
                   \<or> ''any'' \<in> ns_actions required ns)) (dict_keys required)
            in length matches \<noteq> 0))"

section \<open>The dictionary of scopes\<close>

lemma wf_scope2dict_loop: "wf_dict d \<Longrightarrow> wf_dict (scope2dict_loop ss d)"
  by (induction ss arbitrary: d) (auto simp: Let_def split: prod.splits)

lemma wf_scope2dict [simp]: "wf_dict (scope2dict ss)"
  by (simp add: scope2dict_def wf_scope2dict_loop)

lemma map_of_scope2dict_loop:
  "map_of (scope2dict_loop ss d) = map_of d ++ map_of (rev (map parse_scope ss))"
proof (induction ss arbitrary: d)
  case Nil
  then show ?case by simp
next
  case (Cons s ss)
  then show ?case
    by (cases "parse_scope s") (simp add: Let_def map_add_def fun_eq_iff split: option.splits)
qed

lemma scope2dict_last_wins:
  "map_of (scope2dict ss) = map_of (rev (map parse_scope ss))"
  by (simp add: scope2dict_def map_of_scope2dict_loop)

lemma scope2dict_keys: "set (dict_keys (scope2dict ss)) = (fst \<circ> parse_scope) ` set ss"
proof -
  have "set (dict_keys (scope2dict ss)) = dom (map_of (scope2dict ss))"
    by (simp add: dict_keys_def dom_map_of_conv_image_fst)
  also have "\<dots> = fst ` set (map parse_scope ss)"
    by (simp add: scope2dict_last_wins dom_map_of_conv_image_fst)
  finally show ?thesis by (simp add: image_comp)
qed

lemma scope2dict_dom:
  "map_of (scope2dict ss) ns \<noteq> None \<longleftrightarrow> ns \<in> (fst \<circ> parse_scope) ` set ss"
  by (simp add: scope2dict_last_wins map_of_eq_None_iff image_comp)

lemma scope2dict_snoc_other:
  "ns \<noteq> fst (parse_scope s) \<Longrightarrow> map_of (scope2dict (ss @ [s])) ns = map_of (scope2dict ss) ns"
  by (cases "parse_scope s") (auto simp: scope2dict_last_wins)

section \<open>What a validation decides\<close>

text \<open>
  The specification: which namespaces must be covered, and one covered namespace whose
  actions meet.
\<close>

definition covers :: "string list \<Rightarrow> string list \<Rightarrow> bool" where
  "covers required user \<longleftrightarrow>
     ''any'' \<in> (fst \<circ> parse_scope) ` set required \<or>
     (fst \<circ> parse_scope) ` set required \<subseteq> (fst \<circ> parse_scope) ` set user"

definition ns_granted :: "string list \<Rightarrow> string list \<Rightarrow> string \<Rightarrow> bool" where
  "ns_granted required user ns \<longleftrightarrow>
     (\<exists>R U. map_of (scope2dict required) ns = Some R \<and> map_of (scope2dict user) ns = Some U \<and>
        (R \<inter> U \<noteq> {} \<or> ''any'' \<in> R))"

lemma card_inter_eq_iff: "finite A \<Longrightarrow> card A = card (A \<inter> B) \<longleftrightarrow> A \<subseteq> B"
  by (metis Int_lower1 card_subset_eq inf.absorb_iff1 inf.absorb_iff2 inf_commute)

lemma in_dict_keys_iff: "ns \<in> set (dict_keys d) \<longleftrightarrow> (\<exists>v. map_of d ns = Some v)"
  by (metis dict_keys_def domD domI dom_map_of_conv_image_fst list.set_map)

lemma match_iff_granted:
  "ns \<in> set (dict_keys (scope2dict req)) \<inter> set (dict_keys (scope2dict usr)) \<and>
    (ns_actions (scope2dict req) ns \<inter> ns_actions (scope2dict usr) ns \<noteq> {} \<or>
     ''any'' \<in> ns_actions (scope2dict req) ns) \<longleftrightarrow> ns_granted req usr ns"
  by (auto simp: in_dict_keys_iff ns_granted_def ns_actions_def)

lemma granted_dom: "ns_granted req usr ns \<Longrightarrow> ns \<in> set (dict_keys (scope2dict req))"
  by (auto simp: ns_granted_def in_dict_keys_iff)

lemma scopes_validate_char:
  "scopes_validate req usr all all_actions \<longleftrightarrow>
     (all \<longrightarrow> covers req usr) \<and> (\<exists>ns. ns_granted req usr ns)"
proof -
  let ?R = "set (dict_keys (scope2dict req))" and ?U = "set (dict_keys (scope2dict usr))"
  let ?m = "\<lambda>ns. ns \<in> ?R \<inter> ?U \<and>
      (ns_actions (scope2dict req) ns \<inter> ns_actions (scope2dict usr) ns \<noteq> {} \<or>
       ''any'' \<in> ns_actions (scope2dict req) ns)"
  have cov: "covers req usr \<longleftrightarrow> ''any'' \<in> ?R \<or> card ?R = card (?R \<inter> ?U)"
    by (simp only: covers_def scope2dict_keys card_inter_eq_iff finite_set finite_imageI)
  have "length (filter ?m (dict_keys (scope2dict req))) \<noteq> 0 \<longleftrightarrow> (\<exists>ns. ns_granted req usr ns)"
    unfolding match_iff_granted using granted_dom by (auto simp: filter_empty_conv)
  then show ?thesis
    unfolding scopes_validate_def Let_def cov set_eq_int_def by auto
qed



lemma scope2dict_of_two:
  assumes "set ss \<subseteq> {a, b}" and "b \<in> set ss" and "fst (parse_scope a) \<noteq> fst (parse_scope b)"
  shows "map_of (scope2dict ss) (fst (parse_scope b)) = Some (snd (parse_scope b))"
proof -
  have "map_of (scope2dict ss) (fst (parse_scope b)) \<noteq> None"
    using assms(2) scope2dict_dom [of ss "fst (parse_scope b)"] by auto
  then obtain A where A: "map_of (scope2dict ss) (fst (parse_scope b)) = Some A" by auto
  then obtain x where x: "x \<in> set ss" and px: "parse_scope x = (fst (parse_scope b), A)"
    by (auto simp: scope2dict_last_wins dest!: map_of_SomeD)
  from px assms(3) have "x \<noteq> a" by auto
  with x assms(1) have "x = b" by blast
  with px have "snd (parse_scope b) = A" by (metis snd_conv)
  with A show ?thesis by simp
qed

text \<open>One namespace decides: once the namespaces are covered, a single required namespace
  whose actions meet makes the whole requirement valid, whatever the other required
  namespaces ask for. So a user with only \<open>admin:read\<close> passes a check that requires
  \<open>admin:write\<close> together with a harmless scope.\<close>

lemma one_namespace_suffices:
  assumes "set req \<subseteq> {a, b}" and "a \<in> set req" and "b \<in> set req"
    and "fst (parse_scope a) \<noteq> fst (parse_scope b)"
    and "fst (parse_scope a) \<in> (fst \<circ> parse_scope) ` set usr"
    and "map_of (scope2dict usr) (fst (parse_scope b)) = Some U"
    and "snd (parse_scope b) \<inter> U \<noteq> {}"
  shows "scopes_validate req usr True True"
proof -
  have "covers req usr"
    using assms(1,5,6) scope2dict_dom [of usr "fst (parse_scope b)"] by (fastforce simp: covers_def)
  moreover have "map_of (scope2dict req) (fst (parse_scope b)) = Some (snd (parse_scope b))"
    using assms(1,3,4) by (rule scope2dict_of_two)
  then have "ns_granted req usr (fst (parse_scope b))"
    using assms(6,7) by (simp add: ns_granted_def)
  ultimately show ?thesis by (auto simp: scopes_validate_char)
qed

text \<open>Adding a scope of a namespace the user did not have never takes an access away
  (a scope of a namespace the user already had may: it replaces the earlier actions).\<close>

lemma fresh_scope_keeps_access:
  assumes ok: "scopes_validate req usr all all_actions"
    and fresh: "fst (parse_scope s) \<notin> (fst \<circ> parse_scope) ` set usr"
  shows "scopes_validate req (usr @ [s]) all all_actions"
proof -
  have new: "map_of (scope2dict usr) ns = Some A \<Longrightarrow> map_of (scope2dict (usr @ [s])) ns = Some A"
    for ns A
  proof -
    assume m: "map_of (scope2dict usr) ns = Some A"
    then have "ns \<noteq> fst (parse_scope s)"
      using fresh scope2dict_dom [of usr ns] by force
    with m show ?thesis by (simp add: scope2dict_snoc_other)
  qed
  from ok have "\<exists>ns. ns_granted req usr ns" and "all \<longrightarrow> covers req usr"
    by (simp_all add: scopes_validate_char)
  moreover from this(1) have "\<exists>ns. ns_granted req (usr @ [s]) ns"
    using new by (fastforce simp: ns_granted_def)
  moreover have "covers req usr \<Longrightarrow> covers req (usr @ [s])"
    by (auto simp: covers_def)
  ultimately show ?thesis by (simp add: scopes_validate_char)
qed

end
