(* ===== verification/Auth.thy ===== *)
theory Auth
  imports Scopes
begin

text \<open>
  \<open>security/authentication.py\<close>, \<open>security/base.py\<close>, \<open>security/redis_tokens.py\<close>,
  \<open>security/web.py\<close>, \<open>security/auth_bp.py\<close>, \<open>security/utils.py\<close> and \<open>types/security.py\<close>:
  the wrapper around JWT, the store of refresh tokens, the \<open>protected\<close> decorator and the
  login and refresh endpoints.

  The JWT library is the parameter \<open>'k jwt_lib\<close> (two functions), a token store is a record
  of operations on a store state \<open>'s\<close>; the laws a store promises are the locale
  \<open>token_store_spec\<close>, interpreted on the Redis store. Time is a number of microseconds
  passed in (the code subtracts no zone from \<open>utcnow().timestamp()\<close>, so this is the clock of
  a process in UTC), a drawn random token is an argument.
\<close>

section \<open>Requests and responses\<close>

record request =
  req_token :: "string option"
  req_json :: pyval

record response =
  rsp_status :: int
  rsp_body :: pyval

definition json :: "pyval \<Rightarrow> int \<Rightarrow> response" where
  "json b st = \<lparr>rsp_status = st, rsp_body = b\<rparr>"

definition msg :: "string \<Rightarrow> pyval" where
  "msg s = PDict [(''msg'', PStr s)]"

text \<open>
  \<open>auth_error_handler\<close> is registered for the two authentication errors; any other
  exception that leaves a handler is the server's internal error.
\<close>

definition error_response :: "py_error \<Rightarrow> response" where
  "error_response e =
     (if e = WebAuthFailed \<or> e = MissingAuthorizationHeader
      then json (msg ''Authentication failed'') 401
      else json (msg ''Internal Server Error'') 500)"

fun respond :: "response result \<Rightarrow> response" where
  "respond (Inl e) = error_response e"
| "respond (Inr r) = r"

section \<open>Configuration\<close>

record key_pairs =
  kp_public :: string
  kp_private :: string

record jwt_config =
  alg :: string
  exp_min :: int
  keys :: "key_pairs option"
  secret :: "string option"
  issuer :: "string option"
  audience :: "string option"
  requires_claims :: "string list"
  ttl_refresh_token :: int

record jwt_options =
  verify_signature :: bool
  verify_exp :: bool
  require_claims :: "string list"

record jwt_response =
  access_token :: string
  refresh_token :: "string option"

type_synonym claims = "pyval dict"

text \<open>
  \<open>jwt.encode(payload, key, algorithm)\<close> and
  \<open>jwt.decode(token, key, options, aud, iss, algorithms)\<close> at a time.
\<close>

record jwt_lib =
  jwt_encode :: "claims \<Rightarrow> string option \<Rightarrow> string \<Rightarrow> string"
  jwt_decode :: "string \<Rightarrow> string option \<Rightarrow> jwt_options \<Rightarrow> string option \<Rightarrow> string option \<Rightarrow>
                 string list \<Rightarrow> int \<Rightarrow> claims result"

section \<open>Auth\<close>

definition get_secret_encode :: "jwt_config \<Rightarrow> string option" where
  "get_secret_encode conf = (case keys conf of Some kp \<Rightarrow> Some (kp_private kp) | None \<Rightarrow> secret conf)"

definition get_secret_decode :: "jwt_config \<Rightarrow> string option" where
  "get_secret_decode conf = (case keys conf of Some kp \<Rightarrow> Some (kp_public kp) | None \<Rightarrow> secret conf)"

definition get_delta :: "int \<Rightarrow> int \<Rightarrow> int" where
  "get_delta now_us delta_min = (now_us + delta_min * 60 * 1000000) div 1000000"

definition build_payload ::
  "jwt_config \<Rightarrow> int \<Rightarrow> claims \<Rightarrow> int option \<Rightarrow> string option \<Rightarrow> string option \<Rightarrow> claims" where
  "build_payload conf now payload exp iss aud =
     (let exp = (case exp of None \<Rightarrow> get_delta now (exp_min conf)
                 | Some e \<Rightarrow> if e = 0 then get_delta now (exp_min conf) else e);
          iss' = or_opt iss (issuer conf);
          p1 = (if opt_truthy iss' then dict_set ''iss'' (PStr (the iss')) payload else payload);
          aud' = or_opt aud (audience conf);
          p2 = (if opt_truthy aud' then dict_set ''aud'' (PStr (the aud')) p1 else p1)
      in dict_set ''exp'' (PInt exp) p2)"

definition auth_encode ::
  "jwt_lib \<Rightarrow> jwt_config \<Rightarrow> int \<Rightarrow> claims \<Rightarrow> int option \<Rightarrow> string option \<Rightarrow> string option \<Rightarrow> string" where
  "auth_encode J conf now payload exp iss aud =
     jwt_encode J (build_payload conf now payload exp iss aud) (get_secret_encode conf) (alg conf)"

definition auth_decode ::
  "jwt_lib \<Rightarrow> jwt_config \<Rightarrow> int \<Rightarrow> string \<Rightarrow> bool \<Rightarrow> bool \<Rightarrow> string option \<Rightarrow> string option \<Rightarrow> claims result" where
  "auth_decode J conf now encoded vsig vexp iss aud =
     (let iss' = or_opt iss (issuer conf); aud' = or_opt aud (audience conf)
      in jwt_decode J encoded (get_secret_decode conf)
           \<lparr>verify_signature = vsig, verify_exp = vexp, require_claims = requires_claims conf\<rparr>
           aud' iss' [alg conf] now)"

text \<open>Iterating over the claim \<open>scopes\<close>: a list of strings, or the characters of a string.\<close>

fun iter_str :: "pyval \<Rightarrow> string list result" where
  "iter_str (PList xs) = rmap (\<lambda>x. case x of PStr s \<Rightarrow> Inr s | _ \<Rightarrow> Inl AttributeError) xs"
| "iter_str (PStr s) = Inr (map (\<lambda>c. [c]) s)"
| "iter_str (PDict d) = Inr (map fst d)"
| "iter_str _ = Inl TypeError"

definition auth_validate ::
  "jwt_lib \<Rightarrow> jwt_config \<Rightarrow> int \<Rightarrow> string \<Rightarrow> string list option \<Rightarrow> bool \<Rightarrow>
   string option \<Rightarrow> string option \<Rightarrow> claims result" where
  "auth_validate J conf now token required_scopes require_all iss aud =
     (case auth_decode J conf now token True True iss aud of
        Inl InvalidTokenError \<Rightarrow> Inl AuthValidationFailed
      | Inl e \<Rightarrow> Inl e
      | Inr decoded \<Rightarrow>
          (case required_scopes of
             None \<Rightarrow> Inr decoded
           | Some [] \<Rightarrow> Inr decoded
           | Some req \<Rightarrow>
               rbind (dict_get decoded ''scopes'') (\<lambda>v.
               rbind (iter_str v) (\<lambda>user_scopes.
                 if scopes_validate req user_scopes require_all True then Inr decoded
                 else Inl AuthValidationFailed))))"

section \<open>Stores of refresh tokens\<close>

record 's token_store =
  ts_put :: "string \<Rightarrow> string \<Rightarrow> int option \<Rightarrow> 's \<Rightarrow> 's"
  ts_get :: "string \<Rightarrow> 's \<Rightarrow> string option"
  ts_delete :: "string \<Rightarrow> 's \<Rightarrow> 's"

definition rtkn_key :: "string \<Rightarrow> string \<Rightarrow> string" where
  "rtkn_key username refresh = username @ CHR ''.'' # refresh"

definition store_refresh_token ::
  "'s token_store \<Rightarrow> jwt_config \<Rightarrow> string \<Rightarrow> int option \<Rightarrow> string \<Rightarrow> 's \<Rightarrow> string \<times> 's" where
  "store_refresh_token T conf username ttl drawn st =
     (let ttl = (case ttl of None \<Rightarrow> ttl_refresh_token conf
                 | Some t \<Rightarrow> if t = 0 then ttl_refresh_token conf else t);
          refresh = drawn
      in (refresh, ts_put T (rtkn_key username refresh) username (Some ttl) st))"

text \<open>
  A claim \<open>usr\<close> that is not a string formats to some key, whose value is a string and so
  differs from it: the answer is \<open>False\<close>.
\<close>

definition validate_refresh_token ::
  "jwt_lib \<Rightarrow> jwt_config \<Rightarrow> 's token_store \<Rightarrow> int \<Rightarrow> string \<Rightarrow> string \<Rightarrow> 's \<Rightarrow> bool result" where
  "validate_refresh_token J conf T now access refresh st =
     rbind (auth_decode J conf now access True False None None) (\<lambda>decoded.
     rbind (dict_get decoded ''usr'') (\<lambda>usr.
       case usr of PStr u \<Rightarrow> Inr (Some u = ts_get T (rtkn_key u refresh) st) | _ \<Rightarrow> Inr False))"

definition refresh_token_op ::
  "jwt_lib \<Rightarrow> jwt_config \<Rightarrow> 's token_store \<Rightarrow> int \<Rightarrow> string \<Rightarrow> string \<Rightarrow> string \<Rightarrow> 's \<Rightarrow>
   jwt_response result \<times> 's" where
  "refresh_token_op J conf T now drawn access refresh st =
     (case validate_refresh_token J conf T now access refresh st of
        Inl e \<Rightarrow> (Inl e, st)
      | Inr False \<Rightarrow> (Inl AuthValidationFailed, st)
      | Inr True \<Rightarrow>
          (case auth_decode J conf now access True False None None of
             Inl e \<Rightarrow> (Inl e, st)
           | Inr decoded \<Rightarrow>
               (case dict_get decoded ''usr'' of
                  Inr (PStr u) \<Rightarrow>
                    (let st1 = ts_delete T (rtkn_key u refresh) st;
                         (new_refresh, st2) = store_refresh_token T conf u None drawn st1;
                         new_tkn = auth_encode J conf now decoded None None None
                     in (Inr \<lparr>access_token = new_tkn, refresh_token = Some new_refresh\<rparr>, st2))
                | Inr _ \<Rightarrow> (Inl TypeError, st)
                | Inl e \<Rightarrow> (Inl e, st))))"

section \<open>The Redis token store\<close>

text \<open>
  A Redis connection answers with strings or, without \<open>decode_responses\<close>, with bytes. The
  database is the association list of its string keys.
\<close>

datatype redis_reply = RNil | RStr string | RBytes string

definition redis_get :: "bool \<Rightarrow> string \<Rightarrow> string dict \<Rightarrow> redis_reply" where
  "redis_get decode_responses k db =
     (case map_of db k of None \<Rightarrow> RNil | Some v \<Rightarrow> if decode_responses then RStr v else RBytes v)"

definition rts_put :: "string \<Rightarrow> string \<Rightarrow> string \<Rightarrow> int option \<Rightarrow> string dict \<Rightarrow> string dict" where
  "rts_put ns key v ttl db = dict_set (ns @ CHR '':'' # key) v db"

definition rts_get :: "bool \<Rightarrow> string \<Rightarrow> string \<Rightarrow> string dict \<Rightarrow> string option" where
  "rts_get dr ns key db =
     (case redis_get dr (ns @ CHR '':'' # key) db of
        RNil \<Rightarrow> None | RStr s \<Rightarrow> Some s | RBytes s \<Rightarrow> Some s)"

definition rts_delete :: "string \<Rightarrow> string \<Rightarrow> string dict \<Rightarrow> string dict" where
  "rts_delete ns key db = dict_del (ns @ CHR '':'' # key) db"

definition redis_token_store :: "bool \<Rightarrow> string \<Rightarrow> string dict token_store" where
  "redis_token_store dr ns =
     \<lparr>ts_put = rts_put ns, ts_get = rts_get dr ns, ts_delete = rts_delete ns\<rparr>"

text \<open>\<open>generate_token\<close>: the hexadecimal text of the bytes drawn from the system.\<close>

definition generate_token :: "(nat \<Rightarrow> nat list) \<Rightarrow> nat \<Rightarrow> string" where
  "generate_token urandom n = hexlify (urandom n)"

section \<open>Web: the decorator and the endpoints\<close>

type_synonym 's handler = "claims \<Rightarrow> 's \<Rightarrow> response result \<times> 's"

definition protected ::
  "jwt_lib \<Rightarrow> jwt_config \<Rightarrow> int \<Rightarrow> string list option \<Rightarrow> bool \<Rightarrow> 's handler \<Rightarrow> request \<Rightarrow> 's \<Rightarrow>
   response result \<times> 's" where
  "protected J conf now scopes require_all f req st =
     (case req_token req of
        None \<Rightarrow> (Inl MissingAuthorizationHeader, st)
      | Some token \<Rightarrow>
          if token = [] then (Inl MissingAuthorizationHeader, st)
          else (case auth_validate J conf now token scopes require_all None None of
                  Inl AuthValidationFailed \<Rightarrow> (Inl WebAuthFailed, st)
                | Inl e \<Rightarrow> (Inl e, st)
                | Inr decoded \<Rightarrow>
                    (case f decoded st of
                       (Inl AuthValidationFailed, st') \<Rightarrow> (Inl WebAuthFailed, st')
                     | (r, st') \<Rightarrow> (r, st'))))"

definition jwt_response_dict :: "jwt_response \<Rightarrow> pyval" where
  "jwt_response_dict r =
     PDict [(''access_token'', PStr (access_token r)),
            (''refresh_token'', case refresh_token r of None \<Rightarrow> PNone | Some t \<Rightarrow> PStr t)]"

text \<open>
  \<open>login_handler\<close>, over the configured \<open>authenticate\<close> function: the answer is the pair of
  tokens of the user that function returns (a name and a comma separated list of scopes).
\<close>

definition login_handler ::
  "jwt_lib \<Rightarrow> jwt_config \<Rightarrow> 's token_store \<Rightarrow> int \<Rightarrow> string \<Rightarrow>
   (request \<Rightarrow> (string \<times> string) result) \<Rightarrow> request \<Rightarrow> 's \<Rightarrow> response result \<times> 's" where
  "login_handler J conf T now drawn authenticate req st =
     (case authenticate req of
        Inl AuthValidationFailed \<Rightarrow> (Inl WebAuthFailed, st)
      | Inl e \<Rightarrow> (Inl e, st)
      | Inr (username, scopes) \<Rightarrow>
          (let encoded = auth_encode J conf now
                 [(''usr'', PStr username), (''scopes'', PList (map PStr (split_on CHR '','' scopes)))]
                 None None None;
               (rtkn, st') = store_refresh_token T conf username None drawn st
           in (Inr (json (jwt_response_dict \<lparr>access_token = encoded, refresh_token = Some rtkn\<rparr>) 200), st')))"

text \<open>A field of type \<open>str\<close> of a pydantic model also takes numbers.\<close>

fun pydantic_str :: "pyval \<Rightarrow> string result" where
  "pydantic_str (PStr s) = Inr s"
| "pydantic_str (PInt i) = Inr (str_int i)"
| "pydantic_str (PBool b) = Inr (if b then ''True'' else ''False'')"
| "pydantic_str _ = Inl ValidationError"

definition refresh_handler ::
  "jwt_lib \<Rightarrow> jwt_config \<Rightarrow> 's token_store \<Rightarrow> bool \<Rightarrow> int \<Rightarrow> string \<Rightarrow> request \<Rightarrow> 's \<Rightarrow>
   response result \<times> 's" where
  "refresh_handler J conf T allow_refresh now drawn req st =
     (if \<not> allow_refresh then (Inr (json (msg ''Not found'') 404), st)
      else (case req_json req of
              PDict d \<Rightarrow>
                (let rftkn = (case map_of d ''refresh_token'' of None \<Rightarrow> PNone | Some v \<Rightarrow> v)
                 in if \<not> truthy rftkn then (Inl WebAuthFailed, st)
                    else (case (req_token req, pydantic_str rftkn) of
                            (Some at, Inr rt) \<Rightarrow>
                              (case refresh_token_op J conf T now drawn at rt st of
                                 (Inl AuthValidationFailed, st') \<Rightarrow> (Inl WebAuthFailed, st')
                               | (Inl e, st') \<Rightarrow> (Inl e, st')
                               | (Inr jr, st') \<Rightarrow> (Inr (json (jwt_response_dict jr) 200), st'))
                          | _ \<Rightarrow> (Inl ValidationError, st)))
            | _ \<Rightarrow> (Inl AttributeError, st)))"

definition verify_handler :: "'s handler" where
  "verify_handler token_data st = (Inr (json (PDict token_data) 200), st)"

end
