(* ===== verification/Auth_Tokens.thy ===== *)
theory Auth_Tokens
  imports Auth
begin

text \<open>
  What the token machinery promises: the laws of a token store (a locale, interpreted on the
  Redis store), the exact effect of a refresh, single use of a refresh token over every
  later run of logins and refreshes, and the path from a login to a protected endpoint.
\<close>

section \<open>The interface of a token store\<close>

locale token_store_spec =
  fixes T :: "'s token_store"
  assumes get_put: "ts_get T k (ts_put T j v ttl st) = (if k = j then Some v else ts_get T k st)"
    and get_delete: "ts_get T k (ts_delete T j st) = (if k = j then None else ts_get T k st)"
begin

lemma store_refresh_get:
  "store_refresh_token T conf u ttl d st = (r, st') \<Longrightarrow>
     r = d \<and> ts_get T k st' = (if k = rtkn_key u d then Some u else ts_get T k st)"
  by (auto simp: store_refresh_token_def Let_def get_put)

lemma refresh_get:
  assumes "refresh_token_op J conf T now d access rt st = (Inr jr, st')"
  obtains decoded u where
    "auth_decode J conf now access True False None None = Inr decoded"
    and "map_of decoded ''usr'' = Some (PStr u)"
    and "ts_get T (rtkn_key u rt) st = Some u"
    and "\<And>k. ts_get T k st' =
          (if k = rtkn_key u d then Some u else if k = rtkn_key u rt then None else ts_get T k st)"
    and "jr = \<lparr>access_token = auth_encode J conf now decoded None None None, refresh_token = Some d\<rparr>"
  using assms
  by (auto simp: refresh_token_op_def validate_refresh_token_def store_refresh_token_def Let_def
      get_put get_delete rbind_Inr_iff dict_get_Inr_iff
      split: sum.splits bool.splits pyval.splits if_splits)

lemma refresh_error_keeps_store:
  "refresh_token_op J conf T now d access rt st = (Inl e, st') \<Longrightarrow> st' = st"
  by (auto simp: refresh_token_op_def Let_def split: sum.splits bool.splits pyval.splits prod.splits)

lemma refresh_succeeds:
  assumes "auth_decode J conf now access True False None None = Inr decoded"
    and "map_of decoded ''usr'' = Some (PStr u)" and "ts_get T (rtkn_key u rt) st = Some u"
  shows "\<exists>jr st'. refresh_token_op J conf T now d access rt st = (Inr jr, st')"
  using assms
  by (simp add: refresh_token_op_def validate_refresh_token_def store_refresh_token_def Let_def
      dict_get_def)

lemma refresh_rejected:
  assumes "auth_decode J conf now access True False None None = Inr decoded"
    and "map_of decoded ''usr'' = Some (PStr u)" and "ts_get T (rtkn_key u rt) st \<noteq> Some u"
  shows "refresh_token_op J conf T now d access rt st = (Inl AuthValidationFailed, st)"
  using assms
  by (auto simp: refresh_token_op_def validate_refresh_token_def dict_get_def)

end

section \<open>The Redis store keeps the laws\<close>

lemma rts_get_eq: "rts_get dr ns k db = map_of db (ns @ CHR '':'' # k)"
  by (simp add: rts_get_def redis_get_def split: option.splits)

interpretation rts: token_store_spec "redis_token_store dr ns" for dr ns
  by unfold_locales (auto simp: redis_token_store_def rts_get_eq rts_put_def rts_delete_def)

text \<open>\<open>RedisTokenStore.put\<close> drops the lifetime it is given: whatever the lifetime of a refresh
  token, the store is the same, so a stored token is served until it is deleted.\<close>

lemma refresh_token_never_expires:
  "snd (store_refresh_token (redis_token_store dr ns) conf u ttl d st) =
   snd (store_refresh_token (redis_token_store dr ns) conf' u ttl' d st) \<and>
   ts_get (redis_token_store dr ns) (rtkn_key u d)
     (snd (store_refresh_token (redis_token_store dr ns) conf u ttl d st)) = Some u"
  by (simp add: store_refresh_token_def Let_def redis_token_store_def rts_put_def rts_get_eq)

text \<open>A refresh that succeeds was asked for with a token on record for the user named in the
  access token; it replaces that token by the drawn one, signs the old claims again with a
  new expiry, and touches no other key.\<close>

lemma refresh_rotates:
  assumes "refresh_token_op J conf (redis_token_store dr ns) now d access rt st = (Inr jr, st')"
    and "d \<noteq> rt"
  shows "\<exists>decoded u. auth_decode J conf now access True False None None = Inr decoded \<and>
      map_of decoded ''usr'' = Some (PStr u) \<and>
      rts_get dr ns (rtkn_key u rt) st = Some u \<and>
      rts_get dr ns (rtkn_key u rt) st' = None \<and>
      rts_get dr ns (rtkn_key u d) st' = Some u \<and>
      (\<forall>k. k \<notin> {rtkn_key u rt, rtkn_key u d} \<longrightarrow> rts_get dr ns k st' = rts_get dr ns k st) \<and>
      access_token jr = jwt_encode J (build_payload conf now decoded None None None)
         (get_secret_encode conf) (alg conf) \<and>
      refresh_token jr = Some d"
  using assms(1)
proof (rule rts.refresh_get)
  fix decoded u
  assume "auth_decode J conf now access True False None None = Inr decoded"
    and "map_of decoded ''usr'' = Some (PStr u)"
    and "ts_get (redis_token_store dr ns) (rtkn_key u rt) st = Some u"
    and g: "\<And>k. ts_get (redis_token_store dr ns) k st' =
          (if k = rtkn_key u d then Some u else if k = rtkn_key u rt then None
           else ts_get (redis_token_store dr ns) k st)"
    and "jr = \<lparr>access_token = auth_encode J conf now decoded None None None, refresh_token = Some d\<rparr>"
  then show ?thesis
    using assms(2) by (auto simp: redis_token_store_def rtkn_key_def auth_encode_def)
qed

definition fixed_jwt :: "claims \<Rightarrow> jwt_lib" where
  "fixed_jwt c = \<lparr>jwt_encode = (\<lambda>_ _ _. ''signed''), jwt_decode = (\<lambda>_ _ _ _ _ _ _. Inr c)\<rparr>"

definition demo_conf :: jwt_config where
  "demo_conf = \<lparr>alg = ''ES512'', exp_min = 30, keys = None, secret = Some ''s'', issuer = None,
     audience = None, requires_claims = [''exp''], ttl_refresh_token = 604800\<rparr>"

abbreviation demo_claims :: claims where
  "demo_claims \<equiv> [(''usr'', PStr ''ana''), (''scopes'', PList [PStr ''user:r:w'']), (''exp'', PInt 1800)]"

lemma demo_refresh:
  "refresh_token_op (fixed_jwt demo_claims) demo_conf (redis_token_store True ''rtkn'') 0 ''bb'' ''t'' ''aa''
     [(''rtkn:ana.aa'', ''ana'')] =
   (Inr \<lparr>access_token = ''signed'', refresh_token = Some ''bb''\<rparr>, [(''rtkn:ana.bb'', ''ana'')])"
  by (simp add: refresh_token_op_def validate_refresh_token_def auth_decode_def fixed_jwt_def
      dict_get_def redis_token_store_def rts_get_eq rts_put_def rts_delete_def rtkn_key_def Let_def
      store_refresh_token_def auth_encode_def dict_set_def dict_del_def)

section \<open>Runs of logins and refreshes\<close>

text \<open>
  A step of the store: a login stores a drawn token; a refresh presents tokens, at some
  time, and may fail. The step never draws the token \<open>rt\<close> for the user \<open>u\<close> again.
\<close>

inductive token_step :: "jwt_lib \<Rightarrow> jwt_config \<Rightarrow> 's token_store \<Rightarrow> string \<Rightarrow> string \<Rightarrow> 's \<Rightarrow> 's \<Rightarrow> bool"
  for J conf T u rt where
  login: "(v, d) \<noteq> (u, rt) \<Longrightarrow>
     token_step J conf T u rt st (snd (store_refresh_token T conf v ttl d st))"
| refresh: "d \<noteq> rt \<Longrightarrow>
     token_step J conf T u rt st (snd (refresh_token_op J conf T now d access r st))"

inductive token_steps :: "jwt_lib \<Rightarrow> jwt_config \<Rightarrow> 's token_store \<Rightarrow> string \<Rightarrow> string \<Rightarrow> 's \<Rightarrow> 's \<Rightarrow> bool"
  for J conf T u rt where
  done_steps: "token_steps J conf T u rt st st"
| more_steps: "token_step J conf T u rt st st' \<Longrightarrow> token_steps J conf T u rt st' st'' \<Longrightarrow>
     token_steps J conf T u rt st st''"

context token_store_spec
begin

text \<open>A key that collides with another user's key holds that other user's name, so it never
  validates for this one.\<close>

lemma rtkn_key_user: "rtkn_key v d = rtkn_key u rt \<Longrightarrow> v = u \<Longrightarrow> d = rt"
  by (simp add: rtkn_key_def)

lemma token_step_stays_revoked:
  assumes "token_step J conf T u rt st st'" and gone: "ts_get T (rtkn_key u rt) st \<noteq> Some u"
  shows "ts_get T (rtkn_key u rt) st' \<noteq> Some u"
  using assms(1)
proof cases
  case (login v d ttl)
  then show ?thesis
    using gone rtkn_key_user [of v d u rt]
    by (cases "rtkn_key u rt = rtkn_key v d") (auto simp: store_refresh_token_def Let_def get_put)
next
  case (refresh d now access r)
  obtain res st1 where r: "refresh_token_op J conf T now d access r st = (res, st1)"
    by fastforce
  show ?thesis
  proof (cases res)
    case (Inl e)
    with r refresh gone show ?thesis by (auto dest: refresh_error_keeps_store)
  next
    case (Inr jr)
    with r have "refresh_token_op J conf T now d access r st = (Inr jr, st1)" by simp
    then show ?thesis
    proof (rule refresh_get)
      fix v
      assume g: "\<And>k. ts_get T k st1 =
          (if k = rtkn_key v d then Some v else if k = rtkn_key v r then None else ts_get T k st)"
      show ?thesis
        using refresh r g [of "rtkn_key u rt"] gone rtkn_key_user [of v d u rt]
        by (cases "rtkn_key u rt = rtkn_key v d") auto
    qed
  qed
qed

lemma token_steps_stay_revoked:
  "token_steps J conf T u rt st st' \<Longrightarrow> ts_get T (rtkn_key u rt) st \<noteq> Some u \<Longrightarrow>
     ts_get T (rtkn_key u rt) st' \<noteq> Some u"
  by (induction rule: token_steps.induct) (auto dest: token_step_stays_revoked)

lemma refresh_single_use:
  assumes first: "refresh_token_op J conf T now d access rt st = (Inr jr, st')" and "d \<noteq> rt"
    and dec: "auth_decode J conf now access True False None None = Inr decoded"
    and usr: "map_of decoded ''usr'' = Some (PStr u)"
    and run: "token_steps J conf T u rt st' st''"
    and dec': "auth_decode J conf now' access' True False None None = Inr decoded'"
    and usr': "map_of decoded' ''usr'' = Some (PStr u)"
  shows "refresh_token_op J conf T now' d' access' rt st'' = (Inl AuthValidationFailed, st'')"
proof -
  from first have "ts_get T (rtkn_key u rt) st' = None"
    by (rule refresh_get) (use dec usr \<open>d \<noteq> rt\<close> in \<open>auto simp: rtkn_key_def\<close>)
  then have "ts_get T (rtkn_key u rt) st'' \<noteq> Some u"
    using token_steps_stay_revoked [OF run] by simp
  with dec' usr' show ?thesis by (rule refresh_rejected)
qed

end

text \<open>C2. A refresh token works once: after a refresh consumed it, and after any further logins and
  refreshes of any users that do not draw the very same token for that user, presenting it
  again is refused and changes nothing.\<close>

theorem refresh_token_single_use:
  assumes "refresh_token_op J conf (redis_token_store dr ns) now d access rt st = (Inr jr, st')"
    and "d \<noteq> rt"
    and "auth_decode J conf now access True False None None = Inr decoded"
    and "map_of decoded ''usr'' = Some (PStr u)"
    and "token_steps J conf (redis_token_store dr ns) u rt st' st''"
    and "auth_decode J conf now' access' True False None None = Inr decoded'"
    and "map_of decoded' ''usr'' = Some (PStr u)"
  shows "refresh_token_op J conf (redis_token_store dr ns) now' d' access' rt st'' =
           (Inl AuthValidationFailed, st'')"
  using assms by (rule rts.refresh_single_use)

theorem refresh_token_single_use_witness:
  "refresh_token_op (fixed_jwt demo_claims) demo_conf (redis_token_store True ''rtkn'') 9 ''dd'' ''t'' ''aa''
     (snd (store_refresh_token (redis_token_store True ''rtkn'') demo_conf ''bob'' None ''cc''
             [(''rtkn:ana.bb'', ''ana'')])) =
   (Inl AuthValidationFailed,
     snd (store_refresh_token (redis_token_store True ''rtkn'') demo_conf ''bob'' None ''cc''
             [(''rtkn:ana.bb'', ''ana'')]))"
proof (rule refresh_token_single_use [OF demo_refresh, where u = "''ana''" and
      decoded = demo_claims and decoded' = demo_claims])
  show "token_steps (fixed_jwt demo_claims) demo_conf (redis_token_store True ''rtkn'') ''ana'' ''aa''
      [(''rtkn:ana.bb'', ''ana'')]
      (snd (store_refresh_token (redis_token_store True ''rtkn'') demo_conf ''bob'' None ''cc''
             [(''rtkn:ana.bb'', ''ana'')]))"
    by (rule token_steps.more_steps [OF token_step.login token_steps.done_steps]) simp
qed (simp_all add: auth_decode_def fixed_jwt_def)

section \<open>From a login to an endpoint\<close>

text \<open>
  The documented contract of the JWT library for one payload, under a configuration without
  issuer and audience: the token signed with the encoding secret decodes, under the decoding
  secret, to the payload while it holds every required claim and its expiry lies ahead, and
  is refused from its expiry on when expiry is checked.
\<close>

definition jwt_contract :: "jwt_lib \<Rightarrow> jwt_config \<Rightarrow> claims \<Rightarrow> bool" where
  "jwt_contract J conf p \<longleftrightarrow>
     (\<forall>e opts aud iss now.
        map_of p ''exp'' = Some (PInt e) \<and> set (require_claims opts) \<subseteq> fst ` set p \<longrightarrow>
        jwt_decode J (jwt_encode J p (get_secret_encode conf) (alg conf)) (get_secret_decode conf)
          opts aud iss [alg conf] now =
        (if verify_exp opts \<and> e * 1000000 \<le> now then Inl InvalidTokenError else Inr p))"

definition login_claims :: "string \<Rightarrow> string \<Rightarrow> claims" where
  "login_claims username scopes =
     [(''usr'', PStr username), (''scopes'', PList (map PStr (split_on CHR '','' scopes)))]"

lemma iter_str_PStr [simp]:
  "rmap (\<lambda>x. case x of PStr s \<Rightarrow> Inr s | _ \<Rightarrow> Inl AttributeError) (map PStr xs) = Inr xs"
  by (induction xs) auto

lemma build_payload_keys:
  "map_of (build_payload conf now p exp iss aud) k =
     (if k = ''exp'' then Some (PInt (case exp of None \<Rightarrow> get_delta now (exp_min conf)
                                 | Some e \<Rightarrow> if e = 0 then get_delta now (exp_min conf) else e))
      else if k = ''aud'' \<and> opt_truthy (or_opt aud (audience conf)) then Some (PStr (the (or_opt aud (audience conf))))
      else if k = ''iss'' \<and> opt_truthy (or_opt iss (issuer conf)) then Some (PStr (the (or_opt iss (issuer conf))))
      else map_of p k)"
  by (simp add: build_payload_def Let_def)

lemma decode_encoded:
  assumes "jwt_contract J conf (build_payload conf now p None iss aud)"
    and "set (requires_claims conf) \<subseteq> {''exp''}"
  shows "auth_decode J conf now' (auth_encode J conf now p None iss aud) vs True iss' aud' =
     (if get_delta now (exp_min conf) * 1000000 \<le> now' then Inl InvalidTokenError
      else Inr (build_payload conf now p None iss aud))"
proof -
  let ?q = "build_payload conf now p None iss aud"
  have e: "map_of ?q ''exp'' = Some (PInt (get_delta now (exp_min conf)))"
    by (simp add: build_payload_keys)
  then have "''exp'' \<in> fst ` set ?q"
    by (metis domI dom_map_of_conv_image_fst)
  with assms(2) have "set (requires_claims conf) \<subseteq> fst ` set ?q" by auto
  with assms(1) e show ?thesis
    by (simp add: auth_decode_def auth_encode_def jwt_contract_def)
qed

lemma validate_encoded:
  assumes "jwt_contract J conf (build_payload conf now (login_claims u sc) None None None)"
    and "set (requires_claims conf) \<subseteq> {''exp''}"
    and "now' < get_delta now (exp_min conf) * 1000000"
  shows "auth_validate J conf now' (auth_encode J conf now (login_claims u sc) None None None)
      (Some req) True None None =
     (if req = [] \<or> scopes_validate req (split_on CHR '','' sc) True True
      then Inr (build_payload conf now (login_claims u sc) None None None)
      else Inl AuthValidationFailed)"
proof -
  have sc: "dict_get (build_payload conf now (login_claims u sc) None None None) ''scopes'' =
      Inr (PList (map PStr (split_on CHR '','' sc)))"
    by (simp add: dict_get_Inr_iff build_payload_keys login_claims_def)
  show ?thesis
    using decode_encoded [OF assms(1,2), of now' True None None] assms(3)
    by (simp add: auth_validate_def sc split: list.splits)
qed

lemma login_handler_Inr:
  assumes "authenticate req = Inr (u, sc)"
  shows "login_handler J conf T now d authenticate req st =
     (Inr (json (jwt_response_dict
        \<lparr>access_token = auth_encode J conf now (login_claims u sc) None None None, refresh_token = Some d\<rparr>) 200),
      ts_put T (rtkn_key u d) u (Some (ttl_refresh_token conf)) st)"
  using assms by (simp add: login_handler_def store_refresh_token_def Let_def login_claims_def)

text \<open>C6. Under the contract of the JWT library, the access token a login returns opens an endpoint
  until its expiry exactly when the user's scopes satisfy the endpoint's, and the endpoint
  sees the claims of that user; from the expiry on, or with missing scopes, the answer is 401
  and the handler does not run.\<close>

theorem login_grants_access:
  assumes con: "jwt_contract J conf (build_payload conf now (login_claims u sc) None None None)"
    and rq: "set (requires_claims conf) \<subseteq> {''exp''}"
    and auth: "authenticate req = Inr (u, sc)"
    and login: "login_handler J conf T now d authenticate req st = (Inr r, st')"
    and tok: "rsp_body r = PDict [(''access_token'', PStr at), (''refresh_token'', PStr rt)]" "at \<noteq> []"
    and f: "\<And>c s. fst (f c s) \<noteq> Inl AuthValidationFailed"
  shows "protected J conf now' (Some scopes) True f \<lparr>req_token = Some at, req_json = b\<rparr> s =
     (if now' < get_delta now (exp_min conf) * 1000000 \<and>
         (scopes = [] \<or> scopes_validate scopes (split_on CHR '','' sc) True True)
      then f (build_payload conf now (login_claims u sc) None None None) s
      else (Inl WebAuthFailed, s))"
proof -
  have at: "at = auth_encode J conf now (login_claims u sc) None None None"
    using login tok(1) by (auto simp: login_handler_Inr [where authenticate = authenticate, OF auth]
        json_def jwt_response_dict_def)
  show ?thesis
  proof (cases "now' < get_delta now (exp_min conf) * 1000000")
    case True
    obtain x y where fx: "f (build_payload conf now (login_claims u sc) None None None) s = (x, y)"
      by fastforce
    with f have "x \<noteq> Inl AuthValidationFailed"
      by (metis fst_conv)
    with True tok(2) fx show ?thesis
      using validate_encoded [OF con rq True, of scopes]
      by (auto simp: protected_def at split: sum.splits py_error.splits)
  next
    case False
    then have "auth_validate J conf now' at (Some scopes) True None None = Inl AuthValidationFailed"
      using decode_encoded [OF con rq, of now' True None None]
      by (simp add: auth_validate_def at)
    with False tok(2) show ?thesis by (simp add: protected_def)
  qed
qed

definition expiring_jwt :: "claims \<Rightarrow> int \<Rightarrow> jwt_lib" where
  "expiring_jwt c e = \<lparr>jwt_encode = (\<lambda>_ _ _. ''signed''),
     jwt_decode = (\<lambda>_ _ opts _ _ _ now.
       if verify_exp opts \<and> e * 1000000 \<le> now then Inl InvalidTokenError else Inr c)\<rparr>"

theorem login_grants_access_witness:
  "protected (expiring_jwt (login_claims ''ana'' ''user:r:w'' @ [(''exp'', PInt 1800)]) 1800) demo_conf 5
     (Some [''user:r'']) True (\<lambda>c s. (Inr (json (PDict c) 200), s))
     \<lparr>req_token = Some ''signed'', req_json = PNone\<rparr> () =
   (Inr (json (PDict (login_claims ''ana'' ''user:r:w'' @ [(''exp'', PInt 1800)])) 200), ())"
proof -
  let ?J = "expiring_jwt (login_claims ''ana'' ''user:r:w'' @ [(''exp'', PInt 1800)]) 1800"
  let ?auth = "\<lambda>_ :: request. Inr (''ana'', ''user:r:w'') :: (string \<times> string) result"
  let ?T = "redis_token_store True ''rtkn''"
  let ?req = "\<lparr>req_token = None, req_json = PNone\<rparr>"
  have p: "build_payload demo_conf 0 (login_claims ''ana'' ''user:r:w'') None None None =
      login_claims ''ana'' ''user:r:w'' @ [(''exp'', PInt 1800)]"
    by (simp add: build_payload_def demo_conf_def login_claims_def get_delta_def dict_set_def Let_def)
  have con: "jwt_contract ?J demo_conf
      (build_payload demo_conf 0 (login_claims ''ana'' ''user:r:w'') None None None)"
    unfolding p by (simp add: jwt_contract_def expiring_jwt_def login_claims_def)
  have val: "scopes_validate [''user:r''] (split_on CHR '','' ''user:r:w'') True True"
    by code_simp
  have login: "login_handler ?J demo_conf ?T 0 ''aa'' ?auth ?req [] =
      (Inr (json (jwt_response_dict \<lparr>access_token = ''signed'', refresh_token = Some ''aa''\<rparr>) 200),
       ts_put ?T (rtkn_key ''ana'' ''aa'') ''ana'' (Some (ttl_refresh_token demo_conf)) [])"
    by (simp add: login_handler_Inr [where u = "''ana''" and sc = "''user:r:w''"] auth_encode_def
        expiring_jwt_def)
  from login_grants_access [OF con _ _ login, of "''signed''" "''aa''"
      "\<lambda>c s. (Inr (json (PDict c) 200), s)" 5 "[''user:r'']" PNone "()"]
  show ?thesis
    using val by (simp add: demo_conf_def json_def jwt_response_dict_def p [unfolded demo_conf_def]
        get_delta_def)
qed

end
