(* ===== verification/Users.thy ===== *)
theory Users
  imports Database Auth_Tokens
begin

text \<open>
  \<open>managers/users_mg.py\<close> and the password half of \<open>hashes.py\<close>: users in the database, their
  passwords, the \<open>authenticate\<close> function the login endpoint calls, and the decorator that looks
  up the user of a token. The scrypt derivation is the parameter \<open>derive\<close> (salt, then
  password); its \<open>verify\<close> accepts exactly the derived key, as the library documents.
\<close>

section \<open>Passwords\<close>

type_synonym kdf = "string \<Rightarrow> string \<Rightarrow> string"

definition script_encrypt :: "kdf \<Rightarrow> string \<Rightarrow> string \<Rightarrow> string" where
  "script_encrypt derive salt pass = derive salt pass"

text \<open>\<open>verify\<close> answers \<open>False\<close> on every exception, so also without a stored password.\<close>

definition script_verify :: "kdf \<Rightarrow> string \<Rightarrow> string \<Rightarrow> string option \<Rightarrow> bool" where
  "script_verify derive salt pass key =
     (case key of None \<Rightarrow> False | Some k \<Rightarrow> derive salt pass = k)"

section \<open>Users in the database\<close>

fun contains :: "string \<Rightarrow> string \<Rightarrow> bool" where
  "contains p [] = (p = [])"
| "contains p (c # cs) = (startswith p (c # cs) \<or> contains p cs)"

definition model2orm :: "db \<Rightarrow> user_row \<Rightarrow> user_orm" where
  "model2orm db u =
     \<lparr>uo_username = us_username u, uo_id = Some (us_id u), uo_email = us_email u,
      uo_password = us_password u, uo_scopes = us_scopes u, uo_is_superuser = us_is_superuser u,
      uo_is_active = False, uo_is_agent = us_is_agent u,
      uo_projects = [pr_name p. (pid, uid) \<leftarrow> db_members db, uid = us_id u,
                       p \<leftarrow> db_projects db, pr_projectid p = pid]\<rparr>"

definition orm_row :: "user_orm \<Rightarrow> nat \<Rightarrow> nat \<Rightarrow> user_row" where
  "orm_row u fresh now =
     \<lparr>us_id = (case uo_id u of Some i \<Rightarrow> i | None \<Rightarrow> fresh), us_username = uo_username u,
      us_email = uo_email u, us_password = uo_password u, us_scopes = uo_scopes u,
      us_is_superuser = uo_is_superuser u, us_is_active = uo_is_active u,
      us_is_agent = uo_is_agent u, us_updated_at = now\<rparr>"

definition um_create ::
  "kdf \<Rightarrow> user_orm \<Rightarrow> string option \<Rightarrow> string option \<Rightarrow> nat \<Rightarrow> db \<Rightarrow> user_row option \<times> db" where
  "um_create derive u password salt now db =
     (let u1 = (if uo_is_superuser u \<and> \<not> contains ''admin:read:write'' (uo_scopes u)
                then u\<lparr>uo_scopes := uo_scopes u @ '',admin:r:w''\<rparr> else u);
          u2 = (if opt_truthy password \<and> opt_truthy salt
                then u1\<lparr>uo_password := Some (script_encrypt derive (the salt) (the password))\<rparr> else u1);
          row = orm_row u2 (db_seq db) now
      in case insert_user row db of Inr db' \<Rightarrow> (Some row, db') | Inl _ \<Rightarrow> (None, db))"

text \<open>The join of the users with their projects: one row per membership.\<close>

definition join_with_project :: "string \<Rightarrow> db \<Rightarrow> user_row list" where
  "join_with_project username db =
     [u. (pid, uid) \<leftarrow> db_members db, u \<leftarrow> db_users db, us_id u = uid \<and> us_username u = username]"

definition first_row :: "'a list \<Rightarrow> 'a option" where
  "first_row xs = (case xs of [] \<Rightarrow> None | x # _ \<Rightarrow> Some x)"

definition get_user_async :: "string \<Rightarrow> string option \<Rightarrow> db \<Rightarrow> user_row option" where
  "get_user_async username projectid db =
     (if opt_truthy projectid then first_row (join_with_project username db)
      else first_row (filter (\<lambda>u. us_username u = username) (db_users db)))"

definition get_userid_async :: "nat \<Rightarrow> db \<Rightarrow> user_row option" where
  "get_userid_async i db = first_row (filter (\<lambda>u. us_id u = i) (db_users db))"

definition get_user :: "string \<Rightarrow> db \<Rightarrow> user_row option" where
  "get_user username db = first_row (filter (\<lambda>u. us_username u = username) (db_users db))"

text \<open>\<open>session.merge\<close> of a new object: the row with its primary key is overwritten, else it is
  inserted. A relationship given names instead of objects is refused.\<close>

definition um_create_or_update :: "user_orm \<Rightarrow> nat \<Rightarrow> db \<Rightarrow> db result" where
  "um_create_or_update u now db =
     (let row = orm_row u (db_seq db) now
      in if uo_projects u \<noteq> [] then Inl AttributeError
         else if us_id row \<in> userids db \<and> uo_id u \<noteq> None
         then update_users (\<lambda>v. us_id v = us_id row) (\<lambda>v. row\<lparr>us_id := us_id v\<rparr>) db
         else insert_user row db)"

definition um_disable_user :: "string \<Rightarrow> nat \<Rightarrow> db \<Rightarrow> (user_row option \<times> db) result" where
  "um_disable_user username now db =
     (case get_user username db of
        None \<Rightarrow> Inr (None, db)
      | Some u \<Rightarrow>
          (let f = (\<lambda>v. v\<lparr>us_is_active := False, us_updated_at := now\<rparr>)
           in rbind (update_users (\<lambda>v. us_id v = us_id u) f db) (\<lambda>db'. Inr (Some (f u), db'))))"

definition um_disable_user_async :: "string \<Rightarrow> nat \<Rightarrow> db \<Rightarrow> (user_row option \<times> db) result" where
  "um_disable_user_async username now db =
     (case get_user_async username None db of
        None \<Rightarrow> Inr (None, db)
      | Some u \<Rightarrow>
          (let f = (\<lambda>v. v\<lparr>us_is_active := False, us_updated_at := now\<rparr>)
           in rbind (update_users (\<lambda>v. us_id v = us_id u) f db) (\<lambda>db'. Inr (Some (f u), db'))))"

definition um_delete_user :: "string \<Rightarrow> db \<Rightarrow> db result" where
  "um_delete_user username db = delete_users (\<lambda>u. us_username u = username) db"

text \<open>\<open>change_pass_async\<close> compares the new password with \<open>==\<close> and stores the time only.\<close>

definition um_change_pass_async :: "kdf \<Rightarrow> string \<Rightarrow> string \<Rightarrow> string \<Rightarrow> nat \<Rightarrow> db \<Rightarrow> db result" where
  "um_change_pass_async derive username new_password salt now db =
     (case get_user_async username None db of
        None \<Rightarrow> Inr db
      | Some u \<Rightarrow>
          (let pass = script_encrypt derive salt new_password;
               same = (us_password u = Some pass)
           in update_users (\<lambda>v. us_id v = us_id u) (\<lambda>v. v\<lparr>us_updated_at := now\<rparr>) db))"

definition um_change_pass :: "kdf \<Rightarrow> string \<Rightarrow> string \<Rightarrow> string \<Rightarrow> nat \<Rightarrow> db \<Rightarrow> (bool \<times> db) result" where
  "um_change_pass derive user new_password salt now db =
     (case get_user user db of
        None \<Rightarrow> Inr (False, db)
      | Some u \<Rightarrow>
          (let pass = script_encrypt derive salt new_password
           in rbind (update_users (\<lambda>v. us_id v = us_id u)
                      (\<lambda>v. v\<lparr>us_password := Some pass, us_updated_at := now\<rparr>) db)
                (\<lambda>db'. Inr (True, db'))))"

definition verify_password :: "kdf \<Rightarrow> user_row \<Rightarrow> string \<Rightarrow> string \<Rightarrow> bool" where
  "verify_password derive user pass_unencrypted salt =
     (script_verify derive salt pass_unencrypted (us_password user) \<and> us_is_active user)"

section \<open>Authentication\<close>

text \<open>\<open>UserLogin(**request.json)\<close>: two text fields, others ignored.\<close>

definition parse_user_login :: "pyval \<Rightarrow> (string \<times> string) result" where
  "parse_user_login body =
     (case body of
        PDict d \<Rightarrow>
          (case (map_of d ''username'', map_of d ''password'') of
             (Some u, Some p) \<Rightarrow> rbind (pydantic_str u) (\<lambda>u. rbind (pydantic_str p) (\<lambda>p. Inr (u, p)))
           | _ \<Rightarrow> Inl ValidationError)
      | _ \<Rightarrow> Inl TypeError)"

definition authenticate :: "kdf \<Rightarrow> string \<Rightarrow> db \<Rightarrow> request \<Rightarrow> user_row result" where
  "authenticate derive salt db req =
     (case parse_user_login (req_json req) of
        Inl ValidationError \<Rightarrow> Inl AuthValidationFailed
      | Inl e \<Rightarrow> Inl e
      | Inr (username, password) \<Rightarrow>
          (case get_user_async username None db of
             None \<Rightarrow> Inl AuthValidationFailed
           | Some user \<Rightarrow>
               if verify_password derive user password salt then Inr user else Inl AuthValidationFailed))"

text \<open>The two attributes of the user the login endpoint reads.\<close>

definition login_auth :: "kdf \<Rightarrow> string \<Rightarrow> db \<Rightarrow> request \<Rightarrow> (string \<times> string) result" where
  "login_auth derive salt db req =
     rbind (authenticate derive salt db req) (\<lambda>u. Inr (us_username u, us_scopes u))"

definition get_jwt_token ::
  "jwt_lib \<Rightarrow> jwt_config \<Rightarrow> 's token_store \<Rightarrow> int \<Rightarrow> string \<Rightarrow> user_row \<Rightarrow> int \<Rightarrow> 's \<Rightarrow> jwt_response \<times> 's" where
  "get_jwt_token J conf T now drawn user exp st =
     (let access = auth_encode J conf now
            [(''usr'', PStr (us_username user)), (''scopes'', PList (map PStr (split_on CHR '','' (us_scopes user))))]
            (Some (get_delta now exp)) None None;
          (rftkn, st') = store_refresh_token T conf (us_username user) None drawn st
      in (\<lparr>access_token = access, refresh_token = Some rftkn\<rparr>, st'))"

definition inject_user :: "db \<Rightarrow> (user_orm \<Rightarrow> 'r result) \<Rightarrow> claims \<Rightarrow> 'r result" where
  "inject_user db f token =
     rbind (dict_get token ''usr'') (\<lambda>usr.
       case usr of
         PStr username \<Rightarrow>
           (case get_user_async username None db of
              None \<Rightarrow> Inl WebAuthFailed
            | Some user \<Rightarrow> f (model2orm db user))
       | _ \<Rightarrow> Inl WebAuthFailed)"

section \<open>Lemmas\<close>

lemma first_row_unique:
  "distinct (map f xs) \<Longrightarrow> u \<in> set xs \<Longrightarrow> first_row (filter (\<lambda>v. f v = f u) xs) = Some u"
  by (simp add: filter_key_single first_row_def)

lemma first_row_Some: "first_row (filter P xs) = Some u \<Longrightarrow> u \<in> set xs \<and> P u"
  by (auto simp: first_row_def filter_eq_Cons_iff split: list.splits)

lemma get_user_iff:
  "db_ok db \<Longrightarrow> get_user n db = Some u \<longleftrightarrow> u \<in> set (db_users db) \<and> us_username u = n"
  using first_row_unique [of us_username "db_users db" u] first_row_Some [of "\<lambda>u. us_username u = n" "db_users db" u]
  by (auto simp: get_user_def db_ok_def db_unique_def)

lemma get_user_async_eq: "get_user_async n None db = get_user n db"
  by (simp add: get_user_async_def get_user_def)

lemma get_user_None_iff: "get_user n db = None \<longleftrightarrow> n \<notin> us_username ` set (db_users db)"
  by (auto simp: get_user_def first_row_def filter_empty_conv split: list.splits dest: filter_eq_ConsD) 

lemma same_id_same_user:
  "db_ok db \<Longrightarrow> u \<in> set (db_users db) \<Longrightarrow> v \<in> set (db_users db) \<Longrightarrow> us_id u = us_id v \<Longrightarrow> u = v"
  by (auto simp: db_ok_def db_unique_def distinct_map inj_on_def)

text \<open>An update by id that keeps names: the new table, user by user.\<close>

lemma update_one_user:
  assumes "db_ok db" and "u \<in> set (db_users db)"
    and "\<And>v. us_id (f v) = us_id v" and "\<And>v. us_username (f v) = us_username v"
  shows "update_users (\<lambda>v. us_id v = us_id u) f db =
           Inr (db\<lparr>db_users := map_if (\<lambda>v. us_id v = us_id u) f (db_users db)\<rparr>)"
    and "get_user n (db\<lparr>db_users := map_if (\<lambda>v. us_id v = us_id u) f (db_users db)\<rparr>) =
           (if n = us_username u then Some (f u) else get_user n db)"
proof -
  let ?us = "map_if (\<lambda>v. us_id v = us_id u) f (db_users db)"
  have names: "map us_username ?us = map us_username (db_users db)"
    using assms(4) by (rule map_map_if)
  then show upd: "update_users (\<lambda>v. us_id v = us_id u) f db = Inr (db\<lparr>db_users := ?us\<rparr>)"
    using assms(1) by (simp add: update_users_def Let_def db_ok_def db_unique_def)
  have ok: "db_ok (db\<lparr>db_users := ?us\<rparr>)"
    using update_users_ok [OF assms(1) upd assms(3)] .
  show "get_user n (db\<lparr>db_users := ?us\<rparr>) = (if n = us_username u then Some (f u) else get_user n db)"
  proof (cases "n = us_username u")
    case True
    have "f u \<in> set ?us" using assms(2) by (force simp: map_if_def)
    then show ?thesis using True assms(4) get_user_iff [OF ok] by auto
  next
    case False
    show ?thesis
    proof (cases "get_user n db")
      case None
      then have "n \<notin> us_username ` set ?us"
        using names by (metis get_user_None_iff list.set_map)
      then show ?thesis using None False by (simp add: get_user_None_iff [THEN iffD2])
    next
      case (Some w)
      then have w: "w \<in> set (db_users db)" "us_username w = n"
        using get_user_iff [OF assms(1)] by auto
      then have "us_id w \<noteq> us_id u"
        using False same_id_same_user [OF assms(1) w(1) assms(2)] by auto
      then have "w \<in> set ?us" using w(1) by (force simp: map_if_def)
      then show ?thesis using w(2) False Some get_user_iff [OF ok] by auto
    qed
  qed
qed

lemma authenticate_char:
  assumes "parse_user_login (req_json req) = Inr (n, p)"
  shows "authenticate derive salt db req =
     (case get_user n db of
        None \<Rightarrow> Inl AuthValidationFailed
      | Some u \<Rightarrow> if us_is_active u \<and> us_password u = Some (derive salt p) then Inr u else Inl AuthValidationFailed)"
  using assms
  by (auto simp: authenticate_def get_user_async_eq verify_password_def script_verify_def
      split: option.splits)

lemma users_mg_ok [db_writes]:
  assumes "db_ok db"
  shows "um_create derive u password salt now db = (r, db') \<Longrightarrow> db_ok db'"
    and "um_create_or_update u now db = Inr db' \<Longrightarrow> db_ok db'"
    and "um_disable_user n now db = Inr (r, db') \<Longrightarrow> db_ok db'"
    and "um_disable_user_async n now db = Inr (r, db') \<Longrightarrow> db_ok db'"
    and "um_delete_user n db = Inr db' \<Longrightarrow> db_ok db'"
    and "um_change_pass derive n pw sl now db = Inr (b, db') \<Longrightarrow> db_ok db'"
    and "um_change_pass_async derive n pw sl now db = Inr db' \<Longrightarrow> db_ok db'"
  using assms
  by (auto simp: um_create_def um_create_or_update_def um_disable_user_def um_disable_user_async_def
      um_delete_user_def um_change_pass_def um_change_pass_async_def Let_def rbind_Inr_iff
      split: sum.splits option.splits if_splits dest: insert_user_ok update_users_ok delete_users_ok)


definition demo_user :: user_row where
  "demo_user = \<lparr>us_id = 7, us_username = ''ana'', us_email = None, us_password = Some ''salt:old'',
     us_scopes = ''user:r:w'', us_is_superuser = False, us_is_active = True, us_is_agent = False,
     us_updated_at = 0\<rparr>"

definition demo_db :: db where
  "demo_db = empty_db\<lparr>db_users := [demo_user]\<rparr>"

lemma demo_db_ok: "db_ok demo_db"
  by (simp add: db_ok_defs demo_db_def empty_db_def alias_keys_def)

definition demo_login :: "string \<Rightarrow> request" where
  "demo_login p = \<lparr>req_token = None, req_json = PDict [(''username'', PStr ''ana''), (''password'', PStr p)]\<rparr>"

lemma demo_login_parse: "parse_user_login (req_json (demo_login p)) = Inr (''ana'', p)"
  by (simp add: parse_user_login_def demo_login_def)


text \<open>After \<open>disable_user\<close> the login endpoint refuses the user with every password and stores no
  refresh token, until another operation makes the user active again.\<close>

lemma disabled_user_cannot_login:
  assumes "db_ok db" and "u \<in> set (db_users db)"
    and "um_disable_user (us_username u) now db = Inr (r, db')"
    and "parse_user_login (req_json req) = Inr (us_username u, p)"
  shows "login_handler J conf T t d (login_auth derive salt db') req st = (Inl WebAuthFailed, st)"
proof -
  have u: "get_user (us_username u) db = Some u"
    using assms(1,2) by (simp add: get_user_iff)
  let ?f = "\<lambda>v. v\<lparr>us_is_active := False, us_updated_at := now\<rparr>"
  note up = update_one_user [OF assms(1,2), of ?f, simplified]
  have "get_user (us_username u) db' = Some (?f u)"
    using assms(3) u up by (auto simp: um_disable_user_def Let_def)
  then have "authenticate derive salt db' req = Inl AuthValidationFailed"
    by (simp add: authenticate_char [OF assms(4)])
  then show ?thesis by (simp add: login_handler_def login_auth_def)
qed

end
