(* ===== verification/Projects.thy ===== *)
theory Projects
  imports Users
begin

text \<open>
  \<open>managers/projects_mg.py\<close> and \<open>web/projects_bp.py\<close>: projects, their members and their agents,
  and the endpoints over them. A handler maps the claims of the token and the database to a
  response (or the exception that leaves it) and the database after the request: the writes of
  a session that is closed without a commit are gone.
\<close>

section \<open>The manager\<close>

text \<open>\<open>respository=obj.repository\<close> names no field of \<open>ProjectData\<close>: the value is dropped.\<close>

definition member_names :: "db \<Rightarrow> string \<Rightarrow> string list" where
  "member_names db pid =
     [us_username u. (p, i) \<leftarrow> db_members db, p = pid, u \<leftarrow> db_users db, us_id u = i]"

definition model2projectdata :: "db \<Rightarrow> project_row \<Rightarrow> project_data result" where
  "model2projectdata db obj =
     (case pr_owner_id obj of
        None \<Rightarrow> Inl AttributeError
      | Some oid \<Rightarrow>
          (case get_userid_async oid db of
             None \<Rightarrow> Inl AttributeError
           | Some owner \<Rightarrow>
               Inr \<lparr>pd_name = pr_name obj, pd_projectid = pr_projectid obj,
                    pd_owner = Some (us_username owner), pd_agent = None,
                    pd_users = Some (member_names db (pr_projectid obj)),
                    pd_description = pr_description obj, pd_repository = None\<rparr>))"

definition project_row_of ::
  "os_env \<Rightarrow> (string \<Rightarrow> string) \<Rightarrow> nat \<Rightarrow> project_req \<Rightarrow> string \<Rightarrow> nat \<Rightarrow> nat \<Rightarrow> project_row" where
  "project_row_of os nfkd user_id pq projectid fresh now =
     \<lparr>pr_id = fresh, pr_projectid = projectid, pr_name = normalize_name os nfkd (pq_name pq),
      pr_private_key = pq_private_key pq, pr_description = pq_description pq,
      pr_repository = pq_repository pq, pr_owner_id = Some user_id, pr_updated_at = now\<rparr>"

definition generate_projectid :: "nanoid \<Rightarrow> nat \<Rightarrow> string" where
  "generate_projectid gen projectid_len = gen PROJECT_ID_ALPHABET projectid_len"

definition get_by_projectid_model :: "string \<Rightarrow> db \<Rightarrow> project_row option" where
  "get_by_projectid_model projectid db =
     first_row (filter (\<lambda>p. pr_projectid p = projectid) (db_projects db))"

text \<open>A new agent: \<open>gen'\<close> draws the prefix used without a project, \<open>gen\<close> the rest of the name.\<close>

definition agent_name :: "nanoid \<Rightarrow> nanoid \<Rightarrow> string option \<Rightarrow> string" where
  "agent_name gen gen' projectid =
     (let prefix = (if opt_truthy projectid then take 5 (the projectid) else random_id gen' 5)
      in AGENT_USER_PREFIX @ prefix @ CHR ''-'' # random_id gen AGENT_LEN)"

definition create_agent ::
  "nanoid \<Rightarrow> nanoid \<Rightarrow> string option \<Rightarrow> string \<Rightarrow> bool \<Rightarrow> nat \<Rightarrow> db \<Rightarrow> (user_row \<times> db) result" where
  "create_agent gen gen' projectid scopes is_admin now db =
     (let u = \<lparr>us_id = db_seq db, us_username = agent_name gen gen' projectid, us_email = None,
                us_password = None, us_scopes = (if is_admin then AGENT_ADMIN_SCOPES else scopes),
                us_is_superuser = False, us_is_active = True, us_is_agent = True, us_updated_at = now\<rparr>
      in if opt_truthy projectid
         then (case get_by_projectid_model (the projectid) db of
                 None \<Rightarrow> Inl AttributeError
               | Some prj \<Rightarrow>
                   rbind (insert_user u db) (\<lambda>db1.
                   rbind (update_projects (\<lambda>p. pr_id p = pr_id prj) (\<lambda>p. p\<lparr>pr_updated_at := now\<rparr>) db1) (\<lambda>db2.
                   rbind (insert_member (the projectid) (us_id u) db2) (\<lambda>db3. Inr (u, db3)))))
         else rbind (insert_user u db) (\<lambda>db1. Inr (u, db1)))"

definition pm_create ::
  "os_env \<Rightarrow> (string \<Rightarrow> string) \<Rightarrow> nanoid \<Rightarrow> nanoid \<Rightarrow> nanoid \<Rightarrow> nat \<Rightarrow> nat \<Rightarrow> nat \<Rightarrow> project_req \<Rightarrow> db \<Rightarrow>
   project_data option result \<times> db" where
  "pm_create os nfkd gp ga gx projectid_len now user_id pq db =
     (let projectid = or_str (pq_projectid pq) (generate_projectid gp projectid_len);
          done = rbind (insert_project (project_row_of os nfkd user_id pq projectid (db_seq db) now) db) (\<lambda>db1.
                 rbind (insert_member projectid user_id db1) (\<lambda>db2.
                 create_agent ga gx (Some projectid) AGENT_SCOPES False now db2))
      in case done of
           Inr (agent_user, db') \<Rightarrow>
             (Inr (Some \<lparr>pd_name = pq_name pq, pd_projectid = projectid, pd_owner = None,
                 pd_agent = Some (us_username agent_user), pd_users = None,
                 pd_description = pq_description pq, pd_repository = pq_repository pq\<rparr>), db')
         | Inl IntegrityError \<Rightarrow> (Inr None, db)
         | Inl e \<Rightarrow> (Inl e, db))"

definition assign_project :: "string \<Rightarrow> string \<Rightarrow> db \<Rightarrow> (bool \<times> db) result" where
  "assign_project username projectid db =
     (case get_user_async username None db of
        None \<Rightarrow> Inr (False, db)
      | Some um \<Rightarrow> rbind (insert_member projectid (us_id um) db) (\<lambda>db'. Inr (True, db')))"

text \<open>A merge without a primary key is an insert.\<close>

definition pm_create_or_update ::
  "os_env \<Rightarrow> (string \<Rightarrow> string) \<Rightarrow> nanoid \<Rightarrow> nat \<Rightarrow> nat \<Rightarrow> nat \<Rightarrow> project_req \<Rightarrow> db \<Rightarrow> (project_row \<times> db) result" where
  "pm_create_or_update os nfkd gen projectid_len now user_id pq db =
     (let pm = project_row_of os nfkd user_id pq (generate_projectid gen projectid_len) (db_seq db) now
      in rbind (insert_project pm db) (\<lambda>db'. Inr (pm, db')))"

definition owned_by :: "nat option \<Rightarrow> project_row \<Rightarrow> bool" where
  "owned_by user_id p = (case user_id of None \<Rightarrow> True | Some i \<Rightarrow> i = 0 \<or> pr_owner_id p = Some i)"

definition get_by_projectid :: "string \<Rightarrow> nat option \<Rightarrow> db \<Rightarrow> project_data option result" where
  "get_by_projectid projectid user_id db =
     (case first_row (filter (\<lambda>p. pr_projectid p = projectid \<and> owned_by user_id p) (db_projects db)) of
        None \<Rightarrow> Inr None
      | Some obj \<Rightarrow> rbind (model2projectdata db obj) (\<lambda>pd. Inr (Some pd)))"

definition list_all_projects :: "nat option \<Rightarrow> db \<Rightarrow> project_data list result" where
  "list_all_projects user_id db = rmap (model2projectdata db) (filter (owned_by user_id) (db_projects db))"

definition delete_by_projectid :: "string \<Rightarrow> db \<Rightarrow> db result" where
  "delete_by_projectid projectid db = delete_projects (\<lambda>p. pr_projectid p = projectid) db"

fun scalar_one_or_none :: "'a list \<Rightarrow> 'a option result" where
  "scalar_one_or_none [] = Inr None"
| "scalar_one_or_none [x] = Inr (Some x)"
| "scalar_one_or_none _ = Inl MultipleResultsFound"

definition get_agent :: "string \<Rightarrow> string option \<Rightarrow> db \<Rightarrow> user_row option result" where
  "get_agent agentname projectid db = scalar_one_or_none (join_with_project agentname db)"

definition agents_of :: "string \<Rightarrow> db \<Rightarrow> user_row list" where
  "agents_of projectid db =
     [u. (p, i) \<leftarrow> db_members db, p = projectid, u \<leftarrow> db_users db, us_id u = i \<and> us_is_agent u]"

definition get_agent_project :: "string \<Rightarrow> db \<Rightarrow> user_row option" where
  "get_agent_project projectid db = first_row (agents_of projectid db)"

definition get_agent_list :: "string option \<Rightarrow> db \<Rightarrow> string list" where
  "get_agent_list projectid db =
     (if opt_truthy projectid then map us_username (agents_of (the projectid) db)
      else map us_username (filter us_is_agent (db_users db)))"

definition delete_agent :: "string \<Rightarrow> string option \<Rightarrow> db \<Rightarrow> (bool \<times> db) result" where
  "delete_agent agentname projectid db =
     (case get_user_async agentname projectid db of
        None \<Rightarrow> Inr (False, db)
      | Some user \<Rightarrow> rbind (orm_delete_user user db) (\<lambda>db'. Inr (True, db')))"

definition get_private_key :: "string \<Rightarrow> db \<Rightarrow> string option" where
  "get_private_key project_id db = map_option pr_private_key (get_by_projectid_model project_id db)"

section \<open>The endpoints\<close>

definition opt_strs :: "string list option \<Rightarrow> pyval" where
  "opt_strs x = (case x of None \<Rightarrow> PNone | Some xs \<Rightarrow> PList (map PStr xs))"

definition opt_pstr :: "string option \<Rightarrow> pyval" where
  "opt_pstr x = (case x of None \<Rightarrow> PNone | Some s \<Rightarrow> PStr s)"

definition project_data_dict :: "project_data \<Rightarrow> pyval" where
  "project_data_dict pd =
     PDict [(''name'', PStr (pd_name pd)), (''projectid'', PStr (pd_projectid pd)),
            (''owner'', opt_pstr (pd_owner pd)), (''agent'', opt_pstr (pd_agent pd)),
            (''users'', opt_strs (pd_users pd)), (''description'', opt_pstr (pd_description pd)),
            (''repository'', opt_pstr (pd_repository pd))]"

definition project_create ::
  "os_env \<Rightarrow> (string \<Rightarrow> string) \<Rightarrow> nanoid \<Rightarrow> nanoid \<Rightarrow> nanoid \<Rightarrow> nat \<Rightarrow> nat \<Rightarrow>
   (pyval \<Rightarrow> project_req result) \<Rightarrow> pyval \<Rightarrow> claims \<Rightarrow> db \<Rightarrow> response result \<times> db" where
  "project_create os nfkd gp ga gx projectid_len now parse body token db =
     (case inject_user db (\<lambda>user. rbind (parse body) (\<lambda>pr. Inr (user, pr))) token of
        Inl e \<Rightarrow> (Inl e, db)
      | Inr (user, pr) \<Rightarrow>
          (case pm_create os nfkd gp ga gx projectid_len now (the (uo_id user)) pr db of
             (Inl e, db') \<Rightarrow> (Inl e, db')
           | (Inr (Some r), db') \<Rightarrow> (Inr (json (project_data_dict r) 201), db')
           | (Inr None, db') \<Rightarrow> (Inr (json (msg ''already exist'') 200), db')))"

text \<open>\<open>session()\<close> calls an \<open>AsyncSession\<close> object, which is not callable.\<close>

definition project_create_or_update ::
  "(pyval \<Rightarrow> project_req result) \<Rightarrow> pyval \<Rightarrow> claims \<Rightarrow> db \<Rightarrow> response result \<times> db" where
  "project_create_or_update parse body token db =
     (inject_user db (\<lambda>user. rbind (parse body) (\<lambda>pd. Inl TypeError)) token, db)"

definition project_list :: "claims \<Rightarrow> db \<Rightarrow> response result" where
  "project_list token db =
     inject_user db (\<lambda>user.
       rbind (list_all_projects (uo_id user) db) (\<lambda>result.
       Inr (json (PList (map project_data_dict result)) 200))) token"

definition project_get_one :: "string \<Rightarrow> claims \<Rightarrow> db \<Rightarrow> response result" where
  "project_get_one projectid token db =
     inject_user db (\<lambda>user.
       rbind (get_by_projectid projectid (uo_id user) db) (\<lambda>r.
       Inr (case r of Some pd \<Rightarrow> json (project_data_dict pd) 200
            | None \<Rightarrow> json (msg ''Not found'') 200))) token"

text \<open>The delete is executed in a session nobody commits.\<close>

definition project_delete :: "string \<Rightarrow> db \<Rightarrow> response result \<times> db" where
  "project_delete projectid db =
     (rbind (delete_by_projectid projectid db) (\<lambda>_. Inr (json (msg ''deleted'') 200)), db)"

definition project_create_user_agent ::
  "nanoid \<Rightarrow> nanoid \<Rightarrow> nat \<Rightarrow> string \<Rightarrow> db \<Rightarrow> response result \<times> db" where
  "project_create_user_agent ga gx now projectid db =
     (case create_agent ga gx (Some projectid) AGENT_SCOPES False now db of
        Inl e \<Rightarrow> (Inl e, db)
      | Inr (res, db') \<Rightarrow> (Inr (json (msg (us_username res)) 201), db'))"

definition project_delete_user_agent :: "string \<Rightarrow> string \<Rightarrow> db \<Rightarrow> response result \<times> db" where
  "project_delete_user_agent projectid agentname db =
     (case delete_agent agentname (Some projectid) db of
        Inl e \<Rightarrow> (Inl e, db)
      | Inr (_, db') \<Rightarrow> (Inr (json (msg ''deleted'') 200), db'))"

definition agent_jwt_response :: "string \<Rightarrow> jwt_response \<Rightarrow> pyval" where
  "agent_jwt_response name jwt = PDict [(''agent_name'', PStr name), (''creds'', jwt_response_dict jwt)]"

definition project_get_last_agent_token ::
  "jwt_lib \<Rightarrow> jwt_config \<Rightarrow> 's token_store \<Rightarrow> int \<Rightarrow> string \<Rightarrow> int \<Rightarrow> string \<Rightarrow> db \<Rightarrow> 's \<Rightarrow> response result \<times> 's" where
  "project_get_last_agent_token J conf T now drawn token_exp projectid db st =
     (case get_agent_project projectid db of
        None \<Rightarrow> (Inr (json (msg ''agent not found'') 404), st)
      | Some agt \<Rightarrow>
          (let (jwt, st') = get_jwt_token J conf T now drawn agt token_exp st
           in (Inr (json (agent_jwt_response (us_username agt) jwt) 200), st')))"

definition project_get_agent_token ::
  "jwt_lib \<Rightarrow> jwt_config \<Rightarrow> 's token_store \<Rightarrow> int \<Rightarrow> string \<Rightarrow> int \<Rightarrow> string \<Rightarrow> string \<Rightarrow> db \<Rightarrow> 's \<Rightarrow>
   response result \<times> 's" where
  "project_get_agent_token J conf T now drawn token_exp projectid agent db st =
     (case get_agent agent (Some projectid) db of
        Inl e \<Rightarrow> (Inl e, st)
      | Inr None \<Rightarrow> (Inl AttributeError, st)
      | Inr (Some agt) \<Rightarrow>
          (let (jwt, st') = get_jwt_token J conf T now drawn agt token_exp st
           in (Inr (json (agent_jwt_response (us_username agt) jwt) 200), st')))"

definition project_agents_list :: "string \<Rightarrow> db \<Rightarrow> response" where
  "project_agents_list projectid db = json (PList (map PStr (get_agent_list (Some projectid) db))) 200"

definition project_private_key :: "string \<Rightarrow> db \<Rightarrow> response" where
  "project_private_key projectid db =
     (case get_private_key projectid db of
        None \<Rightarrow> json (msg ''Not found'') 200
      | Some r \<Rightarrow> if r \<noteq> [] then json (PDict [(''private_key'', PStr r)]) 200
                  else json (msg ''Not found'') 200)"

section \<open>Lemmas\<close>

lemma create_agent_Inr:
  assumes "create_agent ga gx opid sc adm now db = Inr (a, db')" and "opt_truthy opid"
  shows "\<exists>prj db1 db2. get_by_projectid_model (the opid) db = Some prj \<and> insert_user a db = Inr db1 \<and>
      update_projects (\<lambda>p. pr_id p = pr_id prj) (\<lambda>p. p\<lparr>pr_updated_at := now\<rparr>) db1 = Inr db2 \<and>
      insert_member (the opid) (us_id a) db2 = Inr db' \<and>
      us_username a = agent_name ga gx opid \<and> us_id a = db_seq db \<and> us_is_agent a"
  using assms by (auto simp: create_agent_def Let_def rbind_Inr_iff split: option.splits)

lemma projects_mg_ok [db_writes]:
  assumes "db_ok db"
  shows "create_agent ga gx opid sc adm now db = Inr (a, db') \<Longrightarrow> db_ok db'"
    and "pm_create os nfkd gp ga gx len now i pq db = (r, db') \<Longrightarrow> db_ok db'"
    and "assign_project n pid db = Inr (b, db') \<Longrightarrow> db_ok db'"
    and "pm_create_or_update os nfkd gp len now i pq db = Inr (p, db') \<Longrightarrow> db_ok db'"
    and "delete_by_projectid pid db = Inr db' \<Longrightarrow> db_ok db'"
    and "delete_agent n pid' db = Inr (b, db') \<Longrightarrow> db_ok db'"
proof -
  have agent: "db_ok db'" if ag: "create_agent ga gx opid sc adm now db = Inr (a, db')" and okd: "db_ok db" for opid sc adm db db' a
  proof (cases "opt_truthy opid")
    case True
    obtain prj :: project_row and db1 db2 where
      w: "insert_user a db = Inr db1"
        "update_projects (\<lambda>p. pr_id p = pr_id prj) (\<lambda>p. p\<lparr>pr_updated_at := now\<rparr>) db1 = Inr db2"
        "insert_member (the opid) (us_id a) db2 = Inr db'"
      using create_agent_Inr [OF ag True] by blast
    have "db_ok db2"
      by (rule update_projects_ok [OF insert_user_ok [OF okd w(1)] w(2)]) simp_all
    then show ?thesis using w(3) by (rule insert_member_ok)
  next
    case False
    then show ?thesis
      using ag okd insert_user_ok by (auto simp: create_agent_def Let_def rbind_Inr_iff)
  qed
  show "create_agent ga gx opid sc adm now db = Inr (a, db') \<Longrightarrow> db_ok db'"
    using agent assms by blast
  show "db_ok db'" if c: "pm_create os nfkd gp ga gx len now i pq db = (r, db')"
  proof -
    let ?pid = "or_str (pq_projectid pq) (generate_projectid gp len)"
    let ?done = "rbind (insert_project (project_row_of os nfkd i pq ?pid (db_seq db) now) db) (\<lambda>db1.
                 rbind (insert_member ?pid i db1) (\<lambda>db2. create_agent ga gx (Some ?pid) AGENT_SCOPES False now db2))"
    show ?thesis
    proof (cases ?done)
      case (Inl e)
      with c have "db' = db" by (cases e) (simp_all add: pm_create_def Let_def)
      with assms show ?thesis by simp
    next
      case (Inr x)
      then obtain db1 db2 where w: "insert_project (project_row_of os nfkd i pq ?pid (db_seq db) now) db = Inr db1"
        "insert_member ?pid i db1 = Inr db2" "create_agent ga gx (Some ?pid) AGENT_SCOPES False now db2 = Inr x"
        by (auto simp: rbind_Inr_iff)
      have "db' = snd x" using c Inr by (cases x) (simp add: pm_create_def Let_def)
      moreover have "db_ok db2"
        using insert_member_ok [OF insert_project_ok [OF assms w(1)] w(2)] .
      ultimately show ?thesis using agent w(3) by (cases x) auto
    qed
  qed
  show "assign_project n pid db = Inr (b, db') \<Longrightarrow> db_ok db'"
    using assms by (auto simp: assign_project_def rbind_Inr_iff split: option.splits dest: insert_member_ok)
  show "pm_create_or_update os nfkd gp len now i pq db = Inr (p, db') \<Longrightarrow> db_ok db'"
    using assms by (auto simp: pm_create_or_update_def Let_def rbind_Inr_iff dest: insert_project_ok)
  show "delete_by_projectid pid db = Inr db' \<Longrightarrow> db_ok db'"
    using assms by (auto simp: delete_by_projectid_def dest: delete_projects_ok)
  show "delete_agent n pid' db = Inr (b, db') \<Longrightarrow> db_ok db'"
    using assms by (auto simp: delete_agent_def rbind_Inr_iff split: option.splits dest: orm_delete_user_ok)
qed

lemma concat_if_filter: "concat (map (\<lambda>x. if P x then [x] else []) xs) = filter P xs"
  by (induction xs) auto

lemma concat_if_replicate:
  "concat (map (\<lambda>(p, i). if i = k then [u] else []) ms) = replicate (length (filter (\<lambda>(p, i). i = k) ms)) u"
  by (induction ms) auto

lemma filter_unique_user:
  assumes "db_ok db" and "u \<in> set (db_users db)"
  shows "filter (\<lambda>v. us_id v = i \<and> us_username v = us_username u) (db_users db) = (if i = us_id u then [u] else [])"
proof -
  have d: "distinct (map us_username (db_users db))"
    using assms(1) by (simp add: db_ok_def db_unique_def)
  have "filter (\<lambda>v. us_id v = i \<and> us_username v = us_username u) xs = (if i = us_id u then [u] else [])"
    if "distinct (map us_username xs)" "u \<in> set xs" for xs
    using that by (induction xs) (auto simp: filter_empty_conv image_iff)
  with d assms(2) show ?thesis by blast
qed

text \<open>The join has one row per membership of the user, in whatever project.\<close>

lemma join_with_project_eq:
  assumes "db_ok db" and "u \<in> set (db_users db)"
  shows "join_with_project (us_username u) db =
     replicate (length (filter (\<lambda>(p, i). i = us_id u) (db_members db))) u"
proof -
  have "join_with_project (us_username u) db =
      concat (map (\<lambda>(p, i). filter (\<lambda>v. us_id v = i \<and> us_username v = us_username u) (db_users db)) (db_members db))"
    by (simp add: join_with_project_def concat_if_filter)
  also have "\<dots> = concat (map (\<lambda>(p, i). if i = us_id u then [u] else []) (db_members db))"
    by (simp add: filter_unique_user [OF assms])
  also have "\<dots> = replicate (length (filter (\<lambda>(p, i). i = us_id u) (db_members db))) u"
    by (rule concat_if_replicate)
  finally show ?thesis .
qed

section \<open>Agents and tokens\<close>

lemma get_agent_single:
  assumes "db_ok db" and "u \<in> set (db_users db)"
    and "filter (\<lambda>(p, i). i = us_id u) (db_members db) = [m]"
  shows "get_agent (us_username u) projectid db = Inr (Some u)"
    and "opt_truthy projectid \<Longrightarrow> get_user_async (us_username u) projectid db = Some u"
  using assms(3)
  by (simp_all add: get_agent_def get_user_async_def join_with_project_eq [OF assms(1,2)] first_row_def)

text \<open>The agent endpoints of a project take any name: for every user, agent or not, that is a
  member of just one project, whichever it is, the token endpoint of every project answers a
  pair of tokens with that user's own scopes, and the delete endpoint of every project removes
  the user (and nobody else).\<close>

lemma agent_endpoints_ignore_project:
  assumes "db_ok db" and "u \<in> set (db_users db)"
    and "filter (\<lambda>(p, i). i = us_id u) (db_members db) = [m]"
    and "projectid \<noteq> []"
  shows "\<exists>st' db'. project_get_agent_token J conf T now d exp projectid (us_username u) db st =
       (Inr (json (agent_jwt_response (us_username u)
          \<lparr>access_token = auth_encode J conf now (login_claims (us_username u) (us_scopes u))
              (Some (get_delta now exp)) None None,
           refresh_token = Some d\<rparr>) 200), st') \<and>
     project_delete_user_agent projectid (us_username u) db = (Inr (json (msg ''deleted'') 200), db') \<and>
     set (db_users db') = set (db_users db) - {u}"
proof -
  let ?ms = "filter (\<lambda>(p, i). i \<noteq> us_id u) (db_members db)"
  have keep: "us_id v \<noteq> us_id u \<longleftrightarrow> v \<noteq> u" if "v \<in> set (db_users db)" for v
    using same_id_same_user [OF assms(1) that assms(2)] by auto
  have "\<not> list_ex (\<lambda>(p, i). i \<in> us_id ` {v \<in> set (db_users db). us_id v = us_id u}) ?ms"
    by (auto simp: list_ex_iff)
  then obtain db' where d: "orm_delete_user u db = Inr db'"
    and us: "db_users db' = filter (\<lambda>v. us_id v \<noteq> us_id u) (db_users db)"
    by (auto simp: orm_delete_user_def delete_users_def Let_def)
  have "set (db_users db') = set (db_users db) - {u}"
    using us keep by auto
  then show ?thesis
    using get_agent_single [OF assms(1-3), of "Some projectid"] assms(4) d
    by (simp add: project_get_agent_token_def get_jwt_token_def store_refresh_token_def Let_def
        login_claims_def project_delete_user_agent_def delete_agent_def)
qed

definition demo_project :: project_row where
  "demo_project = \<lparr>pr_id = 3, pr_projectid = ''pid'', pr_name = ''lab'', pr_private_key = ''k'',
     pr_description = None, pr_repository = None, pr_owner_id = Some 7, pr_updated_at = 0\<rparr>"

definition demo_admin :: user_row where
  "demo_admin = demo_user\<lparr>us_scopes := ''user,admin:r:w'', us_is_superuser := True\<rparr>"

definition admin_db :: db where
  "admin_db = empty_db\<lparr>db_users := [demo_admin], db_projects := [demo_project],
     db_members := [(''pid'', 7)], db_seq := 10\<rparr>"

lemma admin_db_ok: "db_ok admin_db"
  by (simp add: db_ok_defs admin_db_def empty_db_def alias_keys_def demo_admin_def demo_user_def demo_project_def)

section \<open>Creating and deleting a project\<close>

lemma no_members_of_new: "db_ok db \<Longrightarrow> pid \<notin> projectids db \<Longrightarrow> (pid, i) \<notin> set (db_members db)"
  by (auto simp: db_ok_def db_refs_def list_all_iff)

lemma no_members_of_new_user: "db_ok db \<Longrightarrow> i \<notin> userids db \<Longrightarrow> (p, i) \<notin> set (db_members db)"
  by (auto simp: db_ok_def db_refs_def list_all_iff)

text \<open>The tables after a successful creation.\<close>

lemma pm_create_Some:
  assumes ok: "db_ok db" and owner: "owner \<in> set (db_users db)"
    and c: "pm_create os nfkd gp ga gx len now (us_id owner) pq db = (Inr (Some pd), db')"
    and pid: "pd_projectid pd \<noteq> []"
  shows "\<exists>a. us_is_agent a \<and> us_username a = the (pd_agent pd) \<and> us_id a \<notin> userids db \<and>
     pd_projectid pd \<notin> projectids db \<and> pd_name pd = pq_name pq \<and>
     db_users db' = db_users db @ [a] \<and>
     db_members db' = db_members db @ [(pd_projectid pd, us_id owner), (pd_projectid pd, us_id a)] \<and>
     db_projects db' = db_projects db @
       [project_row_of os nfkd (us_id owner) pq (pd_projectid pd) (db_seq db) now]"
proof -
  let ?pid = "or_str (pq_projectid pq) (generate_projectid gp len)"
  let ?row = "project_row_of os nfkd (us_id owner) pq ?pid (db_seq db) now"
  obtain a db1 db2 where w: "insert_project ?row db = Inr db1" "insert_member ?pid (us_id owner) db1 = Inr db2"
    "create_agent ga gx (Some ?pid) AGENT_SCOPES False now db2 = Inr (a, db')"
    and pd: "pd_projectid pd = ?pid" "pd_agent pd = Some (us_username a)" "pd_name pd = pq_name pq"
    using c by (auto simp: pm_create_def Let_def rbind_Inr_iff split: sum.splits py_error.splits)
  have t: "opt_truthy (Some ?pid)" using pid pd(1) by simp
  obtain prj db3 db4 where x: "get_by_projectid_model ?pid db2 = Some prj" "insert_user a db2 = Inr db3"
    "update_projects (\<lambda>p. pr_id p = pr_id prj) (\<lambda>p. p\<lparr>pr_updated_at := now\<rparr>) db3 = Inr db4"
    "insert_member ?pid (us_id a) db4 = Inr db'" "us_is_agent a"
    using create_agent_Inr [OF w(3) t] by auto
  have fresh: "?pid \<notin> projectids db" "pr_id ?row \<notin> pr_id ` set (db_projects db)"
    using w(1) by (auto simp: insert_project_def project_row_of_def split: if_splits)
  have "filter (\<lambda>p. pr_projectid p = ?pid) (db_projects db) = []"
    using fresh(1) by (force simp: filter_empty_conv projectids_def)
  moreover have "db_projects db2 = db_projects db @ [?row]"
    using w(1,2) by (auto simp: insert_project_def insert_member_def split: if_splits)
  ultimately have prj: "prj = ?row"
    using x(1) by (simp add: get_by_projectid_model_def first_row_def project_row_of_def)
  have same: "map_if (\<lambda>p. pr_id p = pr_id ?row) (\<lambda>p. p\<lparr>pr_updated_at := now\<rparr>) (db_projects db @ [?row]) =
      db_projects db @ [?row]"
    using fresh(2) by (auto simp: map_if_def project_row_of_def image_iff intro!: map_idI)
  have "us_id a \<notin> userids db"
    using x(2) w(1,2)
    by (auto simp: insert_user_def insert_member_def insert_project_def userids_def split: if_splits)
  moreover have "db_users db' = db_users db @ [a] \<and>
      db_members db' = db_members db @ [(?pid, us_id owner), (?pid, us_id a)] \<and> db_projects db' = db_projects db @ [?row]"
    using w(1,2) x(2,3,4) prj same
    by (auto simp: insert_user_def insert_member_def insert_project_def update_projects_def Let_def
        split: if_splits)
  ultimately show ?thesis using x(5) pd fresh(1) by auto
qed

lemma filter_id_single:
  "db_ok db \<Longrightarrow> v \<in> set (db_users db) \<Longrightarrow> filter (\<lambda>u. us_id u = us_id v) (db_users db) = [v]"
  by (rule filter_key_single) (simp_all add: db_ok_def db_unique_def)

lemma delete_project_with_member:
  assumes "(pid, i) \<in> set (db_members db)" and "pid \<in> projectids db"
  shows "delete_by_projectid pid db = Inl IntegrityError"
proof -
  have "list_ex (\<lambda>(p, i). p \<in> pr_projectid ` {p \<in> set (db_projects db). pr_projectid p = pid}) (db_members db)"
    using assms unfolding list_ex_iff projectids_def by (intro bexI [OF _ assms(1)]) auto
  then show ?thesis by (simp add: delete_by_projectid_def delete_projects_def)
qed

lemma member_names_eq:
  "member_names db pid = concat (map (\<lambda>(p, i). if p = pid
     then map us_username (filter (\<lambda>u. us_id u = i) (db_users db)) else []) (db_members db))"
proof -
  have "concat (map (\<lambda>u. if P u then [us_username u] else []) us) = map us_username (filter P us)" for P us
    by (induction us) auto
  then show ?thesis by (auto simp: member_names_def intro!: arg_cong [where f = concat] map_cong)
qed

text \<open>A project that was created is found by its owner under its id, with the secured form of the
  name it asked for (the answer shows the name as asked), its owner and its new agent as users,
  and without its repository, which a misspelt argument drops. The endpoint that should delete
  it fails on the membership rows, and the database stays as it is.\<close>

lemma project_create_spec:
  assumes ok: "db_ok db" and owner: "owner \<in> set (db_users db)" and "us_id owner \<noteq> 0"
    and c: "pm_create os nfkd gp ga gx len now (us_id owner) pq db = (Inr (Some pd), db')"
    and pid: "pd_projectid pd \<noteq> []"
  shows "db_ok db' \<and> pd_name pd = pq_name pq \<and>
     get_by_projectid (pd_projectid pd) (Some (us_id owner)) db' = Inr (Some
       \<lparr>pd_name = secure_filename os nfkd (pq_name pq), pd_projectid = pd_projectid pd,
        pd_owner = Some (us_username owner), pd_agent = None,
        pd_users = Some [us_username owner, the (pd_agent pd)],
        pd_description = pq_description pq, pd_repository = None\<rparr>) \<and>
     project_delete (pd_projectid pd) db' = (Inl IntegrityError, db')"
proof -
  let ?pid = "pd_projectid pd"
  let ?row = "project_row_of os nfkd (us_id owner) pq ?pid (db_seq db) now"
  obtain a where a: "us_username a = the (pd_agent pd)" and fresh: "?pid \<notin> projectids db"
    and name: "pd_name pd = pq_name pq"
    and t: "db_users db' = db_users db @ [a]" "db_projects db' = db_projects db @ [?row]"
      "db_members db' = db_members db @ [(?pid, us_id owner), (?pid, us_id a)]"
    using pm_create_Some [OF ok owner c pid] by auto
  have ok': "db_ok db'" using projects_mg_ok(2) [OF ok c] .
  have o': "filter (\<lambda>u. us_id u = us_id owner) (db_users db') = [owner]"
    and a': "filter (\<lambda>u. us_id u = us_id a) (db_users db') = [a]"
    using filter_id_single [OF ok', of owner] filter_id_single [OF ok', of a] owner t(1) by simp_all
  have "concat (map (\<lambda>(p, i). if p = ?pid then map us_username (filter (\<lambda>u. us_id u = i) (db_users db')) else [])
      (db_members db)) = []"
    using no_members_of_new [OF ok fresh] by auto
  then have mem: "member_names db' ?pid = [us_username owner, the (pd_agent pd)]"
    by (simp only: member_names_eq t(3) map_append concat_append) (simp add: o' a' a)
  have "filter (\<lambda>p. pr_projectid p = ?pid \<and> owned_by (Some (us_id owner)) p) (db_projects db) = []"
    using fresh by (force simp: filter_empty_conv projectids_def)
  then have "first_row (filter (\<lambda>p. pr_projectid p = ?pid \<and> owned_by (Some (us_id owner)) p) (db_projects db')) = Some ?row"
    by (simp add: t(2) first_row_def project_row_of_def owned_by_def)
  then have get: "get_by_projectid ?pid (Some (us_id owner)) db' = Inr (Some
       \<lparr>pd_name = secure_filename os nfkd (pq_name pq), pd_projectid = ?pid,
        pd_owner = Some (us_username owner), pd_agent = None,
        pd_users = Some [us_username owner, the (pd_agent pd)],
        pd_description = pq_description pq, pd_repository = None\<rparr>)"
    using mem o' by (simp add: get_by_projectid_def model2projectdata_def project_row_of_def
        get_userid_async_def first_row_def normalize_name_def)
  have "project_delete ?pid db' = (Inl IntegrityError, db')"
    using delete_project_with_member [of ?pid "us_id a" db'] t
    by (simp add: project_delete_def projectids_def project_row_of_def)
  then show ?thesis using ok' get name by blast
qed

definition demo_req :: project_req where
  "demo_req = \<lparr>pq_name = ''lab two'', pq_private_key = ''key'', pq_projectid = Some ''newid12345'',
     pq_description = None, pq_repository = Some ''git@host''\<rparr>"

end
