(* ===== verification/Labfile.thy ===== *)
theory Labfile
  imports Projects
begin

text \<open>
  The labfile a project keeps beside its notebooks: \<open>client/labstate.py\<close> and the \<open>Labfile\<close> model of
  \<open>types/core.py\<close>. A workflow of the state is its data with the names of the fields that were set on
  it (pydantic's \<open>__fields_set__\<close>), because the file leaves out what was not set. The YAML text is
  the value it stands for.
\<close>

section \<open>The state\<close>

record wf_entry =
  we_data :: workflow_data_web
  we_set :: "string list"
  we_task_set :: "string list"
  we_sched_set :: "string list"

record lab_state =
  ls_version :: string
  ls_project :: "project_data option"
  ls_workflows :: "wf_entry dict"
  ls_file :: "string option"

definition LABFILE_VER :: string where "LABFILE_VER = ''0.3''"
definition LABFILE_NAME :: string where "LABFILE_NAME = ''labfile.yaml''"

definition ls_projectid :: "lab_state \<Rightarrow> string option" where
  "ls_projectid s = map_option pd_projectid (ls_project s)"

definition set_projectid :: "string \<Rightarrow> lab_state \<Rightarrow> lab_state result" where
  "set_projectid pid s =
     (case ls_project s of
        None \<Rightarrow> Inl AttributeError
      | Some pd \<Rightarrow> Inr (s\<lparr>ls_project := Some (pd\<lparr>pd_projectid := pid\<rparr>)\<rparr>))"

definition ls_project_name :: "lab_state \<Rightarrow> string option" where
  "ls_project_name s = map_option pd_name (ls_project s)"

definition listworkflows2dict :: "wf_entry list \<Rightarrow> wf_entry dict" where
  "listworkflows2dict ws = fold (\<lambda>w. dict_set (wd_alias (we_data w)) w) ws []"

definition add_workflow :: "wf_entry \<Rightarrow> lab_state \<Rightarrow> lab_state" where
  "add_workflow w s = s\<lparr>ls_workflows := dict_set (wd_alias (we_data w)) w (ls_workflows s)\<rparr>"

definition delete_workflow :: "string \<Rightarrow> lab_state \<Rightarrow> lab_state result" where
  "delete_workflow alias s =
     rbind (dict_get (ls_workflows s) alias) (\<lambda>_. Inr (s\<lparr>ls_workflows := dict_del alias (ls_workflows s)\<rparr>))"

definition find_by_id :: "string option \<Rightarrow> lab_state \<Rightarrow> wf_entry option" where
  "find_by_id wfid s = find (\<lambda>w. wd_wfid (we_data w) = wfid) (map snd (ls_workflows s))"

definition update_project :: "project_data \<Rightarrow> lab_state \<Rightarrow> lab_state" where
  "update_project pd s = s\<lparr>ls_project := Some pd\<rparr>"

text \<open>\<open>Labfile\<close> requires a project.\<close>

definition snapshot :: "lab_state \<Rightarrow> lab_state result" where
  "snapshot s = (if ls_project s = None then Inl ValidationError else Inr s)"

section \<open>Writing\<close>

definition opt_int :: "int option \<Rightarrow> pyval" where
  "opt_int x = (case x of None \<Rightarrow> PNone | Some i \<Rightarrow> PInt i)"

definition not_none :: "pyval dict \<Rightarrow> pyval dict" where
  "not_none d = filter (\<lambda>(_, v). v \<noteq> PNone) d"

text \<open>\<open>dict(exclude_none=True, exclude_unset=True)\<close>.\<close>

definition keep :: "string list \<Rightarrow> pyval dict \<Rightarrow> pyval dict" where
  "keep names d = not_none (filter (\<lambda>(k, _). k \<in> set names) d)"

definition task_fields :: "nbtask \<Rightarrow> pyval dict" where
  "task_fields t =
     [(''nb_name'', PStr (nb_name t)), (''params'', PDict (nb_params t)),
      (''remote_input'', opt_pstr (nb_remote_input t)), (''remote_output'', opt_pstr (nb_remote_output t)),
      (''runtime'', opt_pstr (nb_runtime t)), (''version'', opt_pstr (nb_version t)),
      (''machine'', PStr (nb_machine t)), (''cluster'', PStr (nb_cluster t)),
      (''gpu_support'', PBool (nb_gpu_support t)), (''description'', opt_pstr (nb_description t)),
      (''timeout'', PInt (nb_timeout t)), (''notifications_ok'', opt_strs (nb_notifications_ok t)),
      (''notifications_fail'', opt_strs (nb_notifications_fail t))]"

definition sched_fields :: "schedule_data \<Rightarrow> pyval dict" where
  "sched_fields s =
     [(''start_in_min'', PInt (sd_start_in_min s)), (''repeat'', opt_int (sd_repeat s)),
      (''cron'', opt_pstr (sd_cron s)), (''interval'', opt_pstr (sd_interval s))]"

definition entry_fields :: "wf_entry \<Rightarrow> pyval dict" where
  "entry_fields w =
     [(''alias'', PStr (wd_alias (we_data w))),
      (''nbtask'', PDict (keep (we_task_set w) (task_fields (wd_nbtask (we_data w))))),
      (''enabled'', PBool (wd_enabled (we_data w))), (''wfid'', opt_pstr (wd_wfid (we_data w))),
      (''schedule'', case wd_schedule (we_data w) of
         None \<Rightarrow> PNone | Some s \<Rightarrow> PDict (keep (we_sched_set w) (sched_fields s)))]"

definition dump_entry :: "wf_entry \<Rightarrow> pyval" where
  "dump_entry w = PDict (keep (we_set w) (entry_fields w))"

definition project_fields :: "project_data \<Rightarrow> pyval dict" where
  "project_fields pd =
     [(''name'', PStr (pd_name pd)), (''projectid'', PStr (pd_projectid pd)), (''owner'', opt_pstr (pd_owner pd)),
      (''agent'', opt_pstr (pd_agent pd)), (''users'', opt_strs (pd_users pd)),
      (''description'', opt_pstr (pd_description pd)), (''repository'', opt_pstr (pd_repository pd))]"

text \<open>What \<open>write\<close> gives to the YAML library.\<close>

definition lab_dict :: "lab_state \<Rightarrow> pyval result" where
  "lab_dict s =
     rbind (snapshot s) (\<lambda>wf.
       case ls_project wf of
         None \<Rightarrow> Inl AttributeError
       | Some pd \<Rightarrow>
           Inr (PDict ([(''version'', PStr (ls_version wf)), (''project'', PDict (not_none (project_fields pd)))] @
             (if ls_workflows wf = [] then []
              else [(''workflows'', PDict (map (\<lambda>(k, w). (k, dump_entry w)) (ls_workflows wf)))]))))"

section \<open>Reading\<close>

text \<open>A field of a model: missing, it has its default; \<open>None\<close> is taken by an optional field; a value of
  another type is refused (pydantic would convert some of them, which a file written by this
  code never needs).\<close>

definition field :: "(pyval \<Rightarrow> 'a result) \<Rightarrow> 'a result \<Rightarrow> string \<Rightarrow> pyval dict \<Rightarrow> 'a result" where
  "field conv dflt k d = (case map_of d k of None \<Rightarrow> dflt | Some v \<Rightarrow> conv v)"

fun as_str :: "pyval \<Rightarrow> string result" where
  "as_str (PStr s) = Inr s"
| "as_str _ = Inl ValidationError"

fun as_bool :: "pyval \<Rightarrow> bool result" where
  "as_bool (PBool b) = Inr b"
| "as_bool _ = Inl ValidationError"

fun as_int :: "pyval \<Rightarrow> int result" where
  "as_int (PInt i) = Inr i"
| "as_int _ = Inl ValidationError"

fun as_dict :: "pyval \<Rightarrow> pyval dict result" where
  "as_dict (PDict d) = Inr d"
| "as_dict _ = Inl ValidationError"

fun as_strs :: "pyval \<Rightarrow> string list result" where
  "as_strs (PList xs) = rmap as_str xs"
| "as_strs _ = Inl ValidationError"

definition as_opt :: "(pyval \<Rightarrow> 'a result) \<Rightarrow> pyval \<Rightarrow> 'a option result" where
  "as_opt conv v = (if v = PNone then Inr None else rbind (conv v) (\<lambda>x. Inr (Some x)))"

definition parse_task :: "pyval dict \<Rightarrow> nbtask result" where
  "parse_task d =
     rbind (field as_str (Inl ValidationError) ''nb_name'' d) (\<lambda>nb_name.
     rbind (field as_dict (Inl ValidationError) ''params'' d) (\<lambda>params.
     rbind (field (as_opt as_str) (Inr None) ''remote_input'' d) (\<lambda>remote_input.
     rbind (field (as_opt as_str) (Inr None) ''remote_output'' d) (\<lambda>remote_output.
     rbind (field (as_opt as_str) (Inr None) ''runtime'' d) (\<lambda>runtime.
     rbind (field (as_opt as_str) (Inr None) ''version'' d) (\<lambda>version.
     rbind (field as_str (Inr MACHINE_TYPE) ''machine'' d) (\<lambda>machine.
     rbind (field as_str (Inr CLUSTER_NAME) ''cluster'' d) (\<lambda>cluster.
     rbind (field as_bool (Inr False) ''gpu_support'' d) (\<lambda>gpu_support.
     rbind (field (as_opt as_str) (Inr None) ''description'' d) (\<lambda>description.
     rbind (field as_int (Inr 10800) ''timeout'' d) (\<lambda>timeout.
     rbind (field (as_opt as_strs) (Inr None) ''notifications_ok'' d) (\<lambda>notifications_ok.
     rbind (field (as_opt as_strs) (Inr None) ''notifications_fail'' d) (\<lambda>notifications_fail.
       Inr \<lparr>nb_name = nb_name, nb_params = params, nb_remote_input = remote_input,
            nb_remote_output = remote_output, nb_runtime = runtime, nb_version = version, nb_machine = machine,
            nb_cluster = cluster, nb_gpu_support = gpu_support, nb_description = description,
            nb_timeout = timeout, nb_notifications_ok = notifications_ok,
            nb_notifications_fail = notifications_fail\<rparr>)))))))))))))"

definition parse_sched :: "pyval dict \<Rightarrow> schedule_data result" where
  "parse_sched d =
     rbind (field as_int (Inr 0) ''start_in_min'' d) (\<lambda>start.
     rbind (field (as_opt as_int) (Inr None) ''repeat'' d) (\<lambda>repeat.
     rbind (field (as_opt as_str) (Inr None) ''cron'' d) (\<lambda>cron.
     rbind (field (as_opt as_str) (Inr None) ''interval'' d) (\<lambda>interval.
       Inr \<lparr>sd_start_in_min = start, sd_repeat = repeat, sd_cron = cron, sd_interval = interval\<rparr>))))"

text \<open>The fields present in the file are the ones set on the model.\<close>

definition parse_entry :: "pyval \<Rightarrow> wf_entry result" where
  "parse_entry v =
     rbind (as_dict v) (\<lambda>d.
     rbind (field as_str (Inl ValidationError) ''alias'' d) (\<lambda>alias.
     rbind (field as_dict (Inl ValidationError) ''nbtask'' d) (\<lambda>td.
     rbind (parse_task td) (\<lambda>task.
     rbind (field as_bool (Inr True) ''enabled'' d) (\<lambda>enabled.
     rbind (field (as_opt as_str) (Inr None) ''wfid'' d) (\<lambda>wfid.
     rbind (field (as_opt as_dict) (Inr None) ''schedule'' d) (\<lambda>sd.
     rbind (case sd of None \<Rightarrow> Inr None | Some s \<Rightarrow> rbind (parse_sched s) (\<lambda>x. Inr (Some x))) (\<lambda>schedule.
       Inr \<lparr>we_data = \<lparr>wd_alias = alias, wd_nbtask = task, wd_enabled = enabled, wd_wfid = wfid,
                       wd_schedule = schedule\<rparr>,
            we_set = dict_keys d, we_task_set = dict_keys td,
            we_sched_set = (case sd of None \<Rightarrow> [] | Some s \<Rightarrow> dict_keys s)\<rparr>))))))))"

definition parse_project :: "pyval dict \<Rightarrow> project_data result" where
  "parse_project d =
     rbind (field as_str (Inl ValidationError) ''name'' d) (\<lambda>name.
     rbind (field as_str (Inl ValidationError) ''projectid'' d) (\<lambda>projectid.
     rbind (field (as_opt as_str) (Inr None) ''owner'' d) (\<lambda>owner.
     rbind (field (as_opt as_str) (Inr None) ''agent'' d) (\<lambda>agent.
     rbind (field (as_opt as_strs) (Inr None) ''users'' d) (\<lambda>users.
     rbind (field (as_opt as_str) (Inr None) ''description'' d) (\<lambda>description.
     rbind (field (as_opt as_str) (Inr None) ''repository'' d) (\<lambda>repository.
       Inr \<lparr>pd_name = name, pd_projectid = projectid, pd_owner = owner, pd_agent = agent, pd_users = users,
            pd_description = description, pd_repository = repository\<rparr>)))))))"

text \<open>\<open>Labfile(**data_dict, workflows_file=...)\<close>: an extra key of that name would be given twice.\<close>

definition lab_read :: "pyval \<Rightarrow> lab_state result" where
  "lab_read v =
     (case v of
        PDict d \<Rightarrow>
          if ''workflows_file'' \<in> set (dict_keys d) then Inl TypeError
          else
            rbind (field as_dict (Inl ValidationError) ''project'' d) (\<lambda>pd.
            rbind (parse_project pd) (\<lambda>project.
            rbind (field as_str (Inr ''0.2'') ''version'' d) (\<lambda>version.
            rbind (field (as_opt as_dict) (Inr (Some [])) ''workflows'' d) (\<lambda>ws.
            rbind (rmap (\<lambda>(k, w). rbind (parse_entry w) (\<lambda>e. Inr (k, e))) (case ws of None \<Rightarrow> [] | Some x \<Rightarrow> x)) (\<lambda>workflows.
              Inr \<lparr>ls_version = version, ls_project = Some project, ls_workflows = workflows, ls_file = None\<rparr>)))))
      | _ \<Rightarrow> Inl TypeError)"

definition from_file :: "(string \<Rightarrow> pyval result) \<Rightarrow> string \<Rightarrow> lab_state result" where
  "from_file open_yaml fpath =
     rbind (open_yaml fpath) (\<lambda>v. rbind (lab_read v) (\<lambda>s. Inr (s\<lparr>ls_file := Some fpath\<rparr>)))"

section \<open>Round trip\<close>

text \<open>A field that was not set has its default; the fields without one are set.\<close>

definition unset_default :: "string list \<Rightarrow> string list \<Rightarrow> pyval dict \<Rightarrow> pyval dict \<Rightarrow> bool" where
  "unset_default required names d defaults \<longleftrightarrow>
     list_all (\<lambda>k. k \<in> set names) required \<and>
     list_all (\<lambda>(k, v). k \<in> set names \<or> map_of defaults k = Some v) d"

definition default_sched :: schedule_data where
  "default_sched = \<lparr>sd_start_in_min = 0, sd_repeat = None, sd_cron = None, sd_interval = None\<rparr>"

definition default_entry_fields :: "pyval dict" where
  "default_entry_fields = [(''alias'', PStr []), (''nbtask'', PDict []), (''enabled'', PBool True), (''wfid'', PNone),
     (''schedule'', PNone)]"

definition entry_ok :: "wf_entry \<Rightarrow> bool" where
  "entry_ok w \<longleftrightarrow>
     unset_default [''nb_name'', ''params''] (we_task_set w) (task_fields (wd_nbtask (we_data w)))
       (task_fields (NBTask [] [])) \<and>
     (case wd_schedule (we_data w) of None \<Rightarrow> True
      | Some s \<Rightarrow> unset_default [] (we_sched_set w) (sched_fields s) (sched_fields default_sched)) \<and>
     unset_default [''alias'', ''nbtask''] (we_set w) (entry_fields w) default_entry_fields"

lemma map_of_filter:
  "distinct (map fst xs) \<Longrightarrow> map_of (filter P xs) k = (case map_of xs k of None \<Rightarrow> None | Some v \<Rightarrow> if P (k, v) then Some v else None)"
proof (induction xs)
  case (Cons x xs)
  obtain a b where x: "x = (a, b)" by (cases x)
  show ?case
  proof (cases "a = k")
    case True
    then have "map_of xs k = None" using Cons.prems by (simp add: x map_of_eq_None_iff)
    then show ?thesis using Cons True by (simp add: x)
  qed (use Cons in \<open>simp add: x\<close>)
qed simp

lemma map_of_not_none:
  "distinct (map fst d) \<Longrightarrow> map_of (not_none d) k = (if map_of d k = Some PNone then None else map_of d k)"
  by (auto simp: not_none_def map_of_filter split: option.splits)

lemma map_of_keep:
  "distinct (map fst d) \<Longrightarrow> map_of (keep S d) k = (if k \<in> set S \<and> map_of d k \<noteq> Some PNone then map_of d k else None)"
  by (simp add: keep_def map_of_not_none distinct_map_filter map_of_filter del: map_of_eq_Some_iff split: option.split)

lemma unset_map_of:
  "unset_default req S d ds \<Longrightarrow> map_of d k = Some v \<Longrightarrow> k \<notin> set S \<Longrightarrow> k \<notin> set req \<and> map_of ds k = Some v"
  by (auto simp: unset_default_def list_all_iff dest!: map_of_SomeD)

lemma field_keep:
  assumes "distinct (map fst d)" and "unset_default req S d ds"
    and "map_of d k = Some v" and "map_of ds k = Some v0"
    and "v \<noteq> PNone \<Longrightarrow> conv v = Inr x" and "v = PNone \<Longrightarrow> dflt = Inr x"
    and "k \<notin> set req \<Longrightarrow> v = v0 \<Longrightarrow> dflt = Inr x"
  shows "field conv dflt k (keep S d) = Inr x"
proof (cases "k \<in> set S")
  case False
  then show ?thesis using unset_map_of [OF assms(2,3)] assms by (simp add: field_def map_of_keep)
qed (use assms in \<open>simp add: field_def map_of_keep\<close>)

lemma field_not_none:
  assumes "distinct (map fst d)" and "map_of d k = Some v"
    and "v \<noteq> PNone \<Longrightarrow> conv v = Inr x" and "v = PNone \<Longrightarrow> dflt = Inr x"
  shows "field conv dflt k (not_none d) = Inr x"
  using assms by (auto simp: field_def map_of_not_none)

lemma rmap_as_str [simp]: "rmap as_str (map PStr xs) = Inr xs"
  by (induction xs) auto

lemma as_opt_str [simp]: "as_opt as_str (opt_pstr x) = Inr x"
  by (auto simp: as_opt_def opt_pstr_def split: option.splits)

lemma as_opt_strs [simp]: "as_opt as_strs (opt_strs x) = Inr x"
  by (auto simp: as_opt_def opt_strs_def split: option.splits)

lemma as_opt_int [simp]: "as_opt as_int (opt_int x) = Inr x"
  by (auto simp: as_opt_def opt_int_def split: option.splits)

lemma opt_None [simp]: "opt_pstr None = PNone" "opt_strs None = PNone" "opt_int None = PNone"
  by (simp_all add: opt_pstr_def opt_strs_def opt_int_def)

lemma opt_PNone [simp]: "opt_pstr x = PNone \<longleftrightarrow> x = None" "opt_strs y = PNone \<longleftrightarrow> y = None" "opt_int z = PNone \<longleftrightarrow> z = None"
  by (simp_all add: opt_pstr_def opt_strs_def opt_int_def split: option.splits)

lemma parse_task_keep:
  assumes "unset_default [''nb_name'', ''params''] S (task_fields t) (task_fields (NBTask [] []))"
  shows "parse_task (keep S (task_fields t)) = Inr t"
proof -
  have d: "distinct (map fst (task_fields t))" by (simp add: task_fields_def)
  note f = field_keep [OF d assms]
  have "field as_str (Inl ValidationError) ''nb_name'' (keep S (task_fields t)) = Inr (nb_name t)"
    "field as_dict (Inl ValidationError) ''params'' (keep S (task_fields t)) = Inr (nb_params t)"
    "field (as_opt as_str) (Inr None) ''remote_input'' (keep S (task_fields t)) = Inr (nb_remote_input t)"
    "field (as_opt as_str) (Inr None) ''remote_output'' (keep S (task_fields t)) = Inr (nb_remote_output t)"
    "field (as_opt as_str) (Inr None) ''runtime'' (keep S (task_fields t)) = Inr (nb_runtime t)"
    "field (as_opt as_str) (Inr None) ''version'' (keep S (task_fields t)) = Inr (nb_version t)"
    "field as_str (Inr MACHINE_TYPE) ''machine'' (keep S (task_fields t)) = Inr (nb_machine t)"
    "field as_str (Inr CLUSTER_NAME) ''cluster'' (keep S (task_fields t)) = Inr (nb_cluster t)"
    "field as_bool (Inr False) ''gpu_support'' (keep S (task_fields t)) = Inr (nb_gpu_support t)"
    "field (as_opt as_str) (Inr None) ''description'' (keep S (task_fields t)) = Inr (nb_description t)"
    "field as_int (Inr 10800) ''timeout'' (keep S (task_fields t)) = Inr (nb_timeout t)"
    "field (as_opt as_strs) (Inr None) ''notifications_ok'' (keep S (task_fields t)) = Inr (nb_notifications_ok t)"
    "field (as_opt as_strs) (Inr None) ''notifications_fail'' (keep S (task_fields t)) = Inr (nb_notifications_fail t)"
    by - (rule f, simp add: task_fields_def, simp add: task_fields_def NBTask_def, simp, simp, simp)+
  then show ?thesis by (simp add: parse_task_def)
qed

lemma parse_sched_keep:
  assumes "unset_default [] S (sched_fields x) (sched_fields default_sched)"
  shows "parse_sched (keep S (sched_fields x)) = Inr x"
proof -
  have d: "distinct (map fst (sched_fields x))" by (simp add: sched_fields_def)
  note f = field_keep [OF d assms]
  have "field as_int (Inr 0) ''start_in_min'' (keep S (sched_fields x)) = Inr (sd_start_in_min x)"
    "field (as_opt as_int) (Inr None) ''repeat'' (keep S (sched_fields x)) = Inr (sd_repeat x)"
    "field (as_opt as_str) (Inr None) ''cron'' (keep S (sched_fields x)) = Inr (sd_cron x)"
    "field (as_opt as_str) (Inr None) ''interval'' (keep S (sched_fields x)) = Inr (sd_interval x)"
    by - (rule f, simp add: sched_fields_def, simp add: sched_fields_def default_sched_def, simp, simp, simp)+
  then show ?thesis by (simp add: parse_sched_def)
qed

lemma parse_project_not_none: "parse_project (not_none (project_fields pd)) = Inr pd"
proof -
  have d: "distinct (map fst (project_fields pd))" by (simp add: project_fields_def)
  note f = field_not_none [OF d]
  have "field as_str (Inl ValidationError) ''name'' (not_none (project_fields pd)) = Inr (pd_name pd)"
    "field as_str (Inl ValidationError) ''projectid'' (not_none (project_fields pd)) = Inr (pd_projectid pd)"
    "field (as_opt as_str) (Inr None) ''owner'' (not_none (project_fields pd)) = Inr (pd_owner pd)"
    "field (as_opt as_str) (Inr None) ''agent'' (not_none (project_fields pd)) = Inr (pd_agent pd)"
    "field (as_opt as_strs) (Inr None) ''users'' (not_none (project_fields pd)) = Inr (pd_users pd)"
    "field (as_opt as_str) (Inr None) ''description'' (not_none (project_fields pd)) = Inr (pd_description pd)"
    "field (as_opt as_str) (Inr None) ''repository'' (not_none (project_fields pd)) = Inr (pd_repository pd)"
    by - (rule f, simp add: project_fields_def, simp, simp)+
  then show ?thesis by (simp add: parse_project_def)
qed

lemma keep_keys: "distinct (map fst d) \<Longrightarrow> keep (dict_keys (keep S d)) d = keep S d"
  by (force simp: keep_def not_none_def dict_keys_def intro!: filter_cong dest: eq_key_imp_eq_value)

text \<open>The entry that is read back: the same data, with the written fields as the set ones.\<close>

definition reread :: "wf_entry \<Rightarrow> wf_entry" where
  "reread w =
     w\<lparr>we_set := dict_keys (keep (we_set w) (entry_fields w)),
       we_task_set := dict_keys (keep (we_task_set w) (task_fields (wd_nbtask (we_data w)))),
       we_sched_set := (case wd_schedule (we_data w) of None \<Rightarrow> []
         | Some s \<Rightarrow> dict_keys (keep (we_sched_set w) (sched_fields s)))\<rparr>"

lemma parse_dump_entry:
  assumes "entry_ok w"
  shows "parse_entry (dump_entry w) = Inr (reread w)"
proof -
  let ?d = "entry_fields w"
  have d: "distinct (map fst ?d)" by (simp add: entry_fields_def)
  have u: "unset_default [''alias'', ''nbtask''] (we_set w) ?d default_entry_fields"
    and t: "unset_default [''nb_name'', ''params''] (we_task_set w) (task_fields (wd_nbtask (we_data w))) (task_fields (NBTask [] []))"
    and s: "\<And>x. wd_schedule (we_data w) = Some x \<Longrightarrow>
      unset_default [] (we_sched_set w) (sched_fields x) (sched_fields default_sched)"
    using assms by (auto simp: entry_ok_def)
  note f = field_keep [OF d u]
  have "field as_str (Inl ValidationError) ''alias'' (keep (we_set w) ?d) = Inr (wd_alias (we_data w))"
    "field as_dict (Inl ValidationError) ''nbtask'' (keep (we_set w) ?d) =
       Inr (keep (we_task_set w) (task_fields (wd_nbtask (we_data w))))"
    "field as_bool (Inr True) ''enabled'' (keep (we_set w) ?d) = Inr (wd_enabled (we_data w))"
    "field (as_opt as_str) (Inr None) ''wfid'' (keep (we_set w) ?d) = Inr (wd_wfid (we_data w))"
    by - (rule f, simp add: entry_fields_def, simp add: default_entry_fields_def, simp, simp, simp)+
  moreover have "field (as_opt as_dict) (Inr None) ''schedule'' (keep (we_set w) ?d) =
      Inr (map_option (\<lambda>s. keep (we_sched_set w) (sched_fields s)) (wd_schedule (we_data w)))"
  proof (cases "wd_schedule (we_data w)")
    case None
    show ?thesis
      by (rule f, simp add: entry_fields_def None, simp add: default_entry_fields_def) (simp_all add: None)
  next
    case (Some x)
    show ?thesis
      by (rule f, simp add: entry_fields_def Some, simp add: default_entry_fields_def) (simp_all add: Some as_opt_def)
  qed
  moreover have "wd_schedule (we_data w) = Some x \<Longrightarrow> parse_sched (keep (we_sched_set w) (sched_fields x)) = Inr x" for x
    using s parse_sched_keep by blast
  ultimately show ?thesis
    by (cases "wd_schedule (we_data w)")
      (simp_all add: parse_entry_def dump_entry_def reread_def parse_task_keep [OF t])
qed

lemma dump_reread: "dump_entry (reread w) = dump_entry w"
proof -
  have k: "distinct (map fst (task_fields t))" "distinct (map fst (sched_fields s))" "distinct (map fst (entry_fields w))" for t s
    by (simp_all add: task_fields_def sched_fields_def entry_fields_def)
  have "entry_fields (reread w) = entry_fields w"
    by (auto simp: entry_fields_def reread_def keep_keys [OF k(1)] keep_keys [OF k(2)] split: option.splits)
  then show ?thesis by (simp add: dump_entry_def reread_def keep_keys [OF k(3)])
qed

lemma rmap_reread:
  "list_all (\<lambda>(_, w). entry_ok w) ws \<Longrightarrow>
     rmap (\<lambda>(k, w). rbind (parse_entry w) (\<lambda>e. Inr (k, e))) (map (\<lambda>(k, w). (k, dump_entry w)) ws) =
       Inr (map (\<lambda>(k, w). (k, reread w)) ws)"
  by (induction ws) (auto simp: parse_dump_entry)

lemma lab_read_dump:
  assumes "lab_dict s = Inr v" and "list_all (\<lambda>(_, w). entry_ok w) (ls_workflows s)"
  defines "s' \<equiv> s\<lparr>ls_workflows := map (\<lambda>(k, w). (k, reread w)) (ls_workflows s), ls_file := None\<rparr>"
  shows "lab_read v = Inr s' \<and> lab_dict s' = Inr v"
proof -
  obtain pd where pd: "ls_project s = Some pd" using assms(1) by (auto simp: lab_dict_def snapshot_def split: if_splits)
  have v: "v = PDict ([(''version'', PStr (ls_version s)), (''project'', PDict (not_none (project_fields pd)))] @
      (if ls_workflows s = [] then [] else [(''workflows'', PDict (map (\<lambda>(k, w). (k, dump_entry w)) (ls_workflows s)))]))"
    using assms(1) by (simp add: lab_dict_def snapshot_def pd)
  have "lab_read v = Inr s'"
    using rmap_reread [OF assms(2)]
    using pd by (cases s) (simp add: v lab_read_def dict_keys_def field_def as_opt_def parse_project_not_none s'_def)
  moreover have "lab_dict s' = Inr v"
    by (simp add: v lab_dict_def snapshot_def comp_def case_prod_unfold dump_reread s'_def pd)
  ultimately show ?thesis by simp
qed

text \<open>C14. A labfile that is written and read back gives the same version, project and workflows, in
  the same order, although the file leaves out what is \<open>None\<close> or was never set, provided that
  an unset field has its default; and writing what was read gives the same file.\<close>

theorem labfile_roundtrip:
  assumes "lab_dict s = Inr v" and "list_all (\<lambda>(_, w). entry_ok w) (ls_workflows s)"
  shows "\<exists>s'. lab_read v = Inr s' \<and> ls_version s' = ls_version s \<and> ls_project s' = ls_project s \<and>
     map (\<lambda>(k, w). (k, we_data w)) (ls_workflows s') = map (\<lambda>(k, w). (k, we_data w)) (ls_workflows s) \<and>
     lab_dict s' = Inr v"
  using lab_read_dump [OF assms] by (auto simp: reread_def comp_def case_prod_unfold)

definition demo_entry :: wf_entry where
  "demo_entry = \<lparr>we_data = \<lparr>wd_alias = ''daily'', wd_nbtask = NBTask ''welcome'' [(''X'', PNone)], wd_enabled = True,
       wd_wfid = None, wd_schedule = Some default_sched\<rparr>,
     we_set = [''alias'', ''nbtask'', ''schedule''], we_task_set = [''nb_name'', ''params''], we_sched_set = []\<rparr>"

definition demo_lab :: lab_state where
  "demo_lab = \<lparr>ls_version = LABFILE_VER,
     ls_project = Some \<lparr>pd_name = ''p'', pd_projectid = ''pid'', pd_owner = None, pd_agent = None, pd_users = None,
       pd_description = None, pd_repository = None\<rparr>,
     ls_workflows = [(''daily'', demo_entry)], ls_file = None\<rparr>"

lemma demo_entry_ok: "entry_ok demo_entry"
  by (simp add: entry_ok_def demo_entry_def unset_default_def task_fields_def sched_fields_def NBTask_def
      entry_fields_def default_entry_fields_def)

theorem labfile_roundtrip_witness:
  "\<exists>v s'. lab_dict demo_lab = Inr v \<and> lab_read v = Inr s' \<and> lab_dict s' = Inr v"
proof -
  obtain v where v: "lab_dict demo_lab = Inr v" by (simp add: lab_dict_def snapshot_def demo_lab_def)
  have "list_all (\<lambda>(_, w). entry_ok w) (ls_workflows demo_lab)" using demo_entry_ok by (simp add: demo_lab_def)
  from labfile_roundtrip [OF v this] v show ?thesis by blast
qed

end
