(* ===== verification/Workflows.thy ===== *)
theory Workflows
  imports Projects
begin

text \<open>
  \<open>managers/workflows_mg.py\<close>, \<open>managers/runtimes_mg.py\<close> and \<open>managers/history_mg.py\<close>: the
  workflows of a project, the runtimes built for it and the history of its executions, over the
  tables of \<open>Database\<close>. \<open>ORDER BY created_at DESC\<close> is the sort by the reversed order
  \<open>newest\<close>, ties in table order.
\<close>

section \<open>Newest first\<close>

datatype newest = Newest (stamp: nat)

instantiation newest :: linorder
begin

definition less_eq_newest :: "newest \<Rightarrow> newest \<Rightarrow> bool" where
  "less_eq_newest a b \<longleftrightarrow> stamp b \<le> stamp a"

definition less_newest :: "newest \<Rightarrow> newest \<Rightarrow> bool" where
  "less_newest a b \<longleftrightarrow> stamp b < stamp a"

instance
  by standard (auto simp: less_eq_newest_def less_newest_def newest.expand)

end

definition order_desc :: "('a \<Rightarrow> nat) \<Rightarrow> 'a list \<Rightarrow> 'a list" where
  "order_desc created rows = sort_key (\<lambda>r. Newest (created r)) rows"

section \<open>Workflows\<close>

text \<open>\<open>ScheduleData(**wm.schedule)\<close> of a JSON \<open>null\<close> is a \<open>TypeError\<close>.\<close>

definition model2data :: "workflow_row \<Rightarrow> workflow_data_web result" where
  "model2data wm =
     (case wf_schedule wm of
        None \<Rightarrow> Inl TypeError
      | Some s \<Rightarrow> Inr \<lparr>wd_alias = wf_alias wm, wd_nbtask = wf_nbtask wm, wd_enabled = wf_enabled wm,
                     wd_wfid = Some (wf_wfid wm), wd_schedule = Some s\<rparr>)"

text \<open>\<open>WorkflowData\<close>: the row without its surrogate key, project and times.\<close>

definition row_data :: "workflow_row \<Rightarrow> workflow_data_web" where
  "row_data wm =
     \<lparr>wd_alias = wf_alias wm, wd_nbtask = wf_nbtask wm, wd_enabled = wf_enabled wm,
      wd_wfid = Some (wf_wfid wm), wd_schedule = wf_schedule wm\<rparr>"

definition wf_update :: "string option \<Rightarrow> string \<Rightarrow> workflow_data_web \<Rightarrow> nat \<Rightarrow> db \<Rightarrow> db result" where
  "wf_update wfid projectid wfd now db =
     update_workflows (\<lambda>w. Some (wf_wfid w) = wfid)
       (\<lambda>w. w\<lparr>wf_nbtask := wd_nbtask wfd, wf_schedule := wd_schedule wfd, wf_alias := wd_alias wfd,
             wf_enabled := wd_enabled wfd, wf_updated_at := now\<rparr>) db"

definition generate_wfid :: "nanoid \<Rightarrow> string" where
  "generate_wfid gen = random_id gen WFID_LEN"

definition get_by_wfid :: "string \<Rightarrow> db \<Rightarrow> workflow_data_web option" where
  "get_by_wfid wfid db =
     map_option row_data (first_row (filter (\<lambda>w. wf_wfid w = wfid) (db_workflows db)))"

definition get_job_from_db :: "string \<Rightarrow> db \<Rightarrow> workflow_row option" where
  "get_job_from_db wfid db = first_row (filter (\<lambda>w. wf_wfid w = wfid) (db_workflows db))"

definition get_by_prj_and_wfid_sync :: "string \<Rightarrow> string \<Rightarrow> db \<Rightarrow> workflow_row option" where
  "get_by_prj_and_wfid_sync projectid wfid db =
     first_row (filter (\<lambda>w. wf_project_id w = Some projectid \<and> wf_wfid w = wfid) (db_workflows db))"

definition get_by_wfid_prj :: "string \<Rightarrow> string \<Rightarrow> db \<Rightarrow> workflow_data_web option result" where
  "get_by_wfid_prj projectid wfid db =
     (case first_row (filter (\<lambda>w. wf_wfid w = wfid \<and> wf_project_id w = Some projectid) (db_workflows db)) of
        None \<Rightarrow> Inr None
      | Some row \<Rightarrow> rbind (model2data row) (\<lambda>wd. Inr (Some wd)))"

definition wf_get_all :: "string option \<Rightarrow> db \<Rightarrow> workflow_data_web list" where
  "wf_get_all project_id db =
     map row_data (filter (\<lambda>w. opt_truthy project_id \<longrightarrow> wf_project_id w = project_id) (db_workflows db))"

definition get_by_alias :: "string \<Rightarrow> db \<Rightarrow> workflow_row option" where
  "get_by_alias alias db = first_row (filter (\<lambda>w. wf_alias w = alias) (db_workflows db))"

definition workflow_row_of :: "string \<Rightarrow> nat \<Rightarrow> string \<Rightarrow> workflow_data_web \<Rightarrow> workflow_row" where
  "workflow_row_of wfid now projectid wfd =
     \<lparr>wf_wfid = wfid, wf_alias = wd_alias wfd, wf_nbtask = wd_nbtask wfd, wf_schedule = wd_schedule wfd,
      wf_enabled = wd_enabled wfd, wf_project_id = Some projectid, wf_updated_at = now\<rparr>"

definition wf_register ::
  "nanoid \<Rightarrow> nat \<Rightarrow> string \<Rightarrow> workflow_data_web \<Rightarrow> bool \<Rightarrow> db \<Rightarrow> (string option \<times> db) result" where
  "wf_register gen now projectid wfd update db =
     (if update then rbind (wf_update (wd_wfid wfd) projectid wfd now db) (\<lambda>db'. Inr (wd_wfid wfd, db'))
      else
        (let wfid = generate_wfid gen
         in case insert_workflow (workflow_row_of wfid now projectid wfd) db of
              Inl IntegrityError \<Rightarrow> Inl WorkflowRegisterError
            | Inl e \<Rightarrow> Inl e
            | Inr db' \<Rightarrow> Inr (Some wfid, db')))"

definition delete_wf :: "string \<Rightarrow> string \<Rightarrow> db \<Rightarrow> db" where
  "delete_wf project_id wfid db =
     delete_workflows (\<lambda>w. wf_project_id w = Some project_id \<and> wf_wfid w = wfid) db"

section \<open>Runtimes\<close>

definition model2runtime :: "db \<Rightarrow> runtime_row \<Rightarrow> runtime_data result" where
  "model2runtime db m =
     (case rt_project_id m of
        None \<Rightarrow> Inl AttributeError
      | Some p \<Rightarrow>
          Inr \<lparr>rd_runtimeid = rt_runtimeid m, rd_runtime_name = rt_runtime_name m,
               rd_docker_name = rt_docker_name m, rd_spec = rt_spec m, rd_project_id = p,
               rd_version = rt_version m, rd_created_at = Some (rt_created_at m),
               rd_registry = rt_registry m, rd_id = Some (rt_id m)\<rparr>)"

definition rt_get_list :: "string \<Rightarrow> nat \<Rightarrow> db \<Rightarrow> runtime_data list result" where
  "rt_get_list projectid limit db =
     rmap (model2runtime db)
       (take limit (order_desc rt_created_at (filter (\<lambda>r. rt_project_id r = Some projectid) (db_runtimes db))))"

definition runtime_id :: "runtime_req \<Rightarrow> string" where
  "runtime_id rq = rq_project_id rq @ CHR ''/'' # rq_runtime_name rq @ CHR ''/'' # rq_version rq"

definition runtime_row_of :: "nat \<Rightarrow> nat \<Rightarrow> runtime_req \<Rightarrow> runtime_row" where
  "runtime_row_of fresh now rq =
     \<lparr>rt_id = fresh, rt_runtimeid = runtime_id rq, rt_runtime_name = rq_runtime_name rq,
      rt_docker_name = rq_docker_name rq, rt_spec = rq_spec rq, rt_version = rq_version rq,
      rt_registry = rq_registry rq, rt_project_id = Some (rq_project_id rq), rt_created_at = now\<rparr>"

definition rt_create :: "nat \<Rightarrow> runtime_req \<Rightarrow> db \<Rightarrow> bool \<times> db" where
  "rt_create now rq db =
     (case insert_runtime (runtime_row_of (db_seq db) now rq) db of Inr db' \<Rightarrow> (True, db') | Inl _ \<Rightarrow> (False, db))"

definition one_runtime :: "db \<Rightarrow> runtime_row list \<Rightarrow> runtime_data option result" where
  "one_runtime db rows =
     (case first_row rows of None \<Rightarrow> Inr None | Some m \<Rightarrow> rbind (model2runtime db m) (\<lambda>rd. Inr (Some rd)))"

definition get_by_rid :: "string \<Rightarrow> db \<Rightarrow> runtime_data option result" where
  "get_by_rid runtimeid db = one_runtime db (filter (\<lambda>r. rt_runtimeid r = runtimeid) (db_runtimes db))"

definition get_runtime :: "string \<Rightarrow> string \<Rightarrow> string option \<Rightarrow> db \<Rightarrow> runtime_data option result" where
  "get_runtime projectid runtime_name version db =
     (let rows = filter (\<lambda>r. rt_project_id r = Some projectid \<and> rt_runtime_name r = runtime_name) (db_runtimes db)
      in if opt_truthy version then one_runtime db (filter (\<lambda>r. Some (rt_version r) = version) rows)
         else one_runtime db (order_desc rt_created_at rows))"

definition delete_by_rid :: "string \<Rightarrow> db \<Rightarrow> db" where
  "delete_by_rid runtimeid db = delete_runtimes (\<lambda>r. rt_runtimeid r = runtimeid) db"

section \<open>History\<close>

definition history_data :: "history_row \<Rightarrow> history_result" where
  "history_data r =
     \<lparr>hi_wfid = hs_wfid r, hi_status = hs_status r, hi_result = Some (hs_result r),
      hi_execid = Some (hs_execid r), hi_created_at = Some (hs_created_at r)\<rparr>"

definition hs_get_last :: "string \<Rightarrow> string option \<Rightarrow> nat \<Rightarrow> db \<Rightarrow> history_result list" where
  "hs_get_last projectid wfid limit db =
     (let rows = (if opt_truthy wfid
                  then filter (\<lambda>h. Some (hs_wfid h) = wfid \<and> hs_project_id h = Some projectid) (db_history db)
                  else filter (\<lambda>h. hs_project_id h = Some projectid) (db_history db))
      in map history_data (take limit (order_desc hs_created_at rows)))"

definition hs_get_one :: "string \<Rightarrow> db \<Rightarrow> history_result option" where
  "hs_get_one execid db = map_option history_data (first_row (filter (\<lambda>h. hs_execid h = execid) (db_history db)))"

definition hs_create :: "nat \<Rightarrow> exec_result \<Rightarrow> db \<Rightarrow> (history_row \<times> db) result" where
  "hs_create now r db =
     (let status = (if er_error r then -1 else 0);
          row = \<lparr>hs_wfid = er_wfid r, hs_execid = er_execid r, hs_nb_name = er_name r, hs_result = r,
                 hs_elapsed_cs = er_elapsed_cs r, hs_status = status,
                 hs_project_id = Some (er_projectid r), hs_created_at = now\<rparr>
      in rbind (insert_history row db) (\<lambda>db'. Inr (row, db')))"

section \<open>Lemmas\<close>

lemma set_order_desc [simp]: "set (order_desc f rows) = set rows"
  by (simp add: order_desc_def)

lemma sorted_order_desc: "sorted_wrt (\<lambda>a b. f b \<le> f a) (order_desc f rows)"
proof -
  have "sorted (map (\<lambda>r. Newest (f r)) (order_desc f rows))"
    by (simp add: order_desc_def)
  then show ?thesis
    by (simp add: sorted_map less_eq_newest_def)
qed

lemma first_order_desc:
  assumes "first_row (order_desc f rows) = Some r"
  shows "r \<in> set rows" and "s \<in> set rows \<Longrightarrow> f s \<le> f r"
proof -
  obtain rest where o: "order_desc f rows = r # rest"
    using assms by (auto simp: first_row_def split: list.splits)
  then have s: "set rows = insert r (set rest)"
    using set_order_desc [of f rows] by simp
  then show "r \<in> set rows" by simp
  show "f s \<le> f r" if "s \<in> set rows"
    using that s sorted_order_desc [of f rows] by (auto simp: o)
qed

lemma insert_workflow_error: "insert_workflow w db = Inl e \<Longrightarrow> e = IntegrityError"
  by (auto simp: insert_workflow_def split: if_splits)

lemma wf_register_new:
  "wf_register gen now p d False db =
     (case insert_workflow (workflow_row_of (generate_wfid gen) now p d) db of
        Inl e \<Rightarrow> Inl WorkflowRegisterError | Inr db' \<Rightarrow> Inr (Some (generate_wfid gen), db'))"
  by (auto simp: wf_register_def Let_def split: sum.splits dest: insert_workflow_error)

lemma managers_ok [db_writes]:
  assumes "db_ok db"
  shows "wf_update i p d now db = Inr db' \<Longrightarrow> db_ok db'"
    and "wf_register gen now p d upd db = Inr (x, db') \<Longrightarrow> db_ok db'"
    and "db_ok (delete_wf p wfid db)"
    and "rt_create now rq db = (b, db') \<Longrightarrow> db_ok db'"
    and "db_ok (delete_by_rid rid db)"
    and "hs_create now r db = Inr (h, db') \<Longrightarrow> db_ok db'"
proof -
  have up: "db_ok db'" if "wf_update i p d now db = Inr db'" for i db'
    using that unfolding wf_update_def by (rule update_workflows_ok [OF assms]) simp
  then show "wf_update i p d now db = Inr db' \<Longrightarrow> db_ok db'" .
  show "wf_register gen now p d upd db = Inr (x, db') \<Longrightarrow> db_ok db'"
  proof (cases upd)
    case True
    then show "wf_register gen now p d upd db = Inr (x, db') \<Longrightarrow> db_ok db'"
      by (auto simp: wf_register_def rbind_Inr_iff dest: up)
  next
    case False
    then show "wf_register gen now p d upd db = Inr (x, db') \<Longrightarrow> db_ok db'"
      using insert_workflow_ok [OF assms] by (auto simp: wf_register_new split: sum.splits)
  qed
  show "rt_create now rq db = (b, db') \<Longrightarrow> db_ok db'"
    using assms by (auto simp: rt_create_def Let_def split: sum.splits dest: insert_runtime_ok)
  show "hs_create now r db = Inr (h, db') \<Longrightarrow> db_ok db'"
    using assms by (auto simp: hs_create_def Let_def rbind_Inr_iff dest: insert_history_ok)
qed (use assms in \<open>simp_all add: delete_wf_def delete_by_rid_def delete_workflows_ok delete_runtimes_ok\<close>)

lemma order_desc_newest:
  assumes "\<And>s. s \<in> set rows \<Longrightarrow> f s < f r"
  shows "order_desc f (rows @ [r]) = r # order_desc f rows"
  using assms
proof (induction rows)
  case Nil
  then show ?case by (simp add: order_desc_def)
next
  case (Cons a rows)
  then have "order_desc f (rows @ [r]) = r # order_desc f rows" and "f r > f a" by simp_all
  then show ?case by (simp add: order_desc_def less_eq_newest_def)
qed

section \<open>The database over a run\<close>

text \<open>One operation of a manager, with any arguments; a call that raises or answers no leaves the
  database to the rules of its transaction, which is then rolled back.\<close>

inductive db_step :: "db \<Rightarrow> db \<Rightarrow> bool" where
  user_create: "um_create derive u pw salt now db = (r, db') \<Longrightarrow> db_step db db'"
| user_merge: "um_create_or_update u now db = Inr db' \<Longrightarrow> db_step db db'"
| user_disable: "um_disable_user n now db = Inr (r, db') \<Longrightarrow> db_step db db'"
| user_delete: "um_delete_user n db = Inr db' \<Longrightarrow> db_step db db'"
| change_pass: "um_change_pass derive n pw salt now db = Inr (b, db') \<Longrightarrow> db_step db db'"
| change_pass_async: "um_change_pass_async derive n pw salt now db = Inr db' \<Longrightarrow> db_step db db'"
| project_create: "pm_create os nfkd gp ga gx len now i pq db = (r, db') \<Longrightarrow> db_step db db'"
| project_merge: "pm_create_or_update os nfkd gp len now i pq db = Inr (p, db') \<Longrightarrow> db_step db db'"
| project_assign: "assign_project n pid db = Inr (b, db') \<Longrightarrow> db_step db db'"
| project_remove: "delete_by_projectid pid db = Inr db' \<Longrightarrow> db_step db db'"
| agent_create: "create_agent ga gx opid sc adm now db = Inr (a, db') \<Longrightarrow> db_step db db'"
| agent_delete: "delete_agent n opid db = Inr (b, db') \<Longrightarrow> db_step db db'"
| workflow_register: "wf_register gen now pid d upd db = Inr (x, db') \<Longrightarrow> db_step db db'"
| workflow_delete: "db_step db (delete_wf pid wfid db)"
| runtime_create: "rt_create now rq db = (b, db') \<Longrightarrow> db_step db db'"
| runtime_delete: "db_step db (delete_by_rid rid db)"
| history_create: "hs_create now res db = Inr (h, db') \<Longrightarrow> db_step db db'"

lemma db_step_ok: "db_step db db' \<Longrightarrow> db_ok db \<Longrightarrow> db_ok db'"
  by (cases rule: db_step.cases) (blast intro: users_mg_ok projects_mg_ok managers_ok)+


definition demo_orm :: user_orm where
  "demo_orm = \<lparr>uo_username = ''ana'', uo_id = None, uo_email = None, uo_password = None,
     uo_scopes = ''user:r:w'', uo_is_superuser = True, uo_is_active = True, uo_is_agent = False,
     uo_projects = []\<rparr>"


section \<open>Workflows of a project\<close>

lemma get_job_unique:
  assumes "db_ok db" and "w \<in> set (db_workflows db)"
  shows "filter (\<lambda>v. wf_wfid v = wf_wfid w) (db_workflows db) = [w]"
  using assms by (intro filter_key_single) (simp_all add: db_ok_def db_unique_def)

lemma get_by_wfid_prj_row:
  assumes "db_ok db" and "w \<in> set (db_workflows db)" and "wf_project_id w = Some pid"
  shows "get_by_wfid_prj pid (wf_wfid w) db = rbind (model2data w) (\<lambda>wd. Inr (Some wd))"
proof -
  have "filter (\<lambda>v. wf_wfid v = wf_wfid w \<and> wf_project_id v = Some pid) (db_workflows db) =
      filter (\<lambda>v. wf_project_id v = Some pid) (filter (\<lambda>v. wf_wfid v = wf_wfid w) (db_workflows db))"
    by (simp add: conj_commute)
  also have "\<dots> = [w]" using get_job_unique [OF assms(1,2)] assms(3) by simp
  finally show ?thesis by (simp add: get_by_wfid_prj_def first_row_def)
qed

text \<open>A workflow that was registered is found under its id, in its project, with the data it was
  registered with when it has a schedule; without one, every read through \<open>model2data\<close> raises
  \<open>TypeError\<close>, while the list of the project still shows it.\<close>

lemma workflow_register_get:
  assumes "db_ok db" and "wf_register gen now pid d False db = Inr (Some wfid, db')"
  shows "get_by_wfid_prj pid wfid db' =
       (case wd_schedule d of None \<Rightarrow> Inl TypeError | Some s \<Rightarrow> Inr (Some (d\<lparr>wd_wfid := Some wfid\<rparr>))) \<and>
     (pid \<noteq> [] \<longrightarrow> d\<lparr>wd_wfid := Some wfid\<rparr> \<in> set (wf_get_all (Some pid) db'))"
proof -
  let ?w = "workflow_row_of wfid now pid d"
  have ins: "insert_workflow ?w db = Inr db'" and "wfid = generate_wfid gen"
    using assms(2) by (auto simp: wf_register_new split: sum.splits)
  have w: "?w \<in> set (db_workflows db')"
    using ins by (auto simp: insert_workflow_def split: if_splits)
  have id: "wf_wfid ?w = wfid" by (simp add: workflow_row_of_def)
  have "get_by_wfid_prj pid wfid db' = rbind (model2data ?w) (\<lambda>wd. Inr (Some wd))"
    using get_by_wfid_prj_row [OF insert_workflow_ok [OF assms(1) ins] w, of pid] id
    by (simp add: workflow_row_of_def)
  moreover have "row_data ?w = d\<lparr>wd_wfid := Some wfid\<rparr>"
    by (simp add: row_data_def workflow_row_of_def)
  moreover have "pid \<noteq> [] \<Longrightarrow> row_data ?w \<in> set (wf_get_all (Some pid) db')"
    using w by (auto simp: wf_get_all_def workflow_row_of_def)
  ultimately show ?thesis
    by (auto simp: model2data_def workflow_row_of_def split: option.splits)
qed

definition demo_wf :: "schedule_data option \<Rightarrow> workflow_data_web" where
  "demo_wf sch = \<lparr>wd_alias = ''daily'', wd_nbtask = NBTask ''welcome'' [], wd_enabled = True,
     wd_wfid = None, wd_schedule = sch\<rparr>"

text \<open>An update names its workflow by id alone: a request for any project, even one that does not
  exist, overwrites the workflow of another project (which keeps it), and an id that no
  workflow has is accepted without an effect.\<close>

lemma workflow_update_crosses_projects:
  assumes ok: "db_ok db" and reg: "wf_register gen now pid d True db = Inr (x, db')"
  shows "x = wd_wfid d \<and>
     (\<forall>w \<in> set (db_workflows db). wd_wfid d = Some (wf_wfid w) \<longrightarrow>
        get_job_from_db (wf_wfid w) db' = Some (w\<lparr>wf_nbtask := wd_nbtask d, wf_schedule := wd_schedule d,
          wf_alias := wd_alias d, wf_enabled := wd_enabled d, wf_updated_at := now\<rparr>)) \<and>
     (wd_wfid d \<notin> Some ` wf_wfid ` set (db_workflows db) \<longrightarrow> db' = db)"
proof -
  let ?f = "\<lambda>w. w\<lparr>wf_nbtask := wd_nbtask d, wf_schedule := wd_schedule d, wf_alias := wd_alias d,
             wf_enabled := wd_enabled d, wf_updated_at := now\<rparr>"
  let ?ws = "map_if (\<lambda>w. Some (wf_wfid w) = wd_wfid d) ?f (db_workflows db)"
  have x: "x = wd_wfid d" and up: "wf_update (wd_wfid d) pid d now db = Inr db'"
    using reg by (auto simp: wf_register_def rbind_Inr_iff)
  then have db': "db' = db\<lparr>db_workflows := ?ws\<rparr>"
    by (auto simp: wf_update_def update_workflows_def Let_def split: if_splits)
  have ok': "db_ok db'" using managers_ok(1) [OF ok up] .
  have "get_job_from_db (wf_wfid w) db' = Some (?f w)"
    if "w \<in> set (db_workflows db)" "wd_wfid d = Some (wf_wfid w)" for w
  proof -
    have "?f w \<in> set (db_workflows db')" using that by (force simp: db' map_if_def)
    then show ?thesis
      using get_job_unique [OF ok', of "?f w"] by (simp add: get_job_from_db_def first_row_def)
  qed
  moreover have "wd_wfid d \<notin> Some ` wf_wfid ` set (db_workflows db) \<Longrightarrow> ?ws = db_workflows db"
    by (force simp: map_if_def intro!: map_idI)
  ultimately show ?thesis using x db' by simp
qed

definition wf_db :: db where
  "wf_db = admin_db\<lparr>db_workflows := [workflow_row_of ''wf1'' 0 ''pid'' (demo_wf None)]\<rparr>"

lemma wf_db_ok: "db_ok wf_db"
  by (simp add: db_ok_defs wf_db_def admin_db_def empty_db_def alias_keys_def demo_admin_def demo_user_def
      demo_project_def workflow_row_of_def)

section \<open>Runtimes and history\<close>

lemma rt_create_rows:
  "rt_create now rq db = (True, db') \<Longrightarrow> db_runtimes db' = db_runtimes db @ [runtime_row_of (db_seq db) now rq]"
  by (auto simp: rt_create_def Let_def insert_runtime_def runtime_row_of_def split: sum.splits if_splits)

lemma get_latest_runtime:
  assumes "rt_create now rq db = (True, db')" and "\<And>r. r \<in> set (db_runtimes db) \<Longrightarrow> rt_created_at r < now"
  shows "get_runtime (rq_project_id rq) (rq_runtime_name rq) None db' = Inr (Some
       \<lparr>rd_runtimeid = runtime_id rq, rd_runtime_name = rq_runtime_name rq, rd_docker_name = rq_docker_name rq,
        rd_spec = rq_spec rq, rd_project_id = rq_project_id rq, rd_version = rq_version rq,
        rd_created_at = Some now, rd_registry = rq_registry rq, rd_id = Some (db_seq db)\<rparr>)"
proof -
  let ?row = "runtime_row_of (db_seq db) now rq"
  let ?P = "\<lambda>r. rt_project_id r = Some (rq_project_id rq) \<and> rt_runtime_name r = rq_runtime_name rq"
  have "order_desc rt_created_at (filter ?P (db_runtimes db) @ [?row]) =
      ?row # order_desc rt_created_at (filter ?P (db_runtimes db))"
    using assms(2) by (intro order_desc_newest) (auto simp: runtime_row_of_def)
  then have "first_row (order_desc rt_created_at (filter ?P (db_runtimes db'))) = Some ?row"
    by (simp add: rt_create_rows [OF assms(1)] first_row_def runtime_row_of_def)
  then have "get_runtime (rq_project_id rq) (rq_runtime_name rq) None db' =
      rbind (model2runtime db' ?row) (\<lambda>rd. Inr (Some rd))"
    by (simp add: get_runtime_def one_runtime_def Let_def)
  then show ?thesis by (simp add: model2runtime_def runtime_row_of_def)
qed

text \<open>Registering a runtime twice succeeds once; the project's runtime asked for without a version
  is then the one registered last, when its time stamp is later than those before it.\<close>

lemma runtime_create_latest:
  assumes "rt_create now rq db = (True, db')" and "\<And>r. r \<in> set (db_runtimes db) \<Longrightarrow> rt_created_at r < now"
  shows "rt_create now' rq db' = (False, db') \<and>
     get_runtime (rq_project_id rq) (rq_runtime_name rq) None db' = Inr (Some
       \<lparr>rd_runtimeid = rq_project_id rq @ CHR ''/'' # rq_runtime_name rq @ CHR ''/'' # rq_version rq,
        rd_runtime_name = rq_runtime_name rq, rd_docker_name = rq_docker_name rq, rd_spec = rq_spec rq,
        rd_project_id = rq_project_id rq, rd_version = rq_version rq, rd_created_at = Some now,
        rd_registry = rq_registry rq, rd_id = Some (db_seq db)\<rparr>)"
  using get_latest_runtime [OF assms] rt_create_rows [OF assms(1)]
  by (simp add: rt_create_def [of now'] Let_def insert_runtime_def runtime_row_of_def runtime_id_def)

definition demo_rq :: runtime_req where
  "demo_rq = \<lparr>rq_runtime_name = ''cpu'', rq_docker_name = ''labfunctions/pid-cpu'', rq_spec = demo_spec,
     rq_project_id = ''pid'', rq_version = ''v1'', rq_registry = None\<rparr>"

text \<open>The history of a project, or of one of its workflows, lists exactly its executions, at most
  as many as asked for, newest first; an execution registered later than all others heads it,
  with status -1 when it failed and 0 otherwise.\<close>

lemma history_newest_first:
  assumes "hs_create now r db = Inr (h, db')" and "er_wfid r \<noteq> []"
    and "\<And>x. x \<in> set (db_history db) \<Longrightarrow> hs_created_at x < now"
  shows "hs_get_last (er_projectid r) (Some (er_wfid r)) (Suc k) db' =
       \<lparr>hi_wfid = er_wfid r, hi_status = (if er_error r then -1 else 0), hi_result = Some r,
        hi_execid = Some (er_execid r), hi_created_at = Some now\<rparr>
       # hs_get_last (er_projectid r) (Some (er_wfid r)) k db \<and>
     sorted_wrt (\<lambda>a b. the (hi_created_at b) \<le> the (hi_created_at a))
       (hs_get_last (er_projectid r) (Some (er_wfid r)) (Suc k) db') \<and>
     length (hs_get_last (er_projectid r) (Some (er_wfid r)) (Suc k) db') \<le> Suc k"
proof -
  let ?row = "\<lparr>hs_wfid = er_wfid r, hs_execid = er_execid r, hs_nb_name = er_name r, hs_result = r,
                 hs_elapsed_cs = er_elapsed_cs r, hs_status = (if er_error r then -1 else 0),
                 hs_project_id = Some (er_projectid r), hs_created_at = now\<rparr>"
  let ?P = "\<lambda>h. hs_wfid h = er_wfid r \<and> hs_project_id h = Some (er_projectid r)"
  have rows: "db_history db' = db_history db @ [?row]"
    using assms(1) by (auto simp: hs_create_def Let_def insert_history_def rbind_Inr_iff split: if_splits)
  have "order_desc hs_created_at (filter ?P (db_history db) @ [?row]) =
      ?row # order_desc hs_created_at (filter ?P (db_history db))"
    using assms(3) by (intro order_desc_newest) auto
  then have o: "order_desc hs_created_at (filter ?P (db_history db')) =
      ?row # order_desc hs_created_at (filter ?P (db_history db))"
    by (simp add: rows)
  have "sorted_wrt (\<lambda>a b. hs_created_at b \<le> hs_created_at a)
      (take (Suc k) (order_desc hs_created_at (filter ?P (db_history db'))))"
    by (rule sorted_wrt_take) (rule sorted_order_desc)
  then show ?thesis
    using assms(2) o by (simp add: hs_get_last_def Let_def history_data_def sorted_wrt_map)
qed

definition demo_result :: "bool \<Rightarrow> exec_result" where
  "demo_result err = \<lparr>er_projectid = ''pid'', er_execid = ''e1'', er_wfid = ''wf1'', er_name = ''nb'',
     er_params = [], er_input = ''in'', er_error = err, er_elapsed_cs = 0, er_created_at = ''now'',
     er_cluster = None, er_machine = None, er_runtime = None, er_docker_name = None,
     er_output_name = None, er_output_dir = None, er_error_dir = None, er_error_msg = None\<rparr>"

end
