(* ===== verification/KV_Store.thy ===== *)
theory KV_Store
  imports Contexts
begin

text \<open>
  The key-value stores of \<open>io/\<close>: the interface \<open>kvspec.py\<close> as a record of operations whose laws
  are the locale \<open>kv_spec\<close>, the local stores of \<open>kv_local.py\<close> (interpretations of the locale)
  and the HTTP store of \<open>kv_files.py\<close>. The file system maps resolved paths to bytes and knows
  which directories exist; bytes are a list over any type.
\<close>

section \<open>The interface\<close>

record ('s, 'b) kv_ops =
  kv_put :: "string \<Rightarrow> 'b list \<Rightarrow> 's \<Rightarrow> unit result \<times> 's"
  kv_put_stream :: "string \<Rightarrow> 'b list list \<Rightarrow> 's \<Rightarrow> bool result \<times> 's"
  kv_get :: "string \<Rightarrow> 's \<Rightarrow> 'b list result"
  kv_get_stream :: "string \<Rightarrow> 's \<Rightarrow> 'b list list result"

text \<open>\<open>loc\<close> says which keys name the same place.\<close>

locale kv_spec =
  fixes K :: "('s, 'b) kv_ops" and loc :: "string \<Rightarrow> 'l"
  assumes put_get: "kv_put K k d st = (Inr u, st') \<Longrightarrow> kv_get K k st' = Inr d"
    and put_other: "kv_put K k d st = (Inr u, st') \<Longrightarrow> loc j \<noteq> loc k \<Longrightarrow> kv_get K j st = Inr x \<Longrightarrow>
          kv_get K j st' = Inr x"
    and stream_get: "kv_put_stream K k ds st = (Inr b, st') \<Longrightarrow> b \<and> kv_get K k st' = Inr (concat ds)"
    and stream_other: "kv_put_stream K k ds st = (Inr b, st') \<Longrightarrow> loc j \<noteq> loc k \<Longrightarrow>
          kv_get K j st = Inr x \<Longrightarrow> kv_get K j st' = Inr x"
    and chunks: "map_sum id concat (kv_get_stream K k st) = kv_get K k st"
begin

text \<open>However the data was cut, what streams out is what streamed in.\<close>

lemma stream_chunks:
  assumes "kv_put_stream K k ds st = (Inr b, st')"
  shows "\<exists>cs. kv_get_stream K k st' = Inr cs \<and> concat cs = concat ds"
  using stream_get [OF assms] chunks [of k st'] by (cases "kv_get_stream K k st'") auto

lemma stream_twice:
  assumes "kv_put_stream K k ds st = (Inr b, st1)" and "kv_put_stream K j es st1 = (Inr c, st2)"
    and "loc j \<noteq> loc k"
  shows "kv_get K k st2 = Inr (concat ds)"
  using stream_other [OF assms(2) assms(3) [symmetric]] stream_get [OF assms(1)] by simp

lemma put_then_stream:
  assumes "kv_put K k d st = (Inr u, st')"
  shows "\<exists>cs. kv_get_stream K k st' = Inr cs \<and> concat cs = d"
  using put_get [OF assms] chunks [of k st'] by (cases "kv_get_stream K k st'") auto

end

section \<open>Files\<close>

record 'b file_sys =
  fs_files :: "string list \<Rightarrow> 'b list option"
  fs_dirs :: "string list set"

definition root_fs :: "'b file_sys" where
  "root_fs = \<lparr>fs_files = (\<lambda>_. None), fs_dirs = {[]}\<rparr>"

fun prefixes :: "'a list \<Rightarrow> 'a list list" where
  "prefixes [] = [[]]"
| "prefixes (x # xs) = [] # map ((#) x) (prefixes xs)"

text \<open>The directories a path goes through, \<open>..\<close> going up.\<close>

definition through :: "string list \<Rightarrow> string list list" where
  "through ws = map resolve_parts (prefixes ws)"

definition mkdir_p :: "string list \<Rightarrow> 'b file_sys \<Rightarrow> 'b file_sys result" where
  "mkdir_p ws fs =
     (if \<exists>d \<in> set (through ws). fs_files fs d \<noteq> None then Inl ValueError
      else Inr (fs\<lparr>fs_dirs := fs_dirs fs \<union> set (through ws)\<rparr>))"

text \<open>Opening a path walks its directories first.\<close>

definition walks :: "'b file_sys \<Rightarrow> string list \<Rightarrow> bool" where
  "walks fs ws \<longleftrightarrow> ws \<noteq> [] \<and> set (through (butlast ws)) \<subseteq> fs_dirs fs"

definition write_file :: "string list \<Rightarrow> 'b list \<Rightarrow> 'b file_sys \<Rightarrow> 'b file_sys result" where
  "write_file ws d fs =
     (if walks fs ws \<and> resolve_parts ws \<notin> fs_dirs fs
      then Inr (fs\<lparr>fs_files := (fs_files fs)(resolve_parts ws \<mapsto> d)\<rparr>) else Inl FileNotFoundError)"

definition read_file :: "string list \<Rightarrow> 'b file_sys \<Rightarrow> 'b list result" where
  "read_file ws fs =
     (if walks fs ws \<and> resolve_parts ws \<notin> fs_dirs fs then
        (case fs_files fs (resolve_parts ws) of None \<Rightarrow> Inl FileNotFoundError | Some d \<Rightarrow> Inr d)
      else Inl FileNotFoundError)"

section \<open>The local stores\<close>

definition kv_uri :: "string \<Rightarrow> string \<Rightarrow> string \<Rightarrow> string" where
  "kv_uri root bucket key = root @ CHR ''/'' # bucket @ CHR ''/'' # key"

definition parent_parts :: "string \<Rightarrow> string list" where
  "parent_parts uri = butlast (path_parts uri)"

text \<open>An error of the write keeps the directories that \<open>mkdir_p\<close> made.\<close>

definition kvl_put :: "string \<Rightarrow> string \<Rightarrow> string \<Rightarrow> 'b list \<Rightarrow> 'b file_sys \<Rightarrow> unit result \<times> 'b file_sys" where
  "kvl_put root bucket key bdata fs =
     (let uri = kv_uri root bucket key
      in case mkdir_p (parent_parts uri) fs of
           Inl e \<Rightarrow> (Inl e, fs)
         | Inr fs1 \<Rightarrow>
             (case write_file (path_parts uri) bdata fs1 of
                Inl e \<Rightarrow> (Inl KeyWriteError, fs1) | Inr fs2 \<Rightarrow> (Inr (), fs2)))"

definition kvl_put_stream ::
  "string \<Rightarrow> string \<Rightarrow> string \<Rightarrow> 'b list list \<Rightarrow> 'b file_sys \<Rightarrow> bool result \<times> 'b file_sys" where
  "kvl_put_stream root bucket key generator fs =
     (let uri = kv_uri root bucket key
      in case mkdir_p (parent_parts uri) fs of
           Inl e \<Rightarrow> (Inl e, fs)
         | Inr fs1 \<Rightarrow>
             (case write_file (path_parts uri) (concat generator) fs1 of
                Inl e \<Rightarrow> (Inl KeyWriteError, fs1) | Inr fs2 \<Rightarrow> (Inr True, fs2)))"

definition kvl_get :: "string \<Rightarrow> string \<Rightarrow> string \<Rightarrow> 'b file_sys \<Rightarrow> 'b list result" where
  "kvl_get root bucket key fs =
     (case read_file (path_parts (kv_uri root bucket key)) fs of
        Inl e \<Rightarrow> Inl KeyReadError | Inr d \<Rightarrow> Inr d)"

text \<open>The synchronous stream iterates over the lines of the file, each with its end.\<close>

fun file_lines :: "('b \<Rightarrow> bool) \<Rightarrow> 'b list \<Rightarrow> 'b list list" where
  "file_lines nl [] = []"
| "file_lines nl (b # bs) =
     (if nl b then [b] # file_lines nl bs
      else (case file_lines nl bs of [] \<Rightarrow> [[b]] | w # ws \<Rightarrow> (b # w) # ws))"

definition kvl_get_stream ::
  "('b \<Rightarrow> bool) \<Rightarrow> string \<Rightarrow> string \<Rightarrow> string \<Rightarrow> 'b file_sys \<Rightarrow> 'b list list result" where
  "kvl_get_stream nl root bucket key fs =
     (case read_file (path_parts (kv_uri root bucket key)) fs of
        Inl e \<Rightarrow> Inl KeyReadError | Inr d \<Rightarrow> Inr (file_lines nl d))"

definition kv_local :: "('b \<Rightarrow> bool) \<Rightarrow> string \<Rightarrow> string \<Rightarrow> ('b file_sys, 'b) kv_ops" where
  "kv_local nl root bucket =
     \<lparr>kv_put = kvl_put root bucket, kv_put_stream = kvl_put_stream root bucket,
      kv_get = kvl_get root bucket, kv_get_stream = kvl_get_stream nl root bucket\<rparr>"

text \<open>The asynchronous store: its \<open>put_stream\<close> resolves the parent first, its stream reads blocks.\<close>

definition akvl_put_stream ::
  "string \<Rightarrow> string \<Rightarrow> string \<Rightarrow> 'b list list \<Rightarrow> 'b file_sys \<Rightarrow> bool result \<times> 'b file_sys" where
  "akvl_put_stream root bucket key generator fs =
     (let uri = kv_uri root bucket key
      in case mkdir_p (resolve_parts (parent_parts uri)) fs of
           Inl e \<Rightarrow> (Inl e, fs)
         | Inr fs1 \<Rightarrow>
             (case write_file (path_parts uri) (concat generator) fs1 of
                Inl e \<Rightarrow> (Inl KeyWriteError, fs1) | Inr fs2 \<Rightarrow> (Inr True, fs2)))"

definition akvl_get_stream :: "string \<Rightarrow> string \<Rightarrow> string \<Rightarrow> 'b file_sys \<Rightarrow> 'b list list result" where
  "akvl_get_stream root bucket key fs =
     (case read_file (path_parts (kv_uri root bucket key)) fs of
        Inl e \<Rightarrow> Inl KeyReadError | Inr d \<Rightarrow> Inr (file_chunks 1024 d))"

definition akv_local :: "string \<Rightarrow> string \<Rightarrow> ('b file_sys, 'b) kv_ops" where
  "akv_local root bucket =
     \<lparr>kv_put = kvl_put root bucket, kv_put_stream = akvl_put_stream root bucket,
      kv_get = kvl_get root bucket, kv_get_stream = akvl_get_stream root bucket\<rparr>"

section \<open>The HTTP store\<close>

text \<open>A file server answers a method, a URL and a body with a status, a body and its next state.\<close>

type_synonym ('s, 'b) file_server = "string \<Rightarrow> string \<Rightarrow> 'b list \<Rightarrow> 's \<Rightarrow> int \<times> 'b list \<times> 's"

definition kvf_url :: "string \<Rightarrow> string \<Rightarrow> string \<Rightarrow> string" where
  "kvf_url url bucket key = url @ CHR ''/'' # bucket @ CHR ''/'' # key"

definition kvf_put :: "('s, 'b) file_server \<Rightarrow> string \<Rightarrow> string \<Rightarrow> string \<Rightarrow> 'b list \<Rightarrow> 's \<Rightarrow> bool \<times> 's" where
  "kvf_put srv url bucket key bdata st =
     (let (status, _, st') = srv ''PUT'' (kvf_url url bucket key) bdata st in (status = 201, st'))"

definition kvf_get :: "('s, 'b) file_server \<Rightarrow> string \<Rightarrow> string \<Rightarrow> string \<Rightarrow> 's \<Rightarrow> 'b list option \<times> 's" where
  "kvf_get srv url bucket key st =
     (let (status, body, st') = srv ''GET'' (kvf_url url bucket key) [] st
      in (if status = 200 then Some body else None, st'))"

text \<open>The asynchronous \<open>get\<close> returns the body of any answer.\<close>

definition akvf_get :: "('s, 'b) file_server \<Rightarrow> string \<Rightarrow> string \<Rightarrow> string \<Rightarrow> 's \<Rightarrow> 'b list \<times> 's" where
  "akvf_get srv url bucket key st =
     (let (status, body, st') = srv ''GET'' (kvf_url url bucket key) [] st in (body, st'))"

section \<open>The local stores keep the laws\<close>

lemma concat_file_lines: "concat (file_lines nl d) = d"
  by (induction d) (auto split: list.splits)

text \<open>A file system is sound when no file is a directory.\<close>

lemma set_prefixes: "set (prefixes ws) = {ps. \<exists>qs. ws = ps @ qs}"
proof (induction ws)
  case (Cons w ws)
  have "{ps. \<exists>qs. w # ws = ps @ qs} = insert [] ((#) w ` {ps. \<exists>qs. ws = ps @ qs})"
    by (auto simp: Cons_eq_append_conv)
  with Cons show ?case by simp
qed simp

lemma through_mono: "set (through ps) \<subseteq> set (through (ps @ qs))"
  by (force simp: through_def set_prefixes)

lemma read_after_write:
  "write_file ws d fs = Inr fs' \<Longrightarrow> read_file ws fs' = Inr d"
  by (auto simp: write_file_def read_file_def walks_def split: if_splits)

lemma read_other_after_write:
  assumes "write_file ws d fs = Inr fs'" and "resolve_parts vs \<noteq> resolve_parts ws"
  shows "read_file vs fs' = read_file vs fs"
  using assms by (auto simp: write_file_def read_file_def walks_def split: if_splits)

lemma read_after_mkdir:
  assumes "mkdir_p ps fs = Inr fs'" and "read_file vs fs = Inr d"
  shows "read_file vs fs' = Inr d"
  using assms by (auto simp: mkdir_p_def read_file_def walks_def split: if_splits option.splits)

lemma kvl_put_get: "kvl_put root bucket k d fs = (Inr u, fs') \<Longrightarrow> kvl_get root bucket k fs' = Inr d"
  by (auto simp: kvl_put_def kvl_get_def Let_def read_after_write split: sum.splits)

lemma kvl_put_other:
  assumes "kvl_put root bucket k d fs = (Inr u, fs')"
    and "file_of (kv_uri root bucket j) \<noteq> file_of (kv_uri root bucket k)"
    and "kvl_get root bucket j fs = Inr x"
  shows "kvl_get root bucket j fs' = Inr x"
proof -
  obtain fs1 where m: "mkdir_p (parent_parts (kv_uri root bucket k)) fs = Inr fs1"
    and w: "write_file (path_parts (kv_uri root bucket k)) d fs1 = Inr fs'"
    using assms(1) by (auto simp: kvl_put_def Let_def split: sum.splits)
  have r: "read_file (path_parts (kv_uri root bucket j)) fs = Inr x"
    using assms(3) by (auto simp: kvl_get_def split: sum.splits)
  have "read_file (path_parts (kv_uri root bucket j)) fs' = read_file (path_parts (kv_uri root bucket j)) fs1"
    using read_other_after_write [OF w] assms(2) by (simp add: file_of_def)
  then show ?thesis
    using read_after_mkdir [OF m r] by (simp add: kvl_get_def)
qed

lemma kvl_stream_as_put:
  "kvl_put_stream root bucket k ds fs = (Inr b, fs') \<Longrightarrow>
     b \<and> kvl_put root bucket k (concat ds) fs = (Inr (), fs')"
  by (auto simp: kvl_put_stream_def kvl_put_def Let_def split: sum.splits)

lemma kvl_stream_get:
  "kvl_put_stream root bucket k ds fs = (Inr b, fs') \<Longrightarrow> b \<and> kvl_get root bucket k fs' = Inr (concat ds)"
  using kvl_stream_as_put kvl_put_get by metis

lemma kvl_stream_other:
  "kvl_put_stream root bucket k ds fs = (Inr b, fs') \<Longrightarrow>
     file_of (kv_uri root bucket j) \<noteq> file_of (kv_uri root bucket k) \<Longrightarrow>
     kvl_get root bucket j fs = Inr x \<Longrightarrow> kvl_get root bucket j fs' = Inr x"
  using kvl_stream_as_put kvl_put_other by metis

interpretation sync_kv: kv_spec "kv_local nl root bucket" "\<lambda>k. file_of (kv_uri root bucket k)"
  for nl root bucket
proof unfold_locales
  show "map_sum id concat (kv_get_stream (kv_local nl root bucket) k st) = kv_get (kv_local nl root bucket) k st" for k st
    by (auto simp: kv_local_def kvl_get_stream_def kvl_get_def concat_file_lines split: sum.splits)
qed (auto simp: kv_local_def kvl_put_get dest: kvl_stream_get kvl_stream_other kvl_put_other)

lemma akvl_stream_get:
  "akvl_put_stream root bucket k ds fs = (Inr b, fs') \<Longrightarrow> b \<and> kvl_get root bucket k fs' = Inr (concat ds)"
  by (auto simp: akvl_put_stream_def kvl_get_def Let_def read_after_write split: sum.splits)

lemma akvl_stream_other:
  assumes "akvl_put_stream root bucket k ds fs = (Inr b, fs')"
    and "file_of (kv_uri root bucket j) \<noteq> file_of (kv_uri root bucket k)"
    and "kvl_get root bucket j fs = Inr x"
  shows "kvl_get root bucket j fs' = Inr x"
proof -
  obtain fs1 where m: "mkdir_p (resolve_parts (parent_parts (kv_uri root bucket k))) fs = Inr fs1"
    and w: "write_file (path_parts (kv_uri root bucket k)) (concat ds) fs1 = Inr fs'"
    using assms(1) by (auto simp: akvl_put_stream_def Let_def split: sum.splits)
  have r: "read_file (path_parts (kv_uri root bucket j)) fs = Inr x"
    using assms(3) by (auto simp: kvl_get_def split: sum.splits)
  have "read_file (path_parts (kv_uri root bucket j)) fs' = read_file (path_parts (kv_uri root bucket j)) fs1"
    using read_other_after_write [OF w] assms(2) by (simp add: file_of_def)
  then show ?thesis
    using read_after_mkdir [OF m r] by (simp add: kvl_get_def)
qed

interpretation async_kv: kv_spec "akv_local root bucket" "\<lambda>k. file_of (kv_uri root bucket k)"
  for root bucket
proof unfold_locales
  show "map_sum id concat (kv_get_stream (akv_local root bucket) k st) = kv_get (akv_local root bucket) k st" for k st
    by (auto simp: akv_local_def akvl_get_stream_def kvl_get_def concat_file_chunks split: sum.splits)
qed (auto simp: akv_local_def kvl_put_get dest: akvl_stream_get akvl_stream_other kvl_put_other)

text \<open>What one local store streamed in, the other streams out: a bundle that the server's
  asynchronous store took in pieces is read back, whole and in order, by the synchronous store
  of a worker on the same root and bucket, whatever the pieces; a later upload under a key that
  names another file does not change it.\<close>

lemma bundle_stream_roundtrip:
  assumes "akvl_put_stream root bucket k ds fs = (Inr b, fs1)"
    and "akvl_put_stream root bucket j es fs1 = (Inr c, fs2)"
    and "file_of (kv_uri root bucket j) \<noteq> file_of (kv_uri root bucket k)"
  shows "\<exists>cs. kvl_get_stream nl root bucket k fs2 = Inr cs \<and> concat cs = concat ds"
proof -
  have "kv_get (kv_local nl root bucket) k fs2 = Inr (concat ds)"
    using async_kv.stream_twice [of root bucket k ds fs b fs1 j es c fs2] assms
    by (simp add: akv_local_def kv_local_def)
  then show ?thesis
    using sync_kv.chunks [of nl root bucket k fs2]
    by (cases "kvl_get_stream nl root bucket k fs2") (auto simp: kv_local_def)
qed

end
