(* ===== verification/Control.thy ===== *)
theory Control
  imports Workflows KV_Store
begin

text \<open>
  \<open>control/scheduler.py\<close>, the dispatchers of \<open>control/tasks.py\<close> that prepare a notebook, and the
  endpoints of \<open>web/workflows_bp.py\<close>, \<open>web/runtimes_bp.py\<close>, \<open>web/history_bp.py\<close> and the two of
  \<open>web/projects_bp.py\<close> that build and upload.

  The job queue is a library: what the code asks of it is the list of \<open>queue_call\<close>s, in order,
  and \<open>lib\<close> says which calls raise. A handler returns the answer (or the exception that leaves
  it), the database after its transaction, and the calls it made.
\<close>

section \<open>Calls to the queue\<close>

datatype payload = TaskData exec_task | BuildData build_ctx | ClusterData pyval

datatype queue_call =
    CreateJob string string "string option" exec_task "string option" "string option" "int option"
  | EnqueueJob "string option"
  | UnregisterJob string
  | RemoveJob string
  | Enqueue string string string pyval payload

type_synonym queue_lib = "queue_call \<Rightarrow> py_error option"

fun perform :: "queue_lib \<Rightarrow> queue_call list \<Rightarrow> queue_call list \<times> unit result" where
  "perform lib [] = ([], Inr ())"
| "perform lib (c # cs) =
     (case lib c of
        Some e \<Rightarrow> ([c], Inl e)
      | None \<Rightarrow> (let (done, r) = perform lib cs in (c # done, r)))"

text \<open>What a process provides: the text of a runtime object, the package version, the day, the time
  and one draw for the temporary workflow id and one for the execution id.\<close>

record ctx_env =
  ce_show :: "runtime_data \<Rightarrow> string"
  ce_version :: string
  ce_today :: string
  ce_now :: string
  ce_wfid :: nanoid
  ce_execid :: nanoid

section \<open>The scheduler\<close>

definition create_task_ctx ::
  "ctx_env \<Rightarrow> string \<Rightarrow> nbtask \<Rightarrow> string option \<Rightarrow> db \<Rightarrow> exec_task result" where
  "create_task_ctx E projectid task prefix db =
     (let execid = execid_init (ce_execid E) None EXECID_LEN prefix
      in rbind (if opt_truthy (nb_runtime task)
                then get_runtime projectid (the (nb_runtime task)) (nb_version task) db else Inr None)
           (\<lambda>runtime. Inr (nb_create_ctx (ce_show E) (ce_version E) (ce_wfid E) (ce_execid E) (ce_today E)
              (ce_now E) projectid task (Some execid) runtime None)))"

definition qname :: "string \<Rightarrow> string \<Rightarrow> string" where
  "qname cluster machine = cluster @ CHR ''.'' # machine"

text \<open>\<open>JobManager.register_workflow\<close>, for a workflow that has a schedule.\<close>

definition register_workflow ::
  "ctx_env \<Rightarrow> string \<Rightarrow> workflow_data_web \<Rightarrow> schedule_data \<Rightarrow> db \<Rightarrow> queue_call list result" where
  "register_workflow E projectid wd sch db =
     (let task = wd_nbtask wd
      in rbind (create_task_ctx E projectid task None db) (\<lambda>ctx.
           Inr [CreateJob ''labfunctions.control.tasks.workflow_dispatcher''
                  (qname (nb_cluster task) (nb_machine task)) (wd_wfid wd)
                  (ctx\<lparr>et_wfid := the (wd_wfid wd)\<rparr>) (sd_interval sch) (sd_cron sch) (sd_repeat sch),
                EnqueueJob (wd_wfid wd)]))"

definition unregister_workflow :: "string \<Rightarrow> bool \<Rightarrow> queue_call list" where
  "unregister_workflow wfid remove_job = UnregisterJob wfid # (if remove_job then [RemoveJob wfid] else [])"

definition enqueue_notebook ::
  "ctx_env \<Rightarrow> string \<Rightarrow> nbtask \<Rightarrow> string option \<Rightarrow> db \<Rightarrow> (exec_task \<times> queue_call list) result" where
  "enqueue_notebook E projectid task prefix db =
     rbind (create_task_ctx E projectid task prefix db) (\<lambda>nb_ctx.
       Inr (nb_ctx, [Enqueue (qname (et_cluster nb_ctx) (et_machine nb_ctx))
          ''labfunctions.control.tasks.notebook_dispatcher'' (et_execid nb_ctx) (PInt (nb_timeout task))
          (TaskData nb_ctx)]))"

definition enqueue_build ::
  "os_env \<Rightarrow> (string \<Rightarrow> string) \<Rightarrow> nanoid \<Rightarrow> string \<Rightarrow> string \<Rightarrow> string option \<Rightarrow> string \<Rightarrow>
   string \<Rightarrow> runtime_spec \<Rightarrow> string option \<Rightarrow> (build_ctx \<times> queue_call list) result" where
  "enqueue_build os nfkd gen store_class store_bucket registry build_timeout projectid runtime version =
     (case version of
        None \<Rightarrow> Inl ValidationError
      | Some v \<Rightarrow>
          (let ctx = create_build_ctx os nfkd gen projectid runtime v store_class store_bucket registry
           in Inr (ctx, [Enqueue BUILD_QUEUE ''labfunctions.control.tasks.build_dispatcher''
                (bx_execid ctx) (PStr build_timeout) (BuildData ctx)])))"

definition enqueue_workflow ::
  "ctx_env \<Rightarrow> string \<Rightarrow> string \<Rightarrow> db \<Rightarrow> (exec_task option \<times> queue_call list) result" where
  "enqueue_workflow E projectid wfid db =
     rbind (get_by_wfid_prj projectid wfid db) (\<lambda>wd.
       case wd of
         None \<Rightarrow> Inr (None, [])
       | Some wd \<Rightarrow>
           if wd_enabled wd
           then rbind (enqueue_notebook E projectid (wd_nbtask wd) None db) (\<lambda>(ctx, calls). Inr (Some ctx, calls))
           else Inr (None, []))"

text \<open>\<open>get_task\<close>, over what the library stores about a job.\<close>

definition get_task :: "(string \<Rightarrow> (string \<times> string \<times> int) option) \<Rightarrow> string \<Rightarrow> task_status option" where
  "get_task fetch execid =
     (case fetch execid of
        None \<Rightarrow> None
      | Some (status, queue, retries) \<Rightarrow>
          Some \<lparr>tk_execid = execid, tk_status = status, tk_queue = queue, tk_retries = retries\<rparr>)"

section \<open>The dispatchers\<close>

definition workflow_dispatch_ctx :: "nanoid \<Rightarrow> string \<Rightarrow> string \<Rightarrow> exec_task \<Rightarrow> exec_task" where
  "workflow_dispatch_ctx gen today now ctx =
     ctx\<lparr>et_execid := execid_init gen None EXECID_LEN None,
         et_params := dict_set ''NOW'' (PStr now) (et_params ctx),
         et_created_at := now, et_today := today\<rparr>"

definition notebook_dispatcher :: "(exec_task \<Rightarrow> exec_result result) \<Rightarrow> exec_task \<Rightarrow> exec_result result" where
  "notebook_dispatcher docker_exec ctx = docker_exec ctx"

definition workflow_dispatcher ::
  "(exec_task \<Rightarrow> exec_result result) \<Rightarrow> nanoid \<Rightarrow> string \<Rightarrow> string \<Rightarrow> exec_task \<Rightarrow> exec_result result" where
  "workflow_dispatcher docker_exec gen today now ctx =
     notebook_dispatcher docker_exec (workflow_dispatch_ctx gen today now ctx)"

section \<open>Answers\<close>

datatype web_body =
    BMsg string
  | BWfid "string option"
  | BWorkflow workflow_data_web
  | BRows "workflow_data_web list"
  | BTask exec_task
  | BBuild build_ctx
  | BRuntimes "runtime_data list"
  | BHistory "history_result list"
  | BHistoryOne history_result
  | BStatus task_status
  | BEmpty

type_synonym answer = "(int \<times> web_body) result \<times> db \<times> queue_call list"

text \<open>The end of a transaction that made calls: an exception rolls the writes back.\<close>

definition commit :: "queue_lib \<Rightarrow> queue_call list \<Rightarrow> int \<times> web_body \<Rightarrow> db \<Rightarrow> db \<Rightarrow> answer" where
  "commit lib calls rsp db' db =
     (case perform lib calls of
        (done, Inl e) \<Rightarrow> (Inl e, db, done)
      | (done, Inr _) \<Rightarrow> (Inr rsp, db', done))"

section \<open>Workflows\<close>

definition notebooks_run ::
  "queue_lib \<Rightarrow> ctx_env \<Rightarrow> (pyval \<Rightarrow> nbtask result) \<Rightarrow> string \<Rightarrow> pyval \<Rightarrow> db \<Rightarrow> answer" where
  "notebooks_run lib E parse projectid body db =
     (case parse body of
        Inl ValidationError \<Rightarrow> (Inr (400, BMsg ''wrong params''), db, [])
      | Inl e \<Rightarrow> (Inl e, db, [])
      | Inr task \<Rightarrow>
          (case enqueue_notebook E projectid task None db of
             Inl e \<Rightarrow> (Inl e, db, [])
           | Inr (nb_ctx, calls) \<Rightarrow> commit lib calls (202, BTask nb_ctx) db db))"

definition workflows_list :: "string \<Rightarrow> db \<Rightarrow> int \<times> web_body" where
  "workflows_list projectid db = (200, BRows (wf_get_all (Some projectid) db))"

definition schedule_calls ::
  "ctx_env \<Rightarrow> string \<Rightarrow> workflow_data_web \<Rightarrow> db \<Rightarrow> queue_call list result" where
  "schedule_calls E projectid wfd db =
     (case wd_schedule wfd of None \<Rightarrow> Inr [] | Some sch \<Rightarrow> register_workflow E projectid wfd sch db)"

definition workflow_create ::
  "queue_lib \<Rightarrow> ctx_env \<Rightarrow> nanoid \<Rightarrow> nat \<Rightarrow> (pyval \<Rightarrow> workflow_data_web result) \<Rightarrow> string \<Rightarrow> pyval \<Rightarrow> db \<Rightarrow> answer" where
  "workflow_create lib E gen now parse projectid body db =
     (case parse body of
        Inl ValidationError \<Rightarrow> (Inr (400, BMsg ''wrong params''), db, [])
      | Inl e \<Rightarrow> (Inl e, db, [])
      | Inr wfd \<Rightarrow>
          (case wf_register gen now projectid wfd False db of
             Inl WorkflowRegisterError \<Rightarrow> (Inr (200, BMsg ''workflow already exist''), db, [])
           | Inl e \<Rightarrow> (Inl e, db, [])
           | Inr (wfid, db1) \<Rightarrow>
               (case schedule_calls E projectid (wfd\<lparr>wd_wfid := wfid\<rparr>) db1 of
                  Inl e \<Rightarrow> (Inl e, db, [])
                | Inr calls \<Rightarrow> commit lib calls (201, BWfid wfid) db1 db)))"

definition workflow_update ::
  "queue_lib \<Rightarrow> ctx_env \<Rightarrow> nanoid \<Rightarrow> nat \<Rightarrow> (pyval \<Rightarrow> workflow_data_web result) \<Rightarrow> string \<Rightarrow> pyval \<Rightarrow> db \<Rightarrow> answer" where
  "workflow_update lib E gen now parse projectid body db =
     (case parse body of
        Inl ValidationError \<Rightarrow> (Inr (400, BMsg ''wrong params''), db, [])
      | Inl e \<Rightarrow> (Inl e, db, [])
      | Inr wfd \<Rightarrow>
          if \<not> opt_truthy (wd_wfid wfd) then (Inr (400, BMsg ''wrong params''), db, [])
          else (case wf_register gen now projectid wfd True db of
                  Inl e \<Rightarrow> (Inl e, db, [])
                | Inr (wfid, db1) \<Rightarrow>
                    (case schedule_calls E projectid wfd db1 of
                       Inl e \<Rightarrow> (Inl e, db, [])
                     | Inr calls \<Rightarrow> commit lib calls (201, BWfid wfid) db1 db)))"

definition workflow_delete :: "queue_lib \<Rightarrow> string \<Rightarrow> string \<Rightarrow> db \<Rightarrow> answer" where
  "workflow_delete lib projectid wfid db =
     commit lib (unregister_workflow wfid True) (200, BMsg ''done'') (delete_wf projectid wfid db) db"

definition workflow_get :: "string \<Rightarrow> string \<Rightarrow> db \<Rightarrow> (int \<times> web_body) result" where
  "workflow_get projectid wfid db =
     rbind (get_by_wfid_prj projectid wfid db) (\<lambda>wd.
       Inr (case wd of Some wd \<Rightarrow> (200, BWorkflow wd) | None \<Rightarrow> (404, BMsg ''Not found'')))"

definition workflow_enqueue :: "queue_lib \<Rightarrow> ctx_env \<Rightarrow> string \<Rightarrow> string \<Rightarrow> db \<Rightarrow> answer" where
  "workflow_enqueue lib E projectid wfid db =
     (case enqueue_workflow E projectid wfid db of
        Inl e \<Rightarrow> (Inl e, db, [])
      | Inr (Some ctx, calls) \<Rightarrow> commit lib calls (202, BTask ctx) db db
      | Inr (None, calls) \<Rightarrow>
          commit lib calls (404, BMsg (wfid @ '' not found for pid '' @ projectid)) db db)"

section \<open>Builds and uploads\<close>

definition project_build ::
  "queue_lib \<Rightarrow> os_env \<Rightarrow> (string \<Rightarrow> string) \<Rightarrow> nanoid \<Rightarrow> string \<Rightarrow> string \<Rightarrow> string option \<Rightarrow> string \<Rightarrow>
   (pyval \<Rightarrow> runtime_spec result) \<Rightarrow> string \<Rightarrow> pyval \<Rightarrow> string option \<Rightarrow> db \<Rightarrow> answer" where
  "project_build lib os nfkd gen store_class store_bucket registry build_timeout parse projectid body version db =
     (case rbind (parse body) (\<lambda>spec.
             enqueue_build os nfkd gen store_class store_bucket registry build_timeout projectid spec version) of
        Inl e \<Rightarrow> (Inl e, db, [])
      | Inr (ctx, calls) \<Rightarrow> commit lib calls (202, BBuild ctx) db db)"

text \<open>\<open>get_query_param2\<close> gives \<open>None\<close> for a missing parameter, which the name then spells out.\<close>

definition project_upload ::
  "os_env \<Rightarrow> (string \<Rightarrow> string) \<Rightarrow> ('s, 'b) kv_ops \<Rightarrow> string \<Rightarrow> string option \<Rightarrow> string option \<Rightarrow> 'b list list \<Rightarrow>
   db \<Rightarrow> 's \<Rightarrow> (int \<times> web_body) result \<times> 's" where
  "project_upload os nfkd kv projectid runtime_name version stream db st =
     (case get_by_projectid projectid None db of
        Inl e \<Rightarrow> (Inl e, st)
      | Inr None \<Rightarrow> (Inl AttributeError, st)
      | Inr (Some pd) \<Rightarrow>
          (let uri = build_upload_uri os nfkd (pd_projectid pd) (fmt_opt runtime_name) (fmt_opt version)
           in case kv_put_stream kv uri stream st of
                (Inl e, st') \<Rightarrow> (Inl e, st')
              | (Inr True, st') \<Rightarrow> (Inr (201, BMsg ''ok''), st')
              | (Inr False, st') \<Rightarrow> (Inr (204, BEmpty), st')))"

section \<open>Runtimes\<close>

definition runtimes_list :: "string \<Rightarrow> nat \<Rightarrow> db \<Rightarrow> (int \<times> web_body) result" where
  "runtimes_list projectid lt db = rbind (rt_get_list projectid lt db) (\<lambda>rows. Inr (200, BRuntimes rows))"

definition runtimes_create :: "(pyval \<Rightarrow> runtime_req result) \<Rightarrow> nat \<Rightarrow> pyval \<Rightarrow> db \<Rightarrow> answer" where
  "runtimes_create parse now body db =
     (case parse body of
        Inl e \<Rightarrow> (Inl e, db, [])
      | Inr rq \<Rightarrow> (let (created, db') = rt_create now rq db
                   in (Inr (if created then 201 else 200, BMsg ''ok''), db', [])))"

definition runtimes_delete :: "string \<Rightarrow> string \<Rightarrow> db \<Rightarrow> (int \<times> web_body) \<times> db" where
  "runtimes_delete projectid rid db = ((200, BMsg ''ok''), delete_by_rid rid db)"

section \<open>History\<close>

definition history_create :: "(pyval \<Rightarrow> exec_result result) \<Rightarrow> nat \<Rightarrow> pyval \<Rightarrow> db \<Rightarrow> answer" where
  "history_create parse now body db =
     (case rbind (parse body) (\<lambda>r. hs_create now r db) of
        Inl e \<Rightarrow> (Inl e, db, [])
      | Inr (_, db') \<Rightarrow> (Inr (201, BMsg ''created''), db', []))"

definition history_get_all :: "string \<Rightarrow> nat \<Rightarrow> db \<Rightarrow> int \<times> web_body" where
  "history_get_all projectid lt db =
     (let h = hs_get_last projectid None lt db
      in if h \<noteq> [] then (200, BHistory h) else (404, BMsg ''not found''))"

definition history_detail_job :: "string \<Rightarrow> string \<Rightarrow> db \<Rightarrow> int \<times> web_body" where
  "history_detail_job projectid execid db =
     (case hs_get_one execid db of Some h \<Rightarrow> (200, BHistoryOne h) | None \<Rightarrow> (404, BMsg ''not found''))"

definition history_last_job :: "string \<Rightarrow> string \<Rightarrow> nat \<Rightarrow> db \<Rightarrow> int \<times> web_body" where
  "history_last_job projectid wfid lt db =
     (let h = hs_get_last projectid (Some wfid) lt db
      in if h \<noteq> [] then (200, BHistory h) else (404, BMsg ''not found''))"

text \<open>Where the notebook a worker uploads is stored; \<open>dir\<close> is \<open>ok\<close> or \<open>errors\<close>.\<close>

definition output_key :: "string \<Rightarrow> string \<Rightarrow> string \<Rightarrow> string \<Rightarrow> string" where
  "output_key dir today projectid output_name =
     path_str (path_join (path_join (path_join (path_join (py_path projectid) (py_path NB_OUTPUTS))
       (py_path dir)) (py_path today)) (py_path output_name))"

definition history_output_ok ::
  "('s, 'b) kv_ops \<Rightarrow> string \<Rightarrow> string \<Rightarrow> string \<Rightarrow> 'b list \<Rightarrow> 's \<Rightarrow> (int \<times> web_body) result \<times> 's" where
  "history_output_ok kv today projectid output_name file_body st =
     (case kv_put kv (output_key ''ok'' today projectid output_name) file_body st of
        (Inl e, st') \<Rightarrow> (Inl e, st') | (Inr _, st') \<Rightarrow> (Inr (201, BMsg ''OK''), st'))"

definition history_output_fail ::
  "('s, 'b) kv_ops \<Rightarrow> string \<Rightarrow> string \<Rightarrow> string \<Rightarrow> 'b list \<Rightarrow> 's \<Rightarrow> (int \<times> web_body) result \<times> 's" where
  "history_output_fail kv today projectid output_name file_body st =
     (case kv_put kv (output_key ''errors'' today projectid output_name) file_body st of
        (Inl e, st') \<Rightarrow> (Inl e, st') | (Inr _, st') \<Rightarrow> (Inr (201, BMsg ''OK''), st'))"

text \<open>\<open>request.args.get("file")\<close> may be missing; the key then ends in \<open>None\<close>.\<close>

definition history_get_output :: "('s, 'b) kv_ops \<Rightarrow> string \<Rightarrow> string option \<Rightarrow> 's \<Rightarrow> 'b list list result" where
  "history_get_output kv projectid file st = kv_get_stream kv (projectid @ CHR ''/'' # fmt_opt file) st"

definition history_get_task :: "(string \<Rightarrow> (string \<times> string \<times> int) option) \<Rightarrow> string \<Rightarrow> int \<times> web_body" where
  "history_get_task fetch execid =
     (case get_task fetch execid of None \<Rightarrow> (404, BMsg ''not found'') | Some t \<Rightarrow> (200, BStatus t))"

section \<open>Lemmas\<close>

lemma perform_silent: "(\<And>c. c \<in> set calls \<Longrightarrow> lib c = None) \<Longrightarrow> perform lib calls = (calls, Inr ())"
  by (induction calls) auto

lemma perform_ok: "perform lib calls = (done, Inr u) \<Longrightarrow> done = calls"
  by (induction calls arbitrary: "done") (auto split: option.splits prod.splits)

lemma commit_Inr: "commit lib calls rsp db' db = (Inr r, db'', done) \<Longrightarrow> r = rsp \<and> db'' = db' \<and> done = calls"
  by (auto simp: commit_def split: prod.splits sum.splits dest: perform_ok)

lemma commit_Inl: "commit lib calls rsp db' db = (Inl e, db'', done) \<Longrightarrow> db'' = db"
  by (auto simp: commit_def split: prod.splits sum.splits)

text \<open>The context a task is queued with: only its runtime depends on the database.\<close>

lemma create_task_ctx_fields:
  assumes "create_task_ctx E projectid task prefix db = Inr ctx"
  shows "et_wfid ctx = dummy_wfid (ce_wfid E) \<and>
     map_of (et_params ctx) ''WFID'' = Some (PStr (dummy_wfid (ce_wfid E))) \<and>
     map_of (et_params ctx) ''EXECID'' = Some (PStr (et_execid ctx)) \<and>
     et_pm_output ctx = ''outputs/ok/'' @ ce_today E @ CHR ''/'' # dummy_wfid (ce_wfid E) @ CHR ''.'' #
        nb_name task @ CHR ''.'' # et_execid ctx @ ''.ipynb'' \<and>
     et_cluster ctx = (if nb_cluster task \<noteq> [] then nb_cluster task else CLUSTER_NAME) \<and>
     et_machine ctx = nb_machine task \<and> et_nb_name ctx = nb_name task"
  using assms
  by (auto simp: create_task_ctx_def nb_create_ctx_def Let_def NB_OUTPUTS_def rbind_Inr_iff split: if_splits)

text \<open>C16. What a successful creation of a workflow does, in order: the row is written under a new id;
  with a schedule one job is created under that id, on the queue of the task's cluster and
  machine, with the schedule's interval, cron and repeat, and then enqueued. When the queue
  raises, the row is gone with the transaction.\<close>

theorem workflow_create_spec:
  assumes ok: "db_ok db" and body: "parse body = Inr wfd"
    and run: "workflow_create lib E gen now parse pid body db = (r, db', calls)"
  shows "(case r of
       Inr (st, BWfid w) \<Rightarrow> st = 201 \<and> db_ok db' \<and>
         (\<exists>wfid. w = Some wfid \<and> get_job_from_db wfid db = None \<and>
            get_job_from_db wfid db' = Some (workflow_row_of wfid now pid wfd) \<and>
            (case wd_schedule wfd of None \<Rightarrow> calls = []
             | Some sch \<Rightarrow> \<exists>ctx. et_wfid ctx = wfid \<and> et_nb_name ctx = nb_name (wd_nbtask wfd) \<and>
                 calls = [CreateJob ''labfunctions.control.tasks.workflow_dispatcher''
                   (nb_cluster (wd_nbtask wfd) @ CHR ''.'' # nb_machine (wd_nbtask wfd)) (Some wfid) ctx
                   (sd_interval sch) (sd_cron sch) (sd_repeat sch), EnqueueJob (Some wfid)]))
     | _ \<Rightarrow> db' = db)"
proof (cases "insert_workflow (workflow_row_of (generate_wfid gen) now pid wfd) db")
  case (Inl e)
  then have "r = Inr (200, BMsg ''workflow already exist'')" and "db' = db"
    using run body by (auto simp: workflow_create_def wf_register_new)
  then show ?thesis by simp
next
  case (Inr db1)
  let ?wfid = "generate_wfid gen"
  let ?row = "workflow_row_of ?wfid now pid wfd"
  have ok1: "db_ok db1" using insert_workflow_ok [OF ok Inr] .
  have "?row \<in> set (db_workflows db1)" and old: "?wfid \<notin> wf_wfid ` set (db_workflows db)"
    using Inr by (auto simp: insert_workflow_def workflow_row_of_def split: if_splits)
  then have new: "get_job_from_db ?wfid db1 = Some ?row"
    using get_job_unique [OF ok1, of ?row] by (simp add: get_job_from_db_def first_row_def workflow_row_of_def)
  have none: "get_job_from_db ?wfid db = None"
    using old by (force simp: get_job_from_db_def first_row_def filter_empty_conv split: list.splits
        dest!: filter_eq_ConsD)
  show ?thesis
  proof (cases "schedule_calls E pid (wfd\<lparr>wd_wfid := Some ?wfid\<rparr>) db1")
    case (Inl e)
    then show ?thesis using run body \<open>insert_workflow _ _ = _\<close> by (auto simp: workflow_create_def wf_register_new)
  next
    case calls': (Inr cs)
    then have c: "commit lib cs (201, BWfid (Some ?wfid)) db1 db = (r, db', calls)"
      using run body \<open>insert_workflow _ _ = _\<close> by (auto simp: workflow_create_def wf_register_new)
    show ?thesis
    proof (cases r)
      case (Inl e)
      then show ?thesis using c by (auto dest: commit_Inl)
    next
      case (Inr x)
      then have x: "x = (201, BWfid (Some ?wfid))" "db' = db1" "calls = cs"
        using c by (auto dest: commit_Inr)
      have "case wd_schedule wfd of None \<Rightarrow> cs = []
             | Some sch \<Rightarrow> \<exists>ctx. et_wfid ctx = ?wfid \<and> et_nb_name ctx = nb_name (wd_nbtask wfd) \<and>
                 cs = [CreateJob ''labfunctions.control.tasks.workflow_dispatcher''
                   (nb_cluster (wd_nbtask wfd) @ CHR ''.'' # nb_machine (wd_nbtask wfd)) (Some ?wfid) ctx
                   (sd_interval sch) (sd_cron sch) (sd_repeat sch), EnqueueJob (Some ?wfid)]"
        using calls' by (auto simp: schedule_calls_def register_workflow_def Let_def qname_def rbind_Inr_iff
            split: option.splits dest: create_task_ctx_fields)
      then show ?thesis unfolding Inr x using ok1 none new by simp
    qed
  qed
qed

definition demo_env :: ctx_env where
  "demo_env = \<lparr>ce_show = rd_runtimeid, ce_version = ''1'', ce_today = ''20220101'', ce_now = ''t0'',
     ce_wfid = demo_nanoid, ce_execid = demo_nanoid\<rparr>"

definition demo_sched :: schedule_data where
  "demo_sched = \<lparr>sd_start_in_min = 0, sd_repeat = None, sd_cron = Some ''0 5 * * *'', sd_interval = None\<rparr>"

theorem workflow_create_spec_witness:
  "\<exists>db' calls. workflow_create (\<lambda>_. None) demo_env demo_nanoid 3 (\<lambda>_. Inr (demo_wf (Some demo_sched)))
       ''pid'' PNone admin_db = (Inr (201, BWfid (Some ''00000000000'')), db', calls) \<and> db_ok db' \<and> length calls = 2"
proof -
  let ?run = "workflow_create (\<lambda>_. None) demo_env demo_nanoid 3 (\<lambda>_. Inr (demo_wf (Some demo_sched))) ''pid'' PNone admin_db"
  obtain r db' calls where run: "?run = (r, db', calls)" by (cases ?run) auto
  have wfid: "generate_wfid demo_nanoid = ''00000000000''" by code_simp
  have "\<exists>db1. insert_workflow (workflow_row_of ''00000000000'' 3 ''pid'' (demo_wf (Some demo_sched))) admin_db = Inr db1"
    by (simp add: insert_workflow_def alias_keys_def workflow_row_of_def admin_db_def
        empty_db_def projectids_def demo_project_def)
  then have r: "r = Inr (201, BWfid (Some ''00000000000''))"
    using run by (auto simp: workflow_create_def wf_register_new wfid schedule_calls_def register_workflow_def
        create_task_ctx_def demo_wf_def NBTask_def Let_def commit_def)
  show ?thesis
    using workflow_create_spec [OF admin_db_ok refl run] run r by (auto simp: demo_wf_def)
qed

text \<open>The jobs of the queue and the rows of the database come apart. A delete asked for a project
  that does not own the workflow stops the workflow's job and leaves the row as it was. An
  update with an id that no workflow has, but with a schedule, leaves the database as it was
  and creates a job that no row stands for.\<close>

lemma jobs_and_rows_diverge:
  assumes silent: "\<And>c. lib c = None"
    and other: "\<And>w. w \<in> set (db_workflows db) \<Longrightarrow> wf_wfid w = wfid \<Longrightarrow> wf_project_id w \<noteq> Some pid"
    and ok: "db_ok db"
    and body: "parse body = Inr wfd" "wd_wfid wfd = Some unknown" "unknown \<noteq> []" "wd_schedule wfd = Some sch"
    and new: "unknown \<notin> wf_wfid ` set (db_workflows db)"
    and rt: "nb_runtime (wd_nbtask wfd) = None"
  shows "workflow_delete lib pid wfid db =
       (Inr (200, BMsg ''done''), db, [UnregisterJob wfid, RemoveJob wfid]) \<and>
     (\<exists>ctx. workflow_update lib E gen now parse pid body db =
       (Inr (201, BWfid (Some unknown)), db,
        [CreateJob ''labfunctions.control.tasks.workflow_dispatcher''
           (nb_cluster (wd_nbtask wfd) @ CHR ''.'' # nb_machine (wd_nbtask wfd)) (Some unknown) ctx
           (sd_interval sch) (sd_cron sch) (sd_repeat sch), EnqueueJob (Some unknown)]))"
proof
  have "filter (\<lambda>w. \<not> (wf_project_id w = Some pid \<and> wf_wfid w = wfid)) (db_workflows db) = db_workflows db"
    using other by (auto simp: filter_id_conv)
  then have "delete_wf pid wfid db = db"
    by (simp add: delete_wf_def delete_workflows_def)
  then show "workflow_delete lib pid wfid db = (Inr (200, BMsg ''done''), db, [UnregisterJob wfid, RemoveJob wfid])"
    by (simp add: workflow_delete_def commit_def perform_silent silent unregister_workflow_def)
next
  have same: "map_if (\<lambda>w. wf_wfid w = unknown) f (db_workflows db) = db_workflows db" for f
    using new by (force simp: map_if_def intro!: map_idI)
  have "wf_register gen now pid wfd True db = Inr (Some unknown, db)"
    using ok body(2) by (simp add: wf_register_def wf_update_def update_workflows_def same Let_def
        db_ok_def db_unique_def)
  then show "\<exists>ctx. workflow_update lib E gen now parse pid body db =
       (Inr (201, BWfid (Some unknown)), db,
        [CreateJob ''labfunctions.control.tasks.workflow_dispatcher''
           (nb_cluster (wd_nbtask wfd) @ CHR ''.'' # nb_machine (wd_nbtask wfd)) (Some unknown) ctx
           (sd_interval sch) (sd_cron sch) (sd_repeat sch), EnqueueJob (Some unknown)])"
    using body rt by (simp add: workflow_update_def schedule_calls_def register_workflow_def
        create_task_ctx_def Let_def qname_def commit_def silent)
qed

text \<open>C21. Every run of a scheduled workflow writes the same output file: the context is made once,
  when the workflow is registered, under a temporary workflow id, and a dispatch renews only
  the execution id, the time and the day. So any two runs, on whatever days, share the output
  path, under the day of the registration, and hand the notebook the temporary workflow id and
  the execution id of the registration as \<open>WFID\<close> and \<open>EXECID\<close>.\<close>

theorem workflow_runs_share_output:
  assumes "register_workflow E pid wd sch db = Inr [CreateJob fn q (Some wfid) ctx i c r, EnqueueJob j]"
  shows "let run = workflow_dispatch_ctx gen today now ctx; run' = workflow_dispatch_ctx gen' today' now' ctx
     in et_wfid run = wfid \<and> et_pm_output run = et_pm_output run' \<and>
        et_pm_output run = ''outputs/ok/'' @ ce_today E @ CHR ''/'' # dummy_wfid (ce_wfid E) @ CHR ''.'' #
          nb_name (wd_nbtask wd) @ CHR ''.'' # et_execid ctx @ ''.ipynb'' \<and>
        map_of (et_params run) ''WFID'' = Some (PStr (dummy_wfid (ce_wfid E))) \<and>
        map_of (et_params run) ''EXECID'' = Some (PStr (et_execid ctx)) \<and>
        map_of (et_params run) ''NOW'' = Some (PStr now)"
proof -
  obtain c0 where c0: "create_task_ctx E pid (wd_nbtask wd) None db = Inr c0"
    and ctx: "ctx = c0\<lparr>et_wfid := wfid\<rparr>"
    using assms by (auto simp: register_workflow_def Let_def rbind_Inr_iff)
  show ?thesis
    using create_task_ctx_fields [OF c0] by (simp add: workflow_dispatch_ctx_def Let_def ctx)
qed

theorem workflow_runs_share_output_witness:
  "\<exists>ctx. (\<exists>j. register_workflow demo_env ''pid'' ((demo_wf (Some demo_sched))\<lparr>wd_wfid := Some ''wf1''\<rparr>) demo_sched admin_db =
       Inr [CreateJob ''labfunctions.control.tasks.workflow_dispatcher'' ''default.cpu'' (Some ''wf1'') ctx
              None (Some ''0 5 * * *'') None, EnqueueJob j]) \<and>
     et_pm_output (workflow_dispatch_ctx demo_nanoid ''20220102'' ''t1'' ctx) =
       ''outputs/ok/20220101/tmp00000000.welcome.00000000000000.ipynb''"
proof -
  let ?w = "(demo_wf (Some demo_sched))\<lparr>wd_wfid := Some ''wf1''\<rparr>"
  have e: "execid_init demo_nanoid None EXECID_LEN None = ''00000000000000''"
    and d: "dummy_wfid demo_nanoid = ''tmp00000000''" by code_simp+
  let ?ctx = "(nb_create_ctx rd_runtimeid ''1'' demo_nanoid demo_nanoid ''20220101'' ''t0'' ''pid''
      (NBTask ''welcome'' []) (Some ''00000000000000'') None None)\<lparr>et_wfid := ''wf1''\<rparr>"
  have r: "register_workflow demo_env ''pid'' ?w demo_sched admin_db =
      Inr [CreateJob ''labfunctions.control.tasks.workflow_dispatcher'' ''default.cpu'' (Some ''wf1'') ?ctx
              None (Some ''0 5 * * *'') None, EnqueueJob (Some ''wf1'')]"
    by (simp add: register_workflow_def create_task_ctx_def demo_wf_def demo_env_def demo_sched_def e Let_def
        NBTask_def qname_def MACHINE_TYPE_def CLUSTER_NAME_def)
  have "et_execid ?ctx = ''00000000000000''"
    by (simp add: nb_create_ctx_def Let_def)
  then show ?thesis
    using workflow_runs_share_output [OF r, of demo_nanoid "''20220102''" "''t1''" demo_nanoid "''20220102''" "''t1''"] r d
    by (auto simp: Let_def demo_wf_def NBTask_def demo_env_def)
qed

text \<open>Running a workflow on demand: it is queued exactly when it exists in the project, has a
  schedule and is enabled, once, on the queue of its cluster and machine and with its timeout;
  but under a temporary workflow id, so the execution it registers is not in the workflow's
  history. A workflow without a schedule cannot be run: the read raises.\<close>

lemma enqueue_workflow_spec:
  assumes ok: "db_ok db" and w: "w \<in> set (db_workflows db)" "wf_project_id w = Some pid"
    and rt: "nb_runtime (wf_nbtask w) = None"
  shows "(case enqueue_workflow E pid (wf_wfid w) db of
       Inl e \<Rightarrow> e = TypeError \<and> wf_schedule w = None
     | Inr (None, calls) \<Rightarrow> calls = [] \<and> \<not> wf_enabled w
     | Inr (Some ctx, calls) \<Rightarrow> wf_enabled w \<and> wf_schedule w \<noteq> None \<and>
         et_wfid ctx = ''tmp'' @ random_id (ce_wfid E) 8 \<and>
         calls = [Enqueue (et_cluster ctx @ CHR ''.'' # nb_machine (wf_nbtask w))
           ''labfunctions.control.tasks.notebook_dispatcher'' (et_execid ctx)
           (PInt (nb_timeout (wf_nbtask w))) (TaskData ctx)])"
proof -
  have get: "get_by_wfid_prj pid (wf_wfid w) db = rbind (model2data w) (\<lambda>wd. Inr (Some wd))"
    using get_by_wfid_prj_row [OF ok w] .
  show ?thesis
  proof (cases "wf_schedule w")
    case None
    then show ?thesis by (simp add: enqueue_workflow_def get model2data_def)
  next
    case (Some sch)
    obtain ctx where ctx: "create_task_ctx E pid (wf_nbtask w) None db = Inr ctx"
      using rt by (simp add: create_task_ctx_def Let_def)
    have "et_wfid ctx = ''tmp'' @ random_id (ce_wfid E) 8" and "et_machine ctx = nb_machine (wf_nbtask w)"
      using create_task_ctx_fields [OF ctx] by (simp_all add: dummy_wfid_def WFID_PREFIX_def WFID_LEN_def)
    then show ?thesis
      using Some ctx by (simp add: enqueue_workflow_def get model2data_def enqueue_notebook_def qname_def)
  qed
qed

section \<open>Reading an output\<close>

lemma prefixes_append: "set (prefixes (xs @ ys)) = set (prefixes xs) \<union> (@) xs ` set (prefixes ys)"
  by (auto simp: set_prefixes append_eq_append_conv2)

lemma resolve_acc_append: "resolve_acc d (xs @ ys) = resolve_acc (rev (resolve_acc d xs)) ys"
  by (induction xs arbitrary: d) auto

lemma resolve_up: "w \<noteq> ''..'' \<Longrightarrow> resolve_parts (ps @ w # ''..'' # ks) = resolve_parts (ps @ ks)"
  by (simp add: resolve_parts_def resolve_acc_append)

lemma through_up:
  assumes "w \<noteq> ''..''"
  shows "set (through (ps @ w # ''..'' # ks)) = set (through (ps @ ks)) \<union> {resolve_parts (ps @ [w])}"
proof -
  have self: "ps \<in> set (prefixes ps)" by (simp add: set_prefixes)
  have "set (prefixes (ps @ w # ''..'' # ks)) =
      set (prefixes ps) \<union> {ps @ [w]} \<union> (\<lambda>k. ps @ w # ''..'' # k) ` set (prefixes ks)"
    using self by (auto simp: prefixes_append image_Un image_image)
  moreover have "resolve_parts ` (\<lambda>k. ps @ w # ''..'' # k) ` set (prefixes ks) =
      resolve_parts ` (@) ps ` set (prefixes ks)"
    using assms by (simp add: image_image resolve_up)
  ultimately show ?thesis
    by (auto simp: through_def prefixes_append image_Un)
qed

lemma read_file_up:
  assumes "w \<noteq> ''..''" and "ks \<noteq> []" and "resolve_parts (ps @ [w]) \<in> fs_dirs fs"
  shows "read_file (ps @ w # ''..'' # ks) fs = read_file (ps @ ks) fs"
proof -
  have "butlast (ps @ w # ''..'' # ks) = ps @ w # ''..'' # butlast ks" and "butlast (ps @ ks) = ps @ butlast ks"
    using assms(2) by (simp_all add: butlast_append)
  then have "walks fs (ps @ w # ''..'' # ks) = walks fs (ps @ ks)"
    using assms by (simp add: walks_def through_up)
  then show ?thesis using assms(1) by (simp add: read_file_def resolve_up)
qed

text \<open>C26. The endpoint that streams the output of a notebook takes its \<open>file\<close> parameter as it comes:
  for a project whose directory exists, \<open>../key\<close> streams the object stored under \<open>key\<close>,
  whichever project it belongs to.\<close>

theorem get_output_leaves_project:
  assumes "plain_part pid" and "key \<noteq> []" and "path_parts key \<noteq> []"
    and "resolve_parts (path_parts root @ path_parts bucket @ [pid]) \<in> fs_dirs fs"
  shows "history_get_output (akv_local root bucket) pid (Some (''../'' @ key)) fs =
     kv_get_stream (akv_local root bucket) key fs"
proof -
  have up: "path_parts (''../'' @ key) = ''..'' # path_parts key"
    using path_parts_slash [of "''..''" key] by (simp add: path_parts_def)
  have "path_parts (kv_uri root bucket (pid @ CHR ''/'' # ''../'' @ key)) =
      (path_parts root @ path_parts bucket) @ pid # ''..'' # path_parts key"
    unfolding kv_uri_def path_parts_slash up using path_parts_plain [OF assms(1)] by simp
  moreover have "path_parts (kv_uri root bucket key) = (path_parts root @ path_parts bucket) @ path_parts key"
    by (simp add: kv_uri_def path_parts_slash)
  moreover have "pid \<noteq> ''..''" using assms(1) by (simp add: plain_part_def)
  ultimately show ?thesis
    using read_file_up [of pid "path_parts key" "path_parts root @ path_parts bucket" fs] assms(3,4)
    by (simp add: history_get_output_def akv_local_def akvl_get_stream_def)
qed

theorem get_output_leaves_project_witness:
  "history_get_output (akv_local ''/tmp'' ''lab'') ''mine'' (Some ''../other/x'')
     (root_fs\<lparr>fs_dirs := {[], [''tmp''], [''tmp'', ''lab''], [''tmp'', ''lab'', ''mine''], [''tmp'', ''lab'', ''other'']},
       fs_files := [[''tmp'', ''lab'', ''other'', ''x''] \<mapsto> ''secret'']\<rparr>) = Inr [''secret'']"
proof -
  let ?fs = "root_fs\<lparr>fs_dirs := {[], [''tmp''], [''tmp'', ''lab''], [''tmp'', ''lab'', ''mine''], [''tmp'', ''lab'', ''other'']},
       fs_files := [[''tmp'', ''lab'', ''other'', ''x''] \<mapsto> ''secret'']\<rparr> :: char file_sys"
  have p: "path_parts (kv_uri ''/tmp'' ''lab'' ''other/x'') = [''tmp'', ''lab'', ''other'', ''x'']"
    "path_parts ''/tmp'' = [''tmp'']" "path_parts ''lab'' = [''lab'']" "path_parts ''other/x'' = [''other'', ''x'']"
    by (simp_all add: kv_uri_def path_parts_def)
  have "kv_get_stream (akv_local ''/tmp'' ''lab'') ''other/x'' ?fs = Inr [''secret'']"
    by (simp add: akv_local_def akvl_get_stream_def p read_file_def walks_def through_def resolve_parts_def
        file_chunks.simps)
  then show ?thesis
    using get_output_leaves_project [of "''mine''" "''other/x''" "''/tmp''" "''lab''" ?fs]
    by (simp add: p resolve_parts_def plain_part_def)
qed

end
