(* ===== verification/Lab_Client.thy ===== *)
theory Lab_Client
  imports Labfile Control
begin

text \<open>
  The client's side of workflows: \<open>client/workflows_client.py\<close>, the parts of \<open>client/projects_client.py\<close> and
  \<open>client/history_client.py\<close> that only look at an answer, the notebook parameters of
  \<open>client/diskclient.py\<close>, and the client against the server's own handlers. A request is an
  argument that takes the data and the server's state and gives an answer, or the exception of
  the transport, with the state after it.
\<close>

section \<open>Requests\<close>

text \<open>An answer: its status, and the message and workflow id of its JSON when it has one.\<close>

record wf_rsp =
  rw_status :: int
  rw_json :: "(string option \<times> string option) option"

type_synonym 's wf_send = "workflow_data_web \<Rightarrow> 's \<Rightarrow> wf_rsp result \<times> 's"

record wf_create_rsp =
  wr_status_code :: int
  wr_alias :: string
  wr_msg :: "string option"
  wr_wfid :: "string option"

definition create_rsp :: "workflow_data_web \<Rightarrow> wf_rsp \<Rightarrow> wf_create_rsp result" where
  "create_rsp wd r =
     (if rw_status r = 400 \<or> rw_status r = 503 then Inl WorkflowRegisterClientError
      else case rw_json r of
             None \<Rightarrow> Inl ValueError
           | Some (m, w) \<Rightarrow> Inr \<lparr>wr_status_code = rw_status r, wr_alias = wd_alias wd, wr_msg = m, wr_wfid = w\<rparr>)"

definition workflows_create :: "'s wf_send \<Rightarrow> workflow_data_web \<Rightarrow> 's \<Rightarrow> wf_create_rsp result \<times> 's" where
  "workflows_create post wd st = (let (r, st') = post wd st in (rbind r (create_rsp wd), st'))"

definition workflows_update :: "'s wf_send \<Rightarrow> workflow_data_web \<Rightarrow> 's \<Rightarrow> wf_create_rsp result \<times> 's" where
  "workflows_update put wd st = (let (r, st') = put wd st in (rbind r (create_rsp wd), st'))"

section \<open>Pushing the labfile\<close>

definition set_wfid :: "string option \<Rightarrow> wf_entry \<Rightarrow> wf_entry" where
  "set_wfid wfid w = w\<lparr>we_data := (we_data w)\<lparr>wd_wfid := wfid\<rparr>,
     we_set := (if ''wfid'' \<in> set (we_set w) then we_set w else we_set w @ [''wfid''])\<rparr>"

definition failed_rsp :: "workflow_data_web \<Rightarrow> int \<Rightarrow> wf_create_rsp" where
  "failed_rsp wd code = \<lparr>wr_status_code = code, wr_alias = wd_alias wd, wr_msg = None, wr_wfid = wd_wfid wd\<rparr>"

record 's push_state =
  ps_created :: "wf_create_rsp list"
  ps_errors :: "wf_create_rsp list"
  ps_state :: lab_state
  ps_server :: 's

text \<open>One workflow of the snapshot. Only \<open>WorkflowRegisterClientError\<close> is caught.\<close>

definition push_one ::
  "'s wf_send \<Rightarrow> 's wf_send \<Rightarrow> bool \<Rightarrow> bool \<Rightarrow> wf_entry \<Rightarrow> 's push_state \<Rightarrow> unit result \<times> 's push_state" where
  "push_one post put refresh update w p =
     (let wd = we_data w in
      if \<not> update \<and> opt_truthy (wd_wfid wd) then (Inr (), p)
      else
        case (if update then workflows_update put wd (ps_server p) else workflows_create post wd (ps_server p)) of
          (Inl e, st) \<Rightarrow>
            (let p' = p\<lparr>ps_server := st\<rparr>
             in if e = WorkflowRegisterClientError
                then (Inr (), p'\<lparr>ps_errors := ps_errors p @ [failed_rsp wd 503]\<rparr>) else (Inl e, p'))
        | (Inr wr, st) \<Rightarrow>
            (let p' = p\<lparr>ps_server := st\<rparr>
             in if update then (Inr (), p'\<lparr>ps_created := ps_created p @ [wr]\<rparr>)
                else if wr_status_code wr = 200 then (Inr (), p')
                else if wr_status_code wr = 201
                then (Inr (), p'\<lparr>ps_created := ps_created p @ [wr],
                  ps_state := (if refresh then add_workflow (set_wfid (wr_wfid wr) w) (ps_state p) else ps_state p)\<rparr>)
                else (Inr (), p'\<lparr>ps_errors := ps_errors p @ [failed_rsp wd (wr_status_code wr)]\<rparr>)))"

fun push_loop ::
  "'s wf_send \<Rightarrow> 's wf_send \<Rightarrow> bool \<Rightarrow> bool \<Rightarrow> wf_entry list \<Rightarrow> 's push_state \<Rightarrow> unit result \<times> 's push_state" where
  "push_loop post put refresh update [] p = (Inr (), p)"
| "push_loop post put refresh update (w # ws) p =
     (case push_one post put refresh update w p of
        (Inl e, p') \<Rightarrow> (Inl e, p')
      | (Inr _, p') \<Rightarrow> push_loop post put refresh update ws p')"

text \<open>\<open>self.write(wf_file)\<close>: without a file name \<open>open(None)\<close> raises.\<close>

definition lab_write :: "string option \<Rightarrow> lab_state \<Rightarrow> (string \<times> pyval) result" where
  "lab_write fp s = rbind (lab_dict s) (\<lambda>v. case fp of None \<Rightarrow> Inl TypeError | Some f \<Rightarrow> Inr (f, v))"

text \<open>The answer or the exception, the client's state, the server's state and the file written.\<close>

definition workflows_push ::
  "'s wf_send \<Rightarrow> 's wf_send \<Rightarrow> bool \<Rightarrow> bool \<Rightarrow> string option \<Rightarrow> lab_state \<Rightarrow> 's \<Rightarrow>
   (wf_create_rsp list \<times> wf_create_rsp list) result \<times> lab_state \<times> 's \<times> (string \<times> pyval) option" where
  "workflows_push post put refresh update wf_file s st =
     (case snapshot s of
        Inl e \<Rightarrow> (Inl e, s, st, None)
      | Inr snap \<Rightarrow>
          (let p0 = \<lparr>ps_created = [], ps_errors = [], ps_state = s, ps_server = st\<rparr>
           in case push_loop post put refresh update (map snd (ls_workflows snap)) p0 of
                (Inl e, p) \<Rightarrow> (Inl e, ps_state p, ps_server p, None)
              | (Inr _, p) \<Rightarrow>
                  if refresh
                  then (case lab_write wf_file (ps_state p) of
                          Inl e \<Rightarrow> (Inl e, ps_state p, ps_server p, None)
                        | Inr fv \<Rightarrow> (Inr (ps_created p, ps_errors p), ps_state p, ps_server p, Some fv))
                  else (Inr (ps_created p, ps_errors p), ps_state p, ps_server p, None)))"

section \<open>The other requests\<close>

text \<open>Each is what the client makes of an answer with a status.\<close>

definition workflows_get :: "int \<times> workflow_data_web result \<Rightarrow> workflow_data_web option result" where
  "workflows_get r = (if fst r = 200 then rbind (snd r) (\<lambda>wd. Inr (Some wd)) else Inr None)"

definition workflows_delete :: "int \<Rightarrow> int" where
  "workflows_delete code = code"

definition workflows_enqueue :: "int \<times> string result \<Rightarrow> string result" where
  "workflows_enqueue r = (if fst r = 202 then snd r else Inr [])"

text \<open>\<open>NBTask(...)\<close> of \<open>notebook_run\<close>: its fields \<open>params\<close>, \<open>machine\<close> and \<open>cluster\<close> do not take \<open>None\<close>.\<close>

definition notebook_task ::
  "string \<Rightarrow> pyval dict option \<Rightarrow> string option \<Rightarrow> string option \<Rightarrow> string option \<Rightarrow> string option \<Rightarrow> nbtask result" where
  "notebook_task nbname params cluster machine runtime version =
     (case (params, cluster, machine) of
        (Some ps, Some c, Some m) \<Rightarrow>
          Inr ((NBTask nbname ps)\<lparr>nb_cluster := c, nb_machine := m, nb_runtime := runtime, nb_version := version\<rparr>)
      | _ \<Rightarrow> Inl ValidationError)"

definition notebook_run ::
  "(nbtask \<Rightarrow> 's \<Rightarrow> (int \<times> exec_task result) \<times> 's) \<Rightarrow> string \<Rightarrow> pyval dict option \<Rightarrow> string option \<Rightarrow> string option \<Rightarrow>
   string option \<Rightarrow> string option \<Rightarrow> 's \<Rightarrow> exec_task result \<times> 's" where
  "notebook_run post nbname params cluster machine runtime version st =
     (case notebook_task nbname params cluster machine runtime version of
        Inl e \<Rightarrow> (Inl e, st)
      | Inr task \<Rightarrow>
          (let ((code, ctx), st') = post task st in (if code \<noteq> 202 then Inl AttributeError else ctx, st')))"

definition projects_get :: "int \<times> project_data result \<Rightarrow> project_data option result" where
  "projects_get r = (if fst r = 200 then rbind (snd r) (\<lambda>pd. Inr (Some pd)) else Inr None)"

definition projects_list :: "int \<times> project_data list result \<Rightarrow> project_data list result" where
  "projects_list r = (if fst r = 200 then snd r else Inr [])"

definition projects_upload :: "int \<Rightarrow> unit result" where
  "projects_upload code = (if code \<noteq> 201 \<and> code \<noteq> 204 then Inl ProjectUploadError else Inr ())"

definition projects_build :: "int \<times> string result \<Rightarrow> string option result" where
  "projects_build r = (if fst r = 202 then rbind (snd r) (\<lambda>x. Inr (Some x)) else Inr None)"

definition projects_create_agent :: "int \<times> string result \<Rightarrow> string option result" where
  "projects_create_agent r = (if fst r = 201 then rbind (snd r) (\<lambda>x. Inr (Some x)) else Inr None)"

definition projects_agent_list :: "int \<times> string list result \<Rightarrow> string list result" where
  "projects_agent_list r = (if fst r = 200 then snd r else Inr [])"

definition project_agent_delete :: "int \<Rightarrow> bool" where
  "project_agent_delete code \<longleftrightarrow> code = 200"

definition runtime_delete :: "int \<Rightarrow> unit result" where
  "runtime_delete code = (if code \<noteq> 200 then Inl RuntimeCreationError else Inr ())"

text \<open>\<open>projects_create\<close>: the answer to the request, and the private key it was sent with; \<open>store\<close> keeps
  the key in the working area of the client's own project.\<close>

definition projects_create ::
  "int \<times> project_data result \<Rightarrow> string \<Rightarrow> bool \<Rightarrow> (string \<Rightarrow> 'f \<Rightarrow> unit result \<times> 'f) \<Rightarrow> 'f \<Rightarrow>
   (project_data \<times> string) option result \<times> 'f" where
  "projects_create r pkey store_key store fs =
     (if fst r = 201
      then (case snd r of
              Inl e \<Rightarrow> (Inl e, fs)
            | Inr pd \<Rightarrow>
                if store_key
                then (case store pkey fs of (Inl e, fs') \<Rightarrow> (Inl e, fs') | (Inr _, fs') \<Rightarrow> (Inr (Some (pd, pkey)), fs'))
                else (Inr (Some (pd, pkey)), fs))
      else if fst r \<noteq> 200 then (Inl ProjectCreateError, fs) else (Inr None, fs))"

definition history_get_last :: "int \<times> history_result list result \<Rightarrow> history_result list result" where
  "history_get_last r =
     (if fst r = 404 then Inr []
      else rbind (snd r) (rmap (\<lambda>h. if hi_result h = None then Inl TypeError else Inr h)))"

definition history_detail :: "int \<times> history_result result \<Rightarrow> history_result option result" where
  "history_detail r = (if fst r = 200 then rbind (snd r) (\<lambda>h. Inr (Some h)) else Inr None)"

section \<open>The parameters of a notebook\<close>

record nb_cell =
  cell_type :: string
  cell_tags :: "string list"
  cell_source :: "string list"

text \<open>The lines of the tagged code cells, each \<open>k = v\<close>; a line without \<open>=\<close> is skipped.\<close>

definition cell_params :: "nb_cell \<Rightarrow> string dict \<Rightarrow> string dict result" where
  "cell_params c params =
     (if cell_type c = ''code'' \<and> cell_tags c \<noteq> []
      then fold (\<lambda>line r. rbind r (\<lambda>ps. case parse_var_line line of
             Inr (k, v) \<Rightarrow> Inr (dict_set k v ps)
           | Inl IndexError \<Rightarrow> Inr ps
           | Inl e \<Rightarrow> Inl e)) (cell_source c) (Inr params)
      else Inr params)"

definition get_params_from_nb :: "nb_cell list \<Rightarrow> string dict result" where
  "get_params_from_nb cells = fold (\<lambda>c r. rbind r (cell_params c)) cells (Inr [])"

text \<open>\<open>create_workflow\<close>: for a notebook that is not there the template is written, and then \<open>params\<close>
  is read before it has a value.\<close>

definition create_workflow ::
  "(string \<Rightarrow> nb_cell list option) \<Rightarrow> string \<Rightarrow> string \<Rightarrow> lab_state \<Rightarrow> (lab_state \<times> pyval) result" where
  "create_workflow notebook nb_fullpath alias s =
     (case notebook nb_fullpath of
        None \<Rightarrow> (if CHR ''/'' \<in> set nb_fullpath then Inl UnboundLocalError else Inl IndexError)
      | Some cells \<Rightarrow>
          rbind (get_params_from_nb cells) (\<lambda>params.
          rbind (case rsplit_once CHR ''/'' nb_fullpath of None \<Rightarrow> Inl IndexError | Some (_, n) \<Rightarrow> Inr n) (\<lambda>n.
            let task = NBTask (hd (split_on CHR ''.'' n)) (map (\<lambda>(k, v). (k, PStr v)) params);
                w = \<lparr>we_data = \<lparr>wd_alias = alias, wd_nbtask = task, wd_enabled = False, wd_wfid = None, wd_schedule = None\<rparr>,
                     we_set = [''alias'', ''nbtask'', ''enabled''], we_task_set = [''nb_name'', ''params''], we_sched_set = []\<rparr>;
                s' = add_workflow w s
            in rbind (lab_dict s') (\<lambda>v. Inr (s', v)))))"

section \<open>The server of the requests\<close>

text \<open>The body a client sends, and what the server's model makes of it.\<close>

definition wd_dict :: "workflow_data_web \<Rightarrow> pyval" where
  "wd_dict wd =
     PDict [(''alias'', PStr (wd_alias wd)), (''nbtask'', PDict (task_fields (wd_nbtask wd))),
            (''enabled'', PBool (wd_enabled wd)), (''wfid'', opt_pstr (wd_wfid wd)),
            (''schedule'', case wd_schedule wd of None \<Rightarrow> PNone | Some s \<Rightarrow> PDict (sched_fields s))]"

definition parse_web :: "pyval \<Rightarrow> workflow_data_web result" where
  "parse_web v = rbind (parse_entry v) (\<lambda>e. Inr (we_data e))"

definition answer_rsp :: "(py_error \<Rightarrow> wf_rsp) \<Rightarrow> (int \<times> web_body) result \<Rightarrow> wf_rsp" where
  "answer_rsp fault r =
     (case r of
        Inl e \<Rightarrow> fault e
      | Inr (code, b) \<Rightarrow> \<lparr>rw_status = code, rw_json = Some (case b of BMsg m \<Rightarrow> (Some m, None) | BWfid w \<Rightarrow> (None, w) | _ \<Rightarrow> (None, None))\<rparr>)"

text \<open>The \<open>n\<close>-th request: the transport may fail; \<open>gens n\<close> are the server's random draws, \<open>fault\<close> is
  the answer to an exception of the handler.\<close>

definition lab_post ::
  "queue_lib \<Rightarrow> ctx_env \<Rightarrow> (nat \<Rightarrow> nanoid) \<Rightarrow> (nat \<Rightarrow> py_error option) \<Rightarrow> (py_error \<Rightarrow> wf_rsp) \<Rightarrow> string \<Rightarrow> (nat \<times> db) wf_send" where
  "lab_post lib E gens fails fault pid wd st =
     (case fails (fst st) of
        Some e \<Rightarrow> (Inl e, (Suc (fst st), snd st))
      | None \<Rightarrow>
          (case workflow_create lib E (gens (fst st)) (fst st) parse_web pid (wd_dict wd) (snd st) of
             (r, db', _) \<Rightarrow> (Inr (answer_rsp fault r), (Suc (fst st), db'))))"

lemma parse_web_dict [simp]: "parse_web (wd_dict wd) = Inr wd"
proof -
  have t: "parse_task (task_fields t) = Inr t" for t
    by (simp add: parse_task_def task_fields_def field_def)
  have s: "parse_sched (sched_fields x) = Inr x" for x
    by (simp add: parse_sched_def sched_fields_def field_def)
  show ?thesis
    by (cases "wd_schedule wd") (simp_all add: parse_web_def wd_dict_def parse_entry_def field_def t s as_opt_def [of as_dict])
qed

lemma workflow_create_cases:
  assumes "workflow_create lib E gen now parse pid body db = (r, db', calls)" and "parse body = Inr wfd"
  shows "(db' = db \<and> (\<forall>b. r \<noteq> Inr (201, b))) \<or>
     (r = Inr (201, BWfid (Some (generate_wfid gen))) \<and>
      insert_workflow (workflow_row_of (generate_wfid gen) now pid wfd) db = Inr db')"
  using assms
  by (auto simp: workflow_create_def wf_register_new split: sum.splits dest: commit_Inr commit_Inl)
    (metis commit_Inr commit_Inl sum.exhaust prod.exhaust)+

lemma dict_keys_set [simp]: "k \<in> set (dict_keys d) \<Longrightarrow> dict_keys (dict_set k v d) = dict_keys d"
  by (simp add: dict_keys_def dict_set_def update_keys)

text \<open>An entry after a push: as it was, or with the id of a row that holds its task.\<close>

definition synced :: "string \<Rightarrow> db \<Rightarrow> wf_entry \<Rightarrow> wf_entry \<Rightarrow> bool" where
  "synced pid db w w' \<longleftrightarrow> w' = w \<or>
     (\<not> opt_truthy (wd_wfid (we_data w)) \<and>
      (\<exists>row\<in>set (db_workflows db). w' = set_wfid (Some (wf_wfid row)) w \<and> wf_project_id row = Some pid \<and>
         wf_alias row = wd_alias (we_data w) \<and> wf_nbtask row = wd_nbtask (we_data w) \<and>
         wf_schedule row = wd_schedule (we_data w)))"

lemma synced_mono: "synced pid db w w' \<Longrightarrow> set (db_workflows db) \<subseteq> set (db_workflows db') \<Longrightarrow> synced pid db' w w'"
  by (auto simp: synced_def)

text \<open>What one step of the push does.\<close>

lemma push_one_synced:
  assumes run: "push_one (lab_post lib E gens fails fault pid) put True False w p = (r0, p')"
    and ok: "db_ok (snd (ps_server p))" and fault: "\<And>e. rw_status (fault e) \<noteq> 201"
  shows "db_ok (snd (ps_server p')) \<and> set (db_workflows (snd (ps_server p))) \<subseteq> set (db_workflows (snd (ps_server p'))) \<and>
     (\<exists>w'. synced pid (snd (ps_server p')) w w' \<and> wd_alias (we_data w') = wd_alias (we_data w) \<and>
        (ps_state p' = ps_state p \<and> w' = w \<or> ps_state p' = add_workflow w' (ps_state p)))"
proof -
  let ?db = "snd (ps_server p)" and ?n = "fst (ps_server p)"
  have same: ?thesis if "snd (ps_server p') = ?db" "ps_state p' = ps_state p"
    using that ok by (auto simp: synced_def)
  show ?thesis
  proof (cases "opt_truthy (wd_wfid (we_data w)) \<or> fails ?n \<noteq> None")
    case True
    then have "snd (ps_server p') = ?db \<and> ps_state p' = ps_state p"
      using run by (auto simp: push_one_def workflows_create_def lab_post_def Let_def split: if_splits)
    then show ?thesis using same by blast
  next
    case False
    obtain r db' calls where c: "workflow_create lib E (gens ?n) ?n parse_web pid (wd_dict (we_data w)) ?db = (r, db', calls)"
      by (rule prod_cases3)
    have step: "lab_post lib E gens fails fault pid (we_data w) (ps_server p) = (Inr (answer_rsp fault r), (Suc ?n, db'))"
      using False by (simp add: lab_post_def c)
    note run' = run [unfolded push_one_def Let_def workflows_create_def step create_rsp_def, simplified]
    from workflow_create_cases [OF c parse_web_dict] show ?thesis
    proof
      assume "db' = ?db \<and> (\<forall>b. r \<noteq> Inr (201, b))"
      moreover from this have "rw_status (answer_rsp fault r) \<noteq> 201"
        using fault by (auto simp: answer_rsp_def split: sum.splits)
      ultimately have "snd (ps_server p') = ?db \<and> ps_state p' = ps_state p"
        using run' False by (auto split: if_splits option.splits)
      then show ?thesis using same by blast
    next
      let ?id = "generate_wfid (gens ?n)"
      let ?row = "workflow_row_of ?id ?n pid (we_data w)"
      assume "r = Inr (201, BWfid (Some ?id)) \<and> insert_workflow ?row ?db = Inr db'"
      then have r: "r = Inr (201, BWfid (Some ?id))" and i: "insert_workflow ?row ?db = Inr db'" by auto
      have rows: "?row \<in> set (db_workflows db')" "set (db_workflows ?db) \<subseteq> set (db_workflows db')"
        using i by (auto simp: insert_workflow_def split: if_splits)
      then have sy: "synced pid db' w (set_wfid (Some ?id) w)"
        unfolding synced_def using False by (intro disjI2 conjI bexI [of _ ?row]) (auto simp: workflow_row_of_def)
      have al: "wd_alias (we_data (set_wfid (Some ?id) w)) = wd_alias (we_data w)" by (simp add: set_wfid_def)
      have "snd (ps_server p') = db'" "ps_state p' = add_workflow (set_wfid (Some ?id) w) (ps_state p)"
        using run' False r by (auto simp: answer_rsp_def)
      then show ?thesis
        using insert_workflow_ok [OF ok i] rows(2) sy al by auto
    qed
  qed
qed

lemma push_loop_synced:
  assumes "push_loop (lab_post lib E gens fails fault pid) put True False ws p = (r0, p')"
    and "db_ok (snd (ps_server p))" and fault: "\<And>e. rw_status (fault e) \<noteq> 201"
    and "distinct (map (wd_alias \<circ> we_data) ws)"
    and "\<And>w. w \<in> set ws \<Longrightarrow> map_of (ls_workflows (ps_state p)) (wd_alias (we_data w)) = Some w"
  shows "db_ok (snd (ps_server p')) \<and> set (db_workflows (snd (ps_server p))) \<subseteq> set (db_workflows (snd (ps_server p'))) \<and>
     dict_keys (ls_workflows (ps_state p')) = dict_keys (ls_workflows (ps_state p)) \<and>
     (\<forall>k. k \<notin> wd_alias ` we_data ` set ws \<longrightarrow>
        map_of (ls_workflows (ps_state p')) k = map_of (ls_workflows (ps_state p)) k) \<and>
     (\<forall>w\<in>set ws. \<exists>w'. map_of (ls_workflows (ps_state p')) (wd_alias (we_data w)) = Some w' \<and>
        synced pid (snd (ps_server p')) w w')"
  using assms(1,2,4,5)
proof (induction ws arbitrary: p)
  case Nil
  then show ?case by simp
next
  case (Cons w ws)
  let ?a = "wd_alias (we_data w)"
  obtain r1 p1 where one: "push_one (lab_post lib E gens fails fault pid) put True False w p = (r1, p1)"
    by (rule prod.exhaust)
  obtain w' where w': "synced pid (snd (ps_server p1)) w w'" "wd_alias (we_data w') = ?a"
    "ps_state p1 = ps_state p \<and> w' = w \<or> ps_state p1 = add_workflow w' (ps_state p)"
    and ok: "db_ok (snd (ps_server p1))" "set (db_workflows (snd (ps_server p))) \<subseteq> set (db_workflows (snd (ps_server p1)))"
    using push_one_synced [OF one Cons.prems(2) fault] by blast
  have m: "map_of (ls_workflows (ps_state p)) ?a = Some w" using Cons.prems(4) by simp
  then have k: "?a \<in> set (dict_keys (ls_workflows (ps_state p)))"
    by (force simp: dict_keys_def dest: map_of_SomeD)
  have s1: "map_of (ls_workflows (ps_state p1)) = (map_of (ls_workflows (ps_state p)))(?a \<mapsto> w')"
    "dict_keys (ls_workflows (ps_state p1)) = dict_keys (ls_workflows (ps_state p))"
    using w'(2,3) m k by (auto simp: add_workflow_def fun_upd_idem)
  have new: "?a \<notin> wd_alias ` we_data ` set ws" and d: "distinct (map (wd_alias \<circ> we_data) ws)"
    using Cons.prems(3) by (auto simp: comp_def)
  have rest: "map_of (ls_workflows (ps_state p1)) (wd_alias (we_data v)) = Some v" if "v \<in> set ws" for v
  proof -
    have "wd_alias (we_data v) \<noteq> ?a" using that new by (metis imageI)
    then show ?thesis using Cons.prems(4) [of v] that by (simp add: s1(1))
  qed
  show ?case
  proof (cases r1)
    case (Inl e)
    then have "p' = p1" using Cons.prems(1) one by simp
    then show ?thesis using ok s1 w'(1) rest by (auto simp: synced_def)
  next
    case (Inr u)
    then have loop: "push_loop (lab_post lib E gens fails fault pid) put True False ws p1 = (r0, p')"
      using Cons.prems(1) one by simp
    note IH = Cons.IH [OF loop ok(1) d rest]
    have "map_of (ls_workflows (ps_state p')) ?a = Some w'" using IH new s1(1) by simp
    moreover have "synced pid (snd (ps_server p')) w w'" using IH synced_mono [OF w'(1)] by blast
    ultimately show ?thesis using IH ok(2) s1 by auto
  qed
qed

text \<open>A workflow the server already has under its alias gets no id.\<close>

definition has_alias :: "string \<Rightarrow> string \<Rightarrow> db \<Rightarrow> bool" where
  "has_alias pid a db \<longleftrightarrow> (\<exists>row\<in>set (db_workflows db). wf_alias row = a \<and> wf_project_id row = Some pid)"

lemma workflow_create_known:
  assumes "has_alias pid (wd_alias wd) db"
  shows "workflow_create lib E gen now parse_web pid (wd_dict wd) db = (Inr (200, BMsg ''workflow already exist''), db, [])"
proof -
  have "insert_workflow (workflow_row_of (generate_wfid gen) now pid wd) db = Inl IntegrityError"
    using assms by (force simp: insert_workflow_def has_alias_def alias_keys_def workflow_row_of_def)
  then show ?thesis by (simp add: workflow_create_def wf_register_new)
qed

lemma push_one_known:
  assumes run: "push_one (lab_post lib E gens fails fault pid) put True False w p = (Inr u, p')"
    and fault: "\<And>e. rw_status (fault e) \<noteq> 201"
    and known: "has_alias pid (wd_alias (we_data w)) (snd (ps_server p))"
  shows "ps_state p' = ps_state p \<and> ps_created p' = ps_created p \<and> ps_server p' \<in> {ps_server p, (Suc (fst (ps_server p)), snd (ps_server p))}"
  using run
  by (auto simp: push_one_def workflows_create_def lab_post_def workflow_create_known [OF known] Let_def create_rsp_def
      answer_rsp_def split: if_splits option.splits)

lemma push_one_created:
  "push_one post put refresh update w p = (r, p') \<Longrightarrow>
     \<forall>x\<in>set (ps_created p'). x \<in> set (ps_created p) \<or> wr_alias x = wd_alias (we_data w)"
  by (auto simp: push_one_def workflows_create_def workflows_update_def create_rsp_def Let_def rbind_Inr_iff
      split: if_splits prod.splits sum.splits option.splits)

lemma push_loop_known:
  assumes "push_loop (lab_post lib E gens fails fault pid) put True False ws p = (Inr u, p')"
    and "db_ok (snd (ps_server p))" and fault: "\<And>e. rw_status (fault e) \<noteq> 201"
    and "has_alias pid a (snd (ps_server p))"
  shows "map_of (ls_workflows (ps_state p')) a = map_of (ls_workflows (ps_state p)) a \<and>
     (\<forall>x\<in>set (ps_created p'). x \<in> set (ps_created p) \<or> wr_alias x \<noteq> a)"
  using assms(1,2,4)
proof (induction ws arbitrary: p)
  case Nil
  then show ?case by simp
next
  case (Cons w ws)
  obtain u1 p1 where one: "push_one (lab_post lib E gens fails fault pid) put True False w p = (Inr u1, p1)"
    and rest: "push_loop (lab_post lib E gens fails fault pid) put True False ws p1 = (Inr u, p')"
    using Cons.prems(1) by (auto split: prod.splits sum.splits)
  note sy = push_one_synced [OF one Cons.prems(2) fault]
  then have known: "has_alias pid a (snd (ps_server p1))" and ok: "db_ok (snd (ps_server p1))"
    using Cons.prems(3) by (auto simp: has_alias_def)
  have "map_of (ls_workflows (ps_state p1)) a = map_of (ls_workflows (ps_state p)) a \<and>
      (\<forall>x\<in>set (ps_created p1). x \<in> set (ps_created p) \<or> wr_alias x \<noteq> a)"
  proof (cases "wd_alias (we_data w) = a")
    case True
    then show ?thesis using push_one_known [OF one fault] Cons.prems(3) by simp
  next
    case False
    then show ?thesis using sy push_one_created [OF one] by (auto simp: add_workflow_def)
  qed
  then show ?case using Cons.IH [OF rest ok known] by auto
qed

text \<open>What a push reports as created is in the labfile under the id it reports.\<close>

definition reported :: "'s push_state \<Rightarrow> bool" where
  "reported p \<longleftrightarrow> (\<forall>x\<in>set (ps_created p). \<exists>w. map_of (ls_workflows (ps_state p)) (wr_alias x) = Some w \<and>
     wd_wfid (we_data w) = wr_wfid x)"

lemma push_one_reported:
  assumes "push_one post put True False w p = (r, p')" and "reported p"
    and "wd_alias (we_data w) \<notin> wr_alias ` set (ps_created p)"
  shows "reported p' \<and> wr_alias ` set (ps_created p') \<subseteq> insert (wd_alias (we_data w)) (wr_alias ` set (ps_created p))"
  using assms unfolding push_one_def workflows_create_def create_rsp_def Let_def
  by (auto simp: reported_def rbind_Inr_iff add_workflow_def set_wfid_def image_iff
      split: if_splits prod.splits sum.splits option.splits; metis)

lemma disjoint_step: "A' \<subseteq> insert a A \<Longrightarrow> A \<inter> insert a B = {} \<Longrightarrow> a \<notin> B \<Longrightarrow> A' \<inter> B = {}"
  by blast

lemma push_loop_reported:
  assumes "push_loop post put True False ws p = (r, p')" and "reported p"
    and "distinct (map (wd_alias \<circ> we_data) ws)"
    and "wr_alias ` set (ps_created p) \<inter> wd_alias ` we_data ` set ws = {}"
  shows "reported p'"
  using assms
proof (induction ws arbitrary: p)
  case (Cons w ws)
  obtain r1 p1 where one: "push_one post put True False w p = (r1, p1)" by (rule prod.exhaust)
  have p1: "reported p1" "wr_alias ` set (ps_created p1) \<subseteq> insert (wd_alias (we_data w)) (wr_alias ` set (ps_created p))"
    using push_one_reported [OF one Cons.prems(2)] Cons.prems(4) by auto
  have d: "distinct (map (wd_alias \<circ> we_data) ws)" "wd_alias (we_data w) \<notin> wd_alias ` we_data ` set ws"
    using Cons.prems(3) by (auto simp: comp_def)
  have "wr_alias ` set (ps_created p1) \<inter> wd_alias ` we_data ` set ws = {}"
    using disjoint_step [OF p1(2), of "wd_alias ` we_data ` set ws"] Cons.prems(4) d(2) by simp
  note IH = Cons.IH [OF _ p1(1) d(1) this]
  show ?case
  proof (cases r1)
    case (Inl e)
    then show ?thesis using Cons.prems(1) one p1(1) by simp
  next
    case (Inr u)
    then show ?thesis using Cons.prems(1) one by (intro IH) simp
  qed
qed simp

definition demo_fault :: "py_error \<Rightarrow> wf_rsp" where
  "demo_fault e = \<lparr>rw_status = 500, rw_json = None\<rparr>"

lemma demo_created_row:
  "\<exists>db1 calls. workflow_create (\<lambda>_. None) demo_env demo_nanoid 0 parse_web ''pid'' (wd_dict (we_data demo_entry)) admin_db =
       (Inr (201, BWfid (Some (generate_wfid demo_nanoid))), db1, calls) \<and>
     insert_workflow (workflow_row_of (generate_wfid demo_nanoid) 0 ''pid'' (we_data demo_entry)) admin_db = Inr db1"
proof -
  obtain db1 where "insert_workflow (workflow_row_of (generate_wfid demo_nanoid) 0 ''pid'' (we_data demo_entry)) admin_db = Inr db1"
    by (simp add: insert_workflow_def alias_keys_def workflow_row_of_def admin_db_def empty_db_def projectids_def demo_project_def)
  then show ?thesis
    by (simp add: workflow_create_def wf_register_new schedule_calls_def register_workflow_def create_task_ctx_def
        demo_entry_def NBTask_def Let_def commit_def split: option.split)
qed

lemma demo_push:
  "\<exists>created s' db' v w'. workflows_push (lab_post (\<lambda>_. None) demo_env (\<lambda>_. demo_nanoid) (\<lambda>_. None) demo_fault ''pid'')
       (lab_post (\<lambda>_. None) demo_env (\<lambda>_. demo_nanoid) (\<lambda>_. None) demo_fault ''pid'') True False (Some ''labfile.yaml'')
       demo_lab (0, admin_db) = (Inr (created, []), s', (1, db'), Some (''labfile.yaml'', v)) \<and>
     map_of (ls_workflows s') ''daily'' = Some w' \<and> wd_wfid (we_data w') = Some (generate_wfid demo_nanoid)"
proof -
  let ?post = "lab_post (\<lambda>_. None) demo_env (\<lambda>_. demo_nanoid) (\<lambda>_. None) demo_fault ''pid''"
  obtain db1 calls where c: "workflow_create (\<lambda>_. None) demo_env demo_nanoid 0 parse_web ''pid'' (wd_dict (we_data demo_entry)) admin_db =
       (Inr (201, BWfid (Some (generate_wfid demo_nanoid))), db1, calls)"
    using demo_created_row by blast
  have none: "wd_wfid (we_data demo_entry) = None" "wd_alias (we_data demo_entry) = ''daily''" by (simp_all add: demo_entry_def)
  show ?thesis
    by (simp add: workflows_push_def snapshot_def demo_lab_def push_one_def workflows_create_def lab_post_def c none
        answer_rsp_def create_rsp_def Let_def lab_write_def lab_dict_def add_workflow_def set_wfid_def)
qed

section \<open>The properties\<close>

text \<open>C4. A push that returns leaves the labfile in step with the server: it writes the state under the
  name it was given, keeps the workflows in their order, and each is as it was or had no id and
  has now the id of a row of the project with its alias, task and schedule; and whatever it
  reports as created has the reported id in the labfile.\<close>

theorem push_in_step:
  assumes run: "workflows_push (lab_post lib E gens fails fault pid) put True False wf_file s (n, db) =
      (Inr (created, errs), s', (n', db'), written)"
    and ok: "db_ok db" and fault: "\<And>e. rw_status (fault e) \<noteq> 201"
    and wf: "wf_dict (ls_workflows s)" and keys: "\<forall>(k, w)\<in>set (ls_workflows s). k = wd_alias (we_data w)"
  shows "db_ok db' \<and> dict_keys (ls_workflows s') = dict_keys (ls_workflows s) \<and>
     (\<exists>f v. wf_file = Some f \<and> lab_dict s' = Inr v \<and> written = Some (f, v)) \<and>
     (\<forall>(k, w)\<in>set (ls_workflows s). \<exists>w'. map_of (ls_workflows s') k = Some w' \<and>
        (w' = w \<or> \<not> opt_truthy (wd_wfid (we_data w)) \<and>
           (\<exists>row\<in>set (db_workflows db'). wd_wfid (we_data w') = Some (wf_wfid row) \<and> wf_project_id row = Some pid \<and>
              wf_alias row = k \<and> wf_nbtask row = wd_nbtask (we_data w) \<and> wf_schedule row = wd_schedule (we_data w)))) \<and>
     (\<forall>x\<in>set created. \<exists>w'. map_of (ls_workflows s') (wr_alias x) = Some w' \<and> wd_wfid (we_data w') = wr_wfid x)"
proof -
  let ?ws = "map snd (ls_workflows s)"
  let ?p = "\<lparr>ps_created = [], ps_errors = [], ps_state = s, ps_server = (n, db)\<rparr>"
  obtain p' u where loop: "push_loop (lab_post lib E gens fails fault pid) put True False ?ws ?p = (Inr u, p')"
    and p': "s' = ps_state p'" "(n', db') = ps_server p'" "created = ps_created p'" and w: "lab_write wf_file s' = Inr (the written)" "written \<noteq> None"
    using run by (auto simp: workflows_push_def snapshot_def split: if_splits sum.splits prod.splits)
  have d: "distinct (map (wd_alias \<circ> we_data) ?ws)"
    using wf keys unfolding wf_dict_def by (simp add: comp_def case_prod_unfold cong: map_cong)
  have m: "map_of (ls_workflows (ps_state ?p)) (wd_alias (we_data v)) = Some v" if "v \<in> set ?ws" for v
    using that keys wf by (auto simp: map_of_Some_iff_mem)
  have db: "db' = snd (ps_server p')" using p'(2) by (metis snd_conv)
  have sy: "db_ok db'" "dict_keys (ls_workflows s') = dict_keys (ls_workflows s)"
    "\<And>v. v \<in> set ?ws \<Longrightarrow> \<exists>w'. map_of (ls_workflows s') (wd_alias (we_data v)) = Some w' \<and> synced pid db' v w'"
    using push_loop_synced [OF loop _ fault d m] ok by (auto simp: db p'(1))
  have rep: "\<forall>x\<in>set created. \<exists>w'. map_of (ls_workflows s') (wr_alias x) = Some w' \<and> wd_wfid (we_data w') = wr_wfid x"
    using push_loop_reported [OF loop _ d] by (simp add: reported_def p')
  have "\<exists>w'. map_of (ls_workflows s') k = Some w' \<and>
        (w' = v \<or> \<not> opt_truthy (wd_wfid (we_data v)) \<and>
           (\<exists>row\<in>set (db_workflows db'). wd_wfid (we_data w') = Some (wf_wfid row) \<and> wf_project_id row = Some pid \<and>
              wf_alias row = k \<and> wf_nbtask row = wd_nbtask (we_data v) \<and> wf_schedule row = wd_schedule (we_data v)))"
    if kv: "(k, v) \<in> set (ls_workflows s)" for k v
  proof -
    have "k = wd_alias (we_data v)" using keys kv by auto
    moreover have "v \<in> set ?ws" using kv by force
    ultimately obtain w' where "map_of (ls_workflows s') k = Some w'" "synced pid db' v w'" using sy(3) by blast
    then show ?thesis using \<open>k = _\<close> by (auto simp: synced_def set_wfid_def)
  qed
  then show ?thesis
    using sy(1,2) w rep by (auto simp: lab_write_def rbind_Inr_iff split: option.splits)
qed

theorem push_in_step_witness:
  "\<exists>created s' n' db' v w'. workflows_push (lab_post (\<lambda>_. None) demo_env (\<lambda>_. demo_nanoid) (\<lambda>_. None) demo_fault ''pid'')
       (lab_post (\<lambda>_. None) demo_env (\<lambda>_. demo_nanoid) (\<lambda>_. None) demo_fault ''pid'') True False (Some ''labfile.yaml'')
       demo_lab (0, admin_db) = (Inr (created, []), s', (n', db'), Some (''labfile.yaml'', v)) \<and>
     map_of (ls_workflows s') ''daily'' = Some w' \<and> wd_wfid (we_data w') = Some (generate_wfid demo_nanoid)"
proof -
  obtain created s' db' v w' where run: "workflows_push (lab_post (\<lambda>_. None) demo_env (\<lambda>_. demo_nanoid) (\<lambda>_. None) demo_fault ''pid'')
       (lab_post (\<lambda>_. None) demo_env (\<lambda>_. demo_nanoid) (\<lambda>_. None) demo_fault ''pid'') True False (Some ''labfile.yaml'')
       demo_lab (0, admin_db) = (Inr (created, []), s', (1, db'), Some (''labfile.yaml'', v))"
    and w': "map_of (ls_workflows s') ''daily'' = Some w'" "wd_wfid (we_data w') = Some (generate_wfid demo_nanoid)"
    using demo_push by blast
  have "\<And>e. rw_status (demo_fault e) \<noteq> 201" "wf_dict (ls_workflows demo_lab)"
    "\<forall>(k, w)\<in>set (ls_workflows demo_lab). k = wd_alias (we_data w)"
    by (simp_all add: demo_fault_def demo_lab_def demo_entry_def wf_dict_def)
  from push_in_step [OF run admin_db_ok this] run w' show ?thesis by blast
qed


definition weekly_entry :: wf_entry where
  "weekly_entry = demo_entry\<lparr>we_data := (we_data demo_entry)\<lparr>wd_alias := ''weekly''\<rparr>\<rparr>"

definition two_lab :: lab_state where
  "two_lab = demo_lab\<lparr>ls_workflows := [(''daily'', demo_entry), (''weekly'', weekly_entry)]\<rparr>"


end
