(* ===== verification/Push_Again.thy ===== *)
theory Push_Again
  imports Lab_Client
begin

text \<open>
  Pushing what was pushed: the file a successful push writes is read back (\<open>Labfile\<close>) and pushed
  again (\<open>Lab_Client\<close>) to the server's handler (\<open>Control\<close>) with its database (\<open>Database\<close>). The
  server's identifiers do not repeat, which is what their length is for.
\<close>

section \<open>What is settled\<close>

text \<open>A workflow that a push leaves alone: it has an id, or the server knows its alias.\<close>

definition settled :: "string \<Rightarrow> db \<Rightarrow> wf_entry \<Rightarrow> bool" where
  "settled pid db w \<longleftrightarrow> opt_truthy (wd_wfid (we_data w)) \<or> has_alias pid (wd_alias (we_data w)) db"

text \<open>The identifiers of the requests before the \<open>N\<close>-th that are still to come are new and differ.\<close>

definition fresh_ids :: "(nat \<Rightarrow> nanoid) \<Rightarrow> nat \<Rightarrow> nat \<Rightarrow> db \<Rightarrow> bool" where
  "fresh_ids gens N n db \<longleftrightarrow> inj_on (\<lambda>m. generate_wfid (gens m)) {n..<N} \<and>
     (\<forall>m\<in>{n..<N}. generate_wfid (gens m) \<notin> wf_wfid ` set (db_workflows db))"

lemma settled_mono: "settled pid db w \<Longrightarrow> set (db_workflows db) \<subseteq> set (db_workflows db') \<Longrightarrow> settled pid db' w"
  by (auto simp: settled_def has_alias_def)

lemma insert_workflow_fresh:
  assumes "wf_wfid row \<notin> wf_wfid ` set (db_workflows db)" and "wf_project_id row = Some pid" and "pid \<in> projectids db"
    and "insert_workflow row db = Inl e"
  shows "has_alias pid (wf_alias row) db"
  using assms by (auto simp: insert_workflow_def alias_keys_def has_alias_def split: if_splits)

lemma fresh_ids_step:
  assumes "fresh_ids gens N n db" and "n < N" and "db_workflows db' = db_workflows db @ [row]"
    and "wf_wfid row = generate_wfid (gens n)"
  shows "fresh_ids gens N (Suc n) db'"
proof -
  have "generate_wfid (gens m) \<noteq> generate_wfid (gens n)" if "m \<in> {Suc n..<N}" for m
    using assms(1,2) that unfolding fresh_ids_def inj_on_def by (metis atLeastLessThan_iff leD le_refl less_eq_Suc_le nat_less_le)
  moreover have "fresh_ids gens N (Suc n) db" using assms(1) by (auto simp: fresh_ids_def inj_on_def)
  ultimately show ?thesis using assms(3,4) by (auto simp: fresh_ids_def)
qed

lemma push_one_requests:
  "push_one (lab_post lib E gens fails fault pid) put True False w p = (r, p') \<Longrightarrow> fst (ps_server p) \<le> fst (ps_server p')"
  by (auto simp: push_one_def workflows_create_def lab_post_def Let_def split: if_splits prod.splits sum.splits option.splits)

lemma push_loop_requests:
  "push_loop (lab_post lib E gens fails fault pid) put True False ws p = (r, p') \<Longrightarrow> fst (ps_server p) \<le> fst (ps_server p')"
proof (induction ws arbitrary: p)
  case (Cons w ws)
  obtain r1 p1 where one: "push_one (lab_post lib E gens fails fault pid) put True False w p = (r1, p1)" by (rule prod.exhaust)
  then have "fst (ps_server p1) \<le> fst (ps_server p')" using Cons by (cases r1) auto
  then show ?case using push_one_requests [OF one] by simp
qed simp

lemma push_one_settles:
  assumes run: "push_one (lab_post lib E gens fails fault pid) put True False w p = (Inr u, p')"
    and fault: "\<And>e. rw_status (fault e) \<notin> {200, 201}"
    and fresh: "fresh_ids gens N (fst (ps_server p)) (snd (ps_server p))" and N: "fst (ps_server p') \<le> N"
    and pid: "pid \<in> projectids (snd (ps_server p))" and clean: "ps_errors p' = ps_errors p"
  shows "settled pid (snd (ps_server p')) w \<and> fresh_ids gens N (fst (ps_server p')) (snd (ps_server p')) \<and>
     projectids (snd (ps_server p')) = projectids (snd (ps_server p))"
proof -
  let ?db = "snd (ps_server p)" and ?n = "fst (ps_server p)"
  show ?thesis
  proof (cases "opt_truthy (wd_wfid (we_data w))")
    case True
    then show ?thesis using run fresh pid by (auto simp: push_one_def settled_def)
  next
    case new: False
    show ?thesis
    proof (cases "fails ?n")
      case (Some e)
      then show ?thesis
        using run new clean by (auto simp: push_one_def workflows_create_def lab_post_def Let_def split: if_splits)
    next
      case None
      obtain r db' calls where c: "workflow_create lib E (gens ?n) ?n parse_web pid (wd_dict (we_data w)) ?db = (r, db', calls)"
        by (rule prod_cases3)
      have step: "lab_post lib E gens fails fault pid (we_data w) (ps_server p) = (Inr (answer_rsp fault r), (Suc ?n, db'))"
        using None by (simp add: lab_post_def c)
      note run' = run [unfolded push_one_def Let_def workflows_create_def step create_rsp_def, simplified]
      have server: "ps_server p' = (Suc ?n, db')" using run' new by (auto split: if_splits option.splits)
      then have n: "?n < N" using N by simp
      then have now: "generate_wfid (gens ?n) \<notin> wf_wfid ` set (db_workflows ?db)" using fresh by (simp add: fresh_ids_def)
      have later: "fresh_ids gens N (Suc ?n) ?db" using fresh by (auto simp: fresh_ids_def inj_on_def)
      let ?row = "workflow_row_of (generate_wfid (gens ?n)) ?n pid (we_data w)"
      from workflow_create_cases [OF c parse_web_dict] show ?thesis
      proof
        assume same: "db' = ?db \<and> (\<forall>b. r \<noteq> Inr (201, b))"
        have "rw_status (answer_rsp fault r) = 200 \<or> rw_status (answer_rsp fault r) = 201"
          using run' new clean by (auto split: if_splits option.splits)
        then have "r = Inr (200, BMsg ''workflow already exist'')"
          using c fault same by (auto simp: answer_rsp_def workflow_create_def commit_def Let_def split: sum.splits prod.splits py_error.splits if_splits)
        then obtain e where "insert_workflow ?row ?db = Inl e"
          using c by (auto simp: workflow_create_def wf_register_new commit_def split: sum.splits prod.splits)
        then have "has_alias pid (wd_alias (we_data w)) ?db"
          using insert_workflow_fresh [of ?row ?db pid e] now pid by (auto simp: workflow_row_of_def)
        then show ?thesis using same later by (simp add: server settled_def)
      next
        assume "r = Inr (201, BWfid (Some (generate_wfid (gens ?n)))) \<and> insert_workflow ?row ?db = Inr db'"
        then have i: "db_workflows db' = db_workflows ?db @ [?row]" "projectids db' = projectids ?db"
          by (auto simp: insert_workflow_def projectids_def split: if_splits)
        then have "has_alias pid (wd_alias (we_data w)) db'" by (auto simp: has_alias_def workflow_row_of_def)
        moreover have "fresh_ids gens N (Suc ?n) db'" using fresh n i(1) by (rule fresh_ids_step) (simp add: workflow_row_of_def)
        ultimately show ?thesis using i(2) by (simp add: server settled_def)
      qed
    qed
  qed
qed

lemma push_one_errors: "push_one post put refresh update w p = (r, p') \<Longrightarrow> \<exists>es. ps_errors p' = ps_errors p @ es"
  by (auto simp: push_one_def Let_def split: if_splits prod.splits sum.splits)

lemma push_loop_errors: "push_loop post put refresh update ws p = (r, p') \<Longrightarrow> \<exists>es. ps_errors p' = ps_errors p @ es"
proof (induction ws arbitrary: p)
  case (Cons w ws)
  obtain r1 p1 where one: "push_one post put refresh update w p = (r1, p1)" by (rule prod.exhaust)
  then show ?case using Cons push_one_errors [OF one] by (cases r1) fastforce+
qed simp

lemma push_loop_settles:
  assumes "push_loop (lab_post lib E gens fails fault pid) put True False ws p = (Inr u, p')"
    and "fresh_ids gens N (fst (ps_server p)) (snd (ps_server p))" and "pid \<in> projectids (snd (ps_server p))"
    and "db_ok (snd (ps_server p))" and "ps_errors p' = ps_errors p"
    and fault: "\<And>e. rw_status (fault e) \<notin> {200, 201}" and N: "fst (ps_server p') \<le> N"
  shows "(\<forall>w\<in>set ws. settled pid (snd (ps_server p')) w) \<and> set (db_workflows (snd (ps_server p))) \<subseteq> set (db_workflows (snd (ps_server p')))"
  using assms(1-5)
proof (induction ws arbitrary: p)
  case (Cons w ws)
  obtain u1 p1 where one: "push_one (lab_post lib E gens fails fault pid) put True False w p = (Inr u1, p1)"
    and rest: "push_loop (lab_post lib E gens fails fault pid) put True False ws p1 = (Inr u, p')"
    using Cons.prems(1) by (auto split: prod.splits sum.splits)
  obtain es1 es2 where "ps_errors p1 = ps_errors p @ es1" "ps_errors p' = ps_errors p1 @ es2"
    using push_one_errors [OF one] push_loop_errors [OF rest] by blast
  then have clean: "ps_errors p1 = ps_errors p" "ps_errors p' = ps_errors p1" using Cons.prems(5) by simp_all
  have f: "\<And>e. rw_status (fault e) \<noteq> 201" using fault by blast
  have "fst (ps_server p1) \<le> N" using push_loop_requests [OF rest] N by simp
  note st = push_one_settles [OF one fault Cons.prems(2) this Cons.prems(3) clean(1)]
  note sy = push_one_synced [OF one Cons.prems(4) f]
  have IH: "(\<forall>v\<in>set ws. settled pid (snd (ps_server p')) v) \<and>
      set (db_workflows (snd (ps_server p1))) \<subseteq> set (db_workflows (snd (ps_server p')))"
    using st sy Cons.prems(3) clean(2) by (intro Cons.IH [OF rest]) auto
  then show ?case using st sy settled_mono by auto
qed simp

text \<open>Settled workflows pass a push without a trace.\<close>

lemma push_one_settled:
  assumes "settled pid (snd (ps_server p)) w" and "fails (fst (ps_server p)) = None"
  shows "\<exists>m\<ge>fst (ps_server p). push_one (lab_post lib E gens fails fault pid) put True False w p =
    (Inr (), p\<lparr>ps_server := (m, snd (ps_server p))\<rparr>)"
proof (cases "opt_truthy (wd_wfid (we_data w))")
  case True
  then show ?thesis by (intro exI [of _ "fst (ps_server p)"]) (simp add: push_one_def)
next
  case False
  then have "has_alias pid (wd_alias (we_data w)) (snd (ps_server p))" using assms(1) by (simp add: settled_def)
  then show ?thesis
    using False assms(2)
    by (intro exI [of _ "Suc (fst (ps_server p))"])
      (simp add: push_one_def workflows_create_def lab_post_def workflow_create_known create_rsp_def answer_rsp_def)
qed

lemma push_loop_settled:
  assumes "\<forall>w\<in>set ws. settled pid (snd (ps_server p)) w" and "\<And>m. fst (ps_server p) \<le> m \<Longrightarrow> fails m = None"
  shows "\<exists>m. push_loop (lab_post lib E gens fails fault pid) put True False ws p =
    (Inr (), p\<lparr>ps_server := (m, snd (ps_server p))\<rparr>)"
  using assms
proof (induction ws arbitrary: p)
  case Nil
  show ?case by (intro exI [of _ "fst (ps_server p)"]) simp
next
  case (Cons w ws)
  obtain m where m: "fst (ps_server p) \<le> m" "push_one (lab_post lib E gens fails fault pid) put True False w p =
      (Inr (), p\<lparr>ps_server := (m, snd (ps_server p))\<rparr>)"
    using push_one_settled [where fails = fails and lib = lib and E = E and gens = gens and fault = fault and put = put and pid = pid and p = p and w = w]
      Cons.prems by (meson list.set_intros(1) order_refl)
  have "\<exists>m'. push_loop (lab_post lib E gens fails fault pid) put True False ws (p\<lparr>ps_server := (m, snd (ps_server p))\<rparr>) =
      (Inr (), p\<lparr>ps_server := (m', snd (ps_server p))\<rparr>)"
    using Cons.IH [of "p\<lparr>ps_server := (m, snd (ps_server p))\<rparr>"] Cons.prems m(1) by simp
  then show ?case by (simp add: m(2))
qed

lemma unset_default_mono:
  "unset_default req S d ds \<Longrightarrow> set S \<subseteq> set S' \<Longrightarrow> (\<And>k v. (k, v) \<in> set d' \<Longrightarrow> k \<in> set S' \<or> (k, v) \<in> set d) \<Longrightarrow>
     unset_default req S' d' ds"
  unfolding unset_default_def list_all_iff by fast

lemma entry_ok_set_wfid: "entry_ok w \<Longrightarrow> entry_ok (set_wfid i w)"
proof -
  assume ok: "entry_ok w"
  have same: "we_task_set (set_wfid i w) = we_task_set w" "we_sched_set (set_wfid i w) = we_sched_set w"
    "wd_nbtask (we_data (set_wfid i w)) = wd_nbtask (we_data w)" "wd_schedule (we_data (set_wfid i w)) = wd_schedule (we_data w)"
    by (simp_all add: set_wfid_def)
  have more: "set (we_set w) \<subseteq> set (we_set (set_wfid i w))" and new: "''wfid'' \<in> set (we_set (set_wfid i w))"
    by (auto simp: set_wfid_def)
  have "wd_alias (we_data (set_wfid i w)) = wd_alias (we_data w)" "wd_enabled (we_data (set_wfid i w)) = wd_enabled (we_data w)"
    "wd_wfid (we_data (set_wfid i w)) = i"
    by (simp_all add: set_wfid_def)
  then have upd: "entry_fields (set_wfid i w) = (entry_fields w)[3 := (''wfid'', opt_pstr i)]"
    by (simp add: entry_fields_def same cong: option.case_cong)
  have rest: "k = ''wfid'' \<or> (k, v) \<in> set (entry_fields w)" if "(k, v) \<in> set (entry_fields (set_wfid i w))" for k v
    using that set_update_subset_insert [of "entry_fields w" 3 "(''wfid'', opt_pstr i)"] unfolding upd by blast
  have "unset_default [''alias'', ''nbtask''] (we_set w) (entry_fields w) default_entry_fields"
    using ok by (simp add: entry_ok_def)
  from this more have "unset_default [''alias'', ''nbtask''] (we_set (set_wfid i w)) (entry_fields (set_wfid i w)) default_entry_fields"
    by (rule unset_default_mono) (use rest new in blast)
  then show ?thesis using ok by (simp add: entry_ok_def same cong: option.case_cong)
qed

lemma settled_synced:
  assumes "settled pid db w" and "synced pid db w w'"
  shows "settled pid db w'"
proof (cases "w' = w")
  case False
  then have "has_alias pid (wd_alias (we_data w')) db"
    using assms(2) by (auto simp: synced_def has_alias_def set_wfid_def)
  then show ?thesis by (simp add: settled_def)
qed (use assms(1) in simp)

lemma entry_ok_synced: "entry_ok w \<Longrightarrow> synced pid db w w' \<Longrightarrow> entry_ok w'"
  by (auto simp: synced_def entry_ok_set_wfid)

section \<open>The property\<close>

text \<open>C5. Pushing is idempotent: after a push that reported no error, the file it wrote is read back
  and pushed again; when no request fails any more this creates nothing, reports nothing, leaves
  the database of the server as it is and writes the same file again.\<close>

theorem push_again_is_push:
  assumes run: "workflows_push (lab_post lib E gens fails fault pid) put True False wf_file s (n, db) =
      (Inr (created, []), s', (n', db'), Some (f, v))"
    and ok: "db_ok db" and fault: "\<And>e. rw_status (fault e) \<notin> {200, 201}" and pid: "pid \<in> projectids db"
    and wf: "wf_dict (ls_workflows s)" and keys: "\<forall>(k, w)\<in>set (ls_workflows s). k = wd_alias (we_data w)"
    and entries: "list_all (\<lambda>(_, w). entry_ok w) (ls_workflows s)"
    and fresh: "fresh_ids gens n' n db"
    and net: "\<And>m. n' \<le> m \<Longrightarrow> fails m = None"
  shows "\<exists>s2 n2. lab_read v = Inr s2 \<and>
     workflows_push (lab_post lib E gens fails fault pid) put True False (Some f) s2 (n', db') =
       (Inr ([], []), s2, (n2, db'), Some (f, v))"
proof -
  let ?ws = "map snd (ls_workflows s)" and ?post = "lab_post lib E gens fails fault pid"
  let ?p = "\<lparr>ps_created = [], ps_errors = [], ps_state = s, ps_server = (n, db)\<rparr>"
  obtain p' u where loop: "push_loop ?post put True False ?ws ?p = (Inr u, p')" and p': "s' = ps_state p'" "(n', db') = ps_server p'"
      "ps_errors p' = []" and v: "lab_dict s' = Inr v"
    using run by (auto simp: workflows_push_def snapshot_def lab_write_def rbind_Inr_iff split: if_splits sum.splits prod.splits option.splits)
  have d: "distinct (map (wd_alias \<circ> we_data) ?ws)"
    using wf keys unfolding wf_dict_def by (simp add: comp_def case_prod_unfold cong: map_cong)
  have m: "map_of (ls_workflows (ps_state ?p)) (wd_alias (we_data w)) = Some w" if "w \<in> set ?ws" for w
    using that keys wf by (auto simp: map_of_Some_iff_mem)
  have db: "db' = snd (ps_server p')" using p'(2) by (metis snd_conv)
  have n': "fst (ps_server p') = n'" using p'(2) by (metis fst_conv)
  have f1: "\<And>e. rw_status (fault e) \<noteq> 201" using fault by blast
  have sy: "dict_keys (ls_workflows s') = dict_keys (ls_workflows s)"
    "\<And>w. w \<in> set ?ws \<Longrightarrow> \<exists>w'. map_of (ls_workflows s') (wd_alias (we_data w)) = Some w' \<and> synced pid db' w w'"
    using push_loop_synced [OF loop _ f1 d m] ok by (auto simp: db p'(1))
  have se: "\<forall>w\<in>set ?ws. settled pid db' w"
    using push_loop_settles [OF loop _ _ _ _ fault, of n'] ok pid fresh n' by (simp add: db p'(3))
  have all: "entry_ok w' \<and> settled pid db' w'" if "(k, w') \<in> set (ls_workflows s')" for k w'
  proof -
    have "wf_dict (ls_workflows s')" using sy(1) wf by (simp add: wf_dict_def dict_keys_def)
    then have k': "map_of (ls_workflows s') k = Some w'" using that by (simp add: map_of_Some_iff_mem)
    have "k \<in> set (dict_keys (ls_workflows s))" using that sy(1) by (metis dict_keys_def fst_conv image_eqI set_map)
    then obtain w where w: "(k, w) \<in> set (ls_workflows s)" by (auto simp: dict_keys_def)
    then have "w \<in> set ?ws" "k = wd_alias (we_data w)" "entry_ok w" using keys entries by (force simp: list_all_iff)+
    then show ?thesis using sy(2) [of w] bspec [OF se, of w] k' settled_synced entry_ok_synced by fastforce
  qed
  define s2 where "s2 = s'\<lparr>ls_workflows := map (\<lambda>(k, w). (k, reread w)) (ls_workflows s'), ls_file := None\<rparr>"
  have "list_all (\<lambda>(_, w). entry_ok w) (ls_workflows s')" using all by (auto simp: list_all_iff)
  from lab_read_dump [OF v this] have s2: "lab_read v = Inr s2" "lab_dict s2 = Inr v" by (simp_all add: s2_def)
  let ?p2 = "\<lparr>ps_created = [], ps_errors = [], ps_state = s2, ps_server = (n', db')\<rparr>"
  have "settled pid db' w" if w: "w \<in> set (map snd (ls_workflows s2))" for w
  proof -
    obtain k w' where "(k, w') \<in> set (ls_workflows s')" "w = reread w'" using w by (fastforce simp: s2_def)
    then show ?thesis using all [of k w'] by (simp add: reread_def settled_def)
  qed
  then obtain n2 where "push_loop ?post put True False (map snd (ls_workflows s2)) ?p2 = (Inr (), ?p2\<lparr>ps_server := (n2, db')\<rparr>)"
    using push_loop_settled [of "map snd (ls_workflows s2)" pid ?p2 fails lib E gens fault put] net by auto
  moreover have "snapshot s2 = Inr s2" using s2(2) by (auto simp: lab_dict_def snapshot_def split: if_splits)
  ultimately show ?thesis using s2 by (intro exI [of _ s2] exI [of _ n2]) (simp add: workflows_push_def lab_write_def)
qed

theorem push_again_is_push_witness:
  "\<exists>created s' db' v s2 n2. workflows_push (lab_post (\<lambda>_. None) demo_env (\<lambda>_. demo_nanoid) (\<lambda>_. None) demo_fault ''pid'')
       (lab_post (\<lambda>_. None) demo_env (\<lambda>_. demo_nanoid) (\<lambda>_. None) demo_fault ''pid'') True False (Some ''labfile.yaml'')
       demo_lab (0, admin_db) = (Inr (created, []), s', (1, db'), Some (''labfile.yaml'', v)) \<and> lab_read v = Inr s2 \<and>
     workflows_push (lab_post (\<lambda>_. None) demo_env (\<lambda>_. demo_nanoid) (\<lambda>_. None) demo_fault ''pid'')
       (lab_post (\<lambda>_. None) demo_env (\<lambda>_. demo_nanoid) (\<lambda>_. None) demo_fault ''pid'') True False (Some ''labfile.yaml'')
       s2 (1, db') = (Inr ([], []), s2, (n2, db'), Some (''labfile.yaml'', v))"
proof -
  obtain created s' db' v where run: "workflows_push (lab_post (\<lambda>_. None) demo_env (\<lambda>_. demo_nanoid) (\<lambda>_. None) demo_fault ''pid'')
       (lab_post (\<lambda>_. None) demo_env (\<lambda>_. demo_nanoid) (\<lambda>_. None) demo_fault ''pid'') True False (Some ''labfile.yaml'')
       demo_lab (0, admin_db) = (Inr (created, []), s', (1, db'), Some (''labfile.yaml'', v))"
    using demo_push by blast
  have side: "\<And>e. rw_status (demo_fault e) \<notin> {200, 201}" "''pid'' \<in> projectids admin_db" "wf_dict (ls_workflows demo_lab)"
    "\<forall>(k, w)\<in>set (ls_workflows demo_lab). k = wd_alias (we_data w)" "list_all (\<lambda>(_, w). entry_ok w) (ls_workflows demo_lab)"
    "fresh_ids (\<lambda>_. demo_nanoid) 1 0 admin_db"
    using demo_entry_ok
    by (simp_all add: demo_fault_def admin_db_def projectids_def demo_project_def demo_lab_def demo_entry_def wf_dict_def fresh_ids_def
        empty_db_def)
  show ?thesis using push_again_is_push [OF run admin_db_ok side] run by blast
qed

end
