(* ===== verification/Client_Auth.thy ===== *)
theory Client_Auth
  imports Auth_Tokens
begin

text \<open>
  The client's side of authentication, \<open>client/base.py\<close>: the \<open>AuthFlow\<close> generator that
  refreshes the access token on a 401 and sends the request again, and the credentials of a
  \<open>BaseClient\<close>; and what it gives together with the server's refresh endpoint. A server is
  a function from a request and its state to a response and the next state.
\<close>

section \<open>AuthFlow\<close>

record http_request =
  hr_method :: string
  hr_url :: string
  hr_json :: pyval
  hr_auth :: pyval

record auth_flow =
  af_access :: pyval
  af_refresh :: "string option"
  af_url :: string

type_synonym 's server = "http_request \<Rightarrow> 's \<Rightarrow> response \<times> 's"

fun opt_val :: "string option \<Rightarrow> pyval" where
  "opt_val None = PNone"
| "opt_val (Some s) = PStr s"

definition build_refresh_request :: "auth_flow \<Rightarrow> http_request" where
  "build_refresh_request af =
     \<lparr>hr_method = ''POST'', hr_url = af_url af,
      hr_json = PDict [(''refresh_token'', opt_val (af_refresh af))], hr_auth = af_access af\<rparr>"

definition update_tokens :: "auth_flow \<Rightarrow> response \<Rightarrow> auth_flow result" where
  "update_tokens af rsp =
     (case rsp_body rsp of
        PDict data \<Rightarrow>
          (let tkn = (case map_of data ''access_token'' of None \<Rightarrow> PNone | Some v \<Rightarrow> v)
           in if \<not> truthy tkn then Inl AuthValidationFailed else Inr (af\<lparr>af_access := tkn\<rparr>))
      | _ \<Rightarrow> Inl AttributeError)"

definition run_auth_flow ::
  "'s server \<Rightarrow> auth_flow \<Rightarrow> http_request \<Rightarrow> 's \<Rightarrow> response result \<times> auth_flow \<times> 's" where
  "run_auth_flow send af req st =
     (let (rsp, st1) = send (req\<lparr>hr_auth := af_access af\<rparr>) st
      in if rsp_status rsp \<noteq> 401 then (Inr rsp, af, st1)
         else (let (refresh_rsp, st2) = send (build_refresh_request af) st1
               in case update_tokens af refresh_rsp of
                    Inl e \<Rightarrow> (Inl e, af, st2)
                  | Inr af' \<Rightarrow>
                      (let (rsp', st3) = send (req\<lparr>hr_auth := af_access af'\<rparr>) st2
                       in (Inr rsp', af', st3))))"

section \<open>Credentials of a client\<close>

record token_creds =
  tc_access :: string
  tc_refresh :: "string option"

text \<open>The fields of \<open>BaseClient\<close> that hold credentials; \<open>bc_http\<close> is the \<open>auth\<close> the HTTP client was
  created with, the same object as \<open>bc_auth\<close> when the two are equal.\<close>

record base_client =
  bc_addr :: string
  bc_version :: string
  bc_creds :: "token_creds option"
  bc_auth :: "auth_flow option"
  bc_http :: "auth_flow option"

definition auth_init :: "base_client \<Rightarrow> base_client" where
  "auth_init c =
     (case bc_creds c of
        None \<Rightarrow> c
      | Some tc \<Rightarrow>
          c\<lparr>bc_auth := Some \<lparr>af_access = PStr (tc_access tc), af_refresh = tc_refresh tc,
              af_url = bc_addr c @ ''/'' @ bc_version c @ ''/auth/refresh_token''\<rparr>\<rparr>)"

definition http_init :: "base_client \<Rightarrow> base_client" where
  "http_init c = (let c' = auth_init c in c'\<lparr>bc_http := bc_auth c'\<rparr>)"

definition set_creds :: "token_creds option \<Rightarrow> base_client \<Rightarrow> base_client" where
  "set_creds creds c = http_init (c\<lparr>bc_creds := creds\<rparr>)"

text \<open>\<open>load_creds\<close>: \<open>env\<close> gives the two environment variables, \<open>disk\<close> what
  \<open>get_credentials_disk\<close> returns.\<close>

definition load_creds ::
  "string option \<Rightarrow> string option \<Rightarrow> token_creds option \<Rightarrow> base_client \<Rightarrow> base_client" where
  "load_creds at rt disk c =
     (let c1 = (if opt_truthy at \<and> opt_truthy rt
                then set_creds (Some \<lparr>tc_access = the at, tc_refresh = rt\<rparr>) c else c)
      in set_creds disk c1)"

text \<open>\<open>validate_credentials_local\<close>, on the decoded claims of the token.\<close>

definition validate_credentials_local :: "int \<Rightarrow> claims \<Rightarrow> bool result" where
  "validate_credentials_local now_us claims =
     rbind (dict_get claims ''exp'') (\<lambda>v.
       case v of PInt e \<Rightarrow> Inr (now_us div 1000000 < e) | _ \<Rightarrow> Inl TypeError)"

text \<open>\<open>TokenCreds(**v)\<close>: unknown fields are forbidden.\<close>

definition token_creds_of :: "pyval \<Rightarrow> token_creds result" where
  "token_creds_of v =
     (case v of
        PDict d \<Rightarrow>
          (if \<not> fst ` set d \<subseteq> {''access_token'', ''refresh_token''} then Inl ValidationError
           else case map_of d ''access_token'' of
                  None \<Rightarrow> Inl ValidationError
                | Some a \<Rightarrow>
                    rbind (pydantic_str a) (\<lambda>at.
                      case map_of d ''refresh_token'' of
                        None \<Rightarrow> Inr \<lparr>tc_access = at, tc_refresh = None\<rparr>
                      | Some r \<Rightarrow>
                          if r = PNone then Inr \<lparr>tc_access = at, tc_refresh = None\<rparr>
                          else rbind (pydantic_str r) (\<lambda>rt. Inr \<lparr>tc_access = at, tc_refresh = Some rt\<rparr>)))
      | _ \<Rightarrow> Inl TypeError)"

definition base_login :: "string \<Rightarrow> string \<Rightarrow> 's server \<Rightarrow> base_client \<Rightarrow> 's \<Rightarrow> base_client result \<times> 's" where
  "base_login u p send c st =
     (let (rsp, st') = send \<lparr>hr_method = ''POST'',
            hr_url = bc_addr c @ ''/'' @ bc_version c @ ''/auth/login'',
            hr_json = PDict [(''username'', PStr u), (''password'', PStr p)], hr_auth = PNone\<rparr> st
      in if rsp_status rsp \<noteq> 200 then (Inl LoginError, st')
         else (rbind (token_creds_of (rsp_body rsp)) (\<lambda>tc. Inr (set_creds (Some tc) c)), st'))"

text \<open>\<open>verify\<close>: \<open>Some True\<close>, \<open>Some False\<close>, or \<open>None\<close> for any other status.\<close>

definition base_verify ::
  "'s server \<Rightarrow> base_client \<Rightarrow> 's \<Rightarrow> bool option result \<times> base_client \<times> 's" where
  "base_verify send c st =
     (let req = \<lparr>hr_method = ''GET'', hr_url = ''/auth/verify'', hr_json = PNone, hr_auth = PNone\<rparr>
      in case bc_http c of
           None \<Rightarrow> (let (rsp, st') = send req st
                    in (Inr (if rsp_status rsp = 200 then Some True else None), c, st'))
         | Some af \<Rightarrow>
             (case run_auth_flow send af req st of
                (Inr rsp, af', st') \<Rightarrow>
                  (Inr (if rsp_status rsp = 200 then Some True else None),
                   c\<lparr>bc_auth := (if bc_auth c = Some af then Some af' else bc_auth c), bc_http := Some af'\<rparr>, st')
              | (Inl AuthValidationFailed, af', st') \<Rightarrow>
                  (Inr (Some False), c\<lparr>bc_creds := None, bc_auth := None, bc_http := Some af'\<rparr>, st')
              | (Inl e, af', st') \<Rightarrow>
                  (Inl e, c\<lparr>bc_auth := (if bc_auth c = Some af then Some af' else bc_auth c), bc_http := Some af'\<rparr>, st')))"

section \<open>Properties of the flow\<close>

lemma update_tokens_keeps_refresh:
  "update_tokens af rsp = Inr af' \<Longrightarrow> af_refresh af' = af_refresh af \<and> af_url af' = af_url af"
  by (auto simp: update_tokens_def Let_def split: pyval.splits option.splits if_splits)

lemma run_auth_flow_keeps_refresh:
  "run_auth_flow send af req st = (r, af', st') \<Longrightarrow>
     af_refresh af' = af_refresh af \<and> af_url af' = af_url af"
  by (auto simp: run_auth_flow_def Let_def split: prod.splits if_splits sum.splits
      dest: update_tokens_keeps_refresh)

lemma run_auth_flow_refused:
  assumes "send (req\<lparr>hr_auth := af_access af\<rparr>) st = (rsp, st1)" and "rsp_status rsp = 401"
    and "send (build_refresh_request af) st1 = (rr, st2)" and "update_tokens af rr = Inl e"
  shows "run_auth_flow send af req st = (Inl e, af, st2)"
  using assms by (simp add: run_auth_flow_def)

text \<open>The server the client talks to: its refresh endpoint, and one protected endpoint.\<close>

fun as_token :: "pyval \<Rightarrow> string option" where
  "as_token (PStr t) = Some t"
| "as_token _ = None"

definition auth_server ::
  "jwt_lib \<Rightarrow> jwt_config \<Rightarrow> 's token_store \<Rightarrow> string \<Rightarrow> string list option \<Rightarrow> 's handler \<Rightarrow>
   int \<Rightarrow> string \<Rightarrow> 's server" where
  "auth_server J conf T url scopes f now drawn r st =
     (let rq = \<lparr>req_token = as_token (hr_auth r), req_json = hr_json r\<rparr>;
          (res, st') = (if hr_url r = url then refresh_handler J conf T True now drawn rq st
                        else protected J conf now scopes True f rq st)
      in (respond res, st'))"

lemma auth_server_refresh:
  assumes "af_access af = PStr a" and "af_refresh af = Some rt" and "rt \<noteq> []"
  shows "auth_server J conf T (af_url af) scopes f now d (build_refresh_request af) st =
     (case refresh_token_op J conf T now d a rt st of
        (Inl AuthValidationFailed, st') \<Rightarrow> (error_response WebAuthFailed, st')
      | (Inl e, st') \<Rightarrow> (error_response e, st')
      | (Inr jr, st') \<Rightarrow> (json (jwt_response_dict jr) 200, st'))"
  using assms
  by (auto simp: auth_server_def build_refresh_request_def refresh_handler_def Let_def
      split: prod.splits sum.splits py_error.splits)

lemma protected_pure:
  assumes "\<And>c s. snd (f c s) = s"
  shows "snd (protected J conf now scopes all f rq st) = st"
  by (auto simp: protected_def assms split: option.splits sum.splits prod.splits py_error.splits)
    (metis assms snd_conv)+

lemma update_tokens_error: "update_tokens af (error_response e) = Inl AuthValidationFailed"
  by (auto simp: update_tokens_def error_response_def json_def msg_def)

context token_store_spec
begin

lemma auth_flow_stale:
  assumes af: "af_access af = PStr a" "af_refresh af = Some rt" "rt \<noteq> []"
    and dec: "auth_decode J conf now a True False None None = Inr decoded"
      "map_of decoded ''usr'' = Some (PStr u)"
    and gone: "ts_get T (rtkn_key u rt) st \<noteq> Some u"
    and pure: "\<And>c s. snd (f c s) = s" and url: "hr_url req \<noteq> af_url af"
    and unauth: "rsp_status (fst (auth_server J conf T (af_url af) scopes f now d
                    (req\<lparr>hr_auth := af_access af\<rparr>) st)) = 401"
  shows "run_auth_flow (auth_server J conf T (af_url af) scopes f now d) af req st =
           (Inl AuthValidationFailed, af, st)"
proof (rule run_auth_flow_refused)
  let ?send = "auth_server J conf T (af_url af) scopes f now d"
  have "snd (?send (req\<lparr>hr_auth := af_access af\<rparr>) st) = st"
    using url protected_pure [of f, OF pure]
    by (simp add: auth_server_def Let_def prod.case_eq_if)
  then show "?send (req\<lparr>hr_auth := af_access af\<rparr>) st =
      (fst (?send (req\<lparr>hr_auth := af_access af\<rparr>) st), st)"
    by (metis prod.collapse)
  show "?send (build_refresh_request af) st = (error_response WebAuthFailed, st)"
    using refresh_rejected [OF dec gone] by (simp add: auth_server_refresh [OF af])
qed (rule unauth, rule update_tokens_error)

lemma auth_flow_consumes:
  assumes af: "af_access af = PStr a" "af_refresh af = Some rt" "rt \<noteq> []"
    and dec: "auth_decode J conf now a True False None None = Inr decoded"
      "map_of decoded ''usr'' = Some (PStr u)"
    and "d \<noteq> rt" and pure: "\<And>c s. snd (f c s) = s" and url: "hr_url req \<noteq> af_url af"
    and unauth: "rsp_status (fst (auth_server J conf T (af_url af) scopes f now d
                    (req\<lparr>hr_auth := af_access af\<rparr>) st)) = 401"
    and flow: "run_auth_flow (auth_server J conf T (af_url af) scopes f now d) af req st = (Inr rsp, af', st')"
  shows "ts_get T (rtkn_key u rt) st' = None"
proof -
  let ?send = "auth_server J conf T (af_url af) scopes f now d"
  have same: "snd (?send (req\<lparr>hr_auth := x\<rparr>) s) = s" for x s
    using url protected_pure [of f, OF pure]
    by (simp add: auth_server_def Let_def prod.case_eq_if)
  obtain r1 where s1: "?send (req\<lparr>hr_auth := af_access af\<rparr>) st = (r1, st)"
    using same by (metis prod.collapse)
  obtain res s2 where op: "refresh_token_op J conf T now d a rt st = (res, s2)"
    by fastforce
  have s2: "snd (?send (build_refresh_request af) st) = s2"
    using op by (auto simp: auth_server_refresh [OF af] split: sum.splits py_error.splits)
  show ?thesis
  proof (cases res)
    case (Inl e)
    then have "?send (build_refresh_request af) st =
        (error_response (if e = AuthValidationFailed then WebAuthFailed else e), s2)"
      using op by (auto simp: auth_server_refresh [OF af] split: py_error.splits)
    with s1 unauth have "run_auth_flow ?send af req st = (Inl AuthValidationFailed, af, s2)"
      by (intro run_auth_flow_refused) (auto intro: update_tokens_error)
    with flow show ?thesis by simp
  next
    case (Inr jr)
    with op have "refresh_token_op J conf T now d a rt st = (Inr jr, s2)" by simp
    then have "ts_get T (rtkn_key u rt) s2 = None"
      by (rule refresh_get) (use dec \<open>d \<noteq> rt\<close> in \<open>auto simp: rtkn_key_def\<close>)
    moreover have "st' = s2"
      using flow s1 unauth s2 same
      by (auto simp: run_auth_flow_def Let_def split: prod.splits sum.splits)
        (metis snd_conv)
    ultimately show ?thesis by simp
  qed
qed

end

text \<open>A client refreshes its session at most once. The server's refresh hands out a new refresh
  token and deletes the one it was shown, but \<open>AuthFlow.update_tokens\<close> only stores the new
  access token. So after a request that was answered 401 and refreshed, the next time the
  server answers this client 401, whatever happened in between, the flow fails with
  \<open>AuthValidationFailed\<close>.\<close>

lemma client_refreshes_once:
  assumes af: "af_access af = PStr a" "af_refresh af = Some rt" "rt \<noteq> []"
    and dec: "auth_decode J conf now a True False None None = Inr decoded"
      "map_of decoded ''usr'' = Some (PStr u)"
    and d: "d \<noteq> rt" and pure: "\<And>c s. snd (f c s) = s"
    and url: "hr_url req \<noteq> af_url af" "hr_url req' \<noteq> af_url af"
    and unauth: "rsp_status (fst (auth_server J conf (redis_token_store dr ns) (af_url af) scopes f now d
                    (req\<lparr>hr_auth := af_access af\<rparr>) st)) = 401"
    and flow: "run_auth_flow (auth_server J conf (redis_token_store dr ns) (af_url af) scopes f now d) af req st =
                 (Inr rsp, af', st')"
    and later: "token_steps J conf (redis_token_store dr ns) u rt st' st''"
    and dec': "af_access af' = PStr a'" "auth_decode J conf now' a' True False None None = Inr decoded'"
      "map_of decoded' ''usr'' = Some (PStr u)"
    and unauth': "rsp_status (fst (auth_server J conf (redis_token_store dr ns) (af_url af) scopes f now' d'
                    (req'\<lparr>hr_auth := af_access af'\<rparr>) st'')) = 401"
  shows "run_auth_flow (auth_server J conf (redis_token_store dr ns) (af_url af) scopes f now' d') af' req' st'' =
           (Inl AuthValidationFailed, af', st'')"
proof -
  have keep: "af_refresh af' = Some rt" "af_url af' = af_url af"
    using run_auth_flow_keeps_refresh [OF flow] af(2) by simp_all
  have "ts_get (redis_token_store dr ns) (rtkn_key u rt) st' = None"
    using rts.auth_flow_consumes [OF af dec d pure url(1) unauth flow] .
  then have "ts_get (redis_token_store dr ns) (rtkn_key u rt) st'' \<noteq> Some u"
    using rts.token_steps_stay_revoked [OF later] by simp
  from rts.auth_flow_stale [OF dec'(1) keep(1) af(3) dec'(2,3) this pure, where req = req' and scopes = scopes and d = d'] url(2) unauth'
  show ?thesis by (simp add: keep(2))
qed

text \<open>The credentials \<open>load_creds\<close> ends with: those on disk when there are any, and only without them
  those of the environment (both variables set and not empty); the HTTP client is created
  with the same flow.\<close>

lemma load_creds_precedence:
  "bc_auth (load_creds at rt disk c) = bc_http (load_creds at rt disk c) \<and>
   map_option (\<lambda>af. (af_access af, af_refresh af)) (bc_auth (load_creds at rt disk c)) =
     (case disk of
        Some tc \<Rightarrow> Some (PStr (tc_access tc), tc_refresh tc)
      | None \<Rightarrow> if opt_truthy at \<and> opt_truthy rt then Some (PStr (the at), rt)
                else map_option (\<lambda>af. (af_access af, af_refresh af)) (bc_auth c))"
  by (cases disk) (auto simp: load_creds_def set_creds_def http_init_def auth_init_def Let_def
      split: option.splits)

end
