(* ===== verification/Session.thy ===== *)
theory Session
  imports Client_Auth Labfile
begin

text \<open>
  The session a command line client keeps on disk: the credentials and keys of \<open>client/utils.py\<close>,
  the login of \<open>client/diskclient.py\<close> and of \<open>cmd/common.py\<close>, the rest of \<open>BaseClient\<close>
  (\<open>client/base.py\<close>) and the ways a client is made in \<open>client/shortcuts.py\<close>. Files are a map from
  paths to texts, with their modes and the paths the process may not open; JSON is the record
  \<open>json_lib\<close>; what a user types is an argument.
\<close>

section \<open>Files\<close>

record client_disk =
  cd_files :: "path \<Rightarrow> string option"
  cd_modes :: "path \<Rightarrow> nat option"
  cd_denied :: "path \<Rightarrow> bool"

record json_lib =
  js_dumps :: "pyval \<Rightarrow> string"
  js_loads :: "string \<Rightarrow> pyval result"

definition CLIENT_HOME_DIR :: string where "CLIENT_HOME_DIR = ''.labfunctions/''"
definition CLIENT_CREDS_FILE :: string where "CLIENT_CREDS_FILE = ''credentials.json''"
definition API_VERSION :: string where "API_VERSION = ''v1''"

definition write_text :: "path \<Rightarrow> string \<Rightarrow> client_disk \<Rightarrow> client_disk result" where
  "write_text p t d = (if cd_denied d p then Inl PermissionError else Inr (d\<lparr>cd_files := (cd_files d)(p \<mapsto> t)\<rparr>))"

definition chmod :: "path \<Rightarrow> nat \<Rightarrow> client_disk \<Rightarrow> client_disk" where
  "chmod p m d = d\<lparr>cd_modes := (cd_modes d)(p \<mapsto> m)\<rparr>"

section \<open>Credentials on disk\<close>

definition creds_path :: "path \<Rightarrow> path" where
  "creds_path homedir = path_join homedir (py_path CLIENT_CREDS_FILE)"

definition creds_dict :: "token_creds \<Rightarrow> pyval" where
  "creds_dict tc = PDict [(''access_token'', PStr (tc_access tc)), (''refresh_token'', opt_val (tc_refresh tc))]"

definition store_credentials_disk :: "json_lib \<Rightarrow> token_creds \<Rightarrow> path \<Rightarrow> client_disk \<Rightarrow> client_disk result" where
  "store_credentials_disk js creds homedir d =
     rbind (write_text (creds_path homedir) (js_dumps js (creds_dict creds)) d)
       (\<lambda>d'. Inr (chmod (creds_path homedir) 384 d'))"

text \<open>\<open>PermissionError\<close> is caught; a file that does not parse is not.\<close>

definition get_credentials_disk :: "json_lib \<Rightarrow> path \<Rightarrow> client_disk \<Rightarrow> token_creds option result" where
  "get_credentials_disk js homedir d =
     (case cd_files d (creds_path homedir) of
        None \<Rightarrow> Inr None
      | Some t \<Rightarrow>
          if cd_denied d (creds_path homedir) then Inr None
          else rbind (js_loads js t) (\<lambda>v. rbind (token_creds_of v) (\<lambda>tc. Inr (Some tc))))"

definition del_credentials_disk :: "path \<Rightarrow> client_disk \<Rightarrow> client_disk" where
  "del_credentials_disk homedir d =
     (if cd_files d (creds_path homedir) = None then d
      else d\<lparr>cd_files := (cd_files d)(creds_path homedir := None)\<rparr>)"

definition key_path :: "path \<Rightarrow> path" where
  "key_path working_area = path_join working_area (py_path ''private_key'')"

definition store_private_key :: "string \<Rightarrow> path \<Rightarrow> client_disk \<Rightarrow> client_disk result" where
  "store_private_key key wa d =
     rbind (write_text (key_path wa) key d) (\<lambda>d'. Inr (chmod (key_path wa) 384 d'))"

definition disk_private_key :: "path \<Rightarrow> client_disk \<Rightarrow> string option result" where
  "disk_private_key wa d =
     (case cd_files d (key_path wa) of
        None \<Rightarrow> Inr None
      | Some t \<Rightarrow> if cd_denied d (key_path wa) then Inl PermissionError else Inr (Some (strip t)))"

section \<open>The client\<close>

record disk_client =
  dc_base :: base_client
  dc_state :: "lab_state option"
  dc_home :: path
  dc_base_path :: "string option"

definition new_client ::
  "path \<Rightarrow> string \<Rightarrow> token_creds option \<Rightarrow> lab_state option \<Rightarrow> string option \<Rightarrow> disk_client" where
  "new_client user_home addr creds state base_path =
     \<lparr>dc_base = http_init \<lparr>bc_addr = addr, bc_version = API_VERSION, bc_creds = creds, bc_auth = None, bc_http = None\<rparr>,
      dc_state = state, dc_home = path_join user_home (py_path CLIENT_HOME_DIR), dc_base_path = base_path\<rparr>"

definition dc_projectid :: "disk_client \<Rightarrow> string option result" where
  "dc_projectid c = (case dc_state c of None \<Rightarrow> Inl WorkflowStateNotSetError | Some s \<Rightarrow> Inr (ls_projectid s))"

definition dc_project_name :: "disk_client \<Rightarrow> string option result" where
  "dc_project_name c = (case dc_state c of None \<Rightarrow> Inl WorkflowStateNotSetError | Some s \<Rightarrow> Inr (ls_project_name s))"

definition area_of :: "path \<Rightarrow> string \<Rightarrow> path" where
  "area_of homedir pid = path_join homedir (py_path pid)"

definition working_area :: "disk_client \<Rightarrow> path result" where
  "working_area c =
     rbind (dc_projectid c) (\<lambda>p. case p of None \<Rightarrow> Inl TypeError | Some pid \<Rightarrow> Inr (area_of (dc_home c) pid))"

text \<open>\<open>user\<close>, from the access token without checking its signature.\<close>

definition dc_user :: "(string \<Rightarrow> claims result) \<Rightarrow> disk_client \<Rightarrow> pyval result" where
  "dc_user decode c =
     (case bc_creds (dc_base c) of
        None \<Rightarrow> Inr PNone
      | Some tc \<Rightarrow> rbind (decode (tc_access tc)) (\<lambda>d. dict_get d ''usr''))"

definition dc_info :: "(string \<Rightarrow> claims result) \<Rightarrow> disk_client \<Rightarrow> pyval dict result" where
  "dc_info decode c =
     (case dc_state c of
        None \<Rightarrow> Inl AttributeError
      | Some s \<Rightarrow>
          rbind (working_area c) (\<lambda>wa. rbind (dc_user decode c) (\<lambda>user.
            Inr [(''projectid'', opt_val (ls_projectid s)), (''project_name'', opt_val (ls_project_name s)),
              (''workflows_service'', PStr (bc_addr (dc_base c))), (''homedir'', PStr (path_str (dc_home c))),
              (''working_area'', PStr (path_str wa)), (''file'', opt_val (ls_file s)),
              (''workflows'', if ls_workflows s = [] then PNone else PList (map PStr (dict_keys (ls_workflows s)))),
              (''user'', user), (''base_path'', opt_val (dc_base_path c))])))"

text \<open>The property \<open>creds\<close> reads the flow, not what was set.\<close>

definition base_creds :: "base_client \<Rightarrow> token_creds result" where
  "base_creds c =
     (case bc_auth c of
        None \<Rightarrow> Inl AttributeError
      | Some af \<Rightarrow> rbind (pydantic_str (af_access af)) (\<lambda>a. Inr \<lparr>tc_access = a, tc_refresh = af_refresh af\<rparr>))"

section \<open>Login\<close>

text \<open>\<open>DiskClient.login\<close>.\<close>

definition disk_login ::
  "json_lib \<Rightarrow> string \<Rightarrow> string \<Rightarrow> 's server \<Rightarrow> disk_client \<Rightarrow> client_disk \<Rightarrow> 's \<Rightarrow>
   unit result \<times> disk_client \<times> client_disk \<times> 's" where
  "disk_login js u p send c d st =
     (case base_login u p send (dc_base c) st of
        (Inl e, st') \<Rightarrow> (Inl e, c, d, st')
      | (Inr b, st') \<Rightarrow>
          (let c' = c\<lparr>dc_base := b\<rparr>
           in case rbind (base_creds b) (\<lambda>tc. store_credentials_disk js tc (dc_home c) d) of
                Inl e \<Rightarrow> (Inl e, c', d, st')
              | Inr d' \<Rightarrow> (Inr (), c', d', st')))"

text \<open>\<open>logincli\<close> returns \<open>True\<close> when the credentials on disk are verified, and otherwise asks for user
  and password and returns nothing. Credentials that cannot be verified are dropped first, but
  the flow made of them stays when the answer was not a failed authentication.\<close>

definition ask_login ::
  "json_lib \<Rightarrow> string \<Rightarrow> string \<Rightarrow> 's server \<Rightarrow> client_disk \<Rightarrow> disk_client \<Rightarrow> 's \<Rightarrow>
   bool option result \<times> disk_client \<times> client_disk \<times> 's" where
  "ask_login js u p send d c st =
     (case disk_login js u p send (c\<lparr>dc_base := set_creds None (dc_base c)\<rparr>) d st of
        (Inl e, c', d', st') \<Rightarrow> (Inl e, c', d', st')
      | (Inr _, c', d', st') \<Rightarrow> (Inr None, c', d', st'))"

definition logincli ::
  "json_lib \<Rightarrow> string \<Rightarrow> string \<Rightarrow> 's server \<Rightarrow> disk_client \<Rightarrow> client_disk \<Rightarrow> 's \<Rightarrow>
   bool option result \<times> disk_client \<times> client_disk \<times> 's" where
  "logincli js u p send c d st =
     (case get_credentials_disk js (dc_home c) d of
        Inl e \<Rightarrow> (Inl e, c, d, st)
      | Inr None \<Rightarrow> ask_login js u p send d c st
      | Inr (Some creds) \<Rightarrow>
          (case base_verify send (set_creds (Some creds) (dc_base c)) st of
             (Inl e, b, st') \<Rightarrow> (Inl e, c\<lparr>dc_base := b\<rparr>, d, st')
           | (Inr v, b, st') \<Rightarrow>
               if v = Some True then (Inr (Some True), c\<lparr>dc_base := b\<rparr>, d, st')
               else ask_login js u p send d (c\<lparr>dc_base := b\<rparr>) st'))"

text \<open>The command \<open>lab login\<close>: \<open>--relogin\<close> unlinks the file first, whether or not it exists.\<close>

definition login_cmd ::
  "json_lib \<Rightarrow> path \<Rightarrow> string \<Rightarrow> bool \<Rightarrow> string \<Rightarrow> string \<Rightarrow> 's server \<Rightarrow> client_disk \<Rightarrow> 's \<Rightarrow>
   unit result \<times> client_disk \<times> 's" where
  "login_cmd js user_home url relogin u p send d st =
     (let c = new_client user_home url None None None in
      if relogin \<and> cd_files d (creds_path (dc_home c)) = None then (Inl FileNotFoundError, d, st)
      else
        let d1 = (if relogin then del_credentials_disk (dc_home c) d else d)
        in case logincli js u p send c d1 st of
             (Inl e, _, d', st') \<Rightarrow> (if e = ConnectError then Inr () else Inl e, d', st')
           | (Inr _, _, d', st') \<Rightarrow> (Inr (), d', st'))"

text \<open>\<open>DiskClient.get_private_key\<close>: the key of the working area, and the server's when there is none.\<close>

definition dc_private_key :: "(string option \<Rightarrow> string result) \<Rightarrow> disk_client \<Rightarrow> client_disk \<Rightarrow> string result" where
  "dc_private_key ask c d =
     rbind (working_area c) (\<lambda>wa. rbind (disk_private_key wa d) (\<lambda>k.
       if opt_truthy k then Inr (the k) else rbind (dc_projectid c) ask))"

section \<open>Ways to make a client\<close>

text \<open>A labfile that is missing, that has no name or that is empty gives a client without a state;
  one that is not valid is an error.\<close>

definition client_from_file ::
  "json_lib \<Rightarrow> (string \<Rightarrow> pyval result) \<Rightarrow> path \<Rightarrow> string \<Rightarrow> string \<Rightarrow> string option \<Rightarrow> string option \<Rightarrow>
   string option \<Rightarrow> string option \<Rightarrow> client_disk \<Rightarrow> disk_client result" where
  "client_from_file js open_yaml user_home service base_path at rt filepath url_service d =
     rbind (case (case filepath of None \<Rightarrow> Inl TypeError | Some f \<Rightarrow> from_file open_yaml f) of
              Inl e \<Rightarrow> if e = TypeError \<or> e = FileNotFoundError then Inr None else Inl e
            | Inr s \<Rightarrow> Inr (Some s))
       (\<lambda>state.
          let c = new_client user_home (or_str url_service service) None state (Some base_path)
          in rbind (get_credentials_disk js (dc_home c) d) (\<lambda>disk.
               Inr (c\<lparr>dc_base := load_creds at rt disk (dc_base c)\<rparr>)))"

definition plain_project :: "string \<Rightarrow> string \<Rightarrow> project_data" where
  "plain_project name pid =
     \<lparr>pd_name = name, pd_projectid = pid, pd_owner = None, pd_agent = None, pd_users = None,
      pd_description = None, pd_repository = None\<rparr>"

definition new_state :: "project_data \<Rightarrow> lab_state" where
  "new_state pd = \<lparr>ls_version = LABFILE_VER, ls_project = Some pd, ls_workflows = [], ls_file = None\<rparr>"

definition client_from_env ::
  "json_lib \<Rightarrow> path \<Rightarrow> string \<Rightarrow> string option \<Rightarrow> string \<Rightarrow> string option \<Rightarrow> string option \<Rightarrow> string option \<Rightarrow>
   string option \<Rightarrow> client_disk \<Rightarrow> disk_client result" where
  "client_from_env js user_home service project_name projectid base_path at rt override d =
     (case project_name of
        None \<Rightarrow> Inl ValidationError
      | Some name \<Rightarrow>
          (let c = new_client user_home service None
                     (Some (new_state (plain_project name (or_str override projectid)))) base_path
           in rbind (get_credentials_disk js (dc_home c) d) (\<lambda>disk.
                Inr (c\<lparr>dc_base := load_creds at rt disk (dc_base c)\<rparr>))))"

definition agent_client :: "path \<Rightarrow> string \<Rightarrow> string \<Rightarrow> string \<Rightarrow> string \<Rightarrow> disk_client" where
  "agent_client user_home url token refresh projectid =
     new_client user_home url (Some \<lparr>tc_access = token, tc_refresh = Some refresh\<rparr>)
       (Some (new_state (plain_project [] projectid))) None"

section \<open>Properties\<close>

text \<open>What was stored is what is found, in a file of mode 600.\<close>

lemma stored_credentials_found:
  assumes "store_credentials_disk js tc home d = Inr d'" and "js_loads js (js_dumps js (creds_dict tc)) = Inr (creds_dict tc)"
  shows "get_credentials_disk js home d' = Inr (Some tc) \<and> cd_modes d' (creds_path home) = Some 384"
  using assms by (cases tc; cases "tc_refresh tc")
    (auto simp: store_credentials_disk_def write_text_def chmod_def get_credentials_disk_def creds_dict_def
      token_creds_of_def split: if_splits)

lemma stored_key_found:
  assumes "store_private_key key wa d = Inr d'"
  shows "disk_private_key wa d' = Inr (Some (strip key)) \<and> cd_modes d' (key_path wa) = Some 384"
  using assms by (auto simp: store_private_key_def write_text_def chmod_def disk_private_key_def split: if_splits)

definition refresh_url :: "base_client \<Rightarrow> string" where
  "refresh_url b = bc_addr b @ ''/'' @ bc_version b @ ''/auth/refresh_token''"

definition verify_req :: "pyval \<Rightarrow> http_request" where
  "verify_req token = \<lparr>hr_method = ''GET'', hr_url = ''/auth/verify'', hr_json = PNone, hr_auth = token\<rparr>"

lemma refresh_url_not_verify: "refresh_url b \<noteq> ''/auth/verify''"
proof
  assume "refresh_url b = ''/auth/verify''"
  then have "last (refresh_url b) = CHR ''y''" by simp
  then show False by (simp add: refresh_url_def)
qed

lemma verify_with_creds:
  "base_verify send (set_creds (Some \<lparr>tc_access = a, tc_refresh = Some rt\<rparr>) b) st =
     (case run_auth_flow send \<lparr>af_access = PStr a, af_refresh = Some rt, af_url = refresh_url b\<rparr> (verify_req PNone) st of
        (Inr rsp, af, st') \<Rightarrow>
          (Inr (if rsp_status rsp = 200 then Some True else None),
           b\<lparr>bc_creds := Some \<lparr>tc_access = a, tc_refresh = Some rt\<rparr>, bc_auth := Some af, bc_http := Some af\<rparr>, st')
      | (Inl e, af, st') \<Rightarrow>
          if e = AuthValidationFailed
          then (Inr (Some False), b\<lparr>bc_creds := None, bc_auth := None, bc_http := Some af\<rparr>, st')
          else (Inl e, b\<lparr>bc_creds := Some \<lparr>tc_access = a, tc_refresh = Some rt\<rparr>, bc_auth := Some af, bc_http := Some af\<rparr>, st'))"
proof -
  obtain r af st' where f: "run_auth_flow send \<lparr>af_access = PStr a, af_refresh = Some rt, af_url = refresh_url b\<rparr>
      (verify_req PNone) st = (r, af, st')" by (rule prod_cases3)
  have "base_verify send (set_creds (Some \<lparr>tc_access = a, tc_refresh = Some rt\<rparr>) b) st =
     (case r of
        Inr rsp \<Rightarrow> (Inr (if rsp_status rsp = 200 then Some True else None),
           b\<lparr>bc_creds := Some \<lparr>tc_access = a, tc_refresh = Some rt\<rparr>, bc_auth := Some af, bc_http := Some af\<rparr>, st')
      | Inl AuthValidationFailed \<Rightarrow> (Inr (Some False), b\<lparr>bc_creds := None, bc_auth := None, bc_http := Some af\<rparr>, st')
      | Inl e \<Rightarrow> (Inl e, b\<lparr>bc_creds := Some \<lparr>tc_access = a, tc_refresh = Some rt\<rparr>, bc_auth := Some af, bc_http := Some af\<rparr>, st'))"
    using f by (cases r) (simp_all add: base_verify_def set_creds_def http_init_def auth_init_def refresh_url_def verify_req_def
        split: py_error.split)
  then show ?thesis
  proof (cases r)
    case (Inl e)
    then show ?thesis using f \<open>base_verify _ _ _ = _\<close> by (cases e) simp_all
  qed (simp add: f)
qed

text \<open>The server as the verification of a session meets it.\<close>

definition verify_server ::
  "jwt_lib \<Rightarrow> jwt_config \<Rightarrow> 's token_store \<Rightarrow> string \<Rightarrow> int \<Rightarrow> string \<Rightarrow> 's server" where
  "verify_server J conf T url now drawn = auth_server J conf T url None verify_handler now drawn"

text \<open>C28. The credentials on disk survive one refresh. When the access token on disk is no longer
  accepted, a first \<open>logincli\<close> refreshes it, verifies the session and asks for nothing, but the
  file keeps the refresh token that was consumed; so from then on, whatever logins and
  refreshes happen in between, every \<open>logincli\<close> with that file asks for user and password.\<close>

theorem disk_session_refreshes_once:
  assumes disk: "get_credentials_disk js (dc_home c) d = Inr (Some \<lparr>tc_access = a, tc_refresh = Some rt\<rparr>)" "rt \<noteq> []"
    and same: "dc_home c' = dc_home c" "refresh_url (dc_base c') = refresh_url (dc_base c)"
    and dec: "auth_decode J conf now a True False None None = Inr decoded" "map_of decoded ''usr'' = Some (PStr usr)"
    and drawn: "drawn \<noteq> rt"
    and first: "logincli js u p (verify_server J conf (redis_token_store dr ns) (refresh_url (dc_base c)) now drawn) c d st =
      (Inr (Some True), c1, d1, st1)"
    and stale: "rsp_status (fst (verify_server J conf (redis_token_store dr ns) (refresh_url (dc_base c)) now drawn
        (verify_req (PStr a)) st)) = 401"
    and later: "token_steps J conf (redis_token_store dr ns) usr rt st1 st2"
    and dec': "auth_decode J conf now' a True False None None = Inr decoded'" "map_of decoded' ''usr'' = Some (PStr usr)"
    and stale': "rsp_status (fst (verify_server J conf (redis_token_store dr ns) (refresh_url (dc_base c)) now' drawn'
        (verify_req (PStr a)) st2)) = 401"
  shows "d1 = d \<and>
     (\<exists>c2. bc_auth (dc_base c2) = None \<and>
        logincli js u' p' (verify_server J conf (redis_token_store dr ns) (refresh_url (dc_base c)) now' drawn') c' d1 st2 =
        ask_login js u' p' (verify_server J conf (redis_token_store dr ns) (refresh_url (dc_base c)) now' drawn') d1 c2 st2)"
proof -
  let ?T = "redis_token_store dr ns" and ?url = "refresh_url (dc_base c)"
  let ?af = "\<lparr>af_access = PStr a, af_refresh = Some rt, af_url = ?url\<rparr>"
  have req: "verify_req PNone\<lparr>hr_auth := af_access ?af\<rparr> = verify_req (PStr a)" by (simp add: verify_req_def)
  have url: "hr_url (verify_req PNone) \<noteq> af_url ?af" using refresh_url_not_verify [of "dc_base c"] by (simp add: verify_req_def)
  have pure: "snd (verify_handler x s) = s" for x :: claims and s :: "string dict" by (simp add: verify_handler_def)
  have send: "verify_server J conf ?T ?url n e = auth_server J conf ?T (af_url ?af) None verify_handler n e" for n e
    by (simp add: verify_server_def)
  have d1: "d1 = d" and flow: "\<exists>rsp af'. run_auth_flow (verify_server J conf ?T ?url now drawn) ?af (verify_req PNone) st = (Inr rsp, af', st1)"
    using first disk(1) by (auto simp: logincli_def verify_with_creds ask_login_def split: prod.splits sum.splits if_splits)
  then obtain rsp af' where flow: "run_auth_flow (auth_server J conf ?T (af_url ?af) None verify_handler now drawn) ?af (verify_req PNone) st =
      (Inr rsp, af', st1)" unfolding send by blast
  have "ts_get ?T (rtkn_key usr rt) st1 = None"
    using rts.auth_flow_consumes [OF _ _ disk(2) dec drawn pure url _ flow] stale by (simp add: send verify_req_def)
  then have gone: "ts_get ?T (rtkn_key usr rt) st2 \<noteq> Some usr"
    using rts.token_steps_stay_revoked [OF later] by simp
  have "run_auth_flow (verify_server J conf ?T ?url now' drawn') ?af (verify_req PNone) st2 = (Inl AuthValidationFailed, ?af, st2)"
    using rts.auth_flow_stale [OF _ _ disk(2) dec' gone pure url, where d = drawn' and scopes = None] stale' by (simp add: send verify_req_def)
  then have "logincli js u' p' (verify_server J conf ?T ?url now' drawn') c' d st2 =
      ask_login js u' p' (verify_server J conf ?T ?url now' drawn') d
        (c'\<lparr>dc_base := (dc_base c')\<lparr>bc_creds := None, bc_auth := None, bc_http := Some ?af\<rparr>\<rparr>) st2"
    using disk(1) same by (simp add: logincli_def verify_with_creds)
  then show ?thesis using d1 by (intro conjI exI) auto
qed

definition aging_jwt :: "claims \<Rightarrow> jwt_lib" where
  "aging_jwt cl =
     \<lparr>jwt_encode = (\<lambda>_ _ _. ''fresh''),
      jwt_decode = (\<lambda>t _ opts _ _ _ _. if verify_exp opts \<and> t = ''old'' then Inl InvalidTokenError else Inr cl)\<rparr>"

definition demo_json :: json_lib where
  "demo_json = \<lparr>js_dumps = (\<lambda>_. ''creds''), js_loads = (\<lambda>_. Inr (creds_dict \<lparr>tc_access = ''old'', tc_refresh = Some ''aa''\<rparr>))\<rparr>"

definition demo_disk :: client_disk where
  "demo_disk = \<lparr>cd_files = (\<lambda>_. Some ''creds''), cd_modes = (\<lambda>_. None), cd_denied = (\<lambda>_. False)\<rparr>"

theorem disk_session_refreshes_once_witness:
  "\<exists>c1 c2. logincli demo_json ''ana'' ''pw'' (verify_server (aging_jwt demo_claims) demo_conf (redis_token_store True ''rtkn'')
       ''x/v1/auth/refresh_token'' 0 ''bb'') (new_client ([], []) ''x'' None None None) demo_disk [(''rtkn:ana.aa'', ''ana'')] =
     (Inr (Some True), c1, demo_disk, [(''rtkn:ana.bb'', ''ana'')]) \<and>
   logincli demo_json ''ana'' ''pw'' (verify_server (aging_jwt demo_claims) demo_conf (redis_token_store True ''rtkn'')
       ''x/v1/auth/refresh_token'' 9 ''cc'') (new_client ([], []) ''x'' None None None) demo_disk [(''rtkn:ana.bb'', ''ana'')] =
     ask_login demo_json ''ana'' ''pw'' (verify_server (aging_jwt demo_claims) demo_conf (redis_token_store True ''rtkn'')
       ''x/v1/auth/refresh_token'' 9 ''cc'') demo_disk c2 [(''rtkn:ana.bb'', ''ana'')]"
proof -
  let ?T = "redis_token_store True ''rtkn''" and ?c = "new_client ([], []) ''x'' None None None"
  let ?send = "verify_server (aging_jwt demo_claims) demo_conf ?T ''x/v1/auth/refresh_token''"
  have url: "refresh_url (dc_base ?c) = ''x/v1/auth/refresh_token''"
    by (simp add: refresh_url_def new_client_def API_VERSION_def http_init_def auth_init_def)
  have disk: "get_credentials_disk demo_json (dc_home ?c) demo_disk = Inr (Some \<lparr>tc_access = ''old'', tc_refresh = Some ''aa''\<rparr>)"
    by (simp add: get_credentials_disk_def demo_json_def demo_disk_def creds_dict_def token_creds_of_def)
  have dec: "auth_decode (aging_jwt demo_claims) demo_conf n ''old'' True False None None = Inr demo_claims" for n
    by (simp add: auth_decode_def aging_jwt_def)
  have usr: "map_of demo_claims ''usr'' = Some (PStr ''ana'')" by simp
  have stale: "rsp_status (fst (?send n d (verify_req (PStr ''old'')) s)) = 401" for n d s
    by (simp add: verify_server_def auth_server_def verify_req_def protected_def auth_validate_def auth_decode_def
        aging_jwt_def error_response_def json_def)
  have first: "\<exists>c1. logincli demo_json ''ana'' ''pw'' (?send 0 ''bb'') ?c demo_disk [(''rtkn:ana.aa'', ''ana'')] =
      (Inr (Some True), c1, demo_disk, [(''rtkn:ana.bb'', ''ana'')])"
    by (simp add: logincli_def disk verify_with_creds url run_auth_flow_def verify_server_def auth_server_def verify_req_def
        build_refresh_request_def refresh_handler_def refresh_token_op_def validate_refresh_token_def protected_def
        auth_validate_def auth_decode_def aging_jwt_def dict_get_def redis_token_store_def rts_get_eq rts_put_def
        rts_delete_def rtkn_key_def store_refresh_token_def auth_encode_def dict_set_def dict_del_def Let_def
        update_tokens_def jwt_response_dict_def json_def error_response_def verify_handler_def)
  then obtain c1 where c1: "logincli demo_json ''ana'' ''pw'' (?send 0 ''bb'') ?c demo_disk [(''rtkn:ana.aa'', ''ana'')] =
      (Inr (Some True), c1, demo_disk, [(''rtkn:ana.bb'', ''ana'')])" by blast
  obtain c2 where "logincli demo_json ''ana'' ''pw'' (?send 9 ''cc'') ?c demo_disk [(''rtkn:ana.bb'', ''ana'')] =
      ask_login demo_json ''ana'' ''pw'' (?send 9 ''cc'') demo_disk c2 [(''rtkn:ana.bb'', ''ana'')]"
    using disk_session_refreshes_once [where c = ?c and c' = ?c, OF disk _ refl refl dec usr, where drawn = "''bb''" and u = "''ana''" and p = "''pw''" and dr = True and ns = "''rtkn''", unfolded url,
        OF _ _ c1 stale token_steps.done_steps dec usr stale, where u' = "''ana''" and p' = "''pw''"] by auto
  then show ?thesis using c1 by blast
qed

end
