(* ===== verification/Project_Init.thy ===== *)
theory Project_Init
  imports Session Lab_Client
begin

text \<open>
  How a project starts: \<open>client/init_script.py\<close> and the command \<open>startproject\<close> of \<open>cmd/common.py\<close>. The
  directories the code makes just before it writes into them are left out, so a write fails only
  on a path the process may not open. Templates, YAML, the drawn identifiers and keys, and what
  the user types are arguments; the server is the one of the session, with its answers to the
  request that creates a project.
\<close>

section \<open>Libraries\<close>

record text_lib =
  tx_render :: "string \<Rightarrow> pyval \<Rightarrow> string result"
  tx_dockerfile :: "string \<Rightarrow> docker_spec \<Rightarrow> string result"
  tx_yaml_dump :: "pyval \<Rightarrow> string"
  tx_yaml_load :: "string \<Rightarrow> pyval result"
  tx_parse_spec :: "string \<Rightarrow> pyval \<Rightarrow> runtime_spec result"

definition read_text :: "path \<Rightarrow> client_disk \<Rightarrow> string result" where
  "read_text p d =
     (case cd_files d p of
        None \<Rightarrow> Inl FileNotFoundError
      | Some t \<Rightarrow> if cd_denied d p then Inl PermissionError else Inr t)"

definition open_yaml_at :: "text_lib \<Rightarrow> path \<Rightarrow> client_disk \<Rightarrow> pyval result" where
  "open_yaml_at X p d = rbind (read_text p d) (tx_yaml_load X)"

definition under :: "path \<Rightarrow> string \<Rightarrow> path" where
  "under root f = path_join root (py_path f)"

text \<open>An operation on the disk keeps what it wrote before it failed.\<close>

type_synonym 'a disk_op = "client_disk \<Rightarrow> 'a result \<times> client_disk"

definition disk_bind :: "'a disk_op \<Rightarrow> ('a \<Rightarrow> 'b disk_op) \<Rightarrow> 'b disk_op" where
  "disk_bind m f = (\<lambda>d. case m d of (Inl e, d') \<Rightarrow> (Inl e, d') | (Inr x, d') \<Rightarrow> f x d')"

definition of_result :: "'a result \<Rightarrow> 'a disk_op" where
  "of_result r = (\<lambda>d. (r, d))"

definition reading :: "(client_disk \<Rightarrow> 'a result) \<Rightarrow> 'a disk_op" where
  "reading f = (\<lambda>d. (f d, d))"

definition updating :: "(client_disk \<Rightarrow> client_disk result) \<Rightarrow> unit disk_op" where
  "updating f = (\<lambda>d. case f d of Inl e \<Rightarrow> (Inl e, d) | Inr d' \<Rightarrow> (Inr (), d'))"

text \<open>\<open>render_to_file\<close>.\<close>

definition render_to_file :: "text_lib \<Rightarrow> string \<Rightarrow> path \<Rightarrow> pyval \<Rightarrow> unit disk_op" where
  "render_to_file X tpl dst data = disk_bind (of_result (tx_render X tpl data)) (\<lambda>t. updating (write_text dst t))"

definition generate_dockerfile :: "text_lib \<Rightarrow> path \<Rightarrow> runtime_spec \<Rightarrow> unit disk_op" where
  "generate_dockerfile X root spec =
     disk_bind (of_result (tx_dockerfile X (ds_base_template (rs_container spec)) (rs_container spec)))
       (\<lambda>t. updating (write_text (under root (''Dockerfile.'' @ rs_name spec)) t))"

section \<open>The files of a new project\<close>

definition PROJECT_FILES :: "(string \<times> string) list" where
  "PROJECT_FILES =
     [(''gitignore'', ''.gitignore''), (''dockerignore'', ''.dockerignore''),
      (''welcome.ipynb.j2'', ''notebooks/welcome.ipynb''), (''Makefile'', ''Makefile''),
      (''local.nbvars.j2'', ''local.nbvars'')]"

definition example_task :: nbtask where
  "example_task =
     (NBTask ''welcome'' [(''TIMEOUT'', PInt 5)])
       \<lparr>nb_description := Some ''An example of how to configure a specific workflow''\<rparr>"

definition example_workflow :: wf_entry where
  "example_workflow =
     \<lparr>we_data = \<lparr>wd_alias = ''a_workflow_example'', wd_nbtask = example_task, wd_enabled = False, wd_wfid = None,
                 wd_schedule = None\<rparr>,
      we_set = [''alias'', ''nbtask'', ''enabled''], we_task_set = [''nb_name'', ''description'', ''params''],
      we_sched_set = []\<rparr>"

text \<open>\<open>init_lab_app\<close>. The address of the service is computed, and the one given is rendered.\<close>

definition init_lab_app :: "text_lib \<Rightarrow> path \<Rightarrow> string option \<Rightarrow> string \<Rightarrow> string option \<Rightarrow> unit disk_op" where
  "init_lab_app X root projectid project_name url_service =
     disk_bind (updating (write_text (under root ''lab_app/__init__.py'') [])) (\<lambda>_.
       render_to_file X ''client_settings.py.j2'' (under root ''lab_app/settings.py'')
         (PDict [(''projectid'', opt_val projectid), (''project_name'', PStr project_name),
                 (''workflow_service'', opt_val url_service)]))"

definition default_runtime :: "text_lib \<Rightarrow> string result \<Rightarrow> path \<Rightarrow> unit disk_op" where
  "default_runtime X version root =
     disk_bind (of_result version) (\<lambda>v.
       render_to_file X ''runtimes.yaml'' (under root ''runtimes.yaml'')
         (PDict [(''docker_cpu'', PStr (DOCKERFILE_IMAGE @ CHR '':'' # v @ ''-client'')),
                 (''docker_gpu'', PStr (DOCKERFILE_IMAGE @ CHR '':'' # v @ ''-client-cuda11.6''))]))"

fun render_files :: "text_lib \<Rightarrow> path \<Rightarrow> (string \<times> string) list \<Rightarrow> unit disk_op" where
  "render_files X root [] = of_result (Inr ())"
| "render_files X root ((tpl, dst) # fs) =
     disk_bind (render_to_file X tpl (under root dst) (PDict [])) (\<lambda>_. render_files X root fs)"

text \<open>\<open>init_project_files\<close> writes \<open>runtimes.yaml\<close> under the root and reads it from the current directory.\<close>

definition init_project_files ::
  "text_lib \<Rightarrow> string result \<Rightarrow> path \<Rightarrow> path \<Rightarrow> (string \<times> string) list \<Rightarrow> unit disk_op" where
  "init_project_files X version cwd root fs =
     disk_bind (default_runtime X version root) (\<lambda>_.
     disk_bind (render_files X root fs) (\<lambda>_.
     disk_bind (reading (\<lambda>d. get_spec_from_file (tx_parse_spec X) ''default'' (open_yaml_at X (under cwd ''runtimes.yaml'') d)))
       (generate_dockerfile X root)))"

definition labfile_path :: "path \<Rightarrow> path" where
  "labfile_path root = under root LABFILE_NAME"

definition lab_state_init :: "text_lib \<Rightarrow> nanoid \<Rightarrow> path \<Rightarrow> string \<Rightarrow> string option \<Rightarrow> lab_state disk_op" where
  "lab_state_init X gen root name projectid =
     (let pid = or_str projectid (gen PROJECT_ID_ALPHABET PROJECTID_MIN_LEN);
          s = add_workflow example_workflow (new_state (plain_project name pid))
      in disk_bind (of_result (lab_dict s)) (\<lambda>v.
         disk_bind (updating (write_text (labfile_path root) (tx_yaml_dump X v))) (\<lambda>_. of_result (Inr s))))"

text \<open>\<open>settings\<close>: the loading of the client's settings, whose value is not used.\<close>

definition init_automatic ::
  "text_lib \<Rightarrow> unit result \<Rightarrow> string result \<Rightarrow> nanoid \<Rightarrow> path \<Rightarrow> path \<Rightarrow> string \<Rightarrow> string option \<Rightarrow> lab_state disk_op" where
  "init_automatic X settings version gen cwd root project_name url_service =
     disk_bind (of_result settings) (\<lambda>_.
     disk_bind (init_project_files X version cwd root PROJECT_FILES) (\<lambda>_.
     disk_bind (lab_state_init X gen root project_name None) (\<lambda>s.
     disk_bind (init_lab_app X root (ls_projectid s) project_name url_service) (\<lambda>_. of_result (Inr s)))))"

definition refresh_project :: "text_lib \<Rightarrow> nanoid \<Rightarrow> path \<Rightarrow> project_data \<Rightarrow> string option \<Rightarrow> unit disk_op" where
  "refresh_project X gen root pd url_service =
     disk_bind (lab_state_init X gen root (pd_name pd) (Some (pd_projectid pd)))
       (\<lambda>s. init_lab_app X root (ls_projectid s) (pd_name pd) url_service)"

section \<open>Creating the project on the server\<close>

type_synonym 's project_post = "project_req \<Rightarrow> 's \<Rightarrow> (int \<times> project_data result) result \<times> 's"

definition keep_key :: "disk_client \<Rightarrow> string \<Rightarrow> unit disk_op" where
  "keep_key c key = disk_bind (of_result (working_area c)) (\<lambda>wa. updating (store_private_key key wa))"

text \<open>The key is kept in the working area of the identifier the client has before the server answers.\<close>

definition create_on_the_server ::
  "'s project_post \<Rightarrow> string \<Rightarrow> disk_client \<Rightarrow> client_disk \<Rightarrow> 's \<Rightarrow> project_data option result \<times> disk_client \<times> client_disk \<times> 's" where
  "create_on_the_server post pkey c d st =
     (case dc_state c of
        None \<Rightarrow> (Inl AttributeError, c, d, st)
      | Some s \<Rightarrow>
          (case ls_project s of
             None \<Rightarrow> (Inl AttributeError, c, d, st)
           | Some pd \<Rightarrow>
               (case post \<lparr>pq_name = pd_name pd, pq_private_key = pkey, pq_projectid = None,
                           pq_description = pd_description pd, pq_repository = pd_repository pd\<rparr> st of
                  (Inl e, st') \<Rightarrow> (Inl e, c, d, st')
                | (Inr r, st') \<Rightarrow>
                    (case projects_create r pkey True (keep_key c) d of
                       (Inl e, d') \<Rightarrow> (Inl e, c, d', st')
                     | (Inr None, d') \<Rightarrow> (Inr None, c, d', st')
                     | (Inr (Some (rpd, _)), d') \<Rightarrow>
                         (case set_projectid (pd_projectid rpd) s of
                            Inl e \<Rightarrow> (Inl e, c, d', st')
                          | Inr s' \<Rightarrow> (Inr (Some rpd), c\<lparr>dc_state := Some s'\<rparr>, d', st'))))))"

section \<open>The command\<close>

text \<open>What the user answers in one round: the name, whether to create the project on the server with
  which user and password, and whether to try another name; with what is drawn in the round.\<close>

record start_round =
  sr_name :: string
  sr_create :: bool
  sr_user :: string
  sr_password :: string
  sr_again :: bool
  sr_gen :: nanoid
  sr_key :: string

datatype start_outcome = Created project_data | LocalOnly | GaveUp

definition project_name_of :: "os_env \<Rightarrow> (string \<Rightarrow> string) \<Rightarrow> string \<Rightarrow> string \<Rightarrow> string" where
  "project_name_of os nfkd cwd typed =
     normalize_name os nfkd (if typed = [] then normalize_name os nfkd (get_parent_folder cwd) else typed)"

record 's start_env =
  se_text :: text_lib
  se_json :: json_lib
  se_settings :: "unit result"
  se_version :: "string result"
  se_home :: path
  se_cwd :: path
  se_name :: "string \<Rightarrow> string"
  se_send :: "'s server"
  se_post :: "'s project_post"

text \<open>Answers that run out end the command with status 1, as an end of input does.\<close>

fun start_loop ::
  "'s start_env \<Rightarrow> path \<Rightarrow> string \<Rightarrow> start_round list \<Rightarrow> client_disk \<Rightarrow> 's \<Rightarrow> start_outcome result \<times> client_disk \<times> 's" where
  "start_loop E root url [] d st = (Inl (SystemExit 1), d, st)"
| "start_loop E root url (a # rounds) d st =
     (let name = se_name E (sr_name a)
      in case init_automatic (se_text E) (se_settings E) (se_version E) (sr_gen a) (se_cwd E) root name (Some url) d of
           (Inl e, d1) \<Rightarrow> (Inl e, d1, st)
         | (Inr s, d1) \<Rightarrow>
             if \<not> sr_create a then (Inr LocalOnly, d1, st)
             else
               (case logincli (se_json E) (sr_user a) (sr_password a) (se_send E) (new_client (se_home E) url None (Some s) None) d1 st of
                  (Inl e, _, d2, st2) \<Rightarrow> (Inl (if e = ConnectError then SystemExit 255 else e), d2, st2)
                | (Inr _, c, d2, st2) \<Rightarrow>
                    (case create_on_the_server (se_post E) (sr_key a) c d2 st2 of
                       (Inl e, _, d3, st3) \<Rightarrow> (Inl (if e = ConnectError then SystemExit 255 else e), d3, st3)
                     | (Inr (Some pd), _, d3, st3) \<Rightarrow>
                         (case refresh_project (se_text E) (sr_gen a) root pd (Some url) d3 of
                            (Inl e, d4) \<Rightarrow> (Inl e, d4, st3)
                          | (Inr _, d4) \<Rightarrow> (Inr (Created pd), d4, st3))
                     | (Inr None, _, d3, st3) \<Rightarrow>
                         if sr_again a then start_loop E root url rounds d3 st3 else (Inr GaveUp, d3, st3))))"

text \<open>The user is asked only when there is a labfile; \<open>continue\<close> is the answer.\<close>

definition verify_pre_existent :: "client_disk \<Rightarrow> path \<Rightarrow> bool" where
  "verify_pre_existent d root = (cd_files d (labfile_path root) \<noteq> None)"

definition i_should_create :: "client_disk \<Rightarrow> path \<Rightarrow> bool \<Rightarrow> bool" where
  "i_should_create d root continue = (if verify_pre_existent d root then continue else True)"

definition startproject ::
  "'s start_env \<Rightarrow> path \<Rightarrow> string \<Rightarrow> bool \<Rightarrow> start_round list \<Rightarrow> client_disk \<Rightarrow> 's \<Rightarrow>
   start_outcome option result \<times> client_disk \<times> 's" where
  "startproject E root url continue rounds d st =
     (if i_should_create d root continue
      then (case start_loop E root url rounds d st of
              (Inl e, d', st') \<Rightarrow> (Inl e, d', st')
            | (Inr out, d', st') \<Rightarrow> (Inr (Some out), d', st'))
      else (Inr None, d, st))"

section \<open>What the steps write\<close>

text \<open>A file of keys, and the operations that leave such files alone.\<close>

definition key_file :: "path \<Rightarrow> bool" where
  "key_file p \<longleftrightarrow> snd p \<noteq> [] \<and> last (snd p) = ''private_key''"

definition same_keys :: "client_disk \<Rightarrow> client_disk \<Rightarrow> bool" where
  "same_keys d d' \<longleftrightarrow> (\<forall>p. key_file p \<longrightarrow> cd_files d' p = cd_files d p)"

definition keeps_keys :: "'a disk_op \<Rightarrow> bool" where
  "keeps_keys m \<longleftrightarrow> (\<forall>d. same_keys d (snd (m d)))"

lemma same_keys_refl [simp]: "same_keys d d"
  by (simp add: same_keys_def)

lemma same_keys_trans: "same_keys d d1 \<Longrightarrow> same_keys d1 d2 \<Longrightarrow> same_keys d d2"
  by (simp add: same_keys_def)

named_theorems keeping

lemma keeps_bind [keeping]: "keeps_keys m \<Longrightarrow> (\<And>x. keeps_keys (f x)) \<Longrightarrow> keeps_keys (disk_bind m f)"
  by (auto simp: keeps_keys_def disk_bind_def split: prod.split sum.split) (metis snd_conv same_keys_trans)+

lemma keeps_of_result [keeping]: "keeps_keys (of_result r)"
  by (simp add: keeps_keys_def of_result_def)

lemma keeps_reading [keeping]: "keeps_keys (reading f)"
  by (simp add: keeps_keys_def reading_def)

lemma keeps_write [keeping]: "\<not> key_file p \<Longrightarrow> keeps_keys (updating (write_text p t))"
  by (auto simp: keeps_keys_def same_keys_def updating_def write_text_def)

lemma under_not_key: "py_path f = ([], ws @ [w]) \<Longrightarrow> w \<noteq> ''private_key'' \<Longrightarrow> \<not> key_file (under root f)"
  by (simp add: key_file_def under_def path_join_def)

lemma project_paths:
  "py_path ''lab_app/__init__.py'' = ([], [''lab_app''] @ [''__init__.py''])"
  "py_path ''lab_app/settings.py'' = ([], [''lab_app''] @ [''settings.py''])"
  "py_path ''runtimes.yaml'' = ([], [] @ [''runtimes.yaml''])"
  "py_path LABFILE_NAME = ([], [] @ [''labfile.yaml''])"
  "py_path ''.gitignore'' = ([], [] @ [''.gitignore''])"
  "py_path ''.dockerignore'' = ([], [] @ [''.dockerignore''])"
  "py_path ''notebooks/welcome.ipynb'' = ([], [''notebooks''] @ [''welcome.ipynb''])"
  "py_path ''Makefile'' = ([], [] @ [''Makefile''])"
  "py_path ''local.nbvars'' = ([], [] @ [''local.nbvars''])"
  "py_path ''Dockerfile.default'' = ([], [] @ [''Dockerfile.default''])"
  "py_path ''private_key'' = ([], [''private_key''])"
  "py_path CLIENT_CREDS_FILE = ([], [''credentials.json''])"
  by code_simp+

lemma project_files_not_keys [keeping]:
  "\<not> key_file (under root ''lab_app/__init__.py'')" "\<not> key_file (under root ''lab_app/settings.py'')"
  "\<not> key_file (under root ''runtimes.yaml'')" "\<not> key_file (labfile_path root)"
  "\<not> key_file (under root ''.gitignore'')" "\<not> key_file (under root ''.dockerignore'')"
  "\<not> key_file (under root ''notebooks/welcome.ipynb'')" "\<not> key_file (under root ''Makefile'')"
  "\<not> key_file (under root ''local.nbvars'')" "\<not> key_file (under root ''Dockerfile.default'')"
  unfolding labfile_path_def by (rule under_not_key, rule project_paths, simp)+

lemma key_path_is_key: "key_file (key_path wa)"
  by (simp add: key_file_def key_path_def path_join_def project_paths)

lemma creds_not_key: "\<not> key_file (creds_path h)"
  by (simp add: key_file_def creds_path_def path_join_def project_paths)

lemma keeps_init_lab_app [keeping]: "keeps_keys (init_lab_app X root pid name url)"
  unfolding init_lab_app_def render_to_file_def by (intro keeping)

lemma keeps_lab_state_init [keeping]: "keeps_keys (lab_state_init X gen root name pid)"
  unfolding lab_state_init_def Let_def by (intro keeping)

lemma keeps_refresh_project: "keeps_keys (refresh_project X gen root pd url)"
  unfolding refresh_project_def by (intro keeping)

lemma rmap_mem: "rmap f xs = Inr ys \<Longrightarrow> y \<in> set ys \<Longrightarrow> \<exists>x\<in>set xs. f x = Inr y"
  by (induction xs arbitrary: ys) (auto simp: rbind_Inr_iff)

lemma spec_of_name:
  assumes "\<And>k v sp. parse k v = Inr sp \<Longrightarrow> rs_name sp = k" and "get_spec_from_file parse name r = Inr sp"
  shows "rs_name sp = name"
proof -
  obtain specs where g: "get_runtimes_specs parse r = Inr specs" "dict_get specs name = Inr sp"
    using assms(2) by (auto simp: get_spec_from_file_def rbind_Inr_iff)
  obtain items where items: "rmap (\<lambda>(k, v). rbind (parse k v) (\<lambda>sp. Inr (k, sp))) items = Inr specs"
  proof -
    obtain data where r: "r = Inr data" using g(1) by (cases r) (auto simp: get_runtimes_specs_def)
    then obtain d where "data = PDict d" using g(1) by (cases data) (auto simp: get_runtimes_specs_def)
    then obtain rs where "dict_get d ''runtimes'' = Inr rs" "(case rs of PDict items \<Rightarrow> rmap (\<lambda>(k, v). rbind (parse k v) (\<lambda>sp. Inr (k, sp))) items
        | _ \<Rightarrow> Inl AttributeError) = Inr specs"
      using g(1) r by (cases "dict_get d ''runtimes''") (auto simp: get_runtimes_specs_def)
    then show thesis by (cases rs) (auto intro: that)
  qed
  have "(name, sp) \<in> set specs"
    using g(2) by (auto simp: dict_get_def split: option.splits dest: map_of_SomeD)
  with items obtain k v where "rbind (parse k v) (\<lambda>x. Inr (k, x)) = Inr (name, sp)"
    using rmap_mem by fastforce
  then show ?thesis using assms(1) by (auto simp: rbind_Inr_iff)
qed

lemma keeps_reading_bind:
  "(\<And>d x. f d = Inr x \<Longrightarrow> keeps_keys (g x)) \<Longrightarrow> keeps_keys (disk_bind (reading f) g)"
  by (auto simp: keeps_keys_def disk_bind_def reading_def split: sum.split)

lemma keeps_init_automatic:
  assumes "\<And>k v sp. tx_parse_spec X k v = Inr sp \<Longrightarrow> rs_name sp = k"
  shows "keeps_keys (init_automatic X settings version gen cwd root name url)"
proof -
  have [keeping]: "keeps_keys (disk_bind (reading (\<lambda>d. get_spec_from_file (tx_parse_spec X) ''default'' (open_yaml_at X p d)))
      (generate_dockerfile X root))" for p
  proof (rule keeps_reading_bind)
    fix d sp
    assume "get_spec_from_file (tx_parse_spec X) ''default'' (open_yaml_at X p d) = Inr sp"
    then have "rs_name sp = ''default''" using assms by (rule spec_of_name [rotated])
    then show "keeps_keys (generate_dockerfile X root sp)"
      by (simp add: generate_dockerfile_def keeping)
  qed
  show ?thesis
    unfolding init_automatic_def init_project_files_def PROJECT_FILES_def default_runtime_def render_to_file_def render_files.simps
    by (intro keeping)
qed

section \<open>What the steps give\<close>

definition first_state :: "string \<Rightarrow> string \<Rightarrow> lab_state" where
  "first_state name pid = add_workflow example_workflow (new_state (plain_project name pid))"

lemma disk_bind_Inr:
  "disk_bind m f d = (Inr y, d') \<longleftrightarrow> (\<exists>x d1. m d = (Inr x, d1) \<and> f x d1 = (Inr y, d'))"
  by (auto simp: disk_bind_def split: prod.splits sum.splits)

lemma disk_op_Inr:
  "of_result r d = (Inr x, d') \<longleftrightarrow> r = Inr x \<and> d' = d"
  "updating f d = (Inr u, d') \<longleftrightarrow> f d = Inr d'"
  "write_text p t d = Inr d' \<longleftrightarrow> \<not> cd_denied d p \<and> d' = d\<lparr>cd_files := (cd_files d)(p \<mapsto> t)\<rparr>"
  by (auto simp: of_result_def updating_def write_text_def split: sum.splits)

lemma lab_state_init_Inr:
  "lab_state_init X gen root name pid d = (Inr s, d') \<longleftrightarrow>
     s = first_state name (or_str pid (gen PROJECT_ID_ALPHABET PROJECTID_MIN_LEN)) \<and>
     (\<exists>v. lab_dict s = Inr v \<and> \<not> cd_denied d (labfile_path root) \<and>
        d' = d\<lparr>cd_files := (cd_files d)(labfile_path root \<mapsto> tx_yaml_dump X v)\<rparr>)"
  by (auto simp: lab_state_init_def Let_def disk_bind_Inr disk_op_Inr first_state_def)

lemma init_automatic_state:
  "init_automatic X settings version gen cwd root name url d = (Inr s, d') \<Longrightarrow>
     s = first_state name (gen PROJECT_ID_ALPHABET PROJECTID_MIN_LEN)"
  by (auto simp: init_automatic_def disk_bind_Inr disk_op_Inr lab_state_init_Inr)

lemma first_state_id [simp]: "ls_projectid (first_state name pid) = Some pid"
  by (simp add: first_state_def add_workflow_def new_state_def plain_project_def ls_projectid_def)

lemma labfile_not_settings:
  "under root ''lab_app/settings.py'' \<noteq> labfile_path root" "under root ''lab_app/__init__.py'' \<noteq> labfile_path root"
  by (simp_all add: under_def labfile_path_def path_join_def project_paths)

lemma refresh_project_Inr:
  assumes "refresh_project X gen root pd url d = (Inr u, d')" and "pd_projectid pd \<noteq> []"
  shows "(\<exists>v. lab_dict (first_state (pd_name pd) (pd_projectid pd)) = Inr v \<and>
       cd_files d' (labfile_path root) = Some (tx_yaml_dump X v)) \<and>
     (\<exists>t. tx_render X ''client_settings.py.j2'' (PDict [(''projectid'', PStr (pd_projectid pd)),
         (''project_name'', PStr (pd_name pd)), (''workflow_service'', opt_val url)]) = Inr t \<and>
       cd_files d' (under root ''lab_app/settings.py'') = Some t)"
  using assms
  by (auto simp: refresh_project_def disk_bind_Inr disk_op_Inr lab_state_init_Inr init_lab_app_def render_to_file_def
      labfile_not_settings [symmetric])

text \<open>Logging in leaves keys and the state of the client alone.\<close>

lemma store_credentials_keeps: "store_credentials_disk js tc h d = Inr d' \<Longrightarrow> same_keys d d'"
  using creds_not_key [of h]
  by (auto simp: store_credentials_disk_def write_text_def chmod_def same_keys_def split: if_splits)

lemma disk_login_keeps:
  assumes "disk_login js u p send c d st = (r, c', d', st')"
  shows "dc_state c' = dc_state c \<and> dc_home c' = dc_home c \<and> same_keys d d'"
  using assms
  by (auto simp: disk_login_def Let_def rbind_Inr_iff split: prod.splits sum.splits dest: store_credentials_keeps)

lemma logincli_keeps:
  assumes "logincli js u p send c d st = (r, c', d', st')"
  shows "dc_state c' = dc_state c \<and> dc_home c' = dc_home c \<and> same_keys d d'"
proof -
  have ask: "dc_state c2 = dc_state c1 \<and> dc_home c2 = dc_home c1 \<and> same_keys d1 d2"
    if "ask_login js u p send d1 c1 s1 = (r1, c2, d2, s2)" for c1 d1 s1 r1 c2 d2 s2
    using that by (auto simp: ask_login_def split: prod.splits sum.splits dest!: disk_login_keeps)
  show ?thesis
    using assms unfolding logincli_def
    by (auto split: prod.splits sum.splits option.splits if_splits dest!: ask)
qed

lemma create_on_the_server_key:
  assumes "create_on_the_server post key c d st = (r, c', d', st')" and "working_area c = Inr wa"
  shows "(\<exists>pd. r = Inr (Some pd) \<and> cd_files d' = (cd_files d)(key_path wa \<mapsto> key)) \<or>
     (\<forall>pd. r \<noteq> Inr (Some pd)) \<and> (r = Inr None \<longrightarrow> d' = d)"
  using assms
  by (auto simp: create_on_the_server_def projects_create_def keep_key_def disk_bind_def of_result_def updating_def
      store_private_key_def write_text_def chmod_def split: prod.splits sum.splits option.splits if_splits)

definition home_of :: "'s start_env \<Rightarrow> path" where
  "home_of E = path_join (se_home E) (py_path CLIENT_HOME_DIR)"

text \<open>The identifier that is drawn in a round, for the project the server does not know yet.\<close>

definition drawn_id :: "start_round \<Rightarrow> string" where
  "drawn_id a = sr_gen a PROJECT_ID_ALPHABET PROJECTID_MIN_LEN"

lemma start_loop_created:
  assumes "start_loop E root url rounds d st = (Inr (Created pd), d', st')"
    and names: "\<And>k v sp. tx_parse_spec (se_text E) k v = Inr sp \<Longrightarrow> rs_name sp = k"
  shows "\<exists>a\<in>set rounds. \<exists>d3. refresh_project (se_text E) (sr_gen a) root pd (Some url) d3 = (Inr (), d') \<and>
     cd_files d3 (key_path (area_of (home_of E) (drawn_id a))) = Some (sr_key a) \<and>
     (\<forall>p. key_file p \<longrightarrow> p \<noteq> key_path (area_of (home_of E) (drawn_id a)) \<longrightarrow> cd_files d3 p = cd_files d p)"
  using assms(1)
proof (induction rounds arbitrary: d st)
  case (Cons a rounds)
  let ?name = "se_name E (sr_name a)"
  obtain r1 d1 where auto: "init_automatic (se_text E) (se_settings E) (se_version E) (sr_gen a) (se_cwd E) root ?name (Some url) d = (r1, d1)"
    by (rule prod.exhaust)
  then obtain s where r1: "r1 = Inr s" using Cons.prems by (cases r1) (auto simp: Let_def)
  have s: "s = first_state ?name (drawn_id a)" using init_automatic_state auto r1 unfolding drawn_id_def by blast
  have k1: "same_keys d d1"
  proof -
    have "keeps_keys (init_automatic (se_text E) (se_settings E) (se_version E) (sr_gen a) (se_cwd E) root ?name (Some url))"
      using names by (rule keeps_init_automatic)
    then show ?thesis using auto unfolding keeps_keys_def by (metis snd_conv)
  qed
  let ?c0 = "new_client (se_home E) url None (Some s) None"
  obtain r2 c d2 st2 where login: "logincli (se_json E) (sr_user a) (sr_password a) (se_send E) ?c0 d1 st = (r2, c, d2, st2)"
    by (rule prod_cases4)
  have create: "sr_create a" using Cons.prems auto r1 by (auto simp: Let_def split: if_splits)
  obtain u where r2: "r2 = Inr u" using Cons.prems auto r1 login create by (cases r2) (auto simp: Let_def)
  have c: "dc_state c = Some s" "dc_home c = home_of E" "same_keys d1 d2"
    using logincli_keeps [OF login] by (simp_all add: new_client_def home_of_def)
  have wa: "working_area c = Inr (area_of (home_of E) (drawn_id a))"
    using c(1,2) by (simp add: working_area_def dc_projectid_def s)
  obtain r3 c3 d3 st3 where post: "create_on_the_server (se_post E) (sr_key a) c d2 st2 = (r3, c3, d3, st3)"
    by (rule prod_cases4)
  note step = create_on_the_server_key [OF post wa]
  obtain made where r3: "r3 = Inr made" using Cons.prems auto r1 login create r2 post by (cases r3) (auto simp: Let_def)
  show ?case
  proof (cases made)
    case None
    then have "d3 = d2" and rest: "start_loop E root url rounds d3 st3 = (Inr (Created pd), d', st')"
      using step r3 Cons.prems auto r1 login create r2 post by (auto simp: Let_def split: if_splits)
    then have "same_keys d d3" using k1 c(3) same_keys_trans by blast
    then show ?thesis using Cons.IH [OF rest] unfolding same_keys_def by (metis list.set_intros(2))
  next
    case (Some pd')
    then have "refresh_project (se_text E) (sr_gen a) root pd (Some url) d3 = (Inr (), d')"
      using r3 Cons.prems auto r1 login create r2 post by (auto simp: Let_def split: prod.splits sum.splits)
    moreover have "cd_files d3 = (cd_files d2)(key_path (area_of (home_of E) (drawn_id a)) \<mapsto> sr_key a)"
      using step r3 Some by auto
    moreover have "same_keys d d2" using k1 c(3) same_keys_trans by blast
    ultimately show ?thesis unfolding same_keys_def by (intro bexI [of _ a] exI [of _ d3]) auto
  qed
qed simp

lemma area_plain:
  assumes "plain_part a" and "plain_part b" and "key_path (area_of h a) = key_path (area_of h b)"
  shows "a = b"
  using assms by (simp add: key_path_def area_of_def path_join_def project_paths)

text \<open>Started for a directory other than the current one, a project gets no further than its
  templates, unless the current directory has a file of runtimes of its own.\<close>

lemma start_elsewhere_fails:
  assumes "tx_render X = (\<lambda>tpl v. Inr (f tpl v))" and "\<And>p. \<not> cd_denied d p" and "cwd \<noteq> root"
    and "cd_files d (under cwd ''runtimes.yaml'') = None"
  shows "\<exists>d'. init_automatic X (Inr ()) (Inr v) gen cwd root name url d = (Inl FileNotFoundError, d') \<and>
     cd_files d' (labfile_path root) = cd_files d (labfile_path root)"
proof -
  have "under cwd ''runtimes.yaml'' \<noteq> under root ''runtimes.yaml''"
    using assms(3) by (cases cwd; cases root) (simp add: under_def path_join_def project_paths)
  moreover have "under cwd ''runtimes.yaml'' \<noteq> under root f" if "f \<in> {''.gitignore'', ''.dockerignore'', ''notebooks/welcome.ipynb'', ''Makefile'', ''local.nbvars''}" for f
    using that by (auto simp: under_def path_join_def project_paths)
  moreover have "labfile_path root \<noteq> under root f" if "f \<in> {''runtimes.yaml'', ''.gitignore'', ''.dockerignore'', ''notebooks/welcome.ipynb'', ''Makefile'', ''local.nbvars''}" for f
    using that by (auto simp: under_def labfile_path_def path_join_def project_paths)
  ultimately show ?thesis
    using assms by (simp add: init_automatic_def init_project_files_def default_runtime_def render_to_file_def
        PROJECT_FILES_def disk_bind_def of_result_def reading_def updating_def write_text_def open_yaml_at_def read_text_def
        get_spec_from_file_def get_runtimes_specs_def)
qed

text \<open>C29. What \<open>startproject\<close> leaves when the project was created on the server. The labfile, whatever it
  was before, holds the server's name and identifier and the example workflow alone, and the
  settings are rendered with them. The private key is in the working area of an identifier
  that was drawn before the server answered; so, unless a key was there already, a client of
  the new project finds none and asks the server.\<close>

theorem started_project:
  assumes run: "startproject E root url again rounds d st = (Inr (Some (Created pd)), d', st')"
    and names: "\<And>k v sp. tx_parse_spec (se_text E) k v = Inr sp \<Longrightarrow> rs_name sp = k"
    and pid: "plain_part (pd_projectid pd)" and drawn: "\<And>a. a \<in> set rounds \<Longrightarrow> plain_part (drawn_id a) \<and> drawn_id a \<noteq> pd_projectid pd"
    and fresh: "cd_files d (key_path (area_of (home_of E) (pd_projectid pd))) = None"
    and later: "dc_home c = home_of E" "dc_projectid c = Inr (Some (pd_projectid pd))"
  shows "(\<exists>v. lab_dict (first_state (pd_name pd) (pd_projectid pd)) = Inr v \<and>
       cd_files d' (labfile_path root) = Some (tx_yaml_dump (se_text E) v)) \<and>
     (\<exists>t. tx_render (se_text E) ''client_settings.py.j2'' (PDict [(''projectid'', PStr (pd_projectid pd)),
         (''project_name'', PStr (pd_name pd)), (''workflow_service'', PStr url)]) = Inr t \<and>
       cd_files d' (under root ''lab_app/settings.py'') = Some t) \<and>
     (\<exists>a\<in>set rounds. cd_files d' (key_path (area_of (home_of E) (drawn_id a))) = Some (sr_key a)) \<and>
     dc_private_key ask c d' = ask (Some (pd_projectid pd))"
proof -
  have loop: "start_loop E root url rounds d st = (Inr (Created pd), d', st')"
    using run by (auto simp: startproject_def split: if_splits prod.splits sum.splits)
  obtain a d3 where a: "a \<in> set rounds"
    and ref: "refresh_project (se_text E) (sr_gen a) root pd (Some url) d3 = (Inr (), d')"
    and key: "cd_files d3 (key_path (area_of (home_of E) (drawn_id a))) = Some (sr_key a)"
    and rest: "\<And>p. key_file p \<Longrightarrow> p \<noteq> key_path (area_of (home_of E) (drawn_id a)) \<Longrightarrow> cd_files d3 p = cd_files d p"
    using start_loop_created [OF loop] names by blast
  have same: "same_keys d3 d'"
    using keeps_refresh_project ref unfolding keeps_keys_def by (metis snd_conv)
  have "key_path (area_of (home_of E) (pd_projectid pd)) \<noteq> key_path (area_of (home_of E) (drawn_id a))"
    using area_plain [OF pid] drawn [OF a] by metis
  then have "cd_files d' (key_path (area_of (home_of E) (pd_projectid pd))) = None"
    using same rest [OF key_path_is_key] fresh key_path_is_key by (metis same_keys_def)
  then have "dc_private_key ask c d' = ask (Some (pd_projectid pd))"
    by (simp add: dc_private_key_def working_area_def later disk_private_key_def)
  moreover have "cd_files d' (key_path (area_of (home_of E) (drawn_id a))) = Some (sr_key a)"
    using same key key_path_is_key by (metis same_keys_def)
  moreover have "pd_projectid pd \<noteq> []" using pid by (auto simp: plain_part_def)
  ultimately show ?thesis using refresh_project_Inr [OF ref] a by auto
qed

definition demo_text :: text_lib where
  "demo_text =
     \<lparr>tx_render = (\<lambda>tpl _. Inr tpl), tx_dockerfile = (\<lambda>tpl _. Inr tpl), tx_yaml_dump = (\<lambda>_. ''lab''),
      tx_yaml_load = (\<lambda>_. Inr (PDict [(''runtimes'', PDict [(''default'', PNone)])])),
      tx_parse_spec = (\<lambda>k _. Inr (demo_spec\<lparr>rs_name := k\<rparr>))\<rparr>"

definition demo_start :: "unit start_env" where
  "demo_start =
     \<lparr>se_text = demo_text, se_json = \<lparr>js_dumps = (\<lambda>_. ''json''), js_loads = (\<lambda>_. Inr PNone)\<rparr>, se_settings = Inr (),
      se_version = Inr ''0.9'', se_home = (''/'', [''ana'']), se_cwd = (''/'', [''prj'']), se_name = lower,
      se_send = (\<lambda>_ _. (json (PDict [(''access_token'', PStr ''t'')]) 200, ())),
      se_post = (\<lambda>q _. (Inr (201, Inr (plain_project (pq_name q) ''p1'')), ()))\<rparr>"

definition demo_round :: start_round where
  "demo_round =
     \<lparr>sr_name = ''Demo'', sr_create = True, sr_user = ''ana'', sr_password = ''pw'', sr_again = False,
      sr_gen = (\<lambda>_ _. ''x9''), sr_key = ''k''\<rparr>"

definition blank_disk :: client_disk where
  "blank_disk = \<lparr>cd_files = (\<lambda>_. None), cd_modes = (\<lambda>_. None), cd_denied = (\<lambda>_. False)\<rparr>"

theorem started_project_witness:
  "\<exists>d' c. startproject demo_start (''/'', [''prj'']) ''http://x'' False [demo_round] blank_disk () =
       (Inr (Some (Created (plain_project ''demo'' ''p1''))), d', ()) \<and>
     dc_private_key (\<lambda>pid. Inr (fmt_opt pid)) c d' = Inr ''p1''"
proof -
  let ?run = "startproject demo_start (''/'', [''prj'']) ''http://x'' False [demo_round] blank_disk ()"
  have fst: "fst ?run = Inr (Some (Created (plain_project ''demo'' ''p1'')))" by code_simp
  obtain d' where run: "?run = (Inr (Some (Created (plain_project ''demo'' ''p1''))), d', ())"
    using fst by (cases ?run) auto
  let ?c = "new_client (''/'', [''ana'']) ''http://x'' None (Some (new_state (plain_project ''demo'' ''p1''))) None"
  have "dc_private_key (\<lambda>pid. Inr (fmt_opt pid)) ?c d' = Inr (fmt_opt (Some (pd_projectid (plain_project ''demo'' ''p1''))))"
  proof (rule started_project [OF run, THEN conjunct2, THEN conjunct2, THEN conjunct2])
    show "tx_parse_spec (se_text demo_start) k v = Inr sp \<Longrightarrow> rs_name sp = k" for k v sp
      by (auto simp: demo_start_def demo_text_def)
  qed (auto simp: plain_project_def plain_part_def demo_round_def drawn_id_def blank_disk_def home_of_def new_client_def
      demo_start_def dc_projectid_def ls_projectid_def new_state_def)
  then show ?thesis using run by (auto simp: plain_project_def)
qed

end
