(* ===== verification/Settings.thy ===== *)
theory Settings
  imports Project_Init
begin

text \<open>
  How a process is configured: the settings of a client and of the server (\<open>conf/utils.py\<close>, the
  classes of \<open>types/config.py\<close>, the default modules of \<open>conf/\<close>), the file of the command line
  tool (\<open>ConfigCli\<close> of \<open>cmd/utils.py\<close>, the commands \<open>config\<close>, \<open>info\<close>) and the groups of commands it has
  (\<open>cli.py\<close>). What pydantic builds of a settings class, what a module holds, what \<open>git\<close> prints and the
  TOML format are arguments.
\<close>

section \<open>The settings classes\<close>

datatype ftype = TStr | TOptStr | TInt | TBool | TStrs | TDict | TOptModel

type_synonym fields = "(string \<times> ftype \<times> pyval option) list"

text \<open>A field without a default is required.\<close>

definition EXECID_LEN_INT :: int where "EXECID_LEN_INT = int EXECID_LEN"

definition SecuritySettings :: fields where
  "SecuritySettings =
     [(''JWT_PUBLIC'', TStr, None), (''JWT_PRIVATE'', TStr, None), (''JWT_ALG'', TStr, Some (PStr ''ES512'')),
      (''JWT_EXP'', TInt, Some (PInt 30)), (''JWT_REQUIRES_CLAIMS'', TStrs, Some (PList [PStr ''exp''])),
      (''JWT_SECRET'', TOptStr, Some PNone), (''JWT_ISS'', TOptStr, Some PNone), (''JWT_AUD'', TOptStr, Some PNone),
      (''REFRESH_TOKEN_TTL'', TInt, Some (PInt (3600 * 168))), (''TOKEN_STORE_URL'', TOptStr, Some PNone),
      (''AUTH_SALT'', TStr, Some (PStr ''changeit'')), (''AUTH_ALLOW_REFRESH'', TBool, Some (PBool True)),
      (''AUTH_CLASS'', TStr, Some (PStr ''labfunctions.security.authentication.Auth'')),
      (''AUTH_FUNCTION'', TStr, Some (PStr ''labfunctions.managers.users_mg.authenticate''))]"

definition ServerSettings :: fields where
  "ServerSettings =
     [(''AGENT_TOKEN'', TStr, None), (''AGENT_REFRESH_TOKEN'', TStr, None),
      (''WORKFLOW_SERVICE'', TStr, None), (''SQL'', TStr, None), (''ASQL'', TStr, None),
      (''AGENT_TOKEN_EXP'', TInt, Some (PInt (60 * 60 * 12))),
      (''BASE_PATH'', TStr, None), (''DOCKER_REGISTRY'', TOptStr, Some PNone),
      (''SECURITY'', TOptModel, Some PNone),
      (''DEV_MODE'', TBool, Some (PBool False)),
      (''WEB_REDIS'', TOptStr, Some PNone), (''QUEUE_REDIS'', TOptStr, Some PNone),
      (''QUEUE_DEFAULT_TIMEOUT'', TStr, Some (PStr ''30m'')),
      (''CONTROL_QUEUE'', TStr, Some (PStr CONTROL_QUEUE)), (''BUILD_QUEUE'', TStr, Some (PStr BUILD_QUEUE)),
      (''EXECID_LEN'', TInt, Some (PInt (int EXECID_LEN))), (''PROJECTID_LEN'', TInt, Some (PInt (int PROJECTID_MIN_LEN))),
      (''WFID_LEN'', TInt, Some (PInt (int WFID_LEN))),
      (''EVENTS_BLOCK_MS'', TInt, Some (PInt (10 * 1000))), (''EVENTS_STREAM_TTL_SECS'', TInt, Some (PInt (60 * 60))),
      (''DOCKER_UID'', TStr, Some (PStr ''1000'')), (''DOCKER_GID'', TStr, Some (PStr ''997'')),
      (''AGENT_DATA_FOLDER'', TStr, Some (PStr ''.worker_data/'')),
      (''CLUSTER_SSH_KEY_USER'', TStr, Some (PStr ''op'')), (''CLUSTER_SSH_PUBLIC_KEY'', TOptStr, Some PNone),
      (''CLUSTER_FILEPATH'', TOptStr, Some PNone), (''CLUSTER_SPEC'', TStr, Some (PStr ''scripts/local_clusters.yaml'')),
      (''AGENT_HOMEDIR'', TStr, Some (PStr ''/home/op'')), (''AGENT_ENV_FILE'', TStr, Some (PStr ''.env.dev.docker'')),
      (''AGENT_HEARTBEAT_CHECK'', TInt, Some (PInt (60 * 5))), (''AGENT_HEARTBEAT_TTL'', TInt, Some (PInt (80 * 3))),
      (''LOGLEVEL'', TStr, Some (PStr ''INFO'')), (''LOGCONFIG'', TDict, Some (PDict [])), (''DEBUG'', TBool, Some (PBool False)),
      (''PROJECTS_STORE_CLASS_ASYNC'', TStr, Some (PStr ''labfunctions.io.kv_local.AsyncKVLocal'')),
      (''PROJECTS_STORE_CLASS_SYNC'', TStr, Some (PStr ''labfunctions.io.kv_local.KVLocal'')),
      (''PROJECTS_STORE_BUCKET'', TStr, Some (PStr ''labfunctions'')),
      (''EXT_KV_LOCAL_ROOT'', TOptStr, Some PNone), (''EXT_KV_FILE_URL'', TOptStr, Some PNone),
      (''SETTINGS_MODULE'', TOptStr, Some PNone), (''DNS_IP_ADDRESS'', TStr, Some (PStr ''8.8.8.8''))]"

definition ClientSettings :: fields where
  "ClientSettings =
     [(''WORKFLOW_SERVICE'', TStr, None), (''PROJECTID'', TStr, None),
      (''BASE_PATH'', TStr, None), (''LOGLEVEL'', TStr, Some (PStr ''INFO'')), (''LOGCONFIG'', TDict, Some (PDict [])),
      (''DEBUG'', TBool, Some (PBool False)), (''LOCAL'', TBool, Some (PBool False)),
      (''NBVARS'', TOptStr, Some PNone), (''AGENT_TOKEN'', TOptStr, Some PNone), (''AGENT_REFRESH_TOKEN'', TOptStr, Some PNone),
      (''PROJECT_NAME'', TOptStr, Some PNone), (''PROJECTID_LEN'', TInt, Some (PInt 10)),
      (''SLACK_BOT_TOKEN'', TOptStr, Some PNone), (''SLACK_CHANNEL_OK'', TOptStr, Some PNone),
      (''SLACK_CHANNEL_FAIL'', TOptStr, Some PNone), (''DISCORD_OK'', TOptStr, Some PNone), (''DISCORD_FAIL'', TOptStr, Some PNone),
      (''PROJECTS_STORE_CLASS'', TStr, Some (PStr ''labfunctions.io.kv_local.KVLocal'')),
      (''PROJECTS_STORE_BUCKET'', TStr, Some (PStr ''labfunctions'')),
      (''EXT_KV_LOCAL_ROOT'', TOptStr, Some PNone), (''EXT_KV_FILE_URL'', TOptStr, Some PNone),
      (''SETTINGS_MODULE'', TOptStr, Some PNone)]"

type_synonym environ = "string \<Rightarrow> string option"

text \<open>\<open>build\<close> is \<open>BaseSettings.__init__\<close> with the prefix \<open>LF_\<close>: what is given comes before the environment, and
  that before the default; a required field that has no value is an error.\<close>

type_synonym settings_build = "fields \<Rightarrow> environ \<Rightarrow> pyval dict \<Rightarrow> pyval dict result"

section \<open>Loading\<close>

record conf_env =
  ce_cwd :: string
  ce_git :: "string list \<Rightarrow> (string \<times> string) result"
  ce_import :: "string list \<Rightarrow> string \<Rightarrow> pyval dict result"
  ce_build :: settings_build
  ce_level :: "pyval \<Rightarrow> unit result"
  ce_log_config :: "pyval \<Rightarrow> unit result"

definition SERVICE_URL :: string where "SERVICE_URL = ''http://localhost:8000''"
definition SERVICE_URL_ENV :: string where "SERVICE_URL_ENV = ''LF_WORKFLOW_SERVICE''"
definition BASE_PATH_ENV :: string where "BASE_PATH_ENV = ''LF_BASE_PATH''"
definition GLOBAL_MODULE :: string where "GLOBAL_MODULE = ''labfunctions.conf.global_settings''"
definition GLOBAL_CLIENT :: string where "GLOBAL_CLIENT = ''labfunctions.conf.global_client''"
definition CLIENT_VARIABLE :: string where "CLIENT_VARIABLE = ''LF_CLIENT_MODULE''"

definition default_client_mod :: "environ \<Rightarrow> string" where
  "default_client_mod env = (case env CLIENT_VARIABLE of None \<Rightarrow> ''lab_app.settings'' | Some m \<Rightarrow> m)"

definition default_module :: "environ \<Rightarrow> string" where
  "default_module env = (case env ''LF_SETTINGS_MODULE'' of None \<Rightarrow> GLOBAL_MODULE | Some m \<Rightarrow> m)"

text \<open>The command of \<open>conf/utils.py\<close>, which fails on anything printed as an error.\<close>

definition conf_execute_cmd :: "(string list \<Rightarrow> (string \<times> string) result) \<Rightarrow> string \<Rightarrow> string result" where
  "conf_execute_cmd run cmd =
     rbind (run (split_ws cmd)) (\<lambda>(out, err). if err \<noteq> [] then Inl AttributeError else Inr (strip out))"

definition define_base_path :: "conf_env \<Rightarrow> environ \<Rightarrow> string" where
  "define_base_path W env =
     (if opt_truthy (env BASE_PATH_ENV) then the (env BASE_PATH_ENV)
      else case conf_execute_cmd (ce_git W) ''git rev-parse --show-toplevel'' of
             Inl _ \<Rightarrow> ce_cwd W
           | Inr p \<Rightarrow> p)"

definition define_url_service :: "environ \<Rightarrow> pyval dict \<Rightarrow> pyval" where
  "define_url_service env settings =
     (if opt_truthy (env SERVICE_URL_ENV) then PStr (the (env SERVICE_URL_ENV))
      else case map_of settings ''WORKFLOW_SERVICE'' of None \<Rightarrow> PStr SERVICE_URL | Some v \<Rightarrow> v)"

text \<open>\<open>str.isupper\<close> on a name.\<close>

definition py_isupper :: "string \<Rightarrow> bool" where
  "py_isupper s \<longleftrightarrow> upper s = s \<and> lower s \<noteq> s"

definition upper_names :: "pyval dict \<Rightarrow> pyval dict" where
  "upper_names m = filter (\<lambda>(k, _). py_isupper k) m"

text \<open>A module that is not found is replaced by the default one.\<close>

definition import_or :: "(string \<Rightarrow> pyval dict result) \<Rightarrow> string \<Rightarrow> string \<Rightarrow> (pyval dict \<times> string) result" where
  "import_or imp module fallback =
     (case imp module of
        Inr d \<Rightarrow> Inr (d, module)
      | Inl e \<Rightarrow> if e = ModuleNotFoundError then rbind (imp fallback) (\<lambda>d. Inr (d, fallback)) else Inl e)"

definition cfg_field :: "pyval dict \<Rightarrow> string \<Rightarrow> pyval result" where
  "cfg_field cfg f = (case map_of cfg f of None \<Rightarrow> Inl AttributeError | Some v \<Rightarrow> Inr v)"

definition start_logging :: "conf_env \<Rightarrow> pyval dict \<Rightarrow> unit result" where
  "start_logging W cfg =
     rbind (cfg_field cfg ''DEBUG'') (\<lambda>dbg.
     rbind (if truthy dbg then Inr () else rbind (cfg_field cfg ''LOGLEVEL'') (ce_level W)) (\<lambda>_.
     rbind (cfg_field cfg ''LOGCONFIG'') (ce_log_config W)))"

definition load_client :: "conf_env \<Rightarrow> environ \<Rightarrow> string list \<Rightarrow> string \<Rightarrow> (pyval dict \<times> string list) result" where
  "load_client W env sys_path module =
     (let base = define_base_path W env;
          sys_path' = (if opt_truthy (env CLIENT_VARIABLE) then sys_path else sys_path @ [base])
      in rbind (import_or (ce_import W sys_path') module GLOBAL_CLIENT) (\<lambda>(m, loaded).
           let s0 = upper_names m;
               s1 = (case map_of s0 ''BASE_PATH'' of
                       Some bp \<Rightarrow> if truthy bp then s0 else dict_set ''BASE_PATH'' (PStr base) s0
                     | None \<Rightarrow> dict_set ''BASE_PATH'' (PStr base) s0);
               s2 = dict_set ''WORKFLOW_SERVICE'' (define_url_service env s1) s1
           in rbind (ce_build W ClientSettings env s2) (\<lambda>cfg0.
                let cfg = dict_set ''SETTINGS_MODULE'' (PStr loaded) cfg0
                in rbind (start_logging W cfg) (\<lambda>_. Inr (cfg, sys_path')))))"

text \<open>Only a string can be put into the environment.\<close>

fun environ_str :: "pyval \<Rightarrow> string result" where
  "environ_str (PStr s) = Inr s"
| "environ_str _ = Inl TypeError"

text \<open>The server's settings name the module that was asked for, and its base path is put into the environment
  once the level of the log is known.\<close>

definition load_server :: "conf_env \<Rightarrow> environ \<Rightarrow> string list \<Rightarrow> string \<Rightarrow> pyval dict result \<times> environ" where
  "load_server W env sys_path module =
     (case rbind (import_or (ce_import W sys_path) module GLOBAL_MODULE) (\<lambda>(m, _).
             rbind (ce_build W ServerSettings env (upper_names m)) (\<lambda>cfg0.
               let cfg = dict_set ''SETTINGS_MODULE'' (PStr module) cfg0
               in rbind (cfg_field cfg ''DEBUG'') (\<lambda>dbg.
                  rbind (if truthy dbg then Inr () else rbind (cfg_field cfg ''LOGLEVEL'') (ce_level W)) (\<lambda>_.
                  rbind (cfg_field cfg ''BASE_PATH'') (\<lambda>bp.
                    rbind (environ_str bp) (\<lambda>b. Inr (cfg, b))))))) of
        Inl e \<Rightarrow> (Inl e, env)
      | Inr (cfg, b) \<Rightarrow>
          (rbind (rbind (cfg_field cfg ''LOGCONFIG'') (ce_log_config W)) (\<lambda>_. Inr cfg), env(BASE_PATH_ENV \<mapsto> b)))"

text \<open>The names of \<open>conf/global_settings.py\<close>; \<open>logconfig\<close> is the dictionary it ends with.\<close>

definition env_or :: "environ \<Rightarrow> string \<Rightarrow> string \<Rightarrow> pyval" where
  "env_or env k dflt = PStr (case env k of None \<Rightarrow> dflt | Some v \<Rightarrow> v)"

definition global_settings :: "environ \<Rightarrow> string \<Rightarrow> pyval \<Rightarrow> pyval dict" where
  "global_settings env cwd logconfig =
     [(''AGENT_TOKEN_EXP'', PInt (60 * 60 * 12)),
      (''SQL'', env_or env ''LF_SQL'' ''sqlite:///db.sqlite''),
      (''ASQL'', env_or env ''LF_ASQL'' ''sqlite+aiosqlite:///db.sqlite''),
      (''WORKFLOW_SERVICE'', env_or env ''LF_WORKFLOW_SERVICE'' ''http://localhost:8000''),
      (''BASE_PATH'', env_or env ''LF_BASEPATH'' cwd),
      (''AGENT_DATA_FOLDER'', PStr ''.worker_data/''),
      (''SECURITY'', PDict [(''JWT_ALG'', PStr ''ES512''), (''JWT_EXP'', PInt 30),
        (''AUTH_CLASS'', PStr ''labfunctions.security.authentication.Auth''),
        (''AUTH_FUNCTION'', PStr ''labfunctions.managers.users_mg.authenticate'')]),
      (''LOGLEVEL'', PStr ''INFO''), (''LOGCONFIG'', logconfig)]"

definition global_client :: "pyval \<Rightarrow> pyval dict" where
  "global_client logconfig =
     [(''PROJECTID'', PStr []), (''PROJECT_NAME'', PStr []), (''LOGLEVEL'', PStr ''WARNING''), (''LOGCONFIG'', logconfig)]"

section \<open>The file of the command line tool\<close>

record cli_conf =
  cc_url_service :: string
  cc_lab_file :: "string option"

record toml_lib =
  tl_dumps :: "pyval dict \<Rightarrow> string"
  tl_loads :: "string \<Rightarrow> pyval dict result"

definition CLIENT_CONFIG_CLI :: string where "CLIENT_CONFIG_CLI = ''config.toml''"

definition config_path :: "path \<Rightarrow> path" where
  "config_path homedir = path_join (path_join homedir (py_path CLIENT_HOME_DIR)) (py_path CLIENT_CONFIG_CLI)"

definition cli_conf_of :: "pyval dict \<Rightarrow> cli_conf result" where
  "cli_conf_of d =
     rbind (field as_str (Inr SERVICE_URL) ''url_service'' d) (\<lambda>u.
     rbind (field (as_opt as_str) (Inr (Some LABFILE_NAME)) ''lab_file'' d) (\<lambda>l.
       Inr \<lparr>cc_url_service = u, cc_lab_file = l\<rparr>))"

definition cli_conf_dict :: "cli_conf \<Rightarrow> pyval dict" where
  "cli_conf_dict c = [(''url_service'', PStr (cc_url_service c)), (''lab_file'', opt_pstr (cc_lab_file c))]"

definition config_open :: "toml_lib \<Rightarrow> environ \<Rightarrow> path \<Rightarrow> client_disk \<Rightarrow> cli_conf result" where
  "config_open T env homedir d =
     (case rbind (read_text (config_path homedir) d) (tl_loads T) of
        Inr v \<Rightarrow> cli_conf_of v
      | Inl e \<Rightarrow>
          if e = FileNotFoundError
          then Inr \<lparr>cc_url_service = (case env SERVICE_URL_ENV of None \<Rightarrow> SERVICE_URL | Some u \<Rightarrow> u), cc_lab_file = Some LABFILE_NAME\<rparr>
          else Inl e)"

definition config_write :: "toml_lib \<Rightarrow> path \<Rightarrow> cli_conf \<Rightarrow> client_disk \<Rightarrow> client_disk result" where
  "config_write T homedir c d = write_text (config_path homedir) (tl_dumps T (cli_conf_dict c)) d"

text \<open>\<open>ConfigCli()\<close>, which every command makes when it is imported, writes what it read.\<close>

definition config_cli :: "toml_lib \<Rightarrow> environ \<Rightarrow> path \<Rightarrow> cli_conf disk_op" where
  "config_cli T env homedir =
     disk_bind (reading (config_open T env homedir)) (\<lambda>c.
     disk_bind (updating (config_write T homedir c)) (\<lambda>_. of_result (Inr c)))"

text \<open>\<open>setattr\<close> on the model refuses a name that is not a field.\<close>

definition conf_setattr :: "string \<Rightarrow> string \<Rightarrow> cli_conf \<Rightarrow> cli_conf result" where
  "conf_setattr k v c =
     (if k = ''url_service'' then Inr (c\<lparr>cc_url_service := v\<rparr>)
      else if k = ''lab_file'' then Inr (c\<lparr>cc_lab_file := Some v\<rparr>)
      else Inl ValueError)"

text \<open>\<open>attr\<close> gives the attributes of the model that are not fields.\<close>

definition conf_getattr :: "(string \<Rightarrow> string result) \<Rightarrow> string \<Rightarrow> cli_conf \<Rightarrow> string result" where
  "conf_getattr attr k c =
     (if k = ''url_service'' then Inr (cc_url_service c)
      else if k = ''lab_file'' then Inr (fmt_opt (cc_lab_file c)) else attr k)"

definition config_set :: "toml_lib \<Rightarrow> path \<Rightarrow> string \<Rightarrow> string \<Rightarrow> cli_conf \<Rightarrow> cli_conf disk_op" where
  "config_set T homedir k v c =
     disk_bind (of_result (conf_setattr k v c)) (\<lambda>c'.
     disk_bind (updating (config_write T homedir c')) (\<lambda>_. of_result (Inr c')))"

definition config_list :: "cli_conf \<Rightarrow> string list" where
  "config_list c = dict_keys (cli_conf_dict c)"

text \<open>The commands \<open>config set\<close>, \<open>config get\<close> and \<open>config list\<close>, each a process of its own: what it prints.\<close>

definition setcli :: "toml_lib \<Rightarrow> environ \<Rightarrow> path \<Rightarrow> string \<Rightarrow> string \<Rightarrow> string list disk_op" where
  "setcli T env homedir k v =
     disk_bind (config_cli T env homedir) (\<lambda>c.
     disk_bind (config_set T homedir k v c) (\<lambda>_. of_result (Inr [''Key '' @ k @ '' set''])))"

definition getcli :: "toml_lib \<Rightarrow> (string \<Rightarrow> string result) \<Rightarrow> environ \<Rightarrow> path \<Rightarrow> string \<Rightarrow> string list disk_op" where
  "getcli T attr env homedir k =
     disk_bind (config_cli T env homedir) (\<lambda>c.
     disk_bind (of_result (conf_getattr attr k c)) (\<lambda>v. of_result (Inr [''Key '' @ k @ '': '' @ v])))"

definition listcli :: "toml_lib \<Rightarrow> (string \<Rightarrow> string result) \<Rightarrow> environ \<Rightarrow> path \<Rightarrow> string list disk_op" where
  "listcli T attr env homedir =
     disk_bind (config_cli T env homedir) (\<lambda>c.
       of_result (rmap (\<lambda>k. rbind (conf_getattr attr k c) (\<lambda>v. Inr (k @ '': '' @ v))) (config_list c)))"

section \<open>The commands of the tool\<close>

definition client_groups :: "string list" where
  "client_groups = [''wf'', ''project'', ''log'', ''exec'', ''runtimes'']"

definition server_groups :: "string list" where
  "server_groups = [''manager'', ''web'', ''agent'', ''cluster'', ''runtimes'']"

text \<open>\<open>add_command\<close> under a name that is there replaces the command.\<close>

definition add_command :: "string list \<Rightarrow> string \<Rightarrow> string list" where
  "add_command cs c = (if c \<in> set cs then cs else cs @ [c])"

definition init_cli :: "environ \<Rightarrow> string list" where
  "init_cli env =
     (let groups = (if opt_truthy (env ''LF_SERVER'')
                    then server_groups @ (if opt_truthy (env ''DEBUG'') then client_groups else [])
                    else client_groups)
      in foldl add_command [] (groups @ [''startproject'', ''login'', ''version'', ''info'', ''config'']))"

section \<open>Properties\<close>

text \<open>The documented order of the sources of a settings class, on the fields that hold strings.\<close>

definition field_source :: "environ \<Rightarrow> pyval dict \<Rightarrow> string \<Rightarrow> pyval option \<Rightarrow> pyval option" where
  "field_source env given f dflt =
     (case map_of given f of
        Some v \<Rightarrow> Some v
      | None \<Rightarrow> (case env (''LF_'' @ f) of Some v \<Rightarrow> Some (PStr v) | None \<Rightarrow> dflt))"

fun is_pstr :: "pyval option \<Rightarrow> bool" where
  "is_pstr (Some (PStr _)) = True"
| "is_pstr _ = False"

definition settings_contract :: "settings_build \<Rightarrow> bool" where
  "settings_contract build \<longleftrightarrow>
     (\<forall>fs env given cfg. distinct (map fst fs) \<longrightarrow> build fs env given = Inr cfg \<longrightarrow>
        (\<forall>(f, t, dflt)\<in>set fs. t = TStr \<or> t = TOptStr \<longrightarrow> is_pstr (field_source env given f dflt) \<longrightarrow>
           map_of cfg f = field_source env given f dflt))"

lemma settings_contractD:
  "settings_contract build \<Longrightarrow> build fs env given = Inr cfg \<Longrightarrow> distinct (map fst fs) \<Longrightarrow> (f, t, dflt) \<in> set fs \<Longrightarrow> t = TStr \<or> t = TOptStr \<Longrightarrow>
     is_pstr (field_source env given f dflt) \<Longrightarrow> map_of cfg f = field_source env given f dflt"
  unfolding settings_contract_def by fast

lemma ServerSettings_distinct: "distinct (map fst ServerSettings)"
  by (simp add: ServerSettings_def)

lemma ClientSettings_distinct: "distinct (map fst ClientSettings)"
  by (simp add: ClientSettings_def)

text \<open>TOML has no null: the configuration is written without its \<open>None\<close> values.\<close>

definition toml_contract :: "toml_lib \<Rightarrow> bool" where
  "toml_contract T \<longleftrightarrow>
     (\<forall>c. tl_loads T (tl_dumps T (cli_conf_dict c)) = Inr (filter (\<lambda>(_, v). v \<noteq> PNone) (cli_conf_dict c))) \<and>
     (\<forall>t d k. tl_loads T t = Inr d \<longrightarrow> map_of d k \<noteq> Some PNone)"

lemma map_of_upper_names: "map_of (upper_names m) k = (if py_isupper k then map_of m k else None)"
  unfolding upper_names_def by (induction m) auto

lemma config_read_back:
  assumes T: "toml_contract T" and w: "config_write T home c d = Inr d'" and l: "cc_lab_file c \<noteq> None"
  shows "config_open T env home d' = Inr c"
proof -
  have "tl_loads T (tl_dumps T (cli_conf_dict c)) = Inr (cli_conf_dict c)"
    using T l by (simp add: toml_contract_def) (auto simp: cli_conf_dict_def opt_pstr_def)
  moreover have "cli_conf_of (cli_conf_dict c) = Inr c"
    using l by (cases c) (auto simp: cli_conf_of_def cli_conf_dict_def field_def as_opt_def opt_pstr_def)
  ultimately show ?thesis
    using w by (auto simp: config_write_def config_open_def write_text_def read_text_def split: if_splits)
qed

lemma config_open_lab_file:
  assumes T: "toml_contract T" and c: "config_open T env home d = Inr c"
  shows "cc_lab_file c \<noteq> None"
proof (cases "rbind (read_text (config_path home) d) (tl_loads T)")
  case (Inl e)
  then show ?thesis using c by (auto simp: config_open_def split: if_splits)
next
  case (Inr v)
  then have "map_of v ''lab_file'' \<noteq> Some PNone" using T by (auto simp: rbind_Inr_iff toml_contract_def)
  then show ?thesis
    using c Inr by (auto simp: config_open_def cli_conf_of_def field_def as_opt_def rbind_Inr_iff split: option.splits)
qed

lemma disk_steps:
  "disk_bind m f d = (Inr x, d') \<longleftrightarrow> (\<exists>y d1. m d = (Inr y, d1) \<and> f y d1 = (Inr x, d'))"
  "of_result r d = (Inr x, d') \<longleftrightarrow> r = Inr x \<and> d' = d"
  "reading g d = (Inr x, d') \<longleftrightarrow> g d = Inr x \<and> d' = d"
  by (auto simp: disk_bind_def of_result_def reading_def split: sum.splits prod.splits)

lemma updating_step: "updating h d = (Inr u, d') \<longleftrightarrow> h d = Inr d'"
  by (auto simp: updating_def split: sum.splits)

lemma config_cli_again:
  assumes T: "toml_contract T" and run: "config_write T home c d0 = Inr d1" and l: "cc_lab_file c \<noteq> None"
  shows "config_cli T env home d1 = (Inr c, d1)"
proof -
  have "config_write T home c d1 = Inr d1"
    using run by (auto simp: config_write_def write_text_def split: if_splits)
  then show ?thesis using config_read_back [OF assms] by (simp add: config_cli_def disk_steps updating_step)
qed


definition demo_toml :: toml_lib where
  "demo_toml =
     \<lparr>tl_dumps = (\<lambda>d. case map_of d ''url_service'' of
        Some (PStr u) \<Rightarrow> replicate (length u) CHR ''x'' @ CHR '':'' # u @
          (case map_of d ''lab_file'' of Some (PStr l) \<Rightarrow> CHR ''l'' # l | _ \<Rightarrow> [])
      | _ \<Rightarrow> []),
      tl_loads = (\<lambda>t. let n = length (takeWhile (\<lambda>c. c = CHR ''x'') t); r = drop (Suc n) t
        in Inr ((''url_service'', PStr (take n r)) #
             (if drop n r = [] then [] else [(''lab_file'', PStr (tl (drop n r)))])))\<rparr>"

lemma demo_toml_contract: "toml_contract demo_toml"
proof -
  have tw: "takeWhile (\<lambda>c. c = CHR ''x'') (replicate n CHR ''x'' @ CHR '':'' # r) = replicate n CHR ''x''" for n r
    by (induction n) auto
  show ?thesis
    by (auto simp: toml_contract_def demo_toml_def cli_conf_dict_def opt_pstr_def tw Let_def split: option.split)
qed


lemma environ_str_iff: "environ_str v = Inr b \<longleftrightarrow> v = PStr b"
  by (cases v) auto

text \<open>Starting the server loses the base path of its environment: the default module asks for another
  variable, so \<open>LF_BASE_PATH\<close> is replaced by the working directory, and everything in the process that
  asks for the base path afterwards gets that one.\<close>

lemma server_loses_base_path:
  assumes B: "settings_contract (ce_build W)" and run: "load_server W env sys_path module = (Inr cfg, env')"
    and imp: "\<exists>loaded. import_or (ce_import W sys_path) module GLOBAL_MODULE = Inr (global_settings env (ce_cwd W) lc, loaded)"
    and unset: "env ''LF_BASEPATH'' = None" and cwd: "ce_cwd W \<noteq> []"
  shows "env' = env(BASE_PATH_ENV \<mapsto> ce_cwd W) \<and> define_base_path W env' = ce_cwd W \<and>
     map_of cfg ''BASE_PATH'' = Some (PStr (ce_cwd W)) \<and> map_of cfg ''SETTINGS_MODULE'' = Some (PStr module)"
proof -
  obtain loaded where imp': "import_or (ce_import W sys_path) module GLOBAL_MODULE = Inr (global_settings env (ce_cwd W) lc, loaded)"
    using imp by blast
  let ?given = "upper_names (global_settings env (ce_cwd W) lc)"
  obtain cfg0 where b: "ce_build W ServerSettings env ?given = Inr cfg0" and cfg: "cfg = dict_set ''SETTINGS_MODULE'' (PStr module) cfg0"
    and env': "\<exists>b. map_of cfg ''BASE_PATH'' = Some (PStr b) \<and> env' = env(BASE_PATH_ENV \<mapsto> b)"
    using run by (fastforce simp: load_server_def imp' rbind_Inr_iff cfg_field_def Let_def environ_str_iff split: sum.splits option.splits)
  have "map_of ?given ''BASE_PATH'' = Some (PStr (ce_cwd W))"
    by (simp add: map_of_upper_names global_settings_def env_or_def unset py_isupper_def upper_def lower_def) code_simp
  then have "map_of cfg0 ''BASE_PATH'' = Some (PStr (ce_cwd W))"
    using settings_contractD [OF B b ServerSettings_distinct, of "''BASE_PATH''" TStr None]
    by (simp add: field_source_def) (simp add: ServerSettings_def)
  then show ?thesis using env' cwd by (auto simp: cfg define_base_path_def)
qed

definition demo_build :: settings_build where
  "demo_build fs env given =
     (if list_all (\<lambda>(f, t, dflt). field_source env given f dflt \<noteq> None) fs
      then Inr (map (\<lambda>(f, t, dflt). (f, the (field_source env given f dflt))) fs) else Inl ValidationError)"

lemma demo_build_contract: "settings_contract demo_build"
proof -
  have "map_of (map (\<lambda>(f, t, dflt). (f, the (field_source env given f dflt))) fs) f = Some (the (field_source env given f dflt))"
    if "distinct (map fst fs)" "(f, t, dflt) \<in> set fs" for fs env given f t dflt
    using that by (induction fs) force+
  moreover have "field_source env given f dflt = Some (the (field_source env given f dflt))"
    if "is_pstr (field_source env given f dflt)" for env given f dflt
    using that by (cases "field_source env given f dflt") auto
  ultimately show ?thesis by (fastforce simp: settings_contract_def demo_build_def split: if_splits)
qed

definition demo_conf :: conf_env where
  "demo_conf =
     \<lparr>ce_cwd = ''/tmp'', ce_git = (\<lambda>_. Inl FileNotFoundError),
      ce_import = (\<lambda>_ _. Inr (global_settings [''LF_BASE_PATH'' \<mapsto> ''/srv/lab''] ''/tmp'' (PDict []))),
      ce_build = demo_build, ce_level = (\<lambda>_. Inr ()), ce_log_config = (\<lambda>_. Inr ())\<rparr>"

definition demo_environ :: environ where
  "demo_environ = [''LF_BASE_PATH'' \<mapsto> ''/srv/lab'', ''LF_AGENT_TOKEN'' \<mapsto> ''a'', ''LF_AGENT_REFRESH_TOKEN'' \<mapsto> ''r'']"

end
