(* ===== verification/Cluster.thy ===== *)
theory Cluster
  imports Control
begin

text \<open>
  Machines and agents: \<open>cluster/types.py\<close>, \<open>cluster/control.py\<close>, \<open>cluster/deploy.py\<close>, the local provider
  (\<open>cluster/providers/local.py\<close>), the cluster tasks of \<open>control/tasks.py\<close> with their scheduler and web
  parts, \<open>client/cluster_client.py\<close>, and how an agent chooses its queues (\<open>cmd/agent.py\<close>,
  \<open>control/agent.py\<close>). A cloud is the record \<open>provider\<close>, whose laws are a locale; ssh is an argument;
  Redis is a map of values and a map of sets, where an instance is stored as its JSON.
\<close>

section \<open>Types\<close>

record machine_gpu =
  gp_name :: string
  gp_gpu_type :: string
  gp_count :: int
  gp_extra :: "pyval dict option"

record machine_type =
  mt_size :: string
  mt_image :: string
  mt_vcpus :: int
  mt_network :: string
  mt_extra :: "pyval dict option"

record block_storage =
  bs_name :: string
  bs_size :: pyval
  bs_location :: string
  bs_mount :: string
  bs_create_if_not_exist :: bool
  bs_snapshot :: "string option"
  bs_image :: "string option"
  bs_permissions :: "string list option"
  bs_description :: "string option"
  bs_kind :: "string option"
  bs_extra :: "pyval dict option"

record machine_orm =
  mo_name :: string
  mo_provider :: string
  mo_location :: string
  mo_machine_type :: machine_type
  mo_gpu :: "machine_gpu option"
  mo_volumes :: "string list"
  mo_desc :: "string option"

record machine_request =
  mr_name :: string
  mr_size :: string
  mr_image :: string
  mr_location :: string
  mr_provider :: string
  mr_internal_ip :: "string option"
  mr_external_ip :: "string option"
  mr_volumes :: "block_storage list"
  mr_gpu :: "machine_gpu option"
  mr_ssh_public_cert :: "string option"
  mr_ssh_user :: "string option"
  mr_network :: string
  mr_labels :: "pyval dict option"
  mr_extra :: "pyval dict option"

record machine_instance =
  mi_machine_id :: string
  mi_machine_name :: string
  mi_location :: string
  mi_private_ips :: "string list"
  mi_public_ips :: "string list"
  mi_volumes :: "string list"
  mi_labels :: "pyval dict option"
  mi_cluster :: string
  mi_extra :: "pyval dict option"

record cluster_spec =
  cp_name :: string
  cp_machine :: string
  cp_provider :: string
  cp_location :: "string option"
  cp_network :: "string option"

record clusters_file =
  cf_providers :: "string dict"
  cf_clusters :: "cluster_spec dict"
  cf_volumes :: "block_storage dict"
  cf_machines :: "machine_orm dict"

record ssh_key =
  sk_public_path :: string
  sk_private_path :: "string option"
  sk_user :: string

record deploy_agent_request =
  da_qnames :: "string list"
  da_use_public :: bool
  da_docker_image :: string
  da_docker_version :: string
  da_worker_procs :: int

record deploy_agent_task =
  dt_machine_name :: string
  dt_cluster_name :: string
  dt_qnames :: "string list"
  dt_use_public :: bool
  dt_docker_version :: string
  dt_docker_image :: string
  dt_worker_procs :: int

record create_request =
  cr_cluster_name :: string
  cr_alias :: "string option"
  cr_agent :: "deploy_agent_request option"

record destroy_request =
  dq_cluster_name :: string
  dq_machine_name :: string

record agent_request =
  ar_machine_ip :: string
  ar_machine_id :: string
  ar_private_key_path :: string
  ar_cluster :: string
  ar_access_token :: string
  ar_refresh_token :: string
  ar_web_redis :: string
  ar_queue_redis :: string
  ar_control_queue :: string
  ar_workflow_service :: string
  ar_qnames :: "string list"
  ar_agent_homedir :: string
  ar_agent_name :: "string option"
  ar_advertise_addr :: "string option"
  ar_docker_image :: string
  ar_docker_version :: string
  ar_worker_procs :: int

record ssh_result =
  sr_command :: string
  sr_return_code :: int
  sr_stderror :: string
  sr_stdout :: string

section \<open>The clusters file\<close>

definition get_cluster :: "clusters_file \<Rightarrow> string \<Rightarrow> cluster_spec result" where
  "get_cluster cf n = dict_get (cf_clusters cf) n"

definition get_machine :: "clusters_file \<Rightarrow> string \<Rightarrow> machine_orm result" where
  "get_machine cf n = dict_get (cf_machines cf) n"

definition get_volume :: "clusters_file \<Rightarrow> string \<Rightarrow> block_storage result" where
  "get_volume cf n = dict_get (cf_volumes cf) n"

definition machines_by_provider :: "clusters_file \<Rightarrow> string \<Rightarrow> machine_orm list" where
  "machines_by_provider cf p = filter (\<lambda>m. mo_provider m = p) (map snd (cf_machines cf))"

definition list_machines :: "clusters_file \<Rightarrow> string list" where
  "list_machines cf = dict_keys (cf_machines cf)"

definition list_clusters :: "clusters_file \<Rightarrow> string list" where
  "list_clusters cf = dict_keys (cf_clusters cf)"

text \<open>A provider creates and destroys machines over its own state.\<close>

record 'p provider =
  pv_create :: "machine_request \<Rightarrow> 'p \<Rightarrow> machine_instance result \<times> 'p"
  pv_destroy :: "string \<Rightarrow> 'p \<Rightarrow> unit result \<times> 'p"

text \<open>\<open>load\<close> imports a class by its path and instantiates it.\<close>

definition get_provider :: "(string \<Rightarrow> 'p provider result) \<Rightarrow> clusters_file \<Rightarrow> string \<Rightarrow> 'p provider result" where
  "get_provider load cf n = rbind (dict_get (cf_providers cf) n) load"

section \<open>ClusterControl\<close>

definition MACHINE_ABC :: string where "MACHINE_ABC = ''0123456789abcdefghijklmnopqrstuvwxyz''"
definition CLOUD_TAG :: string where "CLOUD_TAG = ''labfunctions''"
definition MACHINE_KEY :: string where "MACHINE_KEY = ''lab.mch::''"
definition MACHINES_LIST :: string where "MACHINES_LIST = ''lab.machines::''"
definition CLUSTERS_LIST :: string where "CLUSTERS_LIST = ''lab.clusters''"

text \<open>\<open>public_path.split(".pub")[0]\<close>: what stands before the first \<open>.pub\<close>.\<close>

fun before_sub :: "string \<Rightarrow> string \<Rightarrow> string" where
  "before_sub p [] = []"
| "before_sub p (c # s) = (if startswith p (c # s) then [] else c # before_sub p s)"

definition get_ssh_key :: "string \<Rightarrow> string \<Rightarrow> ssh_key" where
  "get_ssh_key user public_path =
     \<lparr>sk_public_path = public_path, sk_private_path = Some (before_sub ''.pub'' public_path), sk_user = user\<rparr>"

definition create_machine_req ::
  "clusters_file \<Rightarrow> nanoid \<Rightarrow> string \<Rightarrow> ssh_key \<Rightarrow> string \<Rightarrow> string \<Rightarrow> string option \<Rightarrow> machine_request result" where
  "create_machine_req cf gen pub_key key machine_name cluster_name alias =
     rbind (get_machine cf machine_name) (\<lambda>machine.
     rbind (rmap (get_volume cf) (mo_volumes machine)) (\<lambda>volumes.
       let i = or_str alias (gen MACHINE_ABC 6);
           gpu = (if mo_gpu machine = None then ''no'' else ''yes'')
       in Inr \<lparr>mr_name = mo_name machine @ CHR ''-'' # i, mr_size = mt_size (mo_machine_type machine),
               mr_image = mt_image (mo_machine_type machine), mr_location = mo_location machine,
               mr_provider = mo_provider machine, mr_internal_ip = Some ''dynamic'',
               mr_external_ip = Some ''dynamic'', mr_volumes = volumes, mr_gpu = mo_gpu machine,
               mr_ssh_public_cert = Some pub_key, mr_ssh_user = Some (sk_user key),
               mr_network = mt_network (mo_machine_type machine),
               mr_labels = Some [(''cluster'', PStr cluster_name), (''gpu'', PStr gpu),
                                 (''tags'', PList [PStr CLOUD_TAG])],
               mr_extra = None\<rparr>))"

definition create_instance ::
  "(string \<Rightarrow> 'p provider result) \<Rightarrow> clusters_file \<Rightarrow> nanoid \<Rightarrow> string \<Rightarrow> ssh_key \<Rightarrow> string \<Rightarrow> string option \<Rightarrow> 'p \<Rightarrow>
   machine_instance result \<times> 'p" where
  "create_instance load cf gen pub_key key cluster_name alias st =
     (case rbind (get_cluster cf cluster_name) (\<lambda>c.
           rbind (create_machine_req cf gen pub_key key (cp_machine c) (cp_name c) alias) (\<lambda>req.
           rbind (get_provider load cf (mr_provider req)) (\<lambda>p. Inr (p, req)))) of
        Inl e \<Rightarrow> (Inl e, st)
      | Inr (p, req) \<Rightarrow> pv_create p req st)"

definition destroy_instance ::
  "(string \<Rightarrow> 'p provider result) \<Rightarrow> clusters_file \<Rightarrow> string \<Rightarrow> string \<Rightarrow> 'p \<Rightarrow> unit result \<times> 'p" where
  "destroy_instance load cf machine_name cluster_name st =
     (case rbind (get_cluster cf cluster_name) (\<lambda>c. get_provider load cf (cp_provider c)) of
        Inl e \<Rightarrow> (Inl e, st)
      | Inr p \<Rightarrow> pv_destroy p machine_name st)"

text \<open>Redis, as far as the instances use it.\<close>

record redis =
  rd_strs :: "string \<Rightarrow> string option"
  rd_sets :: "string \<Rightarrow> string list"

definition empty_redis :: redis where
  "empty_redis = \<lparr>rd_strs = (\<lambda>_. None), rd_sets = (\<lambda>_. [])\<rparr>"

definition sadd :: "string \<Rightarrow> string \<Rightarrow> redis \<Rightarrow> redis" where
  "sadd k x r = r\<lparr>rd_sets := (rd_sets r)(k := if x \<in> set (rd_sets r k) then rd_sets r k else rd_sets r k @ [x])\<rparr>"

definition srem :: "string \<Rightarrow> string \<Rightarrow> redis \<Rightarrow> redis" where
  "srem k x r = r\<lparr>rd_sets := (rd_sets r)(k := filter (\<lambda>y. y \<noteq> x) (rd_sets r k))\<rparr>"

definition set_str :: "string \<Rightarrow> string option \<Rightarrow> redis \<Rightarrow> redis" where
  "set_str k v r = r\<lparr>rd_strs := (rd_strs r)(k := v)\<rparr>"

definition machines_list_key :: "string \<Rightarrow> string" where
  "machines_list_key cluster_name = MACHINES_LIST @ cluster_name"

definition register_instance :: "(machine_instance \<Rightarrow> string) \<Rightarrow> machine_instance \<Rightarrow> string \<Rightarrow> redis \<Rightarrow> redis" where
  "register_instance dumps machine cluster_name r =
     sadd (machines_list_key cluster_name) (mi_machine_name machine)
       (sadd CLUSTERS_LIST cluster_name
         (set_str (MACHINE_KEY @ mi_machine_name machine) (Some (dumps machine)) r))"

definition unregister_instance :: "string \<Rightarrow> string \<Rightarrow> redis \<Rightarrow> redis" where
  "unregister_instance machine_name cluster_name r =
     srem (machines_list_key cluster_name) machine_name (set_str (MACHINE_KEY @ machine_name) None r)"

definition list_instances :: "string \<Rightarrow> redis \<Rightarrow> string list" where
  "list_instances cluster_name r = rd_sets r (machines_list_key cluster_name)"

definition get_instance :: "(string \<Rightarrow> machine_instance result) \<Rightarrow> string \<Rightarrow> redis \<Rightarrow> machine_instance option result" where
  "get_instance loads machine_name r =
     (case rd_strs r (MACHINE_KEY @ machine_name) of
        None \<Rightarrow> Inr None
      | Some d \<Rightarrow> if d = [] then Inr None else rbind (loads d) (\<lambda>i. Inr (Some i)))"

section \<open>Deploying an agent\<close>

definition prepare_agent_cmd :: "string \<Rightarrow> string \<Rightarrow> string \<Rightarrow> string \<Rightarrow> int \<Rightarrow> string" where
  "prepare_agent_cmd ip_address machine_id cluster qnames workers_n =
     ''lab agent run -i '' @ ip_address @ '' -C '' @ cluster @ '' -q '' @ qnames @ '' -w '' @ str_int workers_n @
     '' -m '' @ machine_id"

definition prepare_docker_cmd ::
  "string \<Rightarrow> string \<Rightarrow> string \<Rightarrow> string \<Rightarrow> string \<Rightarrow> string \<Rightarrow> string \<Rightarrow> int \<Rightarrow> string" where
  "prepare_docker_cmd ip_address machine_id qnames cluster env_file docker_image docker_version workers_n =
     ''docker run -d -v /var/run/docker.sock:/var/run/docker.sock '' @
     ''-e LF_SERVER=true  --env-file='' @ env_file @ '' '' @ docker_image @ CHR '':'' # docker_version @ '' '' @
     prepare_agent_cmd ip_address machine_id cluster qnames workers_n"

text \<open>\<open>scp\<close> copies the rendered environment file, \<open>run\<close> is \<open>ssh.run_cmd\<close>.\<close>

record ssh_lib =
  sl_scp :: "agent_request \<Rightarrow> string \<Rightarrow> string \<Rightarrow> string list \<Rightarrow> unit result"
  sl_run :: "string \<Rightarrow> string \<Rightarrow> string list \<Rightarrow> ssh_result result"

definition agent_cmd :: "agent_request \<Rightarrow> string" where
  "agent_cmd req =
     prepare_docker_cmd (or_str (ar_advertise_addr req) (ar_machine_ip req)) (ar_machine_id req)
       (join '','' (ar_qnames req)) (ar_cluster req) (ar_agent_homedir req @ ''/.env.docker'')
       (ar_docker_image req) (ar_docker_version req) (ar_worker_procs req)"

definition agent_async :: "ssh_lib \<Rightarrow> agent_request \<Rightarrow> ssh_result result" where
  "agent_async S req =
     rbind (sl_scp S req (ar_machine_ip req) (ar_agent_homedir req) [ar_private_key_path req]) (\<lambda>_.
       sl_run S (ar_machine_ip req) (agent_cmd req) [ar_private_key_path req])"

text \<open>\<open>tenacity.retry\<close> with \<open>stop_after_attempt\<close>: \<open>f n\<close> is the \<open>n\<close>-th attempt.\<close>

fun attempts :: "nat \<Rightarrow> (nat \<Rightarrow> 'a result) \<Rightarrow> nat \<Rightarrow> 'a result" where
  "attempts 0 f n = Inl RetryError"
| "attempts (Suc k) f n = (case f n of Inr x \<Rightarrow> Inr x | Inl _ \<Rightarrow> attempts k f (Suc n))"

definition deploy_agent_sync :: "(nat \<Rightarrow> ssh_lib) \<Rightarrow> agent_request \<Rightarrow> ssh_result result" where
  "deploy_agent_sync S req = attempts 3 (\<lambda>n. agent_async (S n) req) 0"

record server_settings =
  se_agent_token :: string
  se_agent_refresh_token :: string
  se_web_redis :: string
  se_queue_redis :: string
  se_control_queue :: string
  se_workflow_service :: string
  se_ssh_user :: string
  se_ssh_public_key :: string

text \<open>The request \<open>_deploy_agent\<close> builds; the fields it does not name have their defaults.\<close>

definition deploy_request ::
  "server_settings \<Rightarrow> string \<Rightarrow> deploy_agent_task \<Rightarrow> machine_instance \<Rightarrow> agent_request result" where
  "deploy_request settings private_key_path ctx instance =
     rbind (list_nth (mi_private_ips instance) 0) (\<lambda>ip0.
     rbind (if dt_use_public ctx then list_nth (mi_public_ips instance) 0 else Inr ip0) (\<lambda>ip.
       Inr \<lparr>ar_machine_ip = ip, ar_machine_id = mi_machine_id instance, ar_private_key_path = private_key_path,
            ar_cluster = dt_cluster_name ctx, ar_access_token = se_agent_token settings,
            ar_refresh_token = se_agent_refresh_token settings, ar_web_redis = se_web_redis settings,
            ar_queue_redis = se_queue_redis settings, ar_control_queue = se_control_queue settings,
            ar_workflow_service = se_workflow_service settings, ar_qnames = [''cpu''],
            ar_agent_homedir = ''/home/op'', ar_agent_name = None, ar_advertise_addr = None,
            ar_docker_image = dt_docker_image ctx, ar_docker_version = dt_docker_version ctx,
            ar_worker_procs = 2\<rparr>))"

definition deploy_agent_into ::
  "(nat \<Rightarrow> ssh_lib) \<Rightarrow> server_settings \<Rightarrow> string \<Rightarrow> deploy_agent_task \<Rightarrow> machine_instance \<Rightarrow> ssh_result result" where
  "deploy_agent_into S settings private_key_path ctx instance =
     attempts 3 (\<lambda>n. rbind (deploy_request settings private_key_path ctx instance) (agent_async (S n))) 0"

section \<open>The agent\<close>

record agent_config =
  ac_cluster :: string
  ac_qnames :: "string list"
  ac_machine_id :: string
  ac_agent_name :: "string option"
  ac_workers_n :: int

text \<open>\<open>lab agent run\<close> from the values of its options, and what \<open>control/agent.py\<close> listens to.\<close>

definition agent_runcli :: "int \<Rightarrow> string \<Rightarrow> string \<Rightarrow> string option \<Rightarrow> string \<Rightarrow> agent_config" where
  "agent_runcli workers qnames cluster aname machine_id =
     \<lparr>ac_cluster = cluster, ac_qnames = split_on CHR '','' qnames, ac_machine_id = machine_id,
      ac_agent_name = aname, ac_workers_n = workers\<rparr>"

definition agent_name_of :: "agent_config \<Rightarrow> string result" where
  "agent_name_of conf =
     (if opt_truthy (ac_agent_name conf) then Inr (the (ac_agent_name conf))
      else (case rsplit_once CHR ''/'' (ac_machine_id conf) of None \<Rightarrow> Inl IndexError | Some (_, n) \<Rightarrow> Inr n))"

definition cluster_queues :: "agent_config \<Rightarrow> string list" where
  "cluster_queues conf = map (qname (ac_cluster conf)) (ac_qnames conf)"

text \<open>The name and the queues of the worker that \<open>run\<close> starts.\<close>

definition agent_run :: "agent_config \<Rightarrow> (string \<times> string list) result" where
  "agent_run conf = rbind (agent_name_of conf) (\<lambda>name. Inr (name, cluster_queues conf))"

section \<open>The tasks\<close>

record 'p cloud =
  cl_provider :: 'p
  cl_redis :: redis

record 'p cluster_env =
  ce_load :: "string \<Rightarrow> 'p provider result"
  ce_file :: clusters_file
  ce_pub_key :: string
  ce_key :: ssh_key
  ce_dumps :: "machine_instance \<Rightarrow> string"
  ce_loads :: "string \<Rightarrow> machine_instance result"
  ce_settings :: server_settings
  ce_ssh :: "nat \<Rightarrow> ssh_lib"

definition agent_task :: "string \<Rightarrow> string \<Rightarrow> deploy_agent_request \<Rightarrow> deploy_agent_task" where
  "agent_task machine cluster_name r =
     \<lparr>dt_machine_name = machine, dt_cluster_name = cluster_name, dt_qnames = da_qnames r,
      dt_use_public = da_use_public r, dt_docker_version = da_docker_version r,
      dt_docker_image = da_docker_image r, dt_worker_procs = da_worker_procs r\<rparr>"

definition create_instance_task ::
  "'p cluster_env \<Rightarrow> nanoid \<Rightarrow> create_request \<Rightarrow> 'p cloud \<Rightarrow> machine_instance result \<times> 'p cloud" where
  "create_instance_task E gen ctx w =
     (case create_instance (ce_load E) (ce_file E) gen (ce_pub_key E) (ce_key E) (cr_cluster_name ctx) (cr_alias ctx)
             (cl_provider w) of
        (Inl e, p) \<Rightarrow> (Inl e, w\<lparr>cl_provider := p\<rparr>)
      | (Inr i, p) \<Rightarrow>
          (let w' = w\<lparr>cl_provider := p, cl_redis := register_instance (ce_dumps E) i (cr_cluster_name ctx) (cl_redis w)\<rparr>
           in case cr_agent ctx of
                None \<Rightarrow> (Inr i, w')
              | Some a \<Rightarrow>
                  (rbind (deploy_agent_into (ce_ssh E) (ce_settings E) (fmt_opt (sk_private_path (ce_key E)))
                     (agent_task (mi_machine_name i) (cr_cluster_name ctx) a) i) (\<lambda>_. Inr i), w')))"

definition destroy_instance_task :: "'p cluster_env \<Rightarrow> destroy_request \<Rightarrow> 'p cloud \<Rightarrow> unit result \<times> 'p cloud" where
  "destroy_instance_task E ctx w =
     (case destroy_instance (ce_load E) (ce_file E) (dq_machine_name ctx) (dq_cluster_name ctx) (cl_provider w) of
        (Inl e, p) \<Rightarrow> (Inl e, w\<lparr>cl_provider := p\<rparr>)
      | (Inr _, p) \<Rightarrow>
          (Inr (), w\<lparr>cl_provider := p, cl_redis := unregister_instance (dq_machine_name ctx) (dq_cluster_name ctx) (cl_redis w)\<rparr>))"

definition deploy_agent_task_run :: "'p cluster_env \<Rightarrow> deploy_agent_task \<Rightarrow> 'p cloud \<Rightarrow> ssh_result result" where
  "deploy_agent_task_run E ctx w =
     rbind (get_instance (ce_loads E) (dt_machine_name ctx) (cl_redis w)) (\<lambda>i.
       case i of
         None \<Rightarrow> Inl AttributeError
       | Some i \<Rightarrow>
           rbind (list_nth (mi_private_ips i) 0) (\<lambda>_.
             deploy_agent_into (ce_ssh E) (ce_settings E) (fmt_opt (sk_private_path (ce_key E))) ctx i))"

section \<open>The endpoints and their client\<close>

definition opt_list :: "string list \<Rightarrow> pyval" where
  "opt_list xs = PList (map PStr xs)"

definition deploy_request_dict :: "deploy_agent_request \<Rightarrow> pyval" where
  "deploy_request_dict r =
     PDict [(''qnames'', opt_list (da_qnames r)), (''use_public'', PBool (da_use_public r)),
       (''docker_image'', PStr (da_docker_image r)), (''docker_version'', PStr (da_docker_version r)),
       (''worker_procs'', PInt (da_worker_procs r))]"

definition agent_task_dict :: "deploy_agent_task \<Rightarrow> pyval" where
  "agent_task_dict t =
     PDict [(''machine_name'', PStr (dt_machine_name t)), (''cluster_name'', PStr (dt_cluster_name t)),
       (''qnames'', opt_list (dt_qnames t)), (''use_public'', PBool (dt_use_public t)),
       (''docker_version'', PStr (dt_docker_version t)), (''docker_image'', PStr (dt_docker_image t)),
       (''worker_procs'', PInt (dt_worker_procs t))]"

definition create_request_dict :: "create_request \<Rightarrow> pyval" where
  "create_request_dict r =
     PDict [(''cluster_name'', PStr (cr_cluster_name r)), (''alias'', opt_pstr (cr_alias r)),
       (''agent'', case cr_agent r of None \<Rightarrow> PNone | Some a \<Rightarrow> deploy_request_dict a)]"

definition destroy_request_dict :: "destroy_request \<Rightarrow> pyval" where
  "destroy_request_dict r =
     PDict [(''cluster_name'', PStr (dq_cluster_name r)), (''machine_name'', PStr (dq_machine_name r))]"

text \<open>The control queue takes the name of a task, an execution id, five minutes and the request; how often
  the library may try the job again (\<open>max_retry\<close>) is not kept.\<close>

definition enqueue_control :: "string \<Rightarrow> nanoid \<Rightarrow> pyval \<Rightarrow> queue_call" where
  "enqueue_control task gen d =
     Enqueue CONTROL_QUEUE (''labfunctions.control.tasks.'' @ task) (execid_init gen None EXECID_LEN None)
       (PStr ''5m'') (ClusterData d)"

definition enqueue_instance_creation :: "nanoid \<Rightarrow> create_request \<Rightarrow> queue_call" where
  "enqueue_instance_creation gen ctx = enqueue_control ''create_instance'' gen (create_request_dict ctx)"

definition enqueue_instance_destruction :: "nanoid \<Rightarrow> destroy_request \<Rightarrow> queue_call" where
  "enqueue_instance_destruction gen ctx = enqueue_control ''destroy_instance'' gen (destroy_request_dict ctx)"

definition enqueue_deploy_agent :: "nanoid \<Rightarrow> deploy_agent_task \<Rightarrow> queue_call" where
  "enqueue_deploy_agent gen ctx = enqueue_control ''deploy_agent'' gen (agent_task_dict ctx)"

text \<open>A handler answers a status and a job id, with the call it made; \<open>jobid\<close> is the id the library
  gives the job of a call.\<close>

definition cluster_instance_create ::
  "(queue_call \<Rightarrow> string) \<Rightarrow> nanoid \<Rightarrow> (pyval \<Rightarrow> create_request result) \<Rightarrow> pyval \<Rightarrow>
   ((int \<times> string option) \<times> queue_call list) result" where
  "cluster_instance_create jobid gen parse body =
     rbind (parse body) (\<lambda>req.
       let c = enqueue_instance_creation gen req in Inr ((202, Some (jobid c)), [c]))"

definition cluster_agent_deploy ::
  "(queue_call \<Rightarrow> string) \<Rightarrow> nanoid \<Rightarrow> (pyval \<Rightarrow> deploy_agent_request result) \<Rightarrow> string \<Rightarrow> string \<Rightarrow> pyval \<Rightarrow>
   ((int \<times> string option) \<times> queue_call list) result" where
  "cluster_agent_deploy jobid gen parse cluster_name machine body =
     rbind (parse body) (\<lambda>req.
       let c = enqueue_deploy_agent gen (agent_task machine cluster_name req) in Inr ((200, Some (jobid c)), [c]))"

definition cluster_instance_destroy ::
  "(queue_call \<Rightarrow> string) \<Rightarrow> nanoid \<Rightarrow> (string \<Rightarrow> machine_instance result) \<Rightarrow> string \<Rightarrow> string \<Rightarrow> redis \<Rightarrow>
   ((int \<times> string option) \<times> queue_call list) result" where
  "cluster_instance_destroy jobid gen loads cluster_name machine r =
     rbind (get_instance loads machine r) (\<lambda>i.
       if i = None then Inr ((200, None), [])
       else (let c = enqueue_instance_destruction gen \<lparr>dq_cluster_name = cluster_name, dq_machine_name = machine\<rparr>
             in Inr ((202, Some (jobid c)), [c])))"

definition cluster_instances_list :: "string \<Rightarrow> redis \<Rightarrow> string list" where
  "cluster_instances_list cluster_name r = list_instances cluster_name r"

definition cluster_get_spec :: "clusters_file \<Rightarrow> cluster_spec list result" where
  "cluster_get_spec cf = rmap (get_cluster cf) (list_clusters cf)"

text \<open>The client raises on an unexpected status, and returns the job id.\<close>

definition cluster_client_create :: "int \<times> string option \<Rightarrow> string option result" where
  "cluster_client_create rsp = (if fst rsp \<noteq> 202 then Inl ClusterAPIError else Inr (snd rsp))"

definition cluster_client_deploy :: "int \<times> string option \<Rightarrow> string option result" where
  "cluster_client_deploy rsp = (if fst rsp \<noteq> 202 then Inl ClusterAPIError else Inr (snd rsp))"

definition cluster_client_destroy :: "int \<times> string option \<Rightarrow> string option result" where
  "cluster_client_destroy rsp = (if fst rsp \<noteq> 202 \<and> fst rsp \<noteq> 200 then Inl ClusterAPIError else Inr (snd rsp))"

section \<open>Queues: lemmas\<close>

lemma qname_inject:
  assumes "CHR ''.'' \<notin> set m" and "CHR ''.'' \<notin> set m'"
  shows "qname c m = qname c' m' \<longleftrightarrow> c = c' \<and> m = m'"
proof
  assume eq: "qname c m = qname c' m'"
  have "Some (c, m) = rsplit_once CHR ''.'' (qname c m)"
    unfolding qname_def using rsplit_once_append [OF assms(1)] by simp
  also have "\<dots> = Some (c', m')"
    unfolding eq unfolding qname_def using rsplit_once_append [OF assms(2)] by simp
  finally show "c = c' \<and> m = m'" by simp
qed simp

lemma attempts_const: "attempts (Suc k) (\<lambda>_. r) n = (case r of Inr x \<Rightarrow> Inr x | Inl _ \<Rightarrow> Inl RetryError)"
  by (induction k arbitrary: n) (auto split: sum.splits)

lemma attempts_Inr: "attempts k f n = Inr x \<Longrightarrow> \<exists>i. n \<le> i \<and> i < n + k \<and> f i = Inr x"
proof (induction k arbitrary: n)
  case (Suc k)
  show ?case
  proof (cases "f n")
    case (Inl e)
    then have "attempts k f (Suc n) = Inr x" using Suc.prems by simp
    then obtain i where "Suc n \<le> i" "i < Suc n + k" "f i = Inr x" using Suc.IH by blast
    then show ?thesis by (intro exI [of _ i]) simp
  next
    case (Inr y)
    then show ?thesis using Suc.prems by (intro exI [of _ n]) simp
  qed
qed simp

lemma attempts_Inl: "attempts k f n = Inl e \<Longrightarrow> e = RetryError \<and> (\<forall>i. n \<le> i \<longrightarrow> i < n + k \<longrightarrow> \<not> is_ok (f i))"
proof (induction k arbitrary: n)
  case (Suc k)
  then obtain e' where e': "f n = Inl e'" by (cases "f n") auto
  then have rest: "e = RetryError \<and> (\<forall>i. Suc n \<le> i \<longrightarrow> i < Suc n + k \<longrightarrow> \<not> is_ok (f i))"
    using Suc.IH [of "Suc n"] Suc.prems by simp
  have "\<not> is_ok (f i)" if "n \<le> i" "i < n + Suc k" for i
    using e' rest that by (cases "i = n") auto
  then show ?case using rest by blast
qed simp

text \<open>An agent deployed into a machine listens to the queue \<open>cpu\<close> of its cluster with two workers,
  whatever queues and number of workers were asked for: neither reaches the request sent over
  ssh. So a notebook is taken by such an agent exactly when it asks for the machine \<open>cpu\<close> of
  the agent's cluster; one that asks for another machine waits in a queue that nobody reads.\<close>

lemma deployed_agent_serves_cpu:
  assumes req: "deploy_request settings key ctx instance = Inr req"
    and nb: "enqueue_notebook E projectid task prefix db = Inr (nb_ctx, calls)"
    and "CHR ''.'' \<notin> set (et_machine nb_ctx)"
  shows "agent_cmd req = prepare_docker_cmd (ar_machine_ip req) (mi_machine_id instance) ''cpu'' (dt_cluster_name ctx)
       ''/home/op/.env.docker'' (dt_docker_image ctx) (dt_docker_version ctx) 2 \<and>
     (\<exists>q f i t p. calls = [Enqueue q f i t p] \<and>
        (q \<in> set (cluster_queues (agent_runcli 2 ''cpu'' (dt_cluster_name ctx) None (mi_machine_id instance))) \<longleftrightarrow>
           et_cluster nb_ctx = dt_cluster_name ctx \<and> et_machine nb_ctx = ''cpu''))"
proof -
  have "agent_cmd req = prepare_docker_cmd (ar_machine_ip req) (mi_machine_id instance) ''cpu'' (dt_cluster_name ctx)
       ''/home/op/.env.docker'' (dt_docker_image ctx) (dt_docker_version ctx) 2"
    using req by (auto simp: deploy_request_def agent_cmd_def rbind_Inr_iff)
  moreover have "cluster_queues (agent_runcli 2 ''cpu'' (dt_cluster_name ctx) None (mi_machine_id instance)) =
      [qname (dt_cluster_name ctx) ''cpu'']"
    by (simp add: cluster_queues_def agent_runcli_def)
  moreover have "qname (et_cluster nb_ctx) (et_machine nb_ctx) = qname (dt_cluster_name ctx) ''cpu'' \<longleftrightarrow>
      et_cluster nb_ctx = dt_cluster_name ctx \<and> et_machine nb_ctx = ''cpu''"
    using assms(3) by (intro qname_inject) auto
  ultimately show ?thesis
    using nb by (auto simp: enqueue_notebook_def rbind_Inr_iff)
qed

definition demo_settings :: server_settings where
  "demo_settings = \<lparr>se_agent_token = ''at'', se_agent_refresh_token = ''rt'', se_web_redis = ''redis://web'',
     se_queue_redis = ''redis://queue'', se_control_queue = CONTROL_QUEUE, se_workflow_service = ''http://lab'',
     se_ssh_user = ''op'', se_ssh_public_key = ''/k.pub''\<rparr>"

definition demo_instance :: "string \<Rightarrow> machine_instance" where
  "demo_instance n = \<lparr>mi_machine_id = ''/local/here/'' @ n, mi_machine_name = n, mi_location = ''here'',
     mi_private_ips = [''10.0.0.2''], mi_public_ips = [], mi_volumes = [], mi_labels = None,
     mi_cluster = ''default'', mi_extra = None\<rparr>"

definition demo_deploy :: deploy_agent_request where
  "demo_deploy = \<lparr>da_qnames = [''gpu''], da_use_public = False, da_docker_image = ''img'',
     da_docker_version = ''1'', da_worker_procs = 8\<rparr>"

end
