(* ===== verification/Fleet.thy ===== *)
theory Fleet
  imports Cluster
begin

text \<open>
  The life of machines: the local provider (\<open>cluster/providers/local.py\<close>), what the cluster tasks need of
  a provider as a locale, and the runs of creations and destructions over a provider and the
  registry in Redis, with the invariant that ties the two.
\<close>

section \<open>The local provider\<close>

text \<open>The working directory: the directories in it that hold a \<open>machine.json\<close>, by path, with the text
  of that file, in the order the directory is read.\<close>

type_synonym lcl_dir = "string dict"

definition under :: "string \<Rightarrow> string \<Rightarrow> bool" where
  "under d p \<longleftrightarrow> p = d \<or> startswith (d @ ''/'') p"

definition lcl_create_machine ::
  "string result \<Rightarrow> string result \<Rightarrow> (machine_instance \<Rightarrow> string) \<Rightarrow> machine_request \<Rightarrow> lcl_dir \<Rightarrow>
   machine_instance result \<times> lcl_dir" where
  "lcl_create_machine internal_ip external_ip dumps node d =
     (case rbind internal_ip (\<lambda>internal. rbind external_ip (\<lambda>external.
             Inr \<lparr>mi_machine_id = ''/local/'' @ mr_location node @ CHR ''/'' # mr_name node,
                  mi_machine_name = mr_name node, mi_location = mr_location node, mi_private_ips = [internal],
                  mi_public_ips = [external], mi_volumes = [], mi_labels = mr_labels node,
                  mi_cluster = ''default'', mi_extra = None\<rparr>)) of
        Inl e \<Rightarrow> (Inl e, d)
      | Inr res \<Rightarrow> (Inr res, dict_set (mr_name node) (dumps res) d))"

text \<open>\<open>glob\<close> on \<open>*/machine.json\<close>: one level, and no hidden directory.\<close>

definition globbed :: "string \<Rightarrow> bool" where
  "globbed p \<longleftrightarrow> CHR ''/'' \<notin> set p \<and> \<not> startswith ''.'' p"

definition lcl_list_machines :: "(string \<Rightarrow> machine_instance result) \<Rightarrow> lcl_dir \<Rightarrow> machine_instance list result" where
  "lcl_list_machines loads d = rmap (\<lambda>(p, data). loads data) (filter (\<lambda>(p, data). globbed p) d)"

text \<open>\<open>shutil.rmtree\<close> removes the directory with all below it, and raises when there is none.\<close>

definition lcl_destroy_machine :: "string \<Rightarrow> lcl_dir \<Rightarrow> unit result \<times> lcl_dir" where
  "lcl_destroy_machine name d =
     (if list_ex (under name) (dict_keys d) then (Inr (), filter (\<lambda>(p, _). \<not> under name p) d)
      else (Inl FileNotFoundError, d))"

definition local_provider ::
  "string result \<Rightarrow> string result \<Rightarrow> (machine_instance \<Rightarrow> string) \<Rightarrow> lcl_dir provider" where
  "local_provider internal_ip external_ip dumps =
     \<lparr>pv_create = lcl_create_machine internal_ip external_ip dumps, pv_destroy = lcl_destroy_machine\<rparr>"

section \<open>What the tasks need of a provider\<close>

text \<open>\<open>machines\<close> are the names of the machines a provider runs; the laws are for names that are
  \<open>plain\<close>.\<close>

locale provider_contract =
  fixes create :: "machine_request \<Rightarrow> 'p \<Rightarrow> machine_instance result \<times> 'p"
    and destroy :: "string \<Rightarrow> 'p \<Rightarrow> unit result \<times> 'p"
    and machines :: "'p \<Rightarrow> string set"
    and plain :: "string \<Rightarrow> bool"
  assumes create_ok: "create req p = (Inr i, p') \<Longrightarrow>
      mi_machine_name i = mr_name req \<and> machines p' = insert (mr_name req) (machines p)"
    and create_fails: "create req p = (Inl e, p') \<Longrightarrow> machines p' = machines p"
    and destroy_ok: "destroy n p = (Inr u, p') \<Longrightarrow> \<forall>m\<in>machines p. plain m \<Longrightarrow>
      n \<in> machines p \<and> machines p' = machines p - {n}"
    and destroy_fails: "destroy n p = (Inl e, p') \<Longrightarrow> machines p' = machines p"
begin

lemma create_instance_machines:
  assumes "create_instance (\<lambda>_. Inr \<lparr>pv_create = create, pv_destroy = destroy\<rparr>) cf gen pub key c alias p = (r, p')"
  shows "(case r of Inl e \<Rightarrow> machines p' = machines p
     | Inr i \<Rightarrow> machines p' = insert (mi_machine_name i) (machines p) \<and>
         (\<exists>m\<in>snd ` set (cf_machines cf). mi_machine_name i = mo_name m @ CHR ''-'' # or_str alias (gen MACHINE_ABC 6)))"
proof -
  let ?req = "rbind (get_cluster cf c) (\<lambda>c. rbind (create_machine_req cf gen pub key (cp_machine c) (cp_name c) alias)
      (\<lambda>req. rbind (get_provider (\<lambda>_. Inr \<lparr>pv_create = create, pv_destroy = destroy\<rparr>) cf (mr_provider req)) (\<lambda>p. Inr (p, req))))"
  show ?thesis
  proof (cases ?req)
    case (Inl e)
    then show ?thesis using assms by (auto simp: create_instance_def)
  next
    case (Inr x)
    then obtain k req m where x: "x = (\<lparr>pv_create = create, pv_destroy = destroy\<rparr>, req)"
      and m: "map_of (cf_machines cf) k = Some m" "mr_name req = mo_name m @ CHR ''-'' # or_str alias (gen MACHINE_ABC 6)"
      by (auto simp: create_machine_req_def get_machine_def get_provider_def rbind_Inr_iff dict_get_Inr_iff Let_def)
    have "m \<in> snd ` set (cf_machines cf)" using m(1) by (force dest!: map_of_SomeD)
    moreover have "create req p = (r, p')" using Inr x assms by (simp add: create_instance_def)
    ultimately show ?thesis using m(2) create_ok create_fails by (cases r) (simp_all, blast+)
  qed
qed

lemma destroy_instance_machines:
  assumes "destroy_instance (\<lambda>_. Inr \<lparr>pv_create = create, pv_destroy = destroy\<rparr>) cf n c p = (r, p')"
    and "\<forall>m\<in>machines p. plain m"
  shows "(case r of Inl e \<Rightarrow> machines p' = machines p | Inr _ \<Rightarrow> n \<in> machines p \<and> machines p' = machines p - {n})"
  using assms destroy_ok destroy_fails
  by (auto simp: destroy_instance_def get_provider_def rbind_Inr_iff split: sum.splits)

end

section \<open>Runs of the tasks\<close>

text \<open>A creation whose machine gets a plain name, with any outcome of its steps, or any destruction.\<close>

definition request_ok :: "(string \<Rightarrow> bool) \<Rightarrow> 'p cluster_env \<Rightarrow> nanoid \<Rightarrow> create_request \<Rightarrow> bool" where
  "request_ok P E gen ctx \<longleftrightarrow> list_all (\<lambda>(_, m). P (mo_name m @ CHR ''-'' # or_str (cr_alias ctx) (gen MACHINE_ABC 6)))
     (cf_machines (ce_file E))"

inductive fleet_step :: "(string \<Rightarrow> bool) \<Rightarrow> 'p cluster_env \<Rightarrow> 'p cloud \<Rightarrow> 'p cloud \<Rightarrow> bool"
  for P :: "string \<Rightarrow> bool" and E :: "'p cluster_env" where
  Create: "create_instance_task E gen ctx w = (r, w') \<Longrightarrow> request_ok P E gen ctx \<Longrightarrow> fleet_step P E w w'"
| Destroy: "destroy_instance_task E ctx w = (r', w') \<Longrightarrow> fleet_step P E w w'"

inductive_cases fleet_stepE: "fleet_step P E w w'"

text \<open>What the registry knows: an instance stored under its name, and listed in a listed cluster.\<close>

definition known :: "(string \<Rightarrow> machine_instance result) \<Rightarrow> string \<Rightarrow> redis \<Rightarrow> bool" where
  "known loads n r \<longleftrightarrow> (\<exists>i. get_instance loads n r = Inr (Some i) \<and> mi_machine_name i = n) \<and>
     (\<exists>c\<in>set (rd_sets r CLUSTERS_LIST). n \<in> set (list_instances c r))"

definition absent :: "string \<Rightarrow> redis \<Rightarrow> bool" where
  "absent n r \<longleftrightarrow> rd_strs r (MACHINE_KEY @ n) = None"

lemma list_key_not_clusters [simp]: "machines_list_key c \<noteq> CLUSTERS_LIST" "CLUSTERS_LIST \<noteq> machines_list_key c"
  by (simp_all add: machines_list_key_def MACHINES_LIST_def CLUSTERS_LIST_def)

lemma list_key_inject [simp]: "machines_list_key c = machines_list_key c' \<longleftrightarrow> c = c'"
  by (simp add: machines_list_key_def)

lemmas registry_ops = register_instance_def unregister_instance_def sadd_def srem_def set_str_def
  list_instances_def get_instance_def

lemma known_register:
  assumes "\<And>i. \<exists>i'. dumps i \<noteq> [] \<and> loads (dumps i) = Inr i' \<and> mi_machine_name i' = mi_machine_name i"
  shows "n = mi_machine_name i \<or> known loads n r \<Longrightarrow> known loads n (register_instance dumps i c r)"
    and "absent n (register_instance dumps i c r) \<longleftrightarrow> n \<noteq> mi_machine_name i \<and> absent n r"
  using assms [of i] by (auto simp: known_def absent_def registry_ops)

lemma known_unregister:
  "known loads n (unregister_instance m c r) \<longleftrightarrow> n \<noteq> m \<and> known loads n r"
  "absent n (unregister_instance m c r) \<longleftrightarrow> n = m \<or> absent n r"
  by (auto simp: known_def absent_def registry_ops)

text \<open>The registry and the provider agree: it knows every machine, and nothing of any other name.\<close>

definition fleet_agrees ::
  "(string \<Rightarrow> machine_instance result) \<Rightarrow> (string \<Rightarrow> bool) \<Rightarrow> string set \<Rightarrow> redis \<Rightarrow> bool" where
  "fleet_agrees loads P ms r \<longleftrightarrow> (\<forall>n\<in>ms. P n \<and> known loads n r) \<and> (\<forall>n. n \<notin> ms \<longrightarrow> absent n r)"

context provider_contract
begin

lemma agrees_step:
  assumes step: "fleet_step plain E w w'"
    and load: "ce_load E = (\<lambda>_. Inr \<lparr>pv_create = create, pv_destroy = destroy\<rparr>)"
    and json: "\<And>i. \<exists>i'. ce_dumps E i \<noteq> [] \<and> ce_loads E (ce_dumps E i) = Inr i' \<and> mi_machine_name i' = mi_machine_name i"
    and agrees: "fleet_agrees (ce_loads E) plain (machines (cl_provider w)) (cl_redis w)"
  shows "fleet_agrees (ce_loads E) plain (machines (cl_provider w')) (cl_redis w')"
  using step
proof (rule fleet_stepE)
  fix gen ctx r
  assume t: "create_instance_task E gen ctx w = (r, w')" and ok: "request_ok plain E gen ctx"
  obtain r0 p where c: "create_instance (\<lambda>_. Inr \<lparr>pv_create = create, pv_destroy = destroy\<rparr>) (ce_file E) gen
      (ce_pub_key E) (ce_key E) (cr_cluster_name ctx) (cr_alias ctx) (cl_provider w) = (r0, p)" by (rule prod.exhaust)
  note ms = create_instance_machines [OF c]
  show ?thesis
  proof (cases r0)
    case (Inl e)
    then show ?thesis using t c ms agrees by (auto simp: create_instance_task_def load)
  next
    case (Inr i)
    have w': "cl_provider w' = p" "cl_redis w' = register_instance (ce_dumps E) i (cr_cluster_name ctx) (cl_redis w)"
      using t c Inr by (auto simp: create_instance_task_def load Let_def split: option.splits)
    have "plain (mi_machine_name i)" using ms ok Inr by (auto simp: request_ok_def list_all_iff)
    then show ?thesis
      using ms agrees Inr known_register [OF json] unfolding w' fleet_agrees_def by auto
  qed
next
  fix ctx r
  assume t: "destroy_instance_task E ctx w = (r, w')"
  obtain r0 p where d: "destroy_instance (\<lambda>_. Inr \<lparr>pv_create = create, pv_destroy = destroy\<rparr>) (ce_file E)
      (dq_machine_name ctx) (dq_cluster_name ctx) (cl_provider w) = (r0, p)" by (rule prod.exhaust)
  have pl: "\<forall>m\<in>machines (cl_provider w). plain m" using agrees by (simp add: fleet_agrees_def)
  show ?thesis
    using t d destroy_instance_machines [OF d pl] agrees
    by (auto simp: destroy_instance_task_def load fleet_agrees_def known_unregister split: sum.splits)
qed

lemma agrees_run:
  assumes "(fleet_step plain E)\<^sup>*\<^sup>* w w'"
    and "ce_load E = (\<lambda>_. Inr \<lparr>pv_create = create, pv_destroy = destroy\<rparr>)"
    and "\<And>i. \<exists>i'. ce_dumps E i \<noteq> [] \<and> ce_loads E (ce_dumps E i) = Inr i' \<and> mi_machine_name i' = mi_machine_name i"
    and "fleet_agrees (ce_loads E) plain (machines (cl_provider w)) (cl_redis w)"
  shows "fleet_agrees (ce_loads E) plain (machines (cl_provider w')) (cl_redis w')"
  using assms(1,4) by (induction) (use agrees_step assms(2,3) in blast)+

end

text \<open>A name is plain for the local provider when it is one part of a path.\<close>

definition plain_name :: "string \<Rightarrow> bool" where
  "plain_name n \<longleftrightarrow> CHR ''/'' \<notin> set n"

definition lcl_machines :: "lcl_dir \<Rightarrow> string set" where
  "lcl_machines d = set (dict_keys d)"

lemma under_plain: "plain_name p \<Longrightarrow> under d p \<longleftrightarrow> p = d"
  by (auto simp: under_def plain_name_def startswith_iff)

interpretation lcl: provider_contract "lcl_create_machine internal external dumps" lcl_destroy_machine lcl_machines plain_name
proof
  fix n u and d d' :: lcl_dir
  assume d: "lcl_destroy_machine n d = (Inr u, d')" and p: "\<forall>m\<in>lcl_machines d. plain_name m"
  have "under n (fst x) \<longleftrightarrow> fst x = n" if "x \<in> set d" for x
    using p that by (auto simp: lcl_machines_def dict_keys_def intro!: under_plain)
  then show "n \<in> lcl_machines d \<and> lcl_machines d' = lcl_machines d - {n}"
    using d by (force simp: lcl_destroy_machine_def lcl_machines_def dict_keys_def list_ex_iff image_iff split: if_splits)
next
  fix req i and d d' :: lcl_dir
  assume "lcl_create_machine internal external dumps req d = (Inr i, d')"
  then obtain v where "d' = dict_set (mr_name req) v d" "mi_machine_name i = mr_name req"
    by (auto simp: lcl_create_machine_def rbind_Inr_iff split: sum.splits)
  then show "mi_machine_name i = mr_name req \<and> lcl_machines d' = insert (mr_name req) (lcl_machines d)"
    by (simp add: lcl_machines_def dict_keys_def)
qed (auto simp: lcl_create_machine_def lcl_destroy_machine_def split: sum.splits if_splits)

section \<open>The properties\<close>


definition demo_machine :: machine_orm where
  "demo_machine = \<lparr>mo_name = ''cpu'', mo_provider = ''lcl'', mo_location = ''here'',
     mo_machine_type = \<lparr>mt_size = ''small'', mt_image = ''debian'', mt_vcpus = 1, mt_network = ''default'', mt_extra = None\<rparr>,
     mo_gpu = None, mo_volumes = [], mo_desc = None\<rparr>"

definition demo_cluster :: "string \<Rightarrow> cluster_spec" where
  "demo_cluster n = \<lparr>cp_name = n, cp_machine = ''cpu'', cp_provider = ''lcl'', cp_location = None, cp_network = None\<rparr>"

definition no_ssh :: ssh_lib where
  "no_ssh = \<lparr>sl_scp = (\<lambda>_ _ _ _. Inl CommandExecutionException), sl_run = (\<lambda>_ _ _. Inl CommandExecutionException)\<rparr>"

definition demo_clusters :: "lcl_dir cluster_env" where
  "demo_clusters = \<lparr>ce_load = (\<lambda>_. Inr (local_provider (Inr ''10.0.0.2'') (Inr ''1.1.1.1'') mi_machine_name)),
     ce_file = \<lparr>cf_providers = [(''lcl'', ''path'')], cf_clusters = [(''a'', demo_cluster ''a''), (''b'', demo_cluster ''b'')],
       cf_volumes = [], cf_machines = [(''cpu'', demo_machine)]\<rparr>,
     ce_pub_key = ''ssh'', ce_key = get_ssh_key ''op'' ''/k.pub'', ce_dumps = (\<lambda>i. CHR ''{'' # mi_machine_name i),
     ce_loads = (\<lambda>s. Inr (demo_instance (tl s))), ce_settings = demo_settings, ce_ssh = (\<lambda>_. no_ssh)\<rparr>"

definition demo_create :: create_request where
  "demo_create = \<lparr>cr_cluster_name = ''a'', cr_alias = Some ''x'', cr_agent = None\<rparr>"

lemma demo_created:
  "\<exists>i w. create_instance_task demo_clusters demo_nanoid demo_create \<lparr>cl_provider = [], cl_redis = empty_redis\<rparr> = (Inr i, w) \<and>
     cl_provider w = [(''cpu-x'', ''cpu-x'')] \<and> list_instances ''a'' (cl_redis w) = [''cpu-x'']"
  by (simp add: create_instance_task_def create_instance_def demo_clusters_def demo_create_def get_cluster_def
      demo_cluster_def dict_get_def create_machine_req_def get_machine_def demo_machine_def get_provider_def
      local_provider_def lcl_create_machine_def dict_set_def registry_ops machines_list_key_def CLUSTERS_LIST_def
      MACHINES_LIST_def empty_redis_def get_ssh_key_def)


text \<open>A machine destroyed through a cluster other than the one it was registered in is gone, and so
  is its entry, but its cluster goes on listing it; an agent that is then deployed into the
  listed machine fails with an attribute error, whatever was asked for.\<close>

lemma destroyed_through_other_cluster:
  assumes t: "destroy_instance_task E ctx w = (Inr u, w')" and c: "c \<noteq> dq_cluster_name ctx"
    and l: "dq_machine_name ctx \<in> set (list_instances c (cl_redis w))"
    and m: "dt_machine_name d = dq_machine_name ctx"
  shows "dq_machine_name ctx \<in> set (list_instances c (cl_redis w')) \<and>
     dq_machine_name ctx \<notin> set (list_instances (dq_cluster_name ctx) (cl_redis w')) \<and>
     get_instance (ce_loads E) (dq_machine_name ctx) (cl_redis w') = Inr None \<and>
     deploy_agent_task_run E d w' = Inl AttributeError"
proof -
  have w': "cl_redis w' = unregister_instance (dq_machine_name ctx) (dq_cluster_name ctx) (cl_redis w)"
    using t by (auto simp: destroy_instance_task_def split: sum.splits prod.splits)
  show ?thesis
    using c l by (simp add: w' registry_ops deploy_agent_task_run_def m)
qed

text \<open>What the client makes of the cluster endpoints' answers: a creation is queued once and its job
  id returned; an agent deployment is queued once, but the client raises, since the endpoint
  answers 200 where the client wants 202; a destruction is queued, and its job id returned,
  exactly when the registry has a value for the machine that parses, and answered without a job
  when there is none.\<close>

lemma cluster_client_sees:
  "(parse body = Inr req \<longrightarrow>
      (\<exists>call. rbind (cluster_instance_create jobid gen parse body) (\<lambda>(rsp, calls). Inr (cluster_client_create rsp, calls)) =
         Inr (Inr (Some (jobid call)), [call]))) \<and>
   (parse' body = Inr dreq \<longrightarrow>
      (\<exists>call. rbind (cluster_agent_deploy jobid gen parse' c m body) (\<lambda>(rsp, calls). Inr (cluster_client_deploy rsp, calls)) =
         Inr (Inl ClusterAPIError, [call]))) \<and>
   (case get_instance loads m r of
      Inl e \<Rightarrow> cluster_instance_destroy jobid gen loads c m r = Inl e
    | Inr None \<Rightarrow> rbind (cluster_instance_destroy jobid gen loads c m r) (\<lambda>(rsp, calls). Inr (cluster_client_destroy rsp, calls)) =
         Inr (Inr None, [])
    | Inr (Some i) \<Rightarrow> (\<exists>call. rbind (cluster_instance_destroy jobid gen loads c m r)
           (\<lambda>(rsp, calls). Inr (cluster_client_destroy rsp, calls)) = Inr (Inr (Some (jobid call)), [call])))"
  by (auto simp: cluster_instance_create_def cluster_agent_deploy_def cluster_instance_destroy_def
      cluster_client_create_def cluster_client_deploy_def cluster_client_destroy_def Let_def
      split: sum.split option.split)

end
