(* ===== verification/Events.thy ===== *)
theory Events
  imports KV_Store Client_Auth
begin

text \<open>
  Events of an execution: \<open>events.py\<close> (Redis streams and the server-sent event format),
  \<open>web/events_bp.py\<close> and the two methods of \<open>client/base.py\<close> that publish and listen. Redis answers
  the entries of a stream after an id; the HTTP response is the text the server sends, and the
  client reads it line by line, each with its end.
\<close>

section \<open>The manager\<close>

record event_sse =
  ev_data :: string
  ev_event :: "string option"
  ev_id :: "string option"

text \<open>What \<open>publish\<close> adds to the stream: the fields \<open>msg\<close> and \<open>event\<close>.\<close>

definition publish_fields :: "event_sse \<Rightarrow> string dict" where
  "publish_fields evt = [(''msg'', ev_data evt), (''event'', or_str (ev_event evt) [])]"

text \<open>One entry of an answer of \<open>xread\<close>.\<close>

definition read_entry :: "string \<times> string dict \<Rightarrow> event_sse result" where
  "read_entry m =
     rbind (dict_get (snd m) ''msg'') (\<lambda>d. rbind (dict_get (snd m) ''event'') (\<lambda>e.
       Inr \<lparr>ev_data = d, ev_event = Some e, ev_id = Some (fst m)\<rparr>))"

definition generate_channel :: "os_env \<Rightarrow> (string \<Rightarrow> string) \<Rightarrow> string \<Rightarrow> string \<Rightarrow> string" where
  "generate_channel os nfkd projectid execid =
     secure_filename os nfkd projectid @ CHR ''.'' # secure_filename os nfkd execid"

definition format_sse :: "event_sse \<Rightarrow> string" where
  "format_sse evt =
     (let msg = ''data: '' @ ev_data evt @ [newline, newline];
          msg = (case ev_event evt of None \<Rightarrow> msg | Some e \<Rightarrow> ''event: '' @ e @ newline # msg)
      in case ev_id evt of None \<Rightarrow> msg | Some i \<Rightarrow> ''id: '' @ i @ newline # msg)"

text \<open>One line of \<open>from_sse2event\<close>, on the values of \<open>id\<close>, \<open>event\<close> and \<open>data\<close> so far.\<close>

type_synonym sse_fields = "string option \<times> string option \<times> string option"

definition after_colon :: "string \<Rightarrow> string" where
  "after_colon line = (case split_once CHR '':'' line of None \<Rightarrow> [] | Some (_, v) \<Rightarrow> strip v)"

definition sse_line :: "string \<Rightarrow> sse_fields \<Rightarrow> sse_fields" where
  "sse_line line = (\<lambda>(i, e, d).
     if startswith ''data:'' line then (i, e, Some (after_colon line))
     else if startswith ''event:'' line then (i, Some (after_colon line), d)
     else if startswith ''id:'' line then (Some (after_colon line), e, d)
     else (i, e, d))"

definition from_sse2event :: "string \<Rightarrow> event_sse result" where
  "from_sse2event m =
     (case fold sse_line (split_on newline m) (None, None, None) of
        (i, e, None) \<Rightarrow> Inl ValidationError
      | (i, e, Some d) \<Rightarrow> Inr \<lparr>ev_data = d, ev_event = e, ev_id = i\<rparr>)"

section \<open>The endpoint that listens\<close>

definition is_exit :: "event_sse \<Rightarrow> bool" where
  "is_exit r \<longleftrightarrow> ev_event r = Some ''control'' \<and> ev_data r = ''exit''"

text \<open>\<open>read n last\<close> is what the \<open>n\<close>-th read of the channel answers after the id \<open>last\<close>, nothing when it
  timed out. The loop ends with such a read, or with an exit, and may not end at all.\<close>

partial_function (option) event_listen :: "(nat \<Rightarrow> string \<Rightarrow> event_sse list) \<Rightarrow> nat \<Rightarrow> string \<Rightarrow> string list option" where
  "event_listen read n last_id =
     (let rsp = read n last_id
      in if rsp = [] then Some []
         else if list_ex is_exit rsp then Some (map format_sse rsp)
         else Option.bind (event_listen read (Suc n) (fmt_opt (ev_id (last rsp))))
                (\<lambda>ms. Some (map format_sse rsp @ ms)))"

section \<open>The client\<close>

text \<open>\<open>events_listen\<close>: the events it yields, and the error that ends the generator, if any.\<close>

fun client_listen :: "string \<Rightarrow> string list \<Rightarrow> event_sse list \<times> py_error option" where
  "client_listen buf [] = ([], None)"
| "client_listen buf (line # lines) =
     (let buf = buf @ line
      in if endswith [newline, newline] buf
         then (case from_sse2event buf of
                 Inl e \<Rightarrow> ([], Some e)
               | Inr evt \<Rightarrow>
                   if ev_data evt = ''exit'' then ([], None)
                   else (let (es, r) = client_listen [] lines in (evt # es, r)))
         else client_listen buf lines)"

text \<open>The event \<open>events_publish\<close> posts, nothing for an empty message; \<open>dumps\<close> is \<open>json.dumps\<close>.\<close>

definition events_publish :: "(pyval \<Rightarrow> string) \<Rightarrow> pyval \<Rightarrow> string option \<Rightarrow> event_sse option result" where
  "events_publish dumps d event =
     (let final = (case d of PDict x \<Rightarrow> PStr (dumps d) | _ \<Rightarrow> d)
      in if truthy final
         then rbind (pydantic_str final) (\<lambda>m. Inr (Some \<lparr>ev_data = m, ev_event = event, ev_id = None\<rparr>))
         else Inr None)"

section \<open>The endpoint that publishes\<close>

definition DEFAULT_TTL :: int where "DEFAULT_TTL = 60 * 60"

text \<open>The streams of Redis by channel: their entries without the ids, and when they expire. An entry added moves
  the end of its stream.\<close>

type_synonym event_streams = "string \<Rightarrow> string dict list \<times> int"

definition publish :: "int \<Rightarrow> string \<Rightarrow> event_sse \<Rightarrow> event_streams \<Rightarrow> event_streams" where
  "publish now channel evt st = st(channel := (fst (st channel) @ [publish_fields evt], now + DEFAULT_TTL))"

definition opt_text :: "pyval dict \<Rightarrow> string \<Rightarrow> string option result" where
  "opt_text d k = (case map_of d k of None \<Rightarrow> Inr None | Some PNone \<Rightarrow> Inr None | Some v \<Rightarrow> rbind (pydantic_str v) (\<lambda>s. Inr (Some s)))"

definition event_of_json :: "pyval \<Rightarrow> event_sse result" where
  "event_of_json j =
     (case j of
        PDict d \<Rightarrow>
          (case map_of d ''data'' of
             None \<Rightarrow> Inl ValidationError
           | Some v \<Rightarrow>
               rbind (pydantic_str v) (\<lambda>x. rbind (opt_text d ''event'') (\<lambda>e. rbind (opt_text d ''id'') (\<lambda>i.
                 Inr \<lparr>ev_data = x, ev_event = e, ev_id = i\<rparr>))))
      | _ \<Rightarrow> Inl TypeError)"

definition event_publish ::
  "os_env \<Rightarrow> (string \<Rightarrow> string) \<Rightarrow> int \<Rightarrow> string \<Rightarrow> string \<Rightarrow> request \<Rightarrow> event_streams \<Rightarrow> response result \<times> event_streams" where
  "event_publish os nfkd now projectid execid req st =
     (case event_of_json (req_json req) of
        Inl e \<Rightarrow> (Inl e, st)
      | Inr evt \<Rightarrow> (Inr (json PNone 204), publish now (generate_channel os nfkd projectid execid) evt st))"

definition event_dict :: "event_sse \<Rightarrow> pyval" where
  "event_dict evt = PDict [(''data'', PStr (ev_data evt)), (''event'', case ev_event evt of None \<Rightarrow> PNone | Some e \<Rightarrow> PStr e),
     (''id'', case ev_id evt of None \<Rightarrow> PNone | Some i \<Rightarrow> PStr i)]"

text \<open>What a client posts is the last entry of the channel, and reads back as the event, with an empty text for a
  missing kind.\<close>

lemma posted_event_read:
  assumes "events_publish dumps d event = Inr (Some evt)"
  shows "event_publish os nfkd now pid execid \<lparr>req_token = tok, req_json = event_dict evt\<rparr> st =
      (Inr (json PNone 204), publish now (generate_channel os nfkd pid execid) evt st)"
    and "last (fst (publish now ch evt st ch)) = publish_fields evt"
    and "read_entry (i, publish_fields evt) = Inr \<lparr>ev_data = ev_data evt, ev_event = Some (or_str event []), ev_id = Some i\<rparr>"
proof -
  have "ev_event evt = event" using assms by (auto simp: events_publish_def Let_def rbind_Inr_iff split: if_splits pyval.splits)
  then show "read_entry (i, publish_fields evt) = Inr \<lparr>ev_data = ev_data evt, ev_event = Some (or_str event []), ev_id = Some i\<rparr>"
    by (simp add: read_entry_def publish_fields_def dict_get_def)
  show "last (fst (publish now ch evt st ch)) = publish_fields evt" by (simp add: publish_def)
  show "event_publish os nfkd now pid execid \<lparr>req_token = tok, req_json = event_dict evt\<rparr> st =
      (Inr (json PNone 204), publish now (generate_channel os nfkd pid execid) evt st)"
    by (cases evt) (simp add: event_publish_def event_of_json_def event_dict_def opt_text_def split: option.splits)
qed

section \<open>Lemmas\<close>

text \<open>A text that the format carries: on one line, without white space around.\<close>

definition sse_text :: "string \<Rightarrow> bool" where
  "sse_text s \<longleftrightarrow> newline \<notin> set s \<and> strip s = s"

definition sse_clean :: "event_sse \<Rightarrow> bool" where
  "sse_clean evt \<longleftrightarrow> sse_text (ev_data evt) \<and> (\<forall>e. ev_event evt = Some e \<longrightarrow> sse_text e) \<and>
     (\<forall>i. ev_id evt = Some i \<longrightarrow> sse_text i)"

lemma file_lines_line:
  "newline \<notin> set a \<Longrightarrow> file_lines (\<lambda>c. c = newline) (a @ newline # b) = (a @ [newline]) # file_lines (\<lambda>c. c = newline) b"
  by (induction a) auto

lemma sse_text_strip: "sse_text s \<Longrightarrow> strip (CHR '' '' # s) = s"
  by (simp add: sse_text_def strip_def strip_chars_def py_isspace_def)

lemma after_colon_field [simp]:
  "sse_text s \<Longrightarrow> after_colon (''data: '' @ s) = s" "sse_text s \<Longrightarrow> after_colon (''event: '' @ s) = s"
  "sse_text s \<Longrightarrow> after_colon (''id: '' @ s) = s"
  by (simp_all add: after_colon_def sse_text_strip)

lemma sse_line_field:
  "sse_text s \<Longrightarrow> sse_line (''data: '' @ s) (i, e, d) = (i, e, Some s)"
  "sse_text s \<Longrightarrow> sse_line (''event: '' @ s) (i, e, d) = (i, Some s, d)"
  "sse_text s \<Longrightarrow> sse_line (''id: '' @ s) (i, e, d) = (Some s, e, d)"
  using after_colon_field [of s] by (simp_all add: sse_line_def startswith_def)

lemma split_on_line: "newline \<notin> set a \<Longrightarrow> split_on newline (a @ newline # b) = a # split_on newline b"
  by (rule split_on_append)

text \<open>The lines of a formatted event, without their ends.\<close>

definition sse_lines :: "event_sse \<Rightarrow> string list" where
  "sse_lines evt =
     (case ev_id evt of None \<Rightarrow> [] | Some i \<Rightarrow> [''id: '' @ i]) @
     (case ev_event evt of None \<Rightarrow> [] | Some e \<Rightarrow> [''event: '' @ e]) @ [''data: '' @ ev_data evt]"

lemma format_sse_lines: "format_sse evt = concat (map (\<lambda>l. l @ [newline]) (sse_lines evt)) @ [newline]"
  by (auto simp: format_sse_def sse_lines_def Let_def split: option.splits)

lemma newline_prefix: "newline \<notin> set ''data: ''" "newline \<notin> set ''event: ''" "newline \<notin> set ''id: ''"
  by (simp_all add: newline_def)

lemma sse_lines_no_newline: "sse_clean evt \<Longrightarrow> l \<in> set (sse_lines evt) \<Longrightarrow> newline \<notin> set l"
  using newline_prefix
  by (auto simp: sse_lines_def sse_clean_def sse_text_def split: option.splits)

lemma split_on_lines:
  "(\<And>l. l \<in> set ls \<Longrightarrow> newline \<notin> set l) \<Longrightarrow>
     split_on newline (concat (map (\<lambda>l. l @ [newline]) ls) @ rest) = ls @ split_on newline rest"
  by (induction ls) (auto simp: split_on_line)

lemma fold_sse_lines:
  "sse_clean evt \<Longrightarrow> fold sse_line (sse_lines evt @ [[], []]) (None, None, None) =
     (ev_id evt, ev_event evt, Some (ev_data evt))"
proof -
  assume c: "sse_clean evt"
  have e: "sse_line [] x = x" for x
    by (cases x) (simp add: sse_line_def startswith_def)
  show ?thesis
    using c by (auto simp: sse_clean_def sse_lines_def e sse_line_field [simplified] split: option.splits)
qed

text \<open>Parsing undoes formatting for an event whose id, type and data are single lines without white
  space around.\<close>

lemma from_format: "sse_clean evt \<Longrightarrow> from_sse2event (format_sse evt) = Inr evt"
proof -
  assume c: "sse_clean evt"
  have "split_on newline [newline] = [[], []]" by simp
  then have "split_on newline (format_sse evt) = sse_lines evt @ [[], []]"
    using split_on_lines [of "sse_lines evt" "[newline]"] sse_lines_no_newline [OF c] by (simp add: format_sse_lines)
  then show ?thesis using fold_sse_lines [OF c] by (simp add: from_sse2event_def)
qed

section \<open>From the stream to the listener\<close>

lemma file_lines_sse:
  "(\<And>l. l \<in> set ls \<Longrightarrow> newline \<notin> set l) \<Longrightarrow>
     file_lines (\<lambda>c. c = newline) (concat (map (\<lambda>l. l @ [newline]) ls) @ rest) =
     map (\<lambda>l. l @ [newline]) ls @ file_lines (\<lambda>c. c = newline) rest"
  by (induction ls) (auto simp: file_lines_line)

lemma file_lines_events:
  "(\<And>e. e \<in> set es \<Longrightarrow> sse_clean e) \<Longrightarrow>
     file_lines (\<lambda>c. c = newline) (concat (map format_sse es)) =
     concat (map (\<lambda>e. map (\<lambda>l. l @ [newline]) (sse_lines e) @ [[newline]]) es)"
proof (induction es)
  case (Cons e es)
  have "newline \<notin> set l" if "l \<in> set (sse_lines e)" for l
    using sse_lines_no_newline [of e l] Cons.prems that by simp
  then show ?case
    using Cons by (simp add: format_sse_lines file_lines_sse)
qed simp

lemma endswith_two: "endswith [a, a] (xs @ [y, z]) \<longleftrightarrow> y = a \<and> z = a"
  by (auto simp: endswith_def startswith_def)

lemma client_listen_lines:
  "(\<And>l. l \<in> set ls \<Longrightarrow> l \<noteq> [] \<and> newline \<notin> set l) \<Longrightarrow>
     client_listen buf (map (\<lambda>l. l @ [newline]) ls @ rest) =
     client_listen (buf @ concat (map (\<lambda>l. l @ [newline]) ls)) rest"
proof (induction ls arbitrary: buf)
  case (Cons l ls)
  have "l \<noteq> []" and "newline \<notin> set l" using Cons.prems by auto
  then obtain k c where l: "l = k @ [c]" and "c \<noteq> newline"
    by (cases l rule: rev_cases) auto
  then have "\<not> endswith [newline, newline] (buf @ l @ [newline])"
    using endswith_two [of newline "buf @ k" c newline] by simp
  with Cons show ?case by simp
qed simp

lemma client_listen_event:
  assumes "sse_clean evt"
  shows "client_listen [] ((map (\<lambda>l. l @ [newline]) (sse_lines evt) @ [[newline]]) @ rest) =
    (if ev_data evt = ''exit'' then ([], None)
     else (let (es, r) = client_listen [] rest in (evt # es, r)))"
proof -
  have "l \<noteq> [] \<and> newline \<notin> set l" if "l \<in> set (sse_lines evt)" for l
    using that sse_lines_no_newline [OF assms] by (auto simp: sse_lines_def split: option.splits)
  then have "client_listen [] (map (\<lambda>l. l @ [newline]) (sse_lines evt) @ [newline] # rest) =
      client_listen (concat (map (\<lambda>l. l @ [newline]) (sse_lines evt))) ([newline] # rest)"
    using client_listen_lines by (metis append_Nil)
  moreover obtain ls k where "sse_lines evt = ls @ [k]"
    by (cases "sse_lines evt" rule: rev_cases) (auto simp: sse_lines_def)
  then have "endswith [newline, newline] (concat (map (\<lambda>l. l @ [newline]) (sse_lines evt)) @ [newline])"
    using endswith_two [of newline "concat (map (\<lambda>l. l @ [newline]) ls) @ k" newline newline] by simp
  moreover have "concat (map (\<lambda>l. l @ [newline]) (sse_lines evt)) @ [newline] = format_sse evt"
    by (simp add: format_sse_lines)
  ultimately show ?thesis
    using from_format [OF assms] by simp
qed

lemma client_listen_events:
  "(\<And>e. e \<in> set es \<Longrightarrow> sse_clean e) \<Longrightarrow>
     client_listen [] (file_lines (\<lambda>c. c = newline) (concat (map format_sse es))) =
     (takeWhile (\<lambda>e. ev_data e \<noteq> ''exit'') es, None)"
proof -
  assume c: "\<And>e. e \<in> set es \<Longrightarrow> sse_clean e"
  have "client_listen [] (concat (map (\<lambda>e. map (\<lambda>l. l @ [newline]) (sse_lines e) @ [[newline]]) es)) =
      (takeWhile (\<lambda>e. ev_data e \<noteq> ''exit'') es, None)"
    using c
  proof (induction es)
    case (Cons e es)
    then show ?case
      using client_listen_event [of e] by (simp del: append_assoc)
  qed simp
  then show ?thesis by (simp add: file_lines_events c)
qed

text \<open>The entries of a stream after an id, and a stream that only grows.\<close>

definition entries_after :: "(string \<Rightarrow> nat) \<Rightarrow> string \<Rightarrow> event_sse list \<Rightarrow> event_sse list" where
  "entries_after pos i xs = filter (\<lambda>e. pos i < pos (fmt_opt (ev_id e))) xs"

definition in_order :: "(string \<Rightarrow> nat) \<Rightarrow> event_sse list \<Rightarrow> bool" where
  "in_order pos xs = sorted_wrt (\<lambda>a b. pos (fmt_opt (ev_id a)) < pos (fmt_opt (ev_id b))) xs"

lemma entries_after_split:
  assumes o: "in_order pos (xs @ ys)" and ne: "entries_after pos i xs \<noteq> []"
  shows "entries_after pos i (xs @ ys) = entries_after pos i xs @
    entries_after pos (fmt_opt (ev_id (last (entries_after pos i xs)))) (xs @ ys)"
proof -
  let ?p = "\<lambda>e. pos (fmt_opt (ev_id e))"
  obtain zs z where xs: "xs = zs @ [z]"
    using ne by (cases xs rule: rev_cases) (auto simp: entries_after_def)
  obtain a where a: "a \<in> set xs" "pos i < ?p a"
    using ne by (auto simp: entries_after_def filter_empty_conv)
  have le: "b \<in> set xs \<Longrightarrow> ?p b \<le> ?p z" for b
    using o by (auto simp: xs in_order_def sorted_wrt_append)
  then have z: "pos i < ?p z" using a le_less_trans less_le_trans by blast
  then have l: "last (entries_after pos i xs) = z" by (simp add: entries_after_def xs)
  have "entries_after pos (fmt_opt (ev_id z)) xs = []"
    using le by (auto simp: entries_after_def filter_empty_conv linorder_not_less)
  moreover have "?p z < ?p b" if "b \<in> set ys" for b
    using o that by (auto simp: xs in_order_def sorted_wrt_append)
  then have "entries_after pos (fmt_opt (ev_id z)) ys = ys" and "entries_after pos i ys = ys"
    using z by (force simp: entries_after_def intro!: filter_True)+
  ultimately show ?thesis by (simp add: l) (simp add: entries_after_def)
qed

lemma event_listen_grows:
  assumes grow: "\<And>n. \<exists>new. log (Suc n) = log n @ new" and o: "\<And>n. in_order pos (log n)"
    and still: "\<And>n. N \<le> n \<Longrightarrow> log n = log N"
    and read: "\<And>n i. read n i = entries_after pos i (log n)"
  shows "\<exists>m. event_listen read n i = Some (map format_sse (entries_after pos i (log m))) \<and> n \<le> m"
proof -
  have grow': "\<exists>new. log m = log n @ new" if "n \<le> m" for n m
    using that by (induction rule: dec_induct) (use grow in \<open>auto, metis append_assoc\<close>)
  have step: "\<exists>m. event_listen read n i = Some (map format_sse (entries_after pos i (log m))) \<and> n \<le> m"
    if next_ok: "\<And>j. read n i \<noteq> [] \<Longrightarrow> j = fmt_opt (ev_id (last (read n i))) \<Longrightarrow>
        \<exists>m. event_listen read (Suc n) j = Some (map format_sse (entries_after pos j (log m))) \<and> Suc n \<le> m" for n i
  proof (cases "read n i = [] \<or> list_ex is_exit (read n i)")
    case True
    then show ?thesis
      by (intro exI [of _ n]) (auto simp: event_listen.simps [of read n] read Let_def)
  next
    case False
    then obtain m where m: "event_listen read (Suc n) (fmt_opt (ev_id (last (read n i)))) =
        Some (map format_sse (entries_after pos (fmt_opt (ev_id (last (read n i)))) (log m)))" "Suc n \<le> m"
      using next_ok by blast
    obtain new where new: "log m = log n @ new" using grow' [of n m] m(2) by auto
    have "entries_after pos i (log m) =
        read n i @ entries_after pos (fmt_opt (ev_id (last (read n i)))) (log m)"
      using entries_after_split [of pos "log n" new i] o [of m] False by (simp add: read new)
    then show ?thesis
      using m False by (intro exI [of _ m]) (simp add: event_listen.simps [of read n] Let_def)
  qed
  have quiet: "\<exists>m. event_listen read n i = Some (map format_sse (entries_after pos i (log m))) \<and> n \<le> m"
    if n: "N \<le> n" for n i
  proof (rule step)
    fix j assume ne: "read n i \<noteq> []" and j: "j = fmt_opt (ev_id (last (read n i)))"
    have "entries_after pos i (log n) @ entries_after pos j (log n) = entries_after pos i (log n)"
      using entries_after_split [of pos "log n" "[]" i] o [of n] ne unfolding read j append_Nil2 by metis
    then have "entries_after pos j (log n) = []"
      by (simp only: append_self_conv)
    moreover have "log (Suc n) = log n"
      using still [of n] still [of "Suc n"] n by simp
    ultimately have "read (Suc n) j = []"
      by (simp add: read)
    then show "\<exists>m. event_listen read (Suc n) j = Some (map format_sse (entries_after pos j (log m))) \<and> Suc n \<le> m"
      using step [of "Suc n" j] by simp
  qed
  show ?thesis
  proof (induction "N - n" arbitrary: n i)
    case 0
    then show ?case using quiet by simp
  next
    case (Suc k)
    have "k = N - Suc n" using Suc.hyps(2) by arith
    then show ?case using step [of n i] Suc.hyps(1) by blast
  qed
qed



text \<open>Without that restriction the format does not hold the fields apart: data that goes on after a line
  break can set the type of its own event.\<close>

lemma newline_forges_event:
  assumes "sse_text d" and "sse_text e" and "sse_text e0" and "sse_text i"
  shows "from_sse2event (format_sse \<lparr>ev_data = d @ newline # ''event: '' @ e, ev_event = Some e0, ev_id = Some i\<rparr>) =
    Inr \<lparr>ev_data = d, ev_event = Some e, ev_id = Some i\<rparr>"
proof -
  have n: "newline \<notin> set (''data: '' @ d)" "newline \<notin> set (''event: '' @ e)" "newline \<notin> set (''event: '' @ e0)"
    "newline \<notin> set (''id: '' @ i)"
    using assms newline_prefix by (auto simp: sse_text_def)
  have "format_sse \<lparr>ev_data = d @ newline # ''event: '' @ e, ev_event = Some e0, ev_id = Some i\<rparr> =
      (''id: '' @ i) @ newline # (''event: '' @ e0) @ newline # (''data: '' @ d) @ newline # (''event: '' @ e) @ newline # [newline]"
    by (simp add: format_sse_def Let_def)
  then have "split_on newline (format_sse \<lparr>ev_data = d @ newline # ''event: '' @ e, ev_event = Some e0, ev_id = Some i\<rparr>) =
      [''id: '' @ i, ''event: '' @ e0, ''data: '' @ d, ''event: '' @ e, [], []]"
    by (simp only: split_on_line [OF n(1)] split_on_line [OF n(2)] split_on_line [OF n(3)] split_on_line [OF n(4)]) simp
  moreover have "sse_line [] x = x" for x
    by (cases x) (simp add: sse_line_def startswith_def)
  ultimately show ?thesis
    using assms by (simp add: from_sse2event_def sse_line_field [simplified])
qed

end
