(* ===== verification/Commands.thy ===== *)
theory Commands
  imports Settings Fleet Events
begin

text \<open>
  The commands of the client that talk to the server (\<open>cmd/workflows.py\<close>, \<open>cmd/project.py\<close>,
  \<open>cmd/cluster.py\<close>, \<open>cmd/executors.py\<close>, \<open>info\<close> of \<open>cmd/common.py\<close>, \<open>watcher\<close> of \<open>cmd/utils.py\<close>). A command gives
  its exit (a value, or the exception that ends it), the lines it prints and the state after it;
  a table is printed as the cells of its rows. The labfiles of the working directory are their YAML
  values by name.
\<close>

section \<open>The client of a command\<close>

type_synonym labfiles = "string \<Rightarrow> pyval option"

definition yaml_of :: "labfiles \<Rightarrow> string \<Rightarrow> pyval result" where
  "yaml_of labs f = (case labs f of None \<Rightarrow> Inl FileNotFoundError | Some v \<Rightarrow> Inr v)"

text \<open>The state of \<open>client.from_file\<close>: none for a labfile that is missing or has no name.\<close>

definition state_of_file :: "labfiles \<Rightarrow> string option \<Rightarrow> lab_state option result" where
  "state_of_file labs filepath =
     (case (case filepath of None \<Rightarrow> Inl TypeError | Some f \<Rightarrow> from_file (yaml_of labs) f) of
        Inl e \<Rightarrow> if e = TypeError \<or> e = FileNotFoundError then Inr None else Inl e
      | Inr s \<Rightarrow> Inr (Some s))"

definition need_state :: "labfiles \<Rightarrow> string option \<Rightarrow> lab_state result" where
  "need_state labs filepath =
     rbind (state_of_file labs filepath) (\<lambda>s. case s of None \<Rightarrow> Inl AttributeError | Some s \<Rightarrow> Inr s)"

text \<open>\<open>BaseClient.write()\<close> without an argument.\<close>

definition write_default :: "lab_state \<Rightarrow> labfiles \<Rightarrow> labfiles result" where
  "write_default s labs = rbind (lab_write (Some LABFILE_NAME) s) (\<lambda>(f, v). Inr (labs(f \<mapsto> v)))"

section \<open>Workflows\<close>

text \<open>\<open>wf create\<close>; without a state the command fails where the workflow would be added.\<close>

definition create_cmd ::
  "(string \<Rightarrow> nb_cell list option) \<Rightarrow> string option \<Rightarrow> string \<Rightarrow> string \<Rightarrow> labfiles \<Rightarrow> unit result \<times> labfiles" where
  "create_cmd notebook wf_file nb alias labs =
     (case state_of_file labs wf_file of
        Inl e \<Rightarrow> (Inl e, labs)
      | Inr None \<Rightarrow>
          (case create_workflow notebook nb alias (new_state (plain_project [] [])) of
             Inl e \<Rightarrow> (Inl e, labs) | Inr _ \<Rightarrow> (Inl AttributeError, labs))
      | Inr (Some s) \<Rightarrow>
          (case create_workflow notebook nb alias s of
             Inl e \<Rightarrow> (Inl e, labs) | Inr (_, v) \<Rightarrow> (Inr (), labs(LABFILE_NAME \<mapsto> v))))"

definition push_report :: "string \<Rightarrow> wf_create_rsp list \<Rightarrow> wf_create_rsp list \<Rightarrow> string list" where
  "push_report action created errors =
     map (\<lambda>r. ''[bold red]'' @ wr_alias r @ '' failed[/]'') errors @
     map (\<lambda>r. ''[bold green]'' @ wr_alias r @ '' '' @ action @ '' with id: '' @ fmt_opt (wr_wfid r) @ ''[/]'') created @
     (if created = [] \<and> errors = [] then [''[bold yellow]No changes[/]''] else [])"

text \<open>\<open>wf push\<close>.\<close>

definition push_cmd ::
  "'s wf_send \<Rightarrow> 's wf_send \<Rightarrow> bool \<Rightarrow> string option \<Rightarrow> labfiles \<times> 's \<Rightarrow> unit result \<times> string list \<times> labfiles \<times> 's" where
  "push_cmd post put update wf_file w =
     (case need_state (fst w) wf_file of
        Inl e \<Rightarrow> (Inl e, [], w)
      | Inr s \<Rightarrow>
          (case workflows_push post put True update wf_file s (snd w) of
             (Inl e, _, st, _) \<Rightarrow> (Inl e, [], (fst w, st))
           | (Inr (created, errors), _, st, written) \<Rightarrow>
               (Inr (), push_report (if update then ''updated'' else ''created'') created errors,
                ((case written of None \<Rightarrow> fst w | Some (f, v) \<Rightarrow> (fst w)(f \<mapsto> v)), st))))"

text \<open>\<open>wf list\<close>: the rows of the answer, or what reading them raises.\<close>

definition list_wf :: "(string \<times> string \<times> bool) list result \<Rightarrow> string list list result" where
  "list_wf rows =
     rbind rows (\<lambda>ds. Inr (map (\<lambda>(alias, wfid, enabled).
       [alias, wfid, if enabled then ''[bold green]yes[/]'' else ''[bold red]no[/]'']) ds))"

text \<open>\<open>wf delete\<close>. The local workflow goes whatever the server answers, and the labfile is written under its
  default name.\<close>

definition forget_workflow :: "string \<Rightarrow> lab_state \<Rightarrow> lab_state result" where
  "forget_workflow wfid s =
     (case find_by_id (Some wfid) s of None \<Rightarrow> Inr s | Some w \<Rightarrow> delete_workflow (wd_alias (we_data w)) s)"

definition delete_cmd ::
  "(string \<Rightarrow> 's \<Rightarrow> int result \<times> 's) \<Rightarrow> string \<Rightarrow> string option \<Rightarrow> labfiles \<times> 's \<Rightarrow>
   unit result \<times> string list \<times> labfiles \<times> 's" where
  "delete_cmd del wfid wf_file w =
     (case rbind (need_state (fst w) wf_file) (forget_workflow wfid) of
        Inl e \<Rightarrow> (Inl e, [], w)
      | Inr s \<Rightarrow>
          (case del wfid (snd w) of
             (Inl e, st) \<Rightarrow> (Inl e, [], (fst w, st))
           | (Inr code, st) \<Rightarrow>
               (case write_default s (fst w) of
                  Inl e \<Rightarrow> (Inl e, [], (fst w, st))
                | Inr labs \<Rightarrow> (Inr (), [''Wfid: '' @ wfid @ '', deleted. Code '' @ str_int (workflows_delete code)], (labs, st)))))"

section \<open>Projects\<close>

datatype agent_action = AgentCreate | AgentDel | AgentList | AgentToken

record 's agent_api =
  ag_create :: "'s \<Rightarrow> (int \<times> string result) \<times> 's"
  ag_token :: "string option \<Rightarrow> 's \<Rightarrow> (int \<times> (string \<times> string \<times> string option) result) \<times> 's"
  ag_list :: "'s \<Rightarrow> int \<times> string list result"
  ag_delete :: "string \<Rightarrow> 's \<Rightarrow> int \<times> 's"

definition projects_agent_token :: "int \<times> 'a result \<Rightarrow> 'a option result" where
  "projects_agent_token r = (if fst r = 200 then rbind (snd r) (\<lambda>x. Inr (Some x)) else Inr None)"

text \<open>\<open>project agent\<close>; the exit status of \<open>sys.exit(-1)\<close> is 255. An answer counts as true when it is not empty.\<close>

definition agent_cmd ::
  "'s agent_api \<Rightarrow> string option \<Rightarrow> agent_action \<Rightarrow> 's \<Rightarrow> unit result \<times> string list \<times> 's" where
  "agent_cmd A agentname action st =
     (case action of
        AgentCreate \<Rightarrow>
          (let (r, st') = ag_create A st in
           case projects_create_agent r of
             Inl e \<Rightarrow> (Inl e, [], st')
           | Inr res \<Rightarrow> (Inr (), [if opt_truthy res then ''[bold green] Agent created [/]'' else ''[bold yellow] Agent creation fail [/]''], st'))
      | AgentToken \<Rightarrow>
          (let (r, st') = ag_token A (if opt_truthy agentname then agentname else None) st in
           case projects_agent_token r of
             Inl e \<Rightarrow> (Inl e, [], st')
           | Inr None \<Rightarrow> (Inr (), [''[bold yellow] Agent creds fail [/]''], st')
           | Inr (Some (name, at, rt)) \<Rightarrow>
               (Inr (), [''[bold magenta]agent name:[/] '' @ name, ''[bold magenta]access token:[/] '' @ at,
                  ''[bold magenta]refresh token:[/] '' @ fmt_opt rt], st'))
      | AgentList \<Rightarrow> (case projects_agent_list (ag_list A st) of Inl e \<Rightarrow> (Inl e, [], st) | Inr names \<Rightarrow> (Inr (), names, st))
      | AgentDel \<Rightarrow>
          if \<not> opt_truthy agentname then (Inl (SystemExit 255), [''[red bold]A agent name must be provided[/]''], st)
          else (let (code, st') = ag_delete A (the agentname) st
                in (Inr (), [if project_agent_delete code then ''[bold green]Agent deleted[/]''
                             else ''[bold red]Something went wrong[/]''], st')))"

definition list_projects :: "int \<times> project_data list result \<Rightarrow> string list list result" where
  "list_projects r =
     rbind (projects_list r) (\<lambda>ps. Inr (map (\<lambda>p. [pd_projectid p, pd_name p, or_str (pd_description p) []]) ps))"

section \<open>Executions\<close>

definition param_arg :: "string \<Rightarrow> (string \<times> string) result" where
  "param_arg p = (case split_on CHR ''='' p of [k, v] \<Rightarrow> Inr (k, v) | _ \<Rightarrow> Inl ValueError)"

fun parse_params_args :: "string list \<Rightarrow> pyval dict \<Rightarrow> pyval dict result" where
  "parse_params_args [] d = Inr d"
| "parse_params_args (p # ps) d = rbind (param_arg p) (\<lambda>(k, v). parse_params_args ps (dict_set k (PStr v) d))"

text \<open>\<open>watcher\<close>: the lines printed for the events it is given; \<open>mem\<close> reads the memory of a \<open>stats\<close> event. The
  flag it clears at a \<open>result\<close> is not looked at.\<close>

definition watch_event :: "(string \<Rightarrow> nat result) \<Rightarrow> string \<Rightarrow> bool \<Rightarrow> event_sse \<Rightarrow> string list result" where
  "watch_event mem execid stats evt =
     (if ev_event evt = Some ''stats'' \<and> stats
      then rbind (mem (ev_data evt)) (\<lambda>m. Inr [''[orange]Memory used '' @ format_bytes m @ ''[/]''])
      else if ev_event evt = Some ''result''
      then Inr [''[bold green]Finished execid: [/] [bold magenta]'' @ execid @ ''[/]'']
      else if ev_event evt \<noteq> Some ''stats'' then Inr [ev_data evt] else Inr [])"

fun watch_events :: "(string \<Rightarrow> nat result) \<Rightarrow> string \<Rightarrow> bool \<Rightarrow> event_sse list \<Rightarrow> unit result \<times> string list" where
  "watch_events mem execid stats [] = (Inr (), [])"
| "watch_events mem execid stats (evt # es) =
     (case watch_event mem execid stats evt of
        Inl e \<Rightarrow> (Inl e, [])
      | Inr ls \<Rightarrow> (let (r, ls') = watch_events mem execid stats es in (r, ls @ ls')))"

definition watcher :: "(string \<Rightarrow> nat result) \<Rightarrow> string \<Rightarrow> bool \<Rightarrow> event_sse list \<times> py_error option \<Rightarrow> unit result \<times> string list" where
  "watcher mem execid stats stream =
     (let (r, ls) = watch_events mem execid stats (fst stream);
          start = ''[bold magenta]Watching for execid: '' @ execid @ ''[/]''
      in ((case r of Inl e \<Rightarrow> Inl e | Inr _ \<Rightarrow> (case snd stream of None \<Rightarrow> Inr () | Some e \<Rightarrow> Inl e)), start # ls))"

text \<open>\<open>exec notebook\<close> without \<open>--local\<close>; \<open>listen\<close> is the stream of the execution. The context is printed.\<close>

definition notebook_cmd ::
  "(nbtask \<Rightarrow> 's \<Rightarrow> (int \<times> exec_task result) \<times> 's) \<Rightarrow> (string \<Rightarrow> nat result) \<Rightarrow>
   (string \<Rightarrow> 's \<Rightarrow> event_sse list \<times> py_error option) \<Rightarrow> string \<Rightarrow> string list \<Rightarrow> string \<Rightarrow> string \<Rightarrow> string option \<Rightarrow> string option \<Rightarrow>
   bool \<Rightarrow> labfiles \<Rightarrow> string option \<Rightarrow> 's \<Rightarrow> exec_task result \<times> string list \<times> 's" where
  "notebook_cmd post mem listen nb param cluster machine runtime version watch labs wf_file st =
     (case state_of_file labs wf_file of
        Inl e \<Rightarrow> (Inl e, [], st)
      | Inr None \<Rightarrow> (Inl (case parse_params_args param [] of Inl e \<Rightarrow> e | Inr _ \<Rightarrow> WorkflowStateNotSetError), [], st)
      | Inr (Some s) \<Rightarrow>
          (case parse_params_args param [] of
             Inl e \<Rightarrow> (Inl e, [], st)
           | Inr params \<Rightarrow>
               (case notebook_run post nb (Some params) (Some cluster) (Some machine) runtime version st of
                  (Inl e, st') \<Rightarrow> (Inl e, [], st')
                | (Inr ctx, st') \<Rightarrow>
                    (case (if watch then watcher mem (et_execid ctx) False (listen (et_execid ctx) st') else (Inr (), [])) of
                       (Inl e, ls) \<Rightarrow> (Inl e, ls, st') | (Inr _, ls) \<Rightarrow> (Inr ctx, ls, st')))))"

text \<open>\<open>exec local\<close>: in a container, by a workflow of the labfile, or neither. \<open>run\<close> is \<open>local_exec_env\<close> with the
  variable of the task set.\<close>

definition local_report :: "exec_result option \<Rightarrow> unit result \<times> string list" where
  "local_report rsp =
     (case rsp of
        None \<Rightarrow> (Inr (), [])
      | Some r \<Rightarrow>
          if er_error r then (Inl (SystemExit 255), [''[bold red](X) WFID: '' @ er_wfid r @ '' failed[/]''])
          else (Inr (), [''=>[bold green] WFID: '' @ er_wfid r @ '' locally executed[/]'']))"

definition local_cmd ::
  "string option \<Rightarrow> string \<Rightarrow> disk_client result \<Rightarrow> (lab_state option \<Rightarrow> string \<Rightarrow> exec_task result) \<Rightarrow>
   (exec_task \<Rightarrow> string) \<Rightarrow> (string \<Rightarrow> 's \<Rightarrow> exec_result option result \<times> 's) \<Rightarrow> labfiles \<Rightarrow> string option \<Rightarrow> string option \<Rightarrow> 's \<Rightarrow>
   unit result \<times> string list \<times> 's" where
  "local_cmd task_var cwd env_client build dumps run labs wf_file wfid st =
     (let finish = (\<lambda>pre (r, st'). case r of
            Inl e \<Rightarrow> (Inl e, pre, st')
          | Inr rsp \<Rightarrow> (let (x, ls) = local_report rsp in (x, pre @ ls, st')))
      in if opt_truthy task_var
         then (case env_client of
                 Inl e \<Rightarrow> (Inl e, [], st)
               | Inr c \<Rightarrow> finish [''=> Starting work inside container'', ''=> Current dir: '' @ cwd,
                   ''=> Base PATH: '' @ fmt_opt (dc_base_path c), ''=> Service url: '' @ bc_addr (dc_base c)] (run (the task_var) st))
         else if opt_truthy wfid
         then (case rbind (state_of_file labs wf_file) (\<lambda>s. build s (the wfid)) of
                 Inl e \<Rightarrow> (Inl e, [], st) | Inr ctx \<Rightarrow> finish [] (run (dumps ctx) st))
         else (Inl (SystemExit 255), [''[red]Neither [bold magenta]wfid[/bold magenta] param or '' @
                 ''[bold magenta]LF_EXECUTION_TASK[/bold magenta] was provided[/]''], st))"

section \<open>Clusters\<close>

text \<open>\<open>create-instance\<close>: the image without a tag has no second part, and the argument \<open>worker_proces\<close> is not a
  field of the request, which keeps its default of two.\<close>

definition create_instance_req :: "string \<Rightarrow> string \<Rightarrow> string \<Rightarrow> bool \<Rightarrow> create_request result" where
  "create_instance_req cluster_name qnames agent_image use_public =
     (let parts = split_on CHR '':'' agent_image
      in rbind (list_nth parts 0) (\<lambda>di. rbind (list_nth parts 1) (\<lambda>dv.
           Inr \<lparr>cr_cluster_name = cluster_name, cr_alias = None,
                cr_agent = Some \<lparr>da_qnames = split_on CHR '','' qnames, da_use_public = use_public,
                   da_docker_image = di, da_docker_version = dv, da_worker_procs = 2\<rparr>\<rparr>)))"

definition create_instance_cmd ::
  "(create_request \<Rightarrow> 's \<Rightarrow> (int \<times> string option) result \<times> 's) \<Rightarrow> string \<Rightarrow> string \<Rightarrow> string \<Rightarrow> bool \<Rightarrow> 's \<Rightarrow>
   unit result \<times> string list \<times> 's" where
  "create_instance_cmd post cluster_name qnames agent_image use_public st =
     (case create_instance_req cluster_name qnames agent_image use_public of
        Inl e \<Rightarrow> (Inl e, [], st)
      | Inr req \<Rightarrow>
          (let (r, st') = post req st in
           case rbind r cluster_client_create of
             Inl e \<Rightarrow> (Inl e, [], st')
           | Inr jobid \<Rightarrow> (Inr (), [''Create instance task sent with id [magenta]'' @ fmt_opt jobid @ ''[/]''], st')))"

text \<open>\<open>destroy-instance\<close>: without a cluster the path of the request has \<open>None\<close> in its place.\<close>

definition destroy_instance_cmd ::
  "(string \<Rightarrow> string \<Rightarrow> 's \<Rightarrow> (int \<times> string option) result \<times> 's) \<Rightarrow> string option \<Rightarrow> string \<Rightarrow> 's \<Rightarrow>
   unit result \<times> string list \<times> 's" where
  "destroy_instance_cmd delete cluster machine st =
     (let (r, st') = delete (fmt_opt cluster) machine st in
      case rbind r cluster_client_destroy of
        Inl e \<Rightarrow> (Inl e, [], st')
      | Inr jobid \<Rightarrow>
          (Inr (), [if opt_truthy jobid
             then ''Destroy task sent for instance '' @ machine @ '' with id [magenta]'' @ fmt_opt jobid @ ''[/]''
             else ''[yellow]'' @ machine @ '' not found[/]''], st'))"

definition client_ok :: "int \<times> 'a result \<Rightarrow> 'a result" where
  "client_ok r = (if fst r \<noteq> 200 then Inl ClusterAPIError else snd r)"

definition list_instances_cmd :: "(string \<Rightarrow> int \<times> string list result) \<Rightarrow> string option \<Rightarrow> string list result" where
  "list_instances_cmd get cluster_name = client_ok (get (fmt_opt cluster_name))"

definition list_specs :: "int \<times> cluster_spec list result \<Rightarrow> cluster_spec list result" where
  "list_specs r = client_ok r"

section \<open>The state of the client\<close>

text \<open>\<open>info\<close>: of the default labfile when the one that was named exists, and of the environment otherwise.\<close>

definition info_cmd ::
  "(string \<Rightarrow> bool) \<Rightarrow> disk_client result \<Rightarrow> disk_client result \<Rightarrow> (string \<Rightarrow> claims result) \<Rightarrow> string \<Rightarrow> pyval dict result" where
  "info_cmd is_file default_client env_client decode wf_file =
     rbind (if is_file wf_file then default_client else env_client) (dc_info decode)"

section \<open>Facts\<close>

text \<open>A value with an equals sign ends the command, and so does a parameter without one.\<close>

lemma param_arg_eq: "CHR ''='' \<notin> set k \<Longrightarrow> param_arg (k @ CHR ''='' # v) = (if CHR ''='' \<in> set v then Inl ValueError else Inr (k, v))"
proof -
  assume k: "CHR ''='' \<notin> set k"
  show ?thesis
  proof (cases "split_once CHR ''='' v")
    case None
    then show ?thesis using k by (simp add: param_arg_def py_simps)
  next
    case (Some ab)
    obtain a b where "v = a @ CHR ''='' # b" "CHR ''='' \<notin> set a" using Some by (cases ab) (simp add: py_simps)
    then show ?thesis using k split_on_not_Nil [of "CHR ''=''" b] by (cases "split_on CHR ''='' b") (auto simp: param_arg_def py_simps)
  qed
qed

text \<open>The result of an execution does not end the watching.\<close>

lemma watch_goes_on:
  "watch_events mem execid stats (es @ \<lparr>ev_data = d, ev_event = Some ''result'', ev_id = i\<rparr> # fs) = (Inr u, out) \<Longrightarrow>
     \<exists>pre post. out = pre @ [''[bold green]Finished execid: [/] [bold magenta]'' @ execid @ ''[/]''] @ post \<and>
       watch_events mem execid stats fs = (Inr (), post)"
proof (induction es arbitrary: out)
  case Nil
  then show ?case by (fastforce simp: watch_event_def Let_def split: prod.splits)
next
  case (Cons e es)
  then obtain ls out' where "watch_event mem execid stats e = Inr ls" "out = ls @ out'"
    "watch_events mem execid stats (es @ \<lparr>ev_data = d, ev_event = Some ''result'', ev_id = i\<rparr> # fs) = (Inr u, out')"
    by (auto simp: Let_def split: sum.splits prod.splits)
  then show ?case using Cons.IH [of out'] by (metis append.assoc)
qed

text \<open>The port of a registry is taken for the version.\<close>

lemma image_with_port:
  "create_instance_req c q ''host:5000/img:1.2'' pub = Inr r \<Longrightarrow>
     map_option (\<lambda>a. (da_docker_image a, da_docker_version a)) (cr_agent r) = Some (''host'', ''5000/img'')"
  by (auto simp: create_instance_req_def list_nth_def Let_def)

lemma image_without_tag: "CHR '':'' \<notin> set img \<Longrightarrow> create_instance_req c q img pub = Inl IndexError"
  by (simp add: create_instance_req_def list_nth_def py_simps)

section \<open>The properties\<close>

text \<open>\<open>wf delete\<close> forgets the workflow in the labfile whatever the server answers: the labfile that is
  written has every other workflow as it was, and not that one. It is written under the default
  name, so a labfile of another name keeps the deleted workflow.\<close>

lemma wf_delete_forgets:
  assumes run: "delete_cmd del wfid (Some f) (labs, st) = (Inr (), out, labs', st')"
    and s: "from_file (yaml_of labs) f = Inr s" and w: "find_by_id (Some wfid) s = Some w"
    and ok: "list_all (\<lambda>(_, w). entry_ok w) (ls_workflows s)"
    and keys: "\<forall>(k, w)\<in>set (ls_workflows s). k = wd_alias (we_data w)"
  shows "\<exists>code v s2. del wfid st = (Inr code, st') \<and> labs' = labs(LABFILE_NAME \<mapsto> v) \<and> lab_read v = Inr s2 \<and>
     map_of (ls_workflows s2) (wd_alias (we_data w)) = None \<and>
     (\<forall>k. k \<noteq> wd_alias (we_data w) \<longrightarrow>
        map_option we_data (map_of (ls_workflows s2) k) = map_option we_data (map_of (ls_workflows s) k)) \<and>
     (f \<noteq> LABFILE_NAME \<longrightarrow> state_of_file labs' (Some f) = Inr (Some s))"
proof -
  let ?a = "wd_alias (we_data w)"
  have state: "state_of_file labs (Some f) = Inr (Some s)" by (simp add: state_of_file_def s)
  have "w \<in> snd ` set (ls_workflows s)" using w by (auto simp: find_by_id_def find_Some_iff image_iff)
  then have "(?a, w) \<in> set (ls_workflows s)" using keys by auto
  then obtain w' where "map_of (ls_workflows s) ?a = Some w'" by (metis option.exhaust weak_map_of_SomeI)
  then have d: "forget_workflow wfid s = Inr (s\<lparr>ls_workflows := dict_del ?a (ls_workflows s)\<rparr>)"
    by (simp add: forget_workflow_def w delete_workflow_def dict_get_def)
  let ?s = "s\<lparr>ls_workflows := dict_del ?a (ls_workflows s)\<rparr>"
  obtain code v where del: "del wfid st = (Inr code, st')" and v: "lab_dict ?s = Inr v" and labs': "labs' = labs(LABFILE_NAME \<mapsto> v)"
    using run by (auto simp: delete_cmd_def need_state_def state d write_default_def lab_write_def rbind_Inr_iff split: sum.splits prod.splits)
  have sub: "set (dict_del ?a (ls_workflows s)) \<subseteq> set (ls_workflows s)" by (auto simp: dict_del_def AList.delete_eq)
  then have "list_all (\<lambda>(_, w). entry_ok w) (ls_workflows ?s)" using ok by (auto simp: list_all_iff)
  from lab_read_dump [OF v this] obtain s2 where s2: "lab_read v = Inr s2"
    "ls_workflows s2 = map (\<lambda>(k, w). (k, reread w)) (dict_del ?a (ls_workflows s))" by auto
  have m: "map_of (map (\<lambda>(k, w). (k, reread w)) d) k = map_option reread (map_of d k)" for d k
    by (induction d) auto
  have "map_option we_data (map_option reread x) = map_option we_data x" for x
    by (cases x) (auto simp: reread_def)
  then have "map_of (ls_workflows s2) ?a = None" "k \<noteq> ?a \<Longrightarrow>
      map_option we_data (map_of (ls_workflows s2) k) = map_option we_data (map_of (ls_workflows s) k)" for k
    by (simp_all add: s2(2) m)
  moreover have "f \<noteq> LABFILE_NAME \<Longrightarrow> state_of_file labs' (Some f) = Inr (Some s)"
    using s by (simp add: state_of_file_def labs' from_file_def yaml_of_def)
  ultimately show ?thesis using del labs' s2(1) by blast
qed

text \<open>The registry and the queue behind the endpoint that destroys.\<close>

definition fleet_server ::
  "(queue_call \<Rightarrow> string) \<Rightarrow> nanoid \<Rightarrow> 'p cluster_env \<Rightarrow> string \<Rightarrow> string \<Rightarrow> 'p cloud \<times> queue_call list \<Rightarrow>
   (int \<times> string option) result \<times> 'p cloud \<times> queue_call list" where
  "fleet_server jobid gen E cluster machine st =
     (case cluster_instance_destroy jobid gen (ce_loads E) cluster machine (cl_redis (fst st)) of
        Inl _ \<Rightarrow> (Inr (500, None), st)
      | Inr (rsp, calls) \<Rightarrow> (Inr rsp, (fst st, snd st @ calls)))"

text \<open>\<open>cluster destroy-instance\<close> without a cluster, which is its default, destroys nothing: the user reads
  that the task was sent, one task is queued, and that task fails because there is no cluster
  named \<open>None\<close>; the machine is still there, and the registry is as it was.\<close>

lemma destroy_without_cluster:
  assumes known: "get_instance (ce_loads E) machine (cl_redis w) = Inr (Some i)"
    and none: "map_of (cf_clusters (ce_file E)) ''None'' = None" and id: "\<And>c. jobid c \<noteq> []"
  shows "\<exists>req. destroy_instance_cmd (fleet_server jobid gen E) None machine (w, []) =
      (Inr (), [''Destroy task sent for instance '' @ machine @ '' with id [magenta]'' @
         jobid (enqueue_instance_destruction gen req) @ ''[/]''], w, [enqueue_instance_destruction gen req]) \<and>
     dq_machine_name req = machine \<and> destroy_instance_task E req w = (Inl (KeyError ''None''), w)"
proof (intro exI conjI)
  let ?req = "\<lparr>dq_cluster_name = ''None'', dq_machine_name = machine\<rparr>"
  have "jobid c = [] \<longleftrightarrow> False" for c using id by simp
  then show "destroy_instance_cmd (fleet_server jobid gen E) None machine (w, []) =
      (Inr (), [''Destroy task sent for instance '' @ machine @ '' with id [magenta]'' @
         jobid (enqueue_instance_destruction gen ?req) @ ''[/]''], w, [enqueue_instance_destruction gen ?req])"
    by (simp add: destroy_instance_cmd_def fleet_server_def cluster_instance_destroy_def known cluster_client_destroy_def Let_def)
  show "dq_machine_name ?req = machine" by simp
  show "destroy_instance_task E ?req w = (Inl (KeyError ''None''), w)"
    by (simp add: destroy_instance_task_def destroy_instance_def get_cluster_def dict_get_def none)
qed

definition known_lab :: Labfile.lab_state where
  "known_lab = demo_lab\<lparr>ls_workflows := [(''daily'', set_wfid (Some ''wf1'') demo_entry)], ls_file := None\<rparr>"

end
