(* ===== verification/Docker.thy ===== *)
theory Docker
  imports Contexts
begin

text \<open>
  \<open>commands.py\<close>: running a container, building, tagging and pushing an image. The Docker daemon
  is a library: \<open>docker_lib\<close> says what each call answers, given the calls made before it, and an
  operation returns its result with the calls it made, in order. \<open>'f\<close> is the content of a build
  directory.
\<close>

section \<open>The daemon\<close>

datatype docker_exc = ContainerError string | APIError string | OtherError py_error

record run_args =
  ra_image :: string
  ra_cmd :: string
  ra_runtime :: "string option"
  ra_env :: "string dict"
  ra_network :: string
  ra_ports :: pyval
  ra_mem_limit :: "int option"
  ra_mem_reservation :: "int option"

datatype 'f docker_call =
    RunContainer run_args
  | WaitContainer string int
  | KillContainer string
  | ReadLogs string
  | RemoveContainer string
  | BuildImage 'f string string bool
  | GetImage string
  | TagImage string string
  | PushImage string

type_synonym 'f docker_calls = "'f docker_call list"

text \<open>\<open>dl_wait\<close> answers the numbers of the dictionary that \<open>container.wait\<close> returns; \<open>dl_build\<close> the
  chunks of the build's output.\<close>

record 'f docker_lib =
  dl_run :: "'f docker_calls \<Rightarrow> run_args \<Rightarrow> docker_exc + string"
  dl_wait :: "'f docker_calls \<Rightarrow> string \<Rightarrow> docker_exc + int dict"
  dl_kill :: "'f docker_calls \<Rightarrow> string \<Rightarrow> docker_exc + unit"
  dl_logs :: "'f docker_calls \<Rightarrow> string \<Rightarrow> docker_exc + string"
  dl_remove :: "'f docker_calls \<Rightarrow> string \<Rightarrow> docker_exc + unit"
  dl_build :: "'f docker_calls \<Rightarrow> 'f \<Rightarrow> docker_exc + string list"
  dl_get :: "'f docker_calls \<Rightarrow> string \<Rightarrow> docker_exc + unit"
  dl_tag :: "'f docker_calls \<Rightarrow> string \<Rightarrow> docker_exc + unit"
  dl_push :: "'f docker_calls \<Rightarrow> string \<Rightarrow> docker_exc + string"

text \<open>Operations on the daemon: the result, and the calls so far.\<close>

type_synonym ('f, 'a) docker_op = "'f docker_lib \<Rightarrow> 'f docker_calls \<Rightarrow> (docker_exc + 'a) \<times> 'f docker_calls"

definition dk_ret :: "'a \<Rightarrow> ('f, 'a) docker_op" where
  "dk_ret x = (\<lambda>L h. (Inr x, h))"

definition dk_raise :: "docker_exc \<Rightarrow> ('f, 'a) docker_op" where
  "dk_raise e = (\<lambda>L h. (Inl e, h))"

definition dk_bind :: "('f, 'a) docker_op \<Rightarrow> ('a \<Rightarrow> ('f, 'b) docker_op) \<Rightarrow> ('f, 'b) docker_op" where
  "dk_bind m f = (\<lambda>L h. case m L h of (Inl e, h') \<Rightarrow> (Inl e, h') | (Inr x, h') \<Rightarrow> f x L h')"

definition dk_ask ::
  "('f docker_lib \<Rightarrow> 'f docker_calls \<Rightarrow> docker_exc + 'a) \<Rightarrow> 'f docker_call \<Rightarrow> ('f, 'a) docker_op" where
  "dk_ask answer c = (\<lambda>L h. (answer L h, h @ [c]))"

section \<open>Running a container\<close>

record docker_resources =
  dr_mem_limit :: "int option"
  dr_mem_reservation :: "int option"

record docker_run_result =
  dr_msg :: string
  dr_status :: int

text \<open>\<open>_wait_result\<close> swallows every exception.\<close>

definition wait_result :: "string \<Rightarrow> int \<Rightarrow> ('f, int dict option) docker_op" where
  "wait_result cid timeout =
     (\<lambda>L h. (case dl_wait L h cid of Inl e \<Rightarrow> Inr None | Inr r \<Rightarrow> Inr (Some r), h @ [WaitContainer cid timeout]))"

definition kill_container :: "string \<Rightarrow> ('f, unit) docker_op" where
  "kill_container cid = dk_ask (\<lambda>L h. dl_kill L h cid) (KillContainer cid)"

definition container_status :: "string \<Rightarrow> int dict option \<Rightarrow> ('f, int) docker_op" where
  "container_status cid result =
     (case result of
        None \<Rightarrow> dk_bind (kill_container cid) (\<lambda>_. dk_ret (- 1))
      | Some [] \<Rightarrow> dk_bind (kill_container cid) (\<lambda>_. dk_ret (- 1))
      | Some (x # d) \<Rightarrow>
          (case dict_get (x # d) ''StatusCode'' of
             Inl e \<Rightarrow> dk_raise (OtherError e) | Inr code \<Rightarrow> dk_ret code))"

definition run_container :: "run_args \<Rightarrow> int \<Rightarrow> bool \<Rightarrow> ('f, string \<times> int) docker_op" where
  "run_container args timeout remove =
     dk_bind (dk_ask (\<lambda>L h. dl_run L h args) (RunContainer args)) (\<lambda>cid.
     dk_bind (wait_result cid timeout) (\<lambda>result.
     dk_bind (container_status cid result) (\<lambda>status.
     dk_bind (dk_ask (\<lambda>L h. dl_logs L h cid) (ReadLogs cid)) (\<lambda>logs.
     dk_bind (if remove then dk_ask (\<lambda>L h. dl_remove L h cid) (RemoveContainer cid) else dk_ret ())
       (\<lambda>_. dk_ret (logs, status))))))"

text \<open>\<open>DockerCommand.run\<close>; the argument \<open>volumes\<close> is not passed on.\<close>

definition run_args_of ::
  "string \<Rightarrow> string \<Rightarrow> string dict \<Rightarrow> bool \<Rightarrow> string \<Rightarrow> pyval \<Rightarrow> docker_resources \<Rightarrow> run_args" where
  "run_args_of cmd img env_data require_gpu network_mode ports resources =
     \<lparr>ra_image = img, ra_cmd = cmd, ra_runtime = (if require_gpu then Some ''nvidia'' else None),
      ra_env = env_data, ra_network = network_mode, ra_ports = ports,
      ra_mem_limit = dr_mem_limit resources, ra_mem_reservation = dr_mem_reservation resources\<rparr>"

definition docker_run ::
  "string \<Rightarrow> string \<Rightarrow> int \<Rightarrow> string dict \<Rightarrow> bool \<Rightarrow> bool \<Rightarrow> string \<Rightarrow> pyval \<Rightarrow> docker_resources \<Rightarrow>
   ('f, docker_run_result) docker_op" where
  "docker_run cmd img timeout env_data remove require_gpu network_mode ports resources =
     (\<lambda>L h.
        case run_container (run_args_of cmd img env_data require_gpu network_mode ports resources) timeout remove L h of
          (Inr (logs, status), h') \<Rightarrow> (Inr \<lparr>dr_msg = logs, dr_status = status\<rparr>, h')
        | (Inl (ContainerError e), h') \<Rightarrow> (Inr \<lparr>dr_msg = e, dr_status = - 2\<rparr>, h')
        | (Inl (APIError e), h') \<Rightarrow> (Inr \<lparr>dr_msg = e, dr_status = - 3\<rparr>, h')
        | (Inl (OtherError e), h') \<Rightarrow> (Inl (OtherError e), h'))"

section \<open>Building an image\<close>

record docker_log =
  dl_logs_text :: string
  dl_error :: bool

record docker_build_log =
  db_build_log :: docker_log
  db_push_log :: "docker_log option"
  db_error :: bool

text \<open>\<open>k in x\<close> for a decoded JSON value; only dictionaries are then indexed without an error.\<close>

fun occurs :: "string \<Rightarrow> string \<Rightarrow> bool" where
  "occurs p [] = (p = [])"
| "occurs p (c # s) = (startswith p (c # s) \<or> occurs p s)"

fun json_in :: "string \<Rightarrow> pyval \<Rightarrow> bool result" where
  "json_in k (PDict d) = Inr (map_of d k \<noteq> None)"
| "json_in k (PList xs) = Inr (PStr k \<in> set xs)"
| "json_in k (PStr s) = Inr (occurs k s)"
| "json_in k _ = Inl TypeError"

fun json_str :: "pyval \<Rightarrow> string \<Rightarrow> string result" where
  "json_str (PDict d) k =
     (case map_of d k of None \<Rightarrow> Inl (KeyError k) | Some (PStr s) \<Rightarrow> Inr s | Some _ \<Rightarrow> Inl TypeError)"
| "json_str _ k = Inl TypeError"

text \<open>One chunk: the text it adds to the log, and whether it is an error. \<open>loads\<close> is \<open>json.loads\<close>,
  \<open>None\<close> its \<open>ValueError\<close>. The message about a chunk that does not parse is not an f-string.\<close>

definition build_chunk :: "(string \<Rightarrow> pyval option) \<Rightarrow> string \<Rightarrow> (string \<times> bool) result" where
  "build_chunk loads output =
     (case loads (strip_chars (\<lambda>c. of_char c \<in> {10, 13 :: nat}) output) of
        None \<Rightarrow> Inr (''Error parsing output from docker image build:{output}'' @ [char_of (10 :: nat)], True)
      | Some j \<Rightarrow>
          rbind (json_in ''stream'' j) (\<lambda>b.
            if b then rbind (json_str j ''stream'') (\<lambda>s. Inr (s, False))
            else rbind (json_in ''errorDetail'' j) (\<lambda>b.
              if b then rbind (json_str j ''error'') (\<lambda>s. Inr (s, True)) else Inr ([], False))))"

fun build_output :: "(string \<Rightarrow> pyval option) \<Rightarrow> string list \<Rightarrow> string \<Rightarrow> bool \<Rightarrow> docker_log result" where
  "build_output loads [] log_messages error =
     Inr \<lparr>dl_logs_text = log_messages @ ''Docker image build complete.'' @ [char_of (10 :: nat)], dl_error = error\<rparr>"
| "build_output loads (output # outputs) log_messages error =
     rbind (build_chunk loads output) (\<lambda>(s, e). build_output loads outputs (log_messages @ s) (error \<or> e))"

definition docker_low_build ::
  "(string \<Rightarrow> pyval option) \<Rightarrow> 'f \<Rightarrow> string \<Rightarrow> string \<Rightarrow> bool \<Rightarrow> ('f, docker_log) docker_op" where
  "docker_low_build loads path dockerfile tag rm =
     dk_bind (dk_ask (\<lambda>L h. dl_build L h path) (BuildImage path dockerfile tag rm)) (\<lambda>chunks.
       case build_output loads chunks [] False of Inl e \<Rightarrow> dk_raise (OtherError e) | Inr l \<Rightarrow> dk_ret l)"

definition push_image :: "string \<Rightarrow> ('f, docker_log) docker_op" where
  "push_image tag =
     (\<lambda>L h. case dl_push L h tag of
        Inr s \<Rightarrow> (Inr \<lparr>dl_logs_text = s, dl_error = False\<rparr>, h @ [PushImage tag])
      | Inl (APIError s) \<Rightarrow> (Inr \<lparr>dl_logs_text = s, dl_error = True\<rparr>, h @ [PushImage tag])
      | Inl e \<Rightarrow> (Inl e, h @ [PushImage tag]))"

definition docker_build ::
  "(string \<Rightarrow> pyval option) \<Rightarrow> 'f \<Rightarrow> string \<Rightarrow> string \<Rightarrow> string \<Rightarrow> bool \<Rightarrow> bool \<Rightarrow> ('f, docker_build_log) docker_op" where
  "docker_build loads path dockerfile tag version rm push =
     dk_bind (docker_low_build loads path dockerfile tag rm) (\<lambda>build_log.
     dk_bind (if dl_error build_log then dk_ret ()
              else dk_bind (dk_ask (\<lambda>L h. dl_get L h tag) (GetImage tag)) (\<lambda>_.
                     dk_ask (\<lambda>L h. dl_tag L h tag) (TagImage tag version))) (\<lambda>_.
     dk_bind (if push then dk_bind (push_image (tag @ CHR '':'' # version)) (\<lambda>l. dk_ret (Some l)) else dk_ret None)
       (\<lambda>push_log.
         let error_push = (case push_log of None \<Rightarrow> False | Some l \<Rightarrow> dl_error l)
         in dk_ret \<lparr>db_build_log = build_log, db_push_log = push_log,
                    db_error = (dl_error build_log \<or> error_push)\<rparr>)))"

section \<open>Lemmas\<close>

lemmas dk_defs = dk_bind_def dk_ret_def dk_raise_def dk_ask_def

text \<open>What a run does once the container is there: it is waited for, killed when it did not end in
  time, and its logs are read.\<close>

definition run_trace :: "string \<Rightarrow> int \<Rightarrow> bool \<Rightarrow> run_args \<Rightarrow> bool \<Rightarrow> 'f docker_calls" where
  "run_trace cid timeout remove args killed =
     [RunContainer args, WaitContainer cid timeout] @ (if killed then [KillContainer cid] else []) @
     [ReadLogs cid] @ (if remove then [RemoveContainer cid] else [])"

lemma build_output_error:
  "build_output loads outs s e = Inr l \<Longrightarrow>
     dl_error l \<longleftrightarrow> e \<or> (\<exists>c \<in> set outs. \<exists>t. build_chunk loads c = Inr (t, True))"
proof (induction outs arbitrary: s e)
  case (Cons c outs)
  then obtain t x where c: "build_chunk loads c = Inr (t, x)"
    and "build_output loads outs (s @ t) (e \<or> x) = Inr l"
    by (auto simp: rbind_Inr_iff)
  from Cons.IH [OF this(2)] show ?case by (auto simp: c)
qed auto


text \<open>A daemon whose containers answer \<open>exit\<close>, or never end, and whose builds answer \<open>chunks\<close>.\<close>

definition demo_docker :: "int option \<Rightarrow> string list \<Rightarrow> 'f docker_lib" where
  "demo_docker exit chunks =
     \<lparr>dl_run = (\<lambda>h a. Inr ''c1''),
      dl_wait = (\<lambda>h c. case exit of None \<Rightarrow> Inl (APIError ''timeout'') | Some n \<Rightarrow> Inr [(''StatusCode'', n)]),
      dl_kill = (\<lambda>h c. Inr ()), dl_logs = (\<lambda>h c. Inr ''log''), dl_remove = (\<lambda>h c. Inr ()),
      dl_build = (\<lambda>h p. Inr chunks), dl_get = (\<lambda>h t. Inr ()), dl_tag = (\<lambda>h t. Inr ()),
      dl_push = (\<lambda>h t. Inr ''pushed'')\<rparr>"

definition no_resources :: docker_resources where
  "no_resources = \<lparr>dr_mem_limit = None, dr_mem_reservation = None\<rparr>"


text \<open>A build answers an error exactly when a chunk of its output is an error or does not parse, or the
  push failed. The image gets its version tag only when it was built; but with \<open>push\<close> the tag
  \<open>name:version\<close> is pushed also when the build failed, so what is pushed then is an image that
  an earlier build left under that tag.\<close>

lemma docker_build_spec:
  fixes L :: "'f docker_lib"
  assumes "dl_build L [] dir = Inr chunks" and parse: "\<And>c. c \<in> set chunks \<Longrightarrow> is_ok (build_chunk loads c)"
    and daemon: "\<And>h t. dl_get L h t = Inr ()" "\<And>h t. dl_tag L h t = Inr ()"
    and push: "\<And>h t. dl_push L h t = (case push_err of None \<Rightarrow> Inr ''ok'' | Some e \<Rightarrow> Inl (APIError e))"
  defines "failed \<equiv> \<exists>c \<in> set chunks. \<exists>t. build_chunk loads c = Inr (t, True)"
  shows "\<exists>l. docker_build loads dir dockerfile tag version rm with_push L [] =
      (Inr \<lparr>db_build_log = l,
            db_push_log = (if with_push then Some \<lparr>dl_logs_text = (case push_err of None \<Rightarrow> ''ok'' | Some e \<Rightarrow> e),
                                                   dl_error = (push_err \<noteq> None)\<rparr> else None),
            db_error = (failed \<or> with_push \<and> push_err \<noteq> None)\<rparr>,
       BuildImage dir dockerfile tag rm # (if failed then [] else [GetImage tag, TagImage tag version]) @
       (if with_push then [PushImage (tag @ CHR '':'' # version)] else [])) \<and> dl_error l = failed"
proof -
  have "\<exists>l. build_output loads cs s e = Inr l" if "set cs \<subseteq> set chunks" for cs s e
    using that
  proof (induction cs arbitrary: s e)
    case (Cons c cs)
    then have "is_ok (build_chunk loads c)" by (simp add: parse)
    with Cons show ?case by (cases "build_chunk loads c") (auto split: prod.splits)
  qed simp
  then obtain l where l: "build_output loads chunks [] False = Inr l" by blast
  then have err: "dl_error l = failed" by (simp add: build_output_error failed_def)
  have low: "docker_low_build loads dir dockerfile tag rm L [] = (Inr l, [BuildImage dir dockerfile tag rm])"
    using assms(1) l by (simp add: docker_low_build_def dk_defs)
  show ?thesis
    by (cases failed; cases push_err; cases with_push)
      (simp_all add: docker_build_def dk_bind_def [of "docker_low_build loads dir dockerfile tag rm"] low err
        dk_defs push_image_def daemon push)
qed

definition demo_loads :: "string \<Rightarrow> pyval option" where
  "demo_loads s = (if s = ''bad'' then Some (PDict [(''errorDetail'', PNone), (''error'', PStr ''no space'')])
     else if s = ''{}'' then Some (PDict []) else None)"

end
