(* ===== verification/Executors.thy ===== *)
theory Executors
  imports Docker Control
begin

text \<open>
  What a worker does with a queued task: \<open>executors/nbtask_base.py\<close>, \<open>docker_exec.py\<close>,
  \<open>local_exec.py\<close>, the command \<open>lab exec local\<close> (\<open>cmd/executors.py\<close>), \<open>runtimes/builder.py\<close>, and the
  parts of the clients (\<open>client/history_client.py\<close>, \<open>client/projects_client.py\<close>) that they call.
  The server is the record \<open>exec_api\<close>, with its laws in a locale that the handlers of this
  development interpret; \<open>papermill\<close> and the zip format are arguments.
\<close>

section \<open>The server, as a worker sees it\<close>

record ('s, 'b) exec_api =
  api_history :: "exec_result \<Rightarrow> 's \<Rightarrow> int \<times> 's"
  api_output :: "bool \<Rightarrow> string \<Rightarrow> string \<Rightarrow> 'b list \<Rightarrow> 's \<Rightarrow> int \<times> 's"
  api_private_key :: "string \<Rightarrow> 's \<Rightarrow> response"
  api_agent_token :: "string \<Rightarrow> 's \<Rightarrow> response \<times> 's"
  api_runtime :: "string \<Rightarrow> runtime_req \<Rightarrow> 's \<Rightarrow> int \<times> 's"

definition history_register :: "('s, 'b) exec_api \<Rightarrow> exec_result \<Rightarrow> 's \<Rightarrow> bool \<times> 's" where
  "history_register A exec_result st = (let (code, st') = api_history A exec_result st in (code = 201, st'))"

text \<open>Relative paths are read from the working directory.\<close>

definition cwd_parts :: "string list \<Rightarrow> string \<Rightarrow> string list" where
  "cwd_parts cwd p = (if path_root p \<noteq> [] then path_parts p else cwd @ path_parts p)"

definition result_file :: "exec_result \<Rightarrow> string" where
  "result_file r =
     (if er_error r then fmt_opt (er_error_dir r) else fmt_opt (er_output_dir r)) @ CHR ''/'' # fmt_opt (er_output_name r)"

definition history_nb_output ::
  "('s, 'b) exec_api \<Rightarrow> string list \<Rightarrow> 'b file_sys \<Rightarrow> exec_result \<Rightarrow> 's \<Rightarrow> bool result \<times> 's" where
  "history_nb_output A cwd fs r st =
     (case read_file (cwd_parts cwd (result_file r)) fs of
        Inl e \<Rightarrow> (Inl e, st)
      | Inr body \<Rightarrow>
          (let (code, st') = api_output A (er_error r) (er_projectid r) (fmt_opt (er_output_name r)) body st
           in (Inr (code = 201), st')))"

definition projects_private_key :: "('s, 'b) exec_api \<Rightarrow> string \<Rightarrow> 's \<Rightarrow> string result" where
  "projects_private_key A projectid st =
     (let r = api_private_key A projectid st
      in if rsp_status r \<noteq> 200 then Inl PrivateKeyNotFound
         else (case rsp_body r of
                 PDict d \<Rightarrow>
                   (case map_of d ''private_key'' of
                      Some (PStr k) \<Rightarrow> if k \<noteq> [] then Inr k else Inl PrivateKeyNotFound
                    | _ \<Rightarrow> Inl PrivateKeyNotFound)
               | _ \<Rightarrow> Inl AttributeError))"

fun jwt_of :: "pyval \<Rightarrow> jwt_response result" where
  "jwt_of (PDict d) =
     (case (map_of d ''access_token'', map_of d ''refresh_token'') of
        (Some (PStr a), Some (PStr r)) \<Rightarrow> Inr \<lparr>access_token = a, refresh_token = Some r\<rparr>
      | (Some (PStr a), Some PNone) \<Rightarrow> Inr \<lparr>access_token = a, refresh_token = None\<rparr>
      | (Some (PStr a), None) \<Rightarrow> Inr \<lparr>access_token = a, refresh_token = None\<rparr>
      | _ \<Rightarrow> Inl ValidationError)"
| "jwt_of _ = Inl ValidationError"

fun agent_jwt_of :: "pyval \<Rightarrow> (string \<times> jwt_response) result" where
  "agent_jwt_of (PDict d) =
     (case (map_of d ''agent_name'', map_of d ''creds'') of
        (Some (PStr n), Some c) \<Rightarrow> rbind (jwt_of c) (\<lambda>j. Inr (n, j))
      | _ \<Rightarrow> Inl ValidationError)"
| "agent_jwt_of _ = Inl TypeError"

definition projects_agent_token ::
  "('s, 'b) exec_api \<Rightarrow> string \<Rightarrow> 's \<Rightarrow> (string \<times> jwt_response) option result \<times> 's" where
  "projects_agent_token A projectid st =
     (let (r, st') = api_agent_token A projectid st
      in (if rsp_status r = 200 then rbind (agent_jwt_of (rsp_body r)) (\<lambda>x. Inr (Some x)) else Inr None, st'))"

definition runtime_create :: "('s, 'b) exec_api \<Rightarrow> string \<Rightarrow> runtime_req \<Rightarrow> 's \<Rightarrow> unit result \<times> 's" where
  "runtime_create A projectid rq st =
     (let (code, st') = api_runtime A projectid rq st
      in (if code \<noteq> 201 \<and> code \<noteq> 200 then Inl RuntimeCreationError else Inr (), st'))"

section \<open>Registering a result\<close>

definition exec_register ::
  "('s, 'b) exec_api \<Rightarrow> string list \<Rightarrow> 'b file_sys \<Rightarrow> exec_result \<Rightarrow> 's \<Rightarrow> unit result \<times> 's" where
  "exec_register A cwd fs result st =
     (let (_, st1) = history_register A result st
      in if opt_truthy (er_output_name result)
         then (case history_nb_output A cwd fs result st1 of
                 (Inl FileNotFoundError, st2) \<Rightarrow> (Inr (), st2)
               | (Inl e, st2) \<Rightarrow> (Inl e, st2)
               | (Inr _, st2) \<Rightarrow> (Inr (), st2))
         else (Inr (), st1))"

section \<open>In the container\<close>

datatype pm_outcome = PmDone | PmExecutionError string | PmRaises py_error

type_synonym 'b papermill =
  "string \<Rightarrow> string list \<Rightarrow> pyval dict \<Rightarrow> 'b file_sys \<Rightarrow> pm_outcome \<times> 'b file_sys"

text \<open>\<open>shutil.move\<close>: into an existing directory under the name it has.\<close>

definition move_file :: "string list \<Rightarrow> string list \<Rightarrow> 'b file_sys \<Rightarrow> 'b file_sys result" where
  "move_file src dst fs =
     (let dst' = (if resolve_parts dst \<in> fs_dirs fs then dst @ [last src] else dst)
      in if dst' \<noteq> dst \<and> fs_files fs (resolve_parts dst') \<noteq> None then Inl ValueError
         else rbind (read_file src fs) (\<lambda>body. rbind (write_file dst' body fs) (\<lambda>fs'.
           Inr (if resolve_parts dst' = resolve_parts src then fs'
                else fs'\<lparr>fs_files := (fs_files fs')(resolve_parts src := None)\<rparr>))))"

definition local_error_handler :: "string list \<Rightarrow> exec_task \<Rightarrow> 'b file_sys \<Rightarrow> unit result \<times> 'b file_sys" where
  "local_error_handler cwd etask fs =
     (let error_output = et_error_dir etask @ CHR ''/'' # et_output_name etask
      in case mkdir_p (cwd_parts cwd (et_error_dir etask)) fs of
           Inl e \<Rightarrow> (Inl e, fs)
         | Inr fs1 \<Rightarrow>
             (case move_file (cwd_parts cwd (et_pm_output etask)) (cwd_parts cwd error_output) fs1 of
                Inl e \<Rightarrow> (Inl e, fs1) | Inr fs2 \<Rightarrow> (Inr (), fs2)))"

text \<open>The result a runner builds from its context.\<close>

definition result_of :: "exec_task \<Rightarrow> int \<Rightarrow> bool \<Rightarrow> string option \<Rightarrow> exec_result" where
  "result_of ctx elapsed_cs error error_msg =
     \<lparr>er_projectid = et_projectid ctx, er_execid = et_execid ctx, er_wfid = et_wfid ctx,
      er_name = et_nb_name ctx, er_params = et_params ctx, er_input = et_pm_input ctx, er_error = error,
      er_elapsed_cs = elapsed_cs, er_created_at = et_created_at ctx, er_cluster = Some (et_cluster ctx),
      er_machine = Some (et_machine ctx), er_runtime = Some (et_runtime ctx), er_docker_name = None,
      er_output_name = Some (et_output_name ctx), er_output_dir = Some (et_output_dir ctx),
      er_error_dir = Some (et_error_dir ctx), er_error_msg = error_msg\<rparr>"

definition nbtask_local_run ::
  "'b papermill \<Rightarrow> string list \<Rightarrow> int \<Rightarrow> exec_task \<Rightarrow> 'b file_sys \<Rightarrow> exec_result result \<times> 'b file_sys" where
  "nbtask_local_run pm cwd elapsed_cs ctx fs =
     (case mkdir_p (cwd_parts cwd (et_output_dir ctx)) fs of
        Inl e \<Rightarrow> (Inl e, fs)
      | Inr fs1 \<Rightarrow>
          (case pm (et_pm_input ctx) (cwd_parts cwd (et_pm_output ctx)) (et_params ctx) fs1 of
             (PmDone, fs2) \<Rightarrow> (Inr (result_of ctx elapsed_cs False None), fs2)
           | (PmRaises e, fs2) \<Rightarrow> (Inl e, fs2)
           | (PmExecutionError m, fs2) \<Rightarrow>
               (case local_error_handler cwd ctx fs2 of
                  (Inl e, fs3) \<Rightarrow> (Inl e, fs3)
                | (Inr _, fs3) \<Rightarrow> (Inr (result_of ctx elapsed_cs True (Some m)), fs3))))"

text \<open>\<open>env\<close> is the process environment; \<open>loads\<close> decodes and validates the task it holds.\<close>

definition local_exec_env ::
  "('s, 'b) exec_api \<Rightarrow> 'b papermill \<Rightarrow> (string \<Rightarrow> exec_task result) \<Rightarrow> string list \<Rightarrow> int \<Rightarrow> string dict \<Rightarrow>
   'b file_sys \<Rightarrow> 's \<Rightarrow> exec_result result \<times> 'b file_sys \<times> 's" where
  "local_exec_env A pm loads cwd elapsed_cs env fs st =
     (case map_of env ''LF_EXECUTION_TASK'' of
        None \<Rightarrow> (Inl TypeError, fs, st)
      | Some ctx_str \<Rightarrow>
          (case loads ctx_str of
             Inl e \<Rightarrow> (Inl e, fs, st)
           | Inr etask \<Rightarrow>
               (case nbtask_local_run pm cwd elapsed_cs etask fs of
                  (Inl e, fs1) \<Rightarrow> (Inl e, fs1, st)
                | (Inr result, fs1) \<Rightarrow>
                    if opt_truthy (map_of env ''LF_LOCAL'') then (Inr result, fs1, st)
                    else (case exec_register A cwd fs1 result st of
                            (Inl e, st1) \<Rightarrow> (Inl e, fs1, st1)
                          | (Inr _, st1) \<Rightarrow> (Inr result, fs1, st1)))))"

text \<open>\<open>lab exec local\<close> where the task is in the environment: its exit status, and the server
  after it. An exception ends the process with status 1, \<open>sys.exit(-1)\<close> with 255.\<close>

definition lab_exec_local ::
  "('s, 'b) exec_api \<Rightarrow> 'b papermill \<Rightarrow> (string \<Rightarrow> exec_task result) \<Rightarrow> string list \<Rightarrow> int \<Rightarrow> 'b file_sys \<Rightarrow>
   string dict \<Rightarrow> 's \<Rightarrow> int \<times> 's" where
  "lab_exec_local A pm loads cwd elapsed_cs fs env st =
     (case local_exec_env A pm loads cwd elapsed_cs env fs st of
        (Inl e, _, st') \<Rightarrow> (1, st')
      | (Inr rsp, _, st') \<Rightarrow> (if er_error rsp then 255 else 0, st'))"

section \<open>In the worker\<close>

definition docker_build_env ::
  "(exec_task \<Rightarrow> string) \<Rightarrow> string \<Rightarrow> ('s, 'b) exec_api \<Rightarrow> exec_task \<Rightarrow> 's \<Rightarrow> string dict result" where
  "docker_build_env dumps addr A ctx st =
     rbind (projects_private_key A (et_projectid ctx) st) (\<lambda>priv_key.
       if priv_key = [] then Inl IndexError
       else Inr [(''PRIVATE_KEY'', priv_key), (''LF_EXECUTION_TASK'', dumps ctx),
                 (''LF_WORKFLOW_SERVICE'', addr), (''LF_BASE_PATH'', ''/app'')])"

definition container_started :: "'f docker_calls \<Rightarrow> bool" where
  "container_started calls = list_ex (\<lambda>c. case c of WaitContainer _ _ \<Rightarrow> True | _ \<Rightarrow> False) calls"

text \<open>\<open>NBTaskDocker.run\<close>. \<open>inside\<close> is what the program in the container does to the server when a
  container starts. \<open>require_gpu\<close> is given the whole context, an object that is always true.\<close>

definition nbtask_docker_run ::
  "(exec_task \<Rightarrow> string) \<Rightarrow> string \<Rightarrow> int \<Rightarrow> ('s, 'b) exec_api \<Rightarrow> (string dict \<Rightarrow> 's \<Rightarrow> 's) \<Rightarrow> 'f docker_lib \<Rightarrow>
   exec_task \<Rightarrow> 's \<Rightarrow> (docker_exc + exec_result) \<times> 'f docker_calls \<times> 's" where
  "nbtask_docker_run dumps addr elapsed_cs A inside L ctx st =
     (case docker_build_env dumps addr A ctx st of
        Inl e \<Rightarrow> (Inl (OtherError e), [], st)
      | Inr env \<Rightarrow>
          (case projects_agent_token A (et_projectid ctx) st of
             (Inl e, st1) \<Rightarrow> (Inl (OtherError e), [], st1)
           | (Inr None, st1) \<Rightarrow> (Inl (OtherError AttributeError), [], st1)
           | (Inr (Some (_, creds)), st1) \<Rightarrow>
               (let env = dict_set ''LF_AGENT_REFRESH_TOKEN'' (fmt_opt (refresh_token creds))
                            (dict_set ''LF_AGENT_TOKEN'' (access_token creds) env);
                    (r, calls) = docker_run ''lab exec local'' (et_runtime ctx) (et_timeout ctx) env True True
                                   ''bridge'' PNone no_resources L [];
                    st2 = (if container_started calls then inside env st1 else st1)
                in case r of
                     Inl e \<Rightarrow> (Inl e, calls, st2)
                   | Inr result \<Rightarrow>
                       (Inr (result_of ctx elapsed_cs (dr_status result \<noteq> 0) (Some (dr_msg result))), calls, st2))))"

definition docker_exec ::
  "(exec_task \<Rightarrow> string) \<Rightarrow> string \<Rightarrow> int \<Rightarrow> ('s, 'b) exec_api \<Rightarrow> (string dict \<Rightarrow> 's \<Rightarrow> 's) \<Rightarrow> 'f docker_lib \<Rightarrow> bool \<Rightarrow>
   string list \<Rightarrow> 'b file_sys \<Rightarrow> exec_task \<Rightarrow> 's \<Rightarrow> (docker_exc + exec_result) \<times> 'f docker_calls \<times> 's" where
  "docker_exec dumps addr elapsed_cs A inside L debug cwd fs ctx st =
     (case nbtask_docker_run dumps addr elapsed_cs A inside L ctx st of
        (Inl e, calls, st1) \<Rightarrow> (Inl e, calls, st1)
      | (Inr result, calls, st1) \<Rightarrow>
          if er_error result \<and> \<not> debug
          then (case exec_register A cwd fs result st1 of
                  (Inl e, st2) \<Rightarrow> (Inl (OtherError e), calls, st2)
                | (Inr _, st2) \<Rightarrow> (Inr result, calls, st2))
          else (Inr result, calls, st1))"

section \<open>Building a runtime\<close>

text \<open>\<open>BuildTask.run\<close>: \<open>unzip\<close> is the content of the temporary directory once the bundle is extracted;
  what Docker gets is the directory \<open>src\<close> in it.\<close>

definition build_task_run ::
  "('k, 'b) kv_ops \<Rightarrow> ('b list \<Rightarrow> 'f result) \<Rightarrow> (string \<Rightarrow> pyval option) \<Rightarrow> 'f docker_lib \<Rightarrow> build_ctx \<Rightarrow> 'k \<Rightarrow>
   (docker_exc + docker_build_log) \<times> 'f docker_calls" where
  "build_task_run kv unzip loads L ctx k =
     (case rbind (kv_get_stream kv (bx_download_zip ctx) k) (\<lambda>chunks. unzip (concat chunks)) of
        Inl e \<Rightarrow> (Inl (OtherError e), [])
      | Inr dir \<Rightarrow>
          (let push = opt_truthy (bx_registry ctx);
               docker_tag = (if push then the (bx_registry ctx) @ CHR ''/'' # bx_docker_name ctx else bx_docker_name ctx)
           in docker_build loads dir (bx_dockerfile ctx) docker_tag (bx_version ctx) False push L []))"

definition build_register :: "('s, 'b) exec_api \<Rightarrow> build_ctx \<Rightarrow> 's \<Rightarrow> unit result \<times> 's" where
  "build_register A ctx st =
     runtime_create A (bx_projectid ctx)
       \<lparr>rq_runtime_name = rs_name (bx_spec ctx), rq_docker_name = bx_docker_name ctx, rq_spec = bx_spec ctx,
        rq_project_id = bx_projectid ctx, rq_version = bx_version ctx, rq_registry = bx_registry ctx\<rparr> st"

definition builder_exec ::
  "('s, 'b) exec_api \<Rightarrow> ('k, 'b) kv_ops \<Rightarrow> ('b list \<Rightarrow> 'f result) \<Rightarrow> (string \<Rightarrow> pyval option) \<Rightarrow> 'f docker_lib \<Rightarrow> bool \<Rightarrow>
   build_ctx \<Rightarrow> 'k \<Rightarrow> 's \<Rightarrow> (docker_exc + docker_build_log) \<times> 'f docker_calls \<times> 's" where
  "builder_exec A kv unzip loads L run_local ctx k st =
     (case build_task_run kv unzip loads L ctx k of
        (Inl e, calls) \<Rightarrow> (Inl e, calls, st)
      | (Inr rsp, calls) \<Rightarrow>
          if run_local then (Inr rsp, calls, st)
          else (case build_register A ctx st of
                  (Inl e, st1) \<Rightarrow> (Inl (OtherError e), calls, st1)
                | (Inr _, st1) \<Rightarrow> (Inr rsp, calls, st1)))"

section \<open>The contract of the server\<close>

text \<open>What a worker may rely on: an execution of a known project is registered once per call, and no
  other call of a worker changes the registered executions or the known projects.\<close>

locale history_api =
  fixes A :: "('s, 'b) exec_api" and executions :: "'s \<Rightarrow> exec_result list" and known :: "string \<Rightarrow> 's \<Rightarrow> bool"
  assumes history: "known (er_projectid r) s \<Longrightarrow>
        fst (api_history A r s) = 201 \<and> executions (snd (api_history A r s)) = executions s @ [r]"
    and history_unknown: "\<not> known (er_projectid r) s \<Longrightarrow> executions (snd (api_history A r s)) = executions s"
    and history_known: "known p (snd (api_history A r s)) = known p s"
    and stored: "executions (snd (api_output A e p n b s)) = executions s"
    and stored_known: "known q (snd (api_output A e p n b s)) = known q s"
    and token: "executions (snd (api_agent_token A p s)) = executions s"
    and token_known: "known q (snd (api_agent_token A p s)) = known q s"
begin

text \<open>The upload of the notebook fails for a missing file only, which the runner catches.\<close>

lemma exec_register:
  "exec_register A cwd fs r st = (Inr (), snd (exec_register A cwd fs r st)) \<and>
   executions (snd (exec_register A cwd fs r st)) =
     executions st @ (if known (er_projectid r) st then [r] else []) \<and>
   known p (snd (exec_register A cwd fs r st)) = known p st"
proof -
  let ?h = "snd (api_history A r st)"
  have up: "history_nb_output A cwd fs r ?h = (Inl FileNotFoundError, ?h) \<or>
      (\<exists>b body n. history_nb_output A cwd fs r ?h =
         (Inr b, snd (api_output A (er_error r) (er_projectid r) n body ?h)))"
    by (auto simp: history_nb_output_def read_file_def Let_def prod.case_eq_if split: option.splits)
  have "executions ?h = executions st @ (if known (er_projectid r) st then [r] else [])"
    using history history_unknown by auto
  moreover have "exec_register A cwd fs r st = (Inr (), ?h) \<or>
      (\<exists>n body. exec_register A cwd fs r st =
         (Inr (), snd (api_output A (er_error r) (er_projectid r) n body ?h)))"
    using up by (auto simp: exec_register_def history_register_def Let_def prod.case_eq_if) blast
  ultimately show ?thesis
    using stored [of "er_error r" "er_projectid r" _ _ ?h] stored_known [of p "er_error r" "er_projectid r" _ _ ?h]
      history_known [of p r st] by auto
qed

text \<open>\<open>lab exec local\<close> on a notebook that ran, well or not.\<close>

lemma lab_exec_local:
  assumes "map_of env ''LF_EXECUTION_TASK'' = Some t" and "loads t = Inr ctx" and "map_of env ''LF_LOCAL'' = None"
    and "nbtask_local_run pm cwd el ctx fs = (Inr r, fs1)"
  shows "fst (lab_exec_local A pm loads cwd el fs env st) = (if er_error r then 255 else 0) \<and>
    executions (snd (lab_exec_local A pm loads cwd el fs env st)) =
      executions st @ (if known (er_projectid r) st then [r] else []) \<and>
    known p (snd (lab_exec_local A pm loads cwd el fs env st)) = known p st"
proof -
  obtain s where s: "exec_register A cwd fs1 r st = (Inr (), s)"
    using exec_register by blast
  then have "executions s = executions st @ (if known (er_projectid r) st then [r] else [])" "known p s = known p st"
    using exec_register [of cwd fs1 r st p] by auto
  then show ?thesis
    using assms s by (simp add: lab_exec_local_def local_exec_env_def)
qed

lemma token_answer:
  assumes "api_agent_token A p st = (rsp, st1)"
  shows "executions st1 = executions st \<and> known q st1 = known q st"
  using token [of p st] token_known [of q p st] assms by simp

end

section \<open>The server of this development\<close>

record ('k, 't) lab_state =
  lb_db :: db
  lb_kv :: 'k
  lb_tokens :: 't

definition answer_code :: "(int \<times> 'a) result \<Rightarrow> int" where
  "answer_code r = (case r of Inl e \<Rightarrow> 500 | Inr (c, _) \<Rightarrow> c)"

definition lab_api ::
  "('k, 'b) kv_ops \<Rightarrow> jwt_lib \<Rightarrow> jwt_config \<Rightarrow> 't token_store \<Rightarrow> int \<Rightarrow> string \<Rightarrow> int \<Rightarrow> nat \<Rightarrow> string \<Rightarrow>
   (('k, 't) lab_state, 'b) exec_api" where
  "lab_api kv J conf T clock drawn token_exp now today =
     \<lparr>api_history = (\<lambda>r s. let (a, db', _) = history_create (\<lambda>_. Inr r) now PNone (lb_db s)
                           in (answer_code a, s\<lparr>lb_db := db'\<rparr>)),
      api_output = (\<lambda>err pid name body s.
         let (a, k) = (if err then history_output_fail kv today pid name body (lb_kv s)
                       else history_output_ok kv today pid name body (lb_kv s))
         in (answer_code a, s\<lparr>lb_kv := k\<rparr>)),
      api_private_key = (\<lambda>pid s. project_private_key pid (lb_db s)),
      api_agent_token = (\<lambda>pid s.
         let (a, t) = project_get_last_agent_token J conf T clock drawn token_exp pid (lb_db s) (lb_tokens s)
         in (respond a, s\<lparr>lb_tokens := t\<rparr>)),
      api_runtime = (\<lambda>pid rq s. let (a, db', _) = runtimes_create (\<lambda>_. Inr rq) now PNone (lb_db s)
                                in (answer_code a, s\<lparr>lb_db := db'\<rparr>))\<rparr>"

definition lab_executions :: "('k, 't) lab_state \<Rightarrow> exec_result list" where
  "lab_executions s = map hs_result (db_history (lb_db s))"

definition lab_known :: "string \<Rightarrow> ('k, 't) lab_state \<Rightarrow> bool" where
  "lab_known pid s \<longleftrightarrow> pid \<in> projectids (lb_db s)"

interpretation lab: history_api "lab_api kv J conf T clock drawn token_exp now today" lab_executions lab_known
  by unfold_locales
    (auto simp: lab_api_def lab_executions_def lab_known_def history_create_def hs_create_def insert_history_def
      answer_code_def projectids_def Let_def prod.case_eq_if split: sum.splits)

lemma jwt_of_dict [simp]: "jwt_of (jwt_response_dict j) = Inr j"
  by (cases "refresh_token j") (auto simp: jwt_response_dict_def)

lemma agent_jwt_of_response [simp]: "agent_jwt_of (agent_jwt_response n j) = Inr (n, j)"
  by (simp add: agent_jwt_response_def)

lemma local_run_result:
  "nbtask_local_run pm cwd el ctx fs = (Inr r, fs1) \<Longrightarrow> \<exists>e m. r = result_of ctx el e m"
  by (auto simp: nbtask_local_run_def split: sum.splits prod.splits pm_outcome.splits)

lemma result_of_simps [simp]:
  "er_projectid (result_of ctx el e m) = et_projectid ctx" "er_execid (result_of ctx el e m) = et_execid ctx"
  "er_error (result_of ctx el e m) = e" "er_output_name (result_of ctx el e m) = Some (et_output_name ctx)"
  "er_output_dir (result_of ctx el e m) = Some (et_output_dir ctx)"
  by (simp_all add: result_of_def)

text \<open>With its key and an agent in the database, a worker gets the environment of the container.\<close>

lemma lab_credentials:
  assumes "A = lab_api kv J conf T clock drawn token_exp now today"
    and "get_private_key pid (lb_db st) = Some key" and "key \<noteq> []" and "get_agent_project pid (lb_db st) = Some agt"
  shows "projects_private_key A pid st = Inr key \<and>
    (\<exists>jwt t. projects_agent_token A pid st = (Inr (Some (us_username agt, jwt)), st\<lparr>lb_tokens := t\<rparr>))"
  using assms
  by (auto simp: lab_api_def projects_private_key_def project_private_key_def projects_agent_token_def
      project_get_last_agent_token_def json_def Let_def prod.case_eq_if)

text \<open>A container that starts and ends with \<open>code\<close>.\<close>

lemma docker_run_exits:
  assumes "\<And>h a. dl_run L h a = Inr cid" and "\<And>h c. dl_logs L h c = Inr out" and "\<And>h c. dl_remove L h c = Inr ()"
    and "\<And>h c. dl_wait L h c = Inr [(''StatusCode'', code)]"
  shows "docker_run cmd img timeout env True gpu net ports res L [] =
    (Inr \<lparr>dr_msg = out, dr_status = code\<rparr>,
     run_trace cid timeout True (run_args_of cmd img env gpu net ports res) False)"
  by (simp add: docker_run_def run_container_def dk_defs wait_result_def container_status_def run_trace_def
      dict_get_def assms)

lemma container_started_trace [simp]: "container_started (run_trace cid t rm a k)"
  by (simp add: run_trace_def container_started_def)

text \<open>C18. An execution whose notebook fails is registered twice. The command in the container registers the
  failed result and exits with a status that is not 0; the worker that waits for the container
  takes the status for a failure and registers its own result for the same execution id. An
  execution that succeeds is registered once, by the container. Every container asks for the
  \<open>nvidia\<close> runtime, whether or not the task has GPU support.\<close>

theorem failed_run_registered_twice:
  assumes api: "A = lab_api kv J conf T clock drawn texp now today" "A' = lab_api kv J conf T clock' drawn' texp now' today'"
    and pid: "et_projectid ctx \<in> projectids (lb_db st)"
    and key: "get_private_key (et_projectid ctx) (lb_db st) = Some key" "key \<noteq> []"
    and agt: "get_agent_project (et_projectid ctx) (lb_db st) = Some agt"
    and codec: "loads (dumps ctx) = Inr ctx"
    and run: "nbtask_local_run pm cwd el ctx fs = (Inr r, fs1)"
    and inside: "inside = (\<lambda>env s. snd (lab_exec_local A' pm loads cwd el fs env s))"
    and daemon: "\<And>h a. dl_run L h a = Inr cid" "\<And>h c. dl_logs L h c = Inr out" "\<And>h c. dl_remove L h c = Inr ()"
      "\<And>h c. dl_wait L h c = Inr [(''StatusCode'', code)]"
    and exit: "\<And>env s. map_of env ''LF_EXECUTION_TASK'' = Some (dumps ctx) \<Longrightarrow> map_of env ''LF_LOCAL'' = None \<Longrightarrow>
      code = fst (lab_exec_local A' pm loads cwd el fs env s)"
  shows "\<exists>w calls st'. docker_exec dumps addr el' A inside L False cwd' fs' ctx st = (Inr w, calls, st') \<and>
     er_execid w = er_execid r \<and> er_error w = er_error r \<and>
     (\<exists>a. hd calls = RunContainer a \<and> ra_runtime a = Some ''nvidia'') \<and>
     lab_executions st' = lab_executions st @ (if er_error r then [r, w] else [r])"
proof -
  obtain jwt t where k: "projects_private_key A (et_projectid ctx) st = Inr key"
    and tok: "projects_agent_token A (et_projectid ctx) st = (Inr (Some (us_username agt, jwt)), st\<lparr>lb_tokens := t\<rparr>)"
    using lab_credentials [OF api(1) key agt] by blast
  obtain env0 where env0: "docker_build_env dumps addr A ctx st = Inr env0"
    and e0: "map_of env0 ''LF_EXECUTION_TASK'' = Some (dumps ctx)" "map_of env0 ''LF_LOCAL'' = None"
    using k key(2) by (simp add: docker_build_env_def)
  define env where "env = dict_set ''LF_AGENT_REFRESH_TOKEN'' (fmt_opt (refresh_token jwt))
      (dict_set ''LF_AGENT_TOKEN'' (access_token jwt) env0)"
  have env: "map_of env ''LF_EXECUTION_TASK'' = Some (dumps ctx)" "map_of env ''LF_LOCAL'' = None"
    using e0 by (simp_all add: env_def)
  let ?st1 = "st\<lparr>lb_tokens := t\<rparr>"
  let ?st2 = "inside env ?st1"
  obtain e m where r: "r = result_of ctx el e m" using local_run_result [OF run] by blast
  have known1: "lab_known (et_projectid ctx) ?st1" using pid by (simp add: lab_known_def)
  let ?in = "lab_exec_local A' pm loads cwd el fs env ?st1"
  have inner: "fst ?in = (if er_error r then 255 else 0) \<and>
      lab_executions (snd ?in) = lab_executions ?st1 @ (if lab_known (er_projectid r) ?st1 then [r] else []) \<and>
      lab_known (et_projectid ctx) (snd ?in) = lab_known (et_projectid ctx) ?st1"
    unfolding api(2) by (rule lab.lab_exec_local [where loads = loads, OF env(1) codec env(2) run])
  have ex2: "lab_executions ?st2 = lab_executions st @ [r]"
    using inner known1 by (simp add: inside r lab_executions_def)
  have known2: "lab_known (et_projectid ctx) ?st2"
    using inner known1 by (simp add: inside)
  have code: "code = (if e then 255 else 0)"
    using exit [OF env, of ?st1] inner by (simp add: r)
  define w where "w = result_of ctx el' e (Some out)"
  let ?calls = "run_trace cid (et_timeout ctx) True (run_args_of ''lab exec local'' (et_runtime ctx) env True ''bridge'' PNone no_resources) False"
  have nb: "nbtask_docker_run dumps addr el' A inside L ctx st = (Inr w, ?calls, ?st2)"
    using docker_run_exits [OF daemon] env0 tok
    by (simp add: nbtask_docker_run_def env_def [symmetric] w_def code)
  have hd: "\<exists>a. hd ?calls = RunContainer a \<and> ra_runtime a = Some ''nvidia''"
    by (simp add: run_trace_def run_args_of_def)
  show ?thesis
  proof (cases e)
    case False
    then have "docker_exec dumps addr el' A inside L False cwd' fs' ctx st = (Inr w, ?calls, ?st2)"
      using nb by (simp add: docker_exec_def w_def)
    then show ?thesis using hd ex2 False by (auto simp: r w_def)
  next
    case True
    obtain st3 where st3: "exec_register A cwd' fs' w ?st2 = (Inr (), st3)"
      using lab.exec_register api(1) by blast
    have "lab_executions st3 = lab_executions ?st2 @ [w]"
      using lab.exec_register [of kv J conf T clock drawn texp now today cwd' fs' w ?st2, folded api(1)] known2 st3
      by (simp add: w_def)
    moreover have "docker_exec dumps addr el' A inside L False cwd' fs' ctx st = (Inr w, ?calls, st3)"
      using nb True st3 by (simp add: docker_exec_def w_def)
    ultimately show ?thesis using hd ex2 True by (auto simp: r w_def)
  qed
qed

definition demo_agent :: user_row where
  "demo_agent = demo_user\<lparr>us_id := 8, us_username := ''agtpid-1'', us_is_agent := True\<rparr>"

definition worker_db :: db where
  "worker_db = admin_db\<lparr>db_users := db_users admin_db @ [demo_agent], db_members := [(''pid'', 8)]\<rparr>"

definition demo_ctx :: exec_task where
  "demo_ctx = nb_create_ctx (\<lambda>_. []) ''0.9.0'' demo_nanoid demo_nanoid ''20230101'' ''now'' ''pid'' (NBTask ''nb'' [])
     (Some ''ex1'') None (Some ''wf1'')"

text \<open>A notebook that writes its output and then fails.\<close>

definition failing_pm :: "char papermill" where
  "failing_pm i out ps fs = (PmExecutionError ''boom'', case write_file out ''nb'' fs of Inl _ \<Rightarrow> fs | Inr fs' \<Rightarrow> fs')"

lemma demo_ctx_fields:
  "et_output_dir demo_ctx = ''outputs/ok/20230101''" "et_error_dir demo_ctx = ''outputs/errors/20230101''"
  "et_output_name demo_ctx = ''wf1.nb.ex1.ipynb''" "et_pm_output demo_ctx = ''outputs/ok/20230101/wf1.nb.ex1.ipynb''"
  "et_projectid demo_ctx = ''pid''" "et_execid demo_ctx = ''ex1''"
  by (simp_all add: demo_ctx_def nb_create_ctx_def NBTask_def NB_OUTPUTS_def Let_def)

lemma demo_run:
  "\<exists>fs1. nbtask_local_run failing_pm [] 5 demo_ctx root_fs = (Inr (result_of demo_ctx 5 True (Some ''boom'')), fs1)"
proof -
  have p: "cwd_parts [] ''outputs/ok/20230101'' = [''outputs'', ''ok'', ''20230101'']"
    "cwd_parts [] ''outputs/errors/20230101'' = [''outputs'', ''errors'', ''20230101'']"
    "cwd_parts [] ''outputs/ok/20230101/wf1.nb.ex1.ipynb'' = [''outputs'', ''ok'', ''20230101'', ''wf1.nb.ex1.ipynb'']"
    "cwd_parts [] ''outputs/errors/20230101/wf1.nb.ex1.ipynb'' = [''outputs'', ''errors'', ''20230101'', ''wf1.nb.ex1.ipynb'']"
    by (simp_all add: cwd_parts_def path_root_def path_parts_def)
  show ?thesis
    by (simp add: nbtask_local_run_def demo_ctx_fields p mkdir_p_def through_def resolve_parts_def root_fs_def
        failing_pm_def write_file_def walks_def local_error_handler_def move_file_def read_file_def Let_def)
qed

definition worker_state :: "(char file_sys, string dict) lab_state" where
  "worker_state = \<lparr>lb_db = worker_db, lb_kv = root_fs, lb_tokens = []\<rparr>"

definition worker_api :: "nat \<Rightarrow> ((char file_sys, string dict) lab_state, char) exec_api" where
  "worker_api now = lab_api (akv_local ''/tmp'' ''lab'') (fixed_jwt []) demo_conf (redis_token_store True ''rtkn'') 0 ''dd'' 60
     now ''20230101''"

theorem failed_run_registered_twice_witness:
  "\<exists>w calls st'. docker_exec (\<lambda>_. ''task'') ''http://lab'' 7 (worker_api 9)
       (\<lambda>env s. snd (lab_exec_local (worker_api 8) failing_pm (\<lambda>_. Inr demo_ctx) [] 5 root_fs env s))
       (demo_docker (Some 255) [] :: string docker_lib) False [] root_fs demo_ctx worker_state = (Inr w, calls, st') \<and>
     er_execid w = ''ex1'' \<and> er_error w \<and>
     (\<exists>a. hd calls = RunContainer a \<and> ra_runtime a = Some ''nvidia'') \<and>
     lab_executions st' = [result_of demo_ctx 5 True (Some ''boom''), w]"
proof -
  let ?L = "demo_docker (Some 255) [] :: string docker_lib"
  let ?r = "result_of demo_ctx 5 True (Some ''boom'')"
  obtain fs1 where run: "nbtask_local_run failing_pm [] 5 demo_ctx root_fs = (Inr ?r, fs1)"
    using demo_run by blast
  have code: "255 = fst (lab_exec_local (worker_api 8) failing_pm (\<lambda>_. Inr demo_ctx) [] 5 root_fs env s)"
    if "map_of env ''LF_EXECUTION_TASK'' = Some ''task''" "map_of env ''LF_LOCAL'' = None" for env s
    using lab.lab_exec_local [where loads = "\<lambda>_. Inr demo_ctx", OF that(1) refl that(2) run,
        of "akv_local ''/tmp'' ''lab''" "fixed_jwt []" demo_conf "redis_token_store True ''rtkn''" 0 "''dd''" 60 8
           "''20230101''" s]
    by (simp add: worker_api_def)
  have db: "et_projectid demo_ctx \<in> projectids (lb_db worker_state)"
    "get_private_key (et_projectid demo_ctx) (lb_db worker_state) = Some ''k''"
    "get_agent_project (et_projectid demo_ctx) (lb_db worker_state) = Some demo_agent"
    by (simp_all add: demo_ctx_fields worker_state_def worker_db_def admin_db_def empty_db_def projectids_def
        demo_project_def get_private_key_def get_by_projectid_model_def first_row_def get_agent_project_def
        agents_of_def demo_agent_def demo_admin_def demo_user_def)
  have k: "''k'' \<noteq> ([] :: string)" by simp
  have h: "lab_executions worker_state = []"
    by (simp add: lab_executions_def worker_state_def worker_db_def admin_db_def empty_db_def)
  have d: "\<And>h a. dl_run ?L h a = Inr ''c1''" "\<And>h c. dl_logs ?L h c = Inr ''log''" "\<And>h c. dl_remove ?L h c = Inr ()"
    "\<And>h c. dl_wait ?L h c = Inr [(''StatusCode'', 255)]"
    by (simp_all add: demo_docker_def)
  show ?thesis
    using failed_run_registered_twice [where dumps = "\<lambda>_. ''task''" and addr = "''http://lab''" and el' = 7 and
        cwd' = "[]" and fs' = root_fs and loads = "\<lambda>_. Inr demo_ctx",
        OF worker_api_def worker_api_def db(1,2) k db(3) refl run refl d code]
    unfolding h demo_ctx_fields result_of_simps append_Nil if_True by auto
qed

end
