(* ===== verification/Pipelines.thy ===== *)
theory Pipelines
  imports Executors
begin

text \<open>
  Properties that span components: what happens to an uploaded bundle between the server and the
  worker that builds it, to a build that fails, and to the notebook of an execution between the
  worker that uploads it and the client that downloads it.
\<close>

section \<open>Outputs\<close>

lemma kvl_put_files:
  assumes "kvl_put root bucket k d fs = (Inr u, fs')"
  shows "fs_files fs' = (fs_files fs)(file_of (kv_uri root bucket k) \<mapsto> d)"
  using assms by (auto simp: kvl_put_def Let_def write_file_def mkdir_p_def file_of_def split: sum.splits if_splits)

lemma read_missing: "fs_files fs (resolve_parts ws) = None \<Longrightarrow> read_file ws fs = Inl FileNotFoundError"
  by (simp add: read_file_def)

lemma output_key_plain:
  assumes "plain_part pid" and "plain_part dir" and "plain_part day" and "plain_part name"
  shows "output_key dir day pid name = pid @ ''/outputs/'' @ dir @ CHR ''/'' # day @ CHR ''/'' # name"
proof -
  have "plain_part ''outputs''" by (simp add: plain_part_def)
  then show ?thesis
    using assms by (simp add: output_key_def NB_OUTPUTS_def path_join_def path_str_def)
qed

lemma file_of_plain:
  assumes "\<And>w. w \<in> set ws \<Longrightarrow> plain_part w" and "ws \<noteq> []"
  shows "file_of (kv_uri root bucket (join ''/'' ws)) = resolve_parts (path_parts root @ path_parts bucket) @ ws"
proof -
  have "split_on CHR ''/'' (join ''/'' ws) = ws"
    using assms by (intro split_on_join) (auto simp: plain_part_def)
  then have "path_parts (join ''/'' ws) = ws"
    using assms(1) by (auto simp: path_parts_def plain_part_def intro!: filter_True)
  moreover have "resolve_acc d ws = rev d @ ws" for d
    using assms(1) by (intro resolve_acc_plain) (auto simp: plain_part_def)
  ultimately show ?thesis
    by (simp add: file_of_def kv_uri_def path_parts_slash resolve_parts_def resolve_acc_append flip: append_assoc)
qed

text \<open>The notebook of an execution is stored under the day of its upload, while its result records
  the day of its context. A client that asks for the recorded file gets the notebook when the
  two days are the same, and otherwise an error unless something else was stored there.\<close>

lemma output_download:
  assumes ctx: "ctx = nb_create_ctx show_rd ver gen gen' today created pid task execid rt wfid"
    and plain: "plain_part pid" "plain_part today" "plain_part day" "plain_part (et_output_name ctx)"
    and put: "(if e then history_output_fail else history_output_ok) (akv_local root bucket) day pid
                (et_output_name ctx) body fs = (Inr rsp, fs')"
  shows "let file = result_file (result_of ctx el e m);
             got = history_get_output (akv_local root bucket) pid (Some file) fs'
     in if day = today then \<exists>cs. got = Inr cs \<and> concat cs = body
        else fs_files fs (file_of (kv_uri root bucket (pid @ CHR ''/'' # file))) = None \<longrightarrow> got = Inl KeyReadError"
proof -
  let ?dir = "if e then ''errors'' else ''ok''" and ?name = "et_output_name ctx"
  let ?key = "\<lambda>d. join ''/'' [pid, ''outputs'', ?dir, d, ?name]"
  have const: "plain_part ''outputs''" "plain_part ?dir" by (simp_all add: plain_part_def)
  have name: "et_output_name ctx = the (er_output_name (result_of ctx el e m))"
    by simp
  have uri: "result_file (result_of ctx el e m) = join ''/'' [''outputs'', ?dir, today, ?name]"
    by (simp add: result_file_def result_of_def ctx nb_create_ctx_def NB_OUTPUTS_def Let_def)
  have key: "output_key ?dir day pid ?name = ?key day"
    using output_key_plain [OF plain(1) const(2) plain(3,4)] by simp
  have put': "kv_put (akv_local root bucket) (?key day) body fs = (Inr (), fs')"
    using put key by (auto simp: history_output_ok_def history_output_fail_def split: if_splits sum.splits prod.splits)
  have loc: "file_of (kv_uri root bucket (?key d)) =
      resolve_parts (path_parts root @ path_parts bucket) @ [pid, ''outputs'', ?dir, d, ?name]" if "plain_part d" for d
    using plain const that by (intro file_of_plain) auto
  have got: "history_get_output (akv_local root bucket) pid (Some (result_file (result_of ctx el e m))) fs' =
      kv_get_stream (akv_local root bucket) (?key today) fs'"
    by (simp add: history_get_output_def uri)
  have k: "pid @ CHR ''/'' # result_file (result_of ctx el e m) = ?key today"
    by (simp add: uri)
  show ?thesis
  proof (cases "day = today")
    case True
    then show ?thesis
      using async_kv.put_then_stream [OF put'] by (simp add: got Let_def)
  next
    case False
    have "fs_files fs' = (fs_files fs)(file_of (kv_uri root bucket (?key day)) \<mapsto> body)"
      using put' by (intro kvl_put_files) (simp add: akv_local_def)
    moreover have "file_of (kv_uri root bucket (?key day)) \<noteq> file_of (kv_uri root bucket (?key today))"
      using False loc [OF plain(2)] loc [OF plain(3)] by simp
    ultimately have "fs_files fs (file_of (kv_uri root bucket (?key today))) = None \<Longrightarrow>
        kv_get_stream (akv_local root bucket) (?key today) fs' = Inl KeyReadError"
      by (auto simp: akv_local_def akvl_get_stream_def file_of_def read_missing)
    then show ?thesis
      unfolding Let_def got k using False by simp
  qed
qed

text \<open>A scheduled context keeps the output paths of its registration, so only runs on that day are found.\<close>

section \<open>Builds\<close>

lemma get_by_projectid_id: "get_by_projectid pid None db = Inr (Some pd) \<Longrightarrow> pd_projectid pd = pid"
  by (auto simp: get_by_projectid_def model2projectdata_def first_row_def rbind_Inr_iff filter_eq_Cons_iff
      split: list.splits option.splits)

text \<open>What a build worker builds is what was uploaded. The bundle that the upload endpoint took, in
  any pieces, for a runtime and version is, when a build of that runtime and version is queued,
  read whole by the worker on the same store; Docker gets its content first of all, with the
  Dockerfile of the runtime and the image name of the project, and the registry in front when
  there is one.\<close>

lemma uploaded_bundle_is_built:
  assumes up: "project_upload os nfkd (akv_local root bucket) pid (Some (rs_name spec)) (Some v) ds db fs = (Inr (201, b), fs')"
    and q: "enqueue_build os nfkd gen cls bucket registry timeout pid spec (Some v) = Inr (ctx, calls)"
    and zip: "unzip (concat ds) = Inr dir"
  shows "\<exists>rest. snd (build_task_run (kv_local nl root bucket) unzip loads L ctx fs') =
    BuildImage dir (''Dockerfile.'' @ rs_name spec)
      ((if opt_truthy registry then the registry @ ''/'' else []) @ ''labfunctions/'' @ pid @ ''-'' @ rs_name spec) False # rest"
proof -
  have ctx: "ctx = create_build_ctx os nfkd gen pid spec v cls bucket registry"
    using q by (simp add: enqueue_build_def Let_def)
  let ?uri = "build_upload_uri os nfkd pid (rs_name spec) v"
  have "kv_put_stream (akv_local root bucket) ?uri ds fs = (Inr True, fs')"
    using up get_by_projectid_id
    by (fastforce simp: project_upload_def Let_def split: sum.splits option.splits prod.splits bool.splits)
  then have "kvl_get root bucket ?uri fs' = Inr (concat ds)"
    using akvl_stream_get by (fastforce simp: akv_local_def)
  then obtain cs where "kv_get_stream (kv_local nl root bucket) ?uri fs' = Inr cs" "concat cs = concat ds"
    using sync_kv.chunks [of nl root bucket ?uri fs']
    by (cases "kv_get_stream (kv_local nl root bucket) ?uri fs'") (auto simp: kv_local_def)
  then have "rbind (kv_get_stream (kv_local nl root bucket) (bx_download_zip ctx) fs') (\<lambda>chunks. unzip (concat chunks)) = Inr dir"
    by (simp add: ctx create_build_ctx_def Let_def zip)
  moreover have "\<exists>rest. snd (docker_build loads dir df tag ver rm push L []) = BuildImage dir df tag rm # rest"
    for df tag ver rm push
    by (auto simp: docker_build_def docker_low_build_def dk_defs push_image_def Let_def
        split: sum.splits prod.splits docker_exc.splits if_splits)
  ultimately show ?thesis
    by (simp add: build_task_run_def ctx create_build_ctx_def make_docker_name_def DOCKER_AUTHOR_def Let_def)
qed

text \<open>C25. A build registers its runtime whether or not Docker built it: the error is only in the log the
  job returns. So a runtime whose build failed is the one the next notebooks of the project run
  on, by the name and tag that the build was to give the image.\<close>

theorem build_registers_any_outcome:
  assumes run: "build_task_run kv unzip loads L ctx k = (Inr log, calls)"
    and api: "A = lab_api kv' J conf T clock drawn texp now today"
    and pid: "bx_projectid ctx \<in> projectids (lb_db st)"
    and new: "\<And>r. r \<in> set (db_runtimes (lb_db st)) \<Longrightarrow> rt_created_at r < now \<and> rt_id r \<noteq> db_seq (lb_db st) \<and>
      rt_runtimeid r \<noteq> bx_projectid ctx @ CHR ''/'' # rs_name (bx_spec ctx) @ CHR ''/'' # bx_version ctx"
    and local_registry: "\<not> opt_truthy (bx_registry ctx)"
  shows "\<exists>st' rd. builder_exec A kv unzip loads L False ctx k st = (Inr log, calls, st') \<and>
     get_runtime (bx_projectid ctx) (rs_name (bx_spec ctx)) None (lb_db st') = Inr (Some rd) \<and>
     nb_prepare_runtime show_rd ver (Some rd) gpu = bx_docker_name ctx @ CHR '':'' # bx_version ctx"
proof -
  let ?rq = "\<lparr>rq_runtime_name = rs_name (bx_spec ctx), rq_docker_name = bx_docker_name ctx, rq_spec = bx_spec ctx,
        rq_project_id = bx_projectid ctx, rq_version = bx_version ctx, rq_registry = bx_registry ctx\<rparr>"
  obtain db' where created: "rt_create now ?rq (lb_db st) = (True, db')"
    using pid new
    by (fastforce simp: rt_create_def insert_runtime_def runtime_row_of_def runtime_id_def split: if_splits)
  have "builder_exec A kv unzip loads L False ctx k st = (Inr log, calls, st\<lparr>lb_db := db'\<rparr>)"
    by (simp add: builder_exec_def run build_register_def runtime_create_def api lab_api_def runtimes_create_def created
        answer_code_def)
  moreover have "get_runtime (bx_projectid ctx) (rs_name (bx_spec ctx)) None db' = Inr (Some
       \<lparr>rd_runtimeid = runtime_id ?rq, rd_runtime_name = rs_name (bx_spec ctx), rd_docker_name = bx_docker_name ctx,
        rd_spec = bx_spec ctx, rd_project_id = bx_projectid ctx, rd_version = bx_version ctx,
        rd_created_at = Some now, rd_registry = bx_registry ctx, rd_id = Some (db_seq (lb_db st))\<rparr>)"
    using get_latest_runtime [OF created] new by simp
  ultimately show ?thesis
    using local_registry by (simp add: nb_prepare_runtime_def)
qed

definition built_fs :: "char file_sys" where
  "built_fs = \<lparr>fs_files = [[''tmp'', ''lab'', ''pid'', ''uploads'', ''cpu.v1.zip''] \<mapsto> ''zip''],
     fs_dirs = {[], [''tmp''], [''tmp'', ''lab''], [''tmp'', ''lab'', ''pid''], [''tmp'', ''lab'', ''pid'', ''uploads'']}\<rparr>"

theorem build_registers_any_outcome_witness:
  "\<exists>log calls st' rd. builder_exec (worker_api 9) (kv_local (\<lambda>c. c = newline) ''/tmp'' ''lab'') Inr demo_loads
       (demo_docker None [''bad'']) False
       (create_build_ctx posix id demo_nanoid ''pid'' demo_spec ''v1'' ''KVLocal'' ''lab'' None) built_fs worker_state =
       (Inr log, calls, st') \<and> db_error log \<and>
     get_runtime ''pid'' ''cpu'' None (lb_db st') = Inr (Some rd) \<and>
     nb_prepare_runtime (\<lambda>_. []) ''0.9.0'' (Some rd) False = ''labfunctions/pid-cpu:v1''"
proof -
  let ?ctx = "create_build_ctx posix id demo_nanoid ''pid'' demo_spec ''v1'' ''KVLocal'' ''lab'' None"
  have n: "secure_filename posix id ''cpu.v1.zip'' = ''cpu.v1.zip''"
    using secure_filename_fixes [of id "''cpu.v1.zip''"] by (simp add: filename_char_def)
  have uri: "build_upload_uri posix id ''pid'' ''cpu'' ''v1'' = ''pid/uploads/cpu.v1.zip''"
    by (simp add: build_upload_uri_def n PROJECT_UPLOADS_def Let_def) code_simp
  have pp: "path_parts (kv_uri ''/tmp'' ''lab'' ''pid/uploads/cpu.v1.zip'') = [''tmp'', ''lab'', ''pid'', ''uploads'', ''cpu.v1.zip'']"
    by (simp add: kv_uri_def path_parts_def)
  have c: "build_chunk demo_loads ''bad'' = Inr (''no space'', True)" by code_simp
  have ctx: "bx_projectid ?ctx = ''pid''" "bx_spec ?ctx = demo_spec" "bx_version ?ctx = ''v1''" "bx_registry ?ctx = None"
    "bx_docker_name ?ctx = ''labfunctions/pid-cpu''" "bx_download_zip ?ctx = ''pid/uploads/cpu.v1.zip''" "rs_name demo_spec = ''cpu''"
    by (simp_all add: create_build_ctx_def Let_def make_docker_name_def DOCKER_AUTHOR_def demo_spec_def uri)
  have get: "kv_get_stream (kv_local (\<lambda>c. c = newline) ''/tmp'' ''lab'') ''pid/uploads/cpu.v1.zip'' built_fs = Inr [''zip'']"
    by (simp add: kv_local_def kvl_get_stream_def pp built_fs_def read_file_def walks_def through_def resolve_parts_def
        newline_def)
  have "\<exists>log calls. build_task_run (kv_local (\<lambda>c. c = newline) ''/tmp'' ''lab'') Inr demo_loads (demo_docker None [''bad''])
      ?ctx built_fs = (Inr log, calls) \<and> db_error log"
    by (simp add: build_task_run_def ctx get docker_build_def docker_low_build_def dk_defs demo_docker_def c)
  then obtain log calls where run: "build_task_run (kv_local (\<lambda>c. c = newline) ''/tmp'' ''lab'') Inr demo_loads
      (demo_docker None [''bad'']) ?ctx built_fs = (Inr log, calls)" and err: "db_error log"
    by blast
  have pid: "bx_projectid ?ctx \<in> projectids (lb_db worker_state)"
    by (simp add: ctx worker_state_def worker_db_def admin_db_def projectids_def demo_project_def)
  have none: "db_runtimes (lb_db worker_state) = []"
    by (simp add: worker_state_def worker_db_def admin_db_def empty_db_def)
  show ?thesis
    using build_registers_any_outcome [where show_rd = "\<lambda>_. []" and ver = "''0.9.0''" and gpu = False and now = 9, OF run worker_api_def pid] err
    by (auto simp: none ctx)
qed

end
