(* ===== verification/History_Cmd.thy ===== *)
theory History_Cmd
  imports Pipelines
begin

text \<open>
  The history of executions on the command line (\<open>cmd/history.py\<close>): \<open>log list\<close> downloads the notebook of each
  execution it shows into the working directory, \<open>log get\<close> and \<open>log task\<close> show one. A download is
  the pieces that arrived and the error that ended it, if any.
\<close>

section \<open>Downloading\<close>

type_synonym 'b download = "'b list list \<times> py_error option"

text \<open>\<open>history_get_output\<close> of the client: an answer with its status, its pieces, and whether it broke off.\<close>

definition client_get_output :: "int \<times> 'b download \<Rightarrow> 'b download" where
  "client_get_output r = (if fst r = 200 then snd r else ([], Some HistoryNotebookError))"

definition path_exists :: "string list \<Rightarrow> 'b file_sys \<Rightarrow> bool" where
  "path_exists ws fs \<longleftrightarrow> walks fs ws \<and> (fs_files fs (resolve_parts ws) \<noteq> None \<or> resolve_parts ws \<in> fs_dirs fs)"

definition unlink_path :: "string list \<Rightarrow> 'b file_sys \<Rightarrow> 'b file_sys result" where
  "unlink_path ws fs =
     (if walks fs ws \<and> fs_files fs (resolve_parts ws) \<noteq> None
      then Inr (fs\<lparr>fs_files := (fs_files fs)(resolve_parts ws := None)\<rparr>) else Inl FileNotFoundError)"

text \<open>The loop of writes: on any error the file is unlinked, which fails when it could not be opened.\<close>

definition write_download :: "string list \<Rightarrow> 'b download \<Rightarrow> 'b file_sys \<Rightarrow> bool result \<times> 'b file_sys" where
  "write_download ws dl fs =
     (case write_file ws (concat (fst dl)) fs of
        Inl _ \<Rightarrow> (case unlink_path ws fs of Inl e \<Rightarrow> (Inl e, fs) | Inr fs' \<Rightarrow> (Inr False, fs'))
      | Inr fs1 \<Rightarrow>
          (case snd dl of
             None \<Rightarrow> (Inr True, fs1)
           | Some _ \<Rightarrow> (case unlink_path ws fs1 of Inl e \<Rightarrow> (Inl e, fs1) | Inr fs' \<Rightarrow> (Inr False, fs'))))"

text \<open>Where the notebook of a row goes. The directory of a failed execution is made when the one of a
  successful execution is set.\<close>

definition row_uri :: "int \<Rightarrow> exec_result \<Rightarrow> string" where
  "row_uri status r =
     (if status = 0 then fmt_opt (er_output_dir r) else fmt_opt (er_error_dir r)) @ CHR ''/'' # fmt_opt (er_output_name r)"

definition make_dir :: "string list \<Rightarrow> int \<Rightarrow> exec_result \<Rightarrow> 'b file_sys \<Rightarrow> (bool \<times> 'b file_sys) result" where
  "make_dir cwd status r fs =
     (if \<not> opt_truthy (er_output_dir r) then Inr (False, fs)
      else case (if status = 0 then er_output_dir r else er_error_dir r) of
             None \<Rightarrow> Inl TypeError
           | Some d \<Rightarrow> rbind (mkdir_p (cwd_parts cwd d) fs) (\<lambda>fs'. Inr (True, fs')))"

definition get_notebook ::
  "string list \<Rightarrow> (string \<Rightarrow> 'b download) \<Rightarrow> int \<Rightarrow> exec_result \<Rightarrow> 'b file_sys \<Rightarrow> (bool \<times> string) result \<times> 'b file_sys" where
  "get_notebook cwd get status r fs =
     (let uri = row_uri status r; ws = cwd_parts cwd uri
      in case make_dir cwd status r fs of
           Inl e \<Rightarrow> (Inl e, fs)
         | Inr (output_result, fs1) \<Rightarrow>
             if \<not> path_exists ws fs1 \<and> output_result
             then (case write_download ws (get uri) fs1 of
                     (Inl e, fs2) \<Rightarrow> (Inl e, fs2) | (Inr ok, fs2) \<Rightarrow> (Inr (ok, uri), fs2))
             else (Inr (output_result, uri), fs1))"

section \<open>The commands\<close>

text \<open>A row of the table: workflow, execution, status, file and age; \<open>age\<close> is the time since it was created.\<close>

type_synonym log_row = "string \<times> string option \<times> string \<times> string \<times> string"

definition log_row ::
  "string list \<Rightarrow> (string \<Rightarrow> 'b download) \<Rightarrow> (history_result \<Rightarrow> nat result) \<Rightarrow> history_result \<Rightarrow> 'b file_sys \<Rightarrow>
   log_row result \<times> 'b file_sys" where
  "log_row cwd get age h fs =
     (case hi_result h of
        None \<Rightarrow> (Inl AttributeError, fs)
      | Some r \<Rightarrow>
          (case age h of
             Inl e \<Rightarrow> (Inl e, fs)
           | Inr secs \<Rightarrow>
               (case get_notebook cwd get (hi_status h) r fs of
                  (Inl e, fs') \<Rightarrow> (Inl e, fs')
                | (Inr (out, uri), fs') \<Rightarrow>
                    (Inr (hi_wfid h, hi_execid h, (if hi_status h = 0 then ''[bold green]OK[/]'' else ''[bold red]FAIL[/]''),
                       (if out then uri else ''[red bold]Output not generated[/]''),
                       ''[blue]'' @ format_seconds secs @ ''[/]''), fs'))))"

fun log_rows ::
  "string list \<Rightarrow> (string \<Rightarrow> 'b download) \<Rightarrow> (history_result \<Rightarrow> nat result) \<Rightarrow> history_result list \<Rightarrow> 'b file_sys \<Rightarrow>
   log_row list result \<times> 'b file_sys" where
  "log_rows cwd get age [] fs = (Inr [], fs)"
| "log_rows cwd get age (h # hs) fs =
     (case log_row cwd get age h fs of
        (Inl e, fs') \<Rightarrow> (Inl e, fs')
      | (Inr x, fs') \<Rightarrow>
          (case log_rows cwd get age hs fs' of
             (Inl e, fs2) \<Rightarrow> (Inl e, fs2) | (Inr xs, fs2) \<Rightarrow> (Inr (x # xs), fs2)))"

definition log_list ::
  "string list \<Rightarrow> (string \<Rightarrow> 'b download) \<Rightarrow> (history_result \<Rightarrow> nat result) \<Rightarrow> history_result list result \<Rightarrow> 'b file_sys \<Rightarrow>
   log_row list result \<times> 'b file_sys" where
  "log_list cwd get age rsp fs =
     (case rsp of
        Inl e \<Rightarrow> (Inl e, fs)
      | Inr rows \<Rightarrow> if rows = [] then (Inl (SystemExit 0), fs) else log_rows cwd get age rows fs)"

text \<open>\<open>log get\<close>: a flag that is always set, so the plain form is never printed; what is printed are the
  execution, its result and its error.\<close>

definition log_get :: "history_result option result \<Rightarrow> bool \<Rightarrow> (history_result \<times> exec_result \<times> string option) result" where
  "log_get rsp nice =
     rbind rsp (\<lambda>h. case h of
       None \<Rightarrow> Inl (SystemExit 255)
     | Some h \<Rightarrow>
         if \<not> nice then Inl (SystemExit 0)
         else (case hi_result h of None \<Rightarrow> Inl AttributeError | Some r \<Rightarrow> Inr (h, r, er_error_msg r)))"

definition log_task :: "task_status option result \<Rightarrow> task_status result" where
  "log_task rsp = rbind rsp (\<lambda>t. case t of None \<Rightarrow> Inl (SystemExit 255) | Some t \<Rightarrow> Inr t)"

definition client_task_status :: "int \<times> task_status result \<Rightarrow> task_status option result" where
  "client_task_status r = (if fst r = 200 then rbind (snd r) (\<lambda>t. Inr (Some t)) else Inr None)"

section \<open>What a listing does to the disk\<close>

definition grows :: "'b file_sys \<Rightarrow> 'b file_sys \<Rightarrow> bool" where
  "grows fs fs' \<longleftrightarrow> fs_files fs \<subseteq>\<^sub>m fs_files fs' \<and> fs_dirs fs \<subseteq> fs_dirs fs'"

lemma grows_refl [simp]: "grows fs fs"
  by (simp add: grows_def)

lemma grows_trans [trans]: "grows a b \<Longrightarrow> grows b c \<Longrightarrow> grows a c"
  by (auto simp: grows_def intro: map_le_trans)

lemma grows_exists: "grows fs fs' \<Longrightarrow> path_exists ws fs \<Longrightarrow> path_exists ws fs'"
  by (auto simp: grows_def path_exists_def walks_def map_le_def dom_def; blast)

text \<open>New files are the whole downloads of the rows.\<close>

definition new_only :: "(string list \<Rightarrow> 'b list \<Rightarrow> bool) \<Rightarrow> 'b file_sys \<Rightarrow> 'b file_sys \<Rightarrow> bool" where
  "new_only P fs fs' \<longleftrightarrow> (\<forall>p d. fs_files fs' p = Some d \<longrightarrow> fs_files fs p = Some d \<or> P p d)"

lemma new_only_refl [simp]: "new_only P fs fs"
  by (simp add: new_only_def)

lemma new_only_trans: "new_only P a b \<Longrightarrow> new_only P b c \<Longrightarrow> new_only P a c"
  unfolding new_only_def by blast

lemma new_only_mono: "new_only P a b \<Longrightarrow> (\<And>p d. P p d \<Longrightarrow> Q p d) \<Longrightarrow> new_only Q a b"
  unfolding new_only_def by blast

definition downloaded :: "string list \<Rightarrow> (string \<Rightarrow> 'b download) \<Rightarrow> string \<Rightarrow> string list \<Rightarrow> 'b list \<Rightarrow> bool" where
  "downloaded cwd get uri p d \<longleftrightarrow>
     p = resolve_parts (cwd_parts cwd uri) \<and> snd (get uri) = None \<and> d = concat (fst (get uri))"

lemma make_dir_grows: "make_dir cwd status r fs = Inr (b, fs1) \<Longrightarrow> grows fs fs1 \<and> new_only P fs fs1"
  by (auto simp: make_dir_def mkdir_p_def grows_def new_only_def rbind_Inr_iff split: if_splits option.splits)

lemma write_download_new:
  assumes "\<not> path_exists (cwd_parts cwd uri) fs" and "write_download (cwd_parts cwd uri) (get uri) fs = (r, fs')"
  shows "grows fs fs' \<and> (r = Inr True \<longrightarrow> path_exists (cwd_parts cwd uri) fs') \<and> new_only (downloaded cwd get uri) fs fs'"
  using assms
  by (auto simp: write_download_def write_file_def unlink_path_def path_exists_def grows_def map_le_def walks_def
      new_only_def downloaded_def split: if_splits option.splits)

text \<open>What a cell of the table says of the disk.\<close>

definition cell_ok :: "string list \<Rightarrow> 'b file_sys \<Rightarrow> string \<Rightarrow> string \<Rightarrow> bool" where
  "cell_ok cwd fs uri c \<longleftrightarrow> c = ''[red bold]Output not generated[/]'' \<or> c = uri \<and> path_exists (cwd_parts cwd uri) fs"

lemma cell_ok_grows: "cell_ok cwd fs uri c \<Longrightarrow> grows fs fs' \<Longrightarrow> cell_ok cwd fs' uri c"
  using grows_exists by (auto simp: cell_ok_def)

lemma get_notebook_new:
  assumes "get_notebook cwd get status r fs = (res, fs')"
  shows "grows fs fs' \<and> new_only (downloaded cwd get (row_uri status r)) fs fs' \<and>
    (\<forall>out uri. res = Inr (out, uri) \<longrightarrow> cell_ok cwd fs' (row_uri status r) (if out then uri else ''[red bold]Output not generated[/]''))"
proof (cases "make_dir cwd status r fs")
  case (Inl e)
  then show ?thesis using assms by (auto simp: get_notebook_def Let_def)
next
  case (Inr x)
  obtain b fs1 where b: "make_dir cwd status r fs = Inr (b, fs1)" using Inr by (cases x) auto
  let ?uri = "row_uri status r"
  have g: "grows fs fs1" "new_only (downloaded cwd get ?uri) fs fs1" using make_dir_grows [OF b] by blast+
  show ?thesis
  proof (cases "\<not> path_exists (cwd_parts cwd ?uri) fs1 \<and> b")
    case True
    obtain r2 fs2 where w: "write_download (cwd_parts cwd ?uri) (get ?uri) fs1 = (r2, fs2)" by (rule prod.exhaust)
    have n: "grows fs1 fs2" "r2 = Inr True \<Longrightarrow> path_exists (cwd_parts cwd ?uri) fs2" "new_only (downloaded cwd get ?uri) fs1 fs2"
      using write_download_new [where get = get and uri = ?uri and cwd = cwd, OF conjunct1 [OF True] w] by blast+
    have fs': "fs' = fs2" using assms True by (auto simp: get_notebook_def Let_def b w split: sum.splits)
    have "cell_ok cwd fs' ?uri (if out then uri else ''[red bold]Output not generated[/]'')" if "res = Inr (out, uri)" for out uri
    proof -
      have "r2 = Inr out \<and> uri = ?uri" using that assms True by (auto simp: get_notebook_def Let_def b w split: sum.splits)
      then show ?thesis using n(2) by (cases out) (simp_all add: cell_ok_def fs')
    qed
    moreover have "grows fs fs'" using g(1) n(1) unfolding fs' by (rule grows_trans)
    moreover have "new_only (downloaded cwd get ?uri) fs fs'" using g(2) n(3) unfolding fs' by (rule new_only_trans)
    ultimately show ?thesis by blast
  next
    case False
    then have "fs' = fs1" "res = Inr (b, ?uri)" using assms by (auto simp: get_notebook_def Let_def b)
    then show ?thesis using False g by (auto simp: cell_ok_def)
  qed
qed

definition uri_of :: "history_result \<Rightarrow> string" where
  "uri_of h = (case hi_result h of None \<Rightarrow> [] | Some r \<Rightarrow> row_uri (hi_status h) r)"

definition cell_of :: "log_row \<Rightarrow> string" where
  "cell_of x = fst (snd (snd (snd x)))"

lemma log_row_new:
  assumes "log_row cwd get age h fs = (res, fs')"
  shows "grows fs fs' \<and> new_only (downloaded cwd get (uri_of h)) fs fs' \<and>
    (\<forall>x. res = Inr x \<longrightarrow> cell_ok cwd fs' (uri_of h) (cell_of x))"
proof (cases "hi_result h")
  case None
  then show ?thesis using assms by (auto simp: log_row_def)
next
  case (Some r)
  then have u: "uri_of h = row_uri (hi_status h) r" by (simp add: uri_of_def)
  obtain res2 fs2 where g: "get_notebook cwd get (hi_status h) r fs = (res2, fs2)" by (rule prod.exhaust)
  show ?thesis
  proof (cases "age h")
    case (Inl e)
    then show ?thesis using assms Some by (auto simp: log_row_def)
  next
    case (Inr secs)
    then show ?thesis
      using assms Some g get_notebook_new [OF g] by (auto simp: log_row_def u cell_of_def split: sum.splits)
  qed
qed

lemma log_rows_new:
  assumes "log_rows cwd get age hs fs = (res, fs')"
  shows "grows fs fs' \<and> new_only (\<lambda>p d. \<exists>h\<in>set hs. downloaded cwd get (uri_of h) p d) fs fs' \<and>
    (\<forall>xs. res = Inr xs \<longrightarrow> list_all2 (\<lambda>h x. cell_ok cwd fs' (uri_of h) (cell_of x)) hs xs)"
  using assms
proof (induction hs arbitrary: fs fs' res)
  case Nil
  then show ?case by auto
next
  case (Cons h hs)
  let ?D = "\<lambda>hs p d. \<exists>h\<in>set hs. downloaded cwd get (uri_of h) p d"
  obtain r1 fs1 where one: "log_row cwd get age h fs = (r1, fs1)" by (rule prod.exhaust)
  have n: "grows fs fs1" "new_only (?D (h # hs)) fs fs1" "\<And>x. r1 = Inr x \<Longrightarrow> cell_ok cwd fs1 (uri_of h) (cell_of x)"
    using log_row_new [OF one] by (auto intro: new_only_mono)
  show ?case
  proof (cases r1)
    case (Inl e)
    then show ?thesis using Cons.prems one n by auto
  next
    case (Inr x)
    obtain r2 fs2 where rest: "log_rows cwd get age hs fs1 = (r2, fs2)" by (rule prod.exhaust)
    have IH: "grows fs1 fs2" "new_only (?D (h # hs)) fs1 fs2"
      "\<And>xs. r2 = Inr xs \<Longrightarrow> list_all2 (\<lambda>h x. cell_ok cwd fs2 (uri_of h) (cell_of x)) hs xs"
      using Cons.IH [OF rest] by (auto intro: new_only_mono)
    have res: "fs' = fs2" "\<And>ys. res = Inr ys \<Longrightarrow> \<exists>xs. r2 = Inr xs \<and> ys = x # xs"
      using Cons.prems one Inr rest by (auto split: sum.splits)
    have "cell_ok cwd fs2 (uri_of h) (cell_of x)" using n(3) [OF Inr] IH(1) by (rule cell_ok_grows)
    then have "list_all2 (\<lambda>h x. cell_ok cwd fs' (uri_of h) (cell_of x)) (h # hs) ys" if "res = Inr ys" for ys
      using res that IH(3) by fastforce
    then show ?thesis using grows_trans [OF n(1) IH(1)] new_only_trans [OF n(2) IH(2)] res(1) by blast
  qed
qed

section \<open>The properties\<close>

text \<open>C33. \<open>log list\<close> never harms the directory it downloads into, whether it ends or fails: no file that was
  there changes, every new file is the whole of a download that did not break off, at the place
  of its execution, and a row that names a file names one that exists.\<close>

theorem log_list_downloads:
  assumes "log_list cwd get age (Inr hs) fs = (res, fs')"
  shows "(\<forall>p d. fs_files fs p = Some d \<longrightarrow> fs_files fs' p = Some d) \<and>
    (\<forall>p d. fs_files fs' p = Some d \<longrightarrow> fs_files fs p = Some d \<or> (\<exists>h\<in>set hs. downloaded cwd get (uri_of h) p d)) \<and>
    (\<forall>xs. res = Inr xs \<longrightarrow> list_all2 (\<lambda>h x. cell_ok cwd fs' (uri_of h) (cell_of x)) hs xs)"
proof (cases "hs = []")
  case True
  then show ?thesis using assms by (auto simp: log_list_def)
next
  case False
  then have "log_rows cwd get age hs fs = (res, fs')" using assms by (simp add: log_list_def)
  from log_rows_new [OF this] show ?thesis by (auto simp: grows_def new_only_def map_le_def dom_def)
qed

section \<open>From the worker to the working directory\<close>

lemma resolve_plain: "list_all plain_part ws \<Longrightarrow> resolve_parts ws = ws"
  by (rule resolve_parts_plain) (auto simp: list_all_iff plain_part_def)

lemma through_plain: "list_all plain_part ws \<Longrightarrow> set (through ws) = set (prefixes ws)"
  by (force simp: through_def set_prefixes resolve_plain)

lemma through_local:
  assumes "list_all plain_part ws" and "\<forall>p\<in>set (prefixes ws). fs_files fs p = None"
  shows "mkdir_p ws fs = Inr (fs\<lparr>fs_dirs := fs_dirs fs \<union> set (prefixes ws)\<rparr>)"
  using assms by (simp add: mkdir_p_def through_plain)

text \<open>Nothing in the way of a file.\<close>

definition room_for :: "string list \<Rightarrow> 'b file_sys \<Rightarrow> bool" where
  "room_for ws fs \<longleftrightarrow> (\<forall>p\<in>set (prefixes ws). fs_files fs p = None) \<and> ws \<notin> fs_dirs fs"

lemma get_notebook_fresh:
  assumes plain: "list_all plain_part (ws @ [n])" and room: "room_for (ws @ [n]) fs"
    and out: "opt_truthy (er_output_dir r)" and d: "(if status = 0 then er_output_dir r else er_error_dir r) = Some d"
    and parts: "cwd_parts cwd d = ws" "cwd_parts cwd (row_uri status r) = ws @ [n]"
  shows "\<exists>fs'. get_notebook cwd get status r fs = (Inr (snd (get (row_uri status r)) = None, row_uri status r), fs') \<and>
    fs_files fs' = (if snd (get (row_uri status r)) = None
      then (fs_files fs)(ws @ [n] \<mapsto> concat (fst (get (row_uri status r)))) else fs_files fs)"
proof -
  let ?fs1 = "fs\<lparr>fs_dirs := fs_dirs fs \<union> set (prefixes ws)\<rparr>"
  have c: "\<forall>p\<in>set (prefixes (ws @ [n])). fs_files fs p = None" using room by (simp add: room_for_def)
  then have "\<forall>p\<in>set (prefixes ws). fs_files fs p = None" by (auto simp: set_prefixes)
  then have "mkdir_p ws fs = Inr ?fs1" using plain by (intro through_local) simp_all
  then have mk: "make_dir cwd status r fs = Inr (True, ?fs1)"
    using out d parts(1) by (simp add: make_dir_def)
  have walks: "walks ?fs1 (ws @ [n])" using through_plain [of ws] plain by (simp add: walks_def)
  have free: "fs_files fs (ws @ [n]) = None" using c by (auto simp: set_prefixes)
  have "ws @ [n] \<notin> set (prefixes ws)"
  proof
    assume "ws @ [n] \<in> set (prefixes ws)"
    then obtain qs where "ws = (ws @ [n]) @ qs" by (auto simp: set_prefixes)
    then have "length ws = length ((ws @ [n]) @ qs)" by metis
    then show False by simp
  qed
  then have new: "ws @ [n] \<notin> fs_dirs ?fs1" using room by (simp add: room_for_def)
  note r = resolve_plain [OF plain]
  have "\<not> path_exists (ws @ [n]) ?fs1" using free new by (simp add: path_exists_def r)
  moreover obtain fs' where "write_download (ws @ [n]) (get (row_uri status r)) ?fs1 = (Inr (snd (get (row_uri status r)) = None), fs')"
      "fs_files fs' = (if snd (get (row_uri status r)) = None
         then (fs_files fs)(ws @ [n] \<mapsto> concat (fst (get (row_uri status r)))) else fs_files fs)"
    using walks new free by (cases "snd (get (row_uri status r))") (simp_all add: write_download_def write_file_def unlink_path_def r walks_def fun_upd_idem)
  ultimately show ?thesis by (simp add: get_notebook_def Let_def mk parts(2))
qed

text \<open>The endpoint over the server's store: an error of the store ends the request.\<close>

definition serve_output :: "('s, 'b) kv_ops \<Rightarrow> string \<Rightarrow> 's \<Rightarrow> string \<Rightarrow> int \<times> 'b download" where
  "serve_output kv pid st uri =
     (case history_get_output kv pid (Some uri) st of Inl _ \<Rightarrow> (500, ([], None)) | Inr cs \<Rightarrow> (200, (cs, None)))"

lemma path_parts_join:
  "list_all plain_part ws \<Longrightarrow> ws \<noteq> [] \<Longrightarrow> path_parts (join ''/'' ws) = ws \<and> path_root (join ''/'' ws) = []"
proof -
  assume plain: "list_all plain_part ws" and ne: "ws \<noteq> []"
  have "split_on CHR ''/'' (join ''/'' ws) = ws"
    using plain ne by (intro split_on_join) (auto simp: plain_part_def list_all_iff)
  then have "path_parts (join ''/'' ws) = ws"
    using plain by (auto simp: path_parts_def plain_part_def list_all_iff intro!: filter_True)
  moreover obtain w vs where "ws = w # vs" "plain_part w" using plain ne by (cases ws) auto
  then have "join ''/'' ws \<noteq> []" "hd (join ''/'' ws) \<noteq> CHR ''/''"
    by (cases vs; cases w; auto simp: plain_part_def)+
  then have "path_root (join ''/'' ws) = []" by (cases "join ''/'' ws") (auto simp: path_root_def)
  ultimately show ?thesis by simp
qed


definition demo_history :: "history_result" where
  "demo_history = \<lparr>hi_wfid = ''wf1'', hi_status = 0, hi_result = Some (result_of demo_ctx 0 False None), hi_execid = Some ''ex1'',
     hi_created_at = Some 0\<rparr>"


theorem log_list_downloads_witness:
  "\<exists>row fs'. log_list [''home''] (\<lambda>_. ([''a'', ''b''], None)) (\<lambda>_. Inr 5) (Inr [demo_history]) root_fs = (Inr [row], fs') \<and>
     fs_files fs' [''home'', ''outputs'', ''ok'', ''20230101'', ''wf1.nb.ex1.ipynb''] = Some ''ab'' \<and>
     cell_ok [''home''] fs' (uri_of demo_history) (cell_of row)"
proof -
  let ?r = "result_of demo_ctx 0 False None" and ?ws = "[''home'', ''outputs'', ''ok'', ''20230101'']"
  have pl: "list_all plain_part (?ws @ [''wf1.nb.ex1.ipynb''])" by (simp add: plain_part_def)
  have room: "room_for (?ws @ [''wf1.nb.ex1.ipynb'']) (root_fs :: char file_sys)" by (simp add: room_for_def root_fs_def)
  have d: "opt_truthy (er_output_dir ?r)" "(if (0::int) = 0 then er_output_dir ?r else er_error_dir ?r) = Some ''outputs/ok/20230101''"
    "row_uri 0 ?r = ''outputs/ok/20230101/wf1.nb.ex1.ipynb''"
    by (simp_all add: result_of_def demo_ctx_fields row_uri_def)
  have parts: "cwd_parts [''home''] ''outputs/ok/20230101'' = ?ws" "cwd_parts [''home''] (row_uri 0 ?r) = ?ws @ [''wf1.nb.ex1.ipynb'']"
    unfolding d(3) by (simp_all add: cwd_parts_def path_root_def path_parts_def)
  obtain fs' where g: "get_notebook [''home''] (\<lambda>_. ([''a'', ''b''], None)) 0 ?r root_fs = (Inr (True, row_uri 0 ?r), fs')"
    and f: "fs_files fs' = (fs_files root_fs)(?ws @ [''wf1.nb.ex1.ipynb''] \<mapsto> ''ab'')"
    using get_notebook_fresh [OF pl room d(1,2) parts, of "\<lambda>_. ([''a'', ''b''], None)"] by auto
  obtain row where run: "log_list [''home''] (\<lambda>_. ([''a'', ''b''], None)) (\<lambda>_. Inr 5) (Inr [demo_history]) root_fs = (Inr [row], fs')"
    by (simp add: log_list_def log_row_def demo_history_def g)
  then show ?thesis using log_list_downloads [OF run] f by simp
qed

end
