(* ===== verification/Secrets.thy ===== *)
theory Secrets
  imports Utils
begin

text \<open>
  The variables a project keeps secret (\<open>secrets.py\<close>): the plain file of variables, the encrypted file made
  of it, and the two ways of loading. Fernet is the record \<open>fernet\<close>; text is its characters, so
  \<open>encode\<close> and \<open>decode\<close> change nothing; files are a map from their path to their text.
\<close>

definition SECRETS_FILENAME :: string where "SECRETS_FILENAME = ''.secrets''"

text \<open>\<open>readlines\<close>: each line with its line break.\<close>

fun readlines :: "string \<Rightarrow> string list" where
  "readlines [] = []"
| "readlines (c # s) =
     (if c = newline then [newline] # readlines s
      else case readlines s of [] \<Rightarrow> [[c]] | l # ls \<Rightarrow> (c # l) # ls)"

definition secret_var_line :: "string \<Rightarrow> (string \<times> string) result" where
  "secret_var_line line =
     rbind (list_nth (split_eq line) 0) (\<lambda>k.
     rbind (list_nth (split_eq line) 1) (\<lambda>v.
       Inr (k, strip_chars (\<lambda>c. c = newline) (replace_char CHR ''\"'' [] v))))"

fun vars_of_lines :: "string list \<Rightarrow> string dict \<Rightarrow> string dict result" where
  "vars_of_lines [] vars = Inr vars"
| "vars_of_lines (l # ls) vars = rbind (secret_var_line l) (\<lambda>(k, v). vars_of_lines ls (dict_set k v vars))"

definition open_vars_file :: "(string \<Rightarrow> string option) \<Rightarrow> string \<Rightarrow> string dict result" where
  "open_vars_file files vars_file =
     (case files vars_file of None \<Rightarrow> Inr [] | Some t \<Rightarrow> vars_of_lines (readlines t) [])"

record fernet =
  fn_encrypt :: "string \<Rightarrow> string \<Rightarrow> string result"
  fn_decrypt :: "string \<Rightarrow> string \<Rightarrow> string result"

definition map_values :: "(string \<Rightarrow> string result) \<Rightarrow> string dict \<Rightarrow> string dict result" where
  "map_values f d = rmap (\<lambda>(k, v). rbind (f v) (\<lambda>v'. Inr (k, v'))) d"

definition base_file :: "string option \<Rightarrow> string \<Rightarrow> string" where
  "base_file base_path f = (if opt_truthy base_path then the base_path @ CHR ''/'' # f else f)"

text \<open>A value is text, or bytes when it was decrypted.\<close>

datatype py_text = Str string | Bytes string

text \<open>\<open>priv_key\<close> and \<open>nbvars\<close> are the two environment variables. Without a key and without a base path
  the variable that is returned was never bound.\<close>

definition load_secrets ::
  "fernet \<Rightarrow> (string \<Rightarrow> string option) \<Rightarrow> string option \<Rightarrow> string option \<Rightarrow> string option \<Rightarrow> py_text dict result" where
  "load_secrets F files priv_key nbvars base_path =
     (if \<not> opt_truthy priv_key
      then (let f = (case nbvars of None \<Rightarrow> ''local.nbvars'' | Some x \<Rightarrow> x)
            in if opt_truthy base_path
               then rbind (open_vars_file files (base_file base_path f)) (\<lambda>d. Inr (map (\<lambda>(k, v). (k, Str v)) d))
               else Inl UnboundLocalError)
      else rbind (open_vars_file files (base_file base_path SECRETS_FILENAME)) (\<lambda>vars.
             rbind (map_values (fn_decrypt F (the priv_key)) vars) (\<lambda>d. Inr (map (\<lambda>(k, v). (k, Bytes v)) d))))"

definition encrypt_nbvars_file :: "fernet \<Rightarrow> (string \<Rightarrow> string option) \<Rightarrow> string \<Rightarrow> string \<Rightarrow> string dict result" where
  "encrypt_nbvars_file F files private_key vars_file =
     rbind (open_vars_file files vars_file) (map_values (fn_encrypt F private_key))"

text \<open>Bytes have no \<open>encode\<close>.\<close>

definition encrypt_nbvars :: "fernet \<Rightarrow> string \<Rightarrow> py_text dict \<Rightarrow> string dict result" where
  "encrypt_nbvars F private_key nbvars =
     rmap (\<lambda>(k, v). rbind (case v of Str s \<Rightarrow> fn_encrypt F private_key s | Bytes _ \<Rightarrow> Inl AttributeError)
       (\<lambda>e. Inr (k, e))) nbvars"

definition encoded_vars :: "string dict \<Rightarrow> string" where
  "encoded_vars vars = join [newline] (map (\<lambda>(k, v). k @ CHR ''='' # v) vars)"

text \<open>The file written and its text.\<close>

definition write_secrets :: "fernet \<Rightarrow> string \<Rightarrow> string \<Rightarrow> py_text dict \<Rightarrow> (string \<times> string) result" where
  "write_secrets F fpath private_key vars =
     rbind (encrypt_nbvars F private_key vars) (\<lambda>d. Inr (fpath @ CHR ''/'' # SECRETS_FILENAME, encoded_vars d))"

section \<open>Round trip\<close>

lemma readlines_no_break: "l \<in> set (readlines s) \<Longrightarrow> newline \<notin> set (butlast l)"
  by (induction s arbitrary: l rule: readlines.induct) (auto split: if_splits list.splits)

lemma readlines_line: "newline \<notin> set l \<Longrightarrow> readlines (l @ newline # s) = (l @ [newline]) # readlines s"
  by (induction l) auto

lemma readlines_last: "newline \<notin> set l \<Longrightarrow> l \<noteq> [] \<Longrightarrow> readlines l = [l]"
proof (induction l)
  case (Cons c l)
  then show ?case by (cases "l = []") auto
qed simp

text \<open>The lines of a file of variables, as they are written.\<close>

definition var_line :: "string \<times> string \<Rightarrow> string" where
  "var_line kv = fst kv @ CHR ''='' # snd kv"

definition var_ok :: "string \<times> string \<Rightarrow> bool" where
  "var_ok kv \<longleftrightarrow> CHR ''='' \<notin> set (fst kv) \<and> newline \<notin> set (fst kv) \<and>
     newline \<notin> set (snd kv) \<and> CHR ''\"'' \<notin> set (snd kv)"

lemma secret_var_line_var:
  assumes "var_ok kv"
  shows "secret_var_line (var_line kv) = Inr kv" and "secret_var_line (var_line kv @ [newline]) = Inr kv"
proof -
  have q: "replace_char CHR ''\"'' [] (snd kv) = snd kv" "replace_char CHR ''\"'' [] [newline] = [newline]"
    using assms by (auto simp: var_ok_def newline_def intro: replace_char_absent)
  have s: "strip_chars (\<lambda>c. c = newline) (snd kv) = snd kv" "strip_chars (\<lambda>c. c = newline) (snd kv @ [newline]) = snd kv"
    using assms by (simp_all add: strip_line_break var_ok_def)
  obtain a b where kv: "kv = (a, b)" by (cases kv)
  show "secret_var_line (var_line kv) = Inr kv"
    using assms by (simp add: secret_var_line_def var_line_def split_eq_def split_once_append var_ok_def list_nth_def q [unfolded kv snd_conv] s [unfolded kv snd_conv] kv)
  show "secret_var_line (var_line kv @ [newline]) = Inr kv"
    using assms by (simp add: secret_var_line_def var_line_def split_eq_def split_once_append var_ok_def list_nth_def q [unfolded kv snd_conv] s [unfolded kv snd_conv] kv)
qed

lemma readlines_vars:
  "list_all var_ok d \<Longrightarrow> vars_of_lines (readlines (encoded_vars d)) acc = Inr (fold (\<lambda>(k, v). dict_set k v) d acc)"
proof (induction d arbitrary: acc)
  case Nil
  then show ?case by (simp add: encoded_vars_def)
next
  case (Cons kv d)
  have ok: "var_ok kv" "list_all var_ok d" using Cons.prems by simp_all
  have nl: "newline \<notin> set (var_line kv)" using ok(1) by (auto simp: var_ok_def var_line_def newline_def)
  have ne: "var_line kv \<noteq> []" by (simp add: var_line_def)
  show ?case
  proof (cases d)
    case Nil
    then have "encoded_vars (kv # d) = var_line kv"
      by (simp add: encoded_vars_def var_line_def case_prod_unfold)
    then show ?thesis
      by (simp add: Nil readlines_last [OF nl ne] secret_var_line_var [OF ok(1)] case_prod_unfold)
  next
    case (Cons x xs)
    then have "encoded_vars (kv # d) = var_line kv @ newline # encoded_vars d"
      by (simp add: encoded_vars_def var_line_def case_prod_unfold)
    then show ?thesis
      by (simp add: readlines_line [OF nl] secret_var_line_var [OF ok(1)] Cons.IH [OF ok(2)] case_prod_unfold)
  qed
qed

lemma fold_dict_set: "distinct (map fst (acc @ d)) \<Longrightarrow> fold (\<lambda>(k, v). dict_set k v) d acc = acc @ d"
proof (induction d arbitrary: acc)
  case (Cons x d)
  have "fst x \<notin> fst ` set acc" using Cons.prems by auto
  then have "dict_set (fst x) (snd x) acc = acc @ [x]"
    by (induction acc) (auto simp: dict_set_def)
  then show ?case using Cons.IH [of "acc @ [x]"] Cons.prems by (simp add: case_prod_unfold)
qed simp

lemma vars_of_lines_keys:
  "vars_of_lines ls vars = Inr d \<Longrightarrow> \<forall>l\<in>set ls. newline \<notin> set (butlast l) \<Longrightarrow>
     \<forall>k\<in>fst ` set vars. CHR ''='' \<notin> set k \<and> newline \<notin> set k \<Longrightarrow> wf_dict vars \<Longrightarrow>
     wf_dict d \<and> (\<forall>k\<in>fst ` set d. CHR ''='' \<notin> set k \<and> newline \<notin> set k)"
proof (induction ls arbitrary: vars)
  case (Cons l ls)
  obtain k v where kv: "secret_var_line l = Inr (k, v)" and rest: "vars_of_lines ls (dict_set k v vars) = Inr d"
    using Cons.prems(1) by (auto simp: rbind_Inr_iff)
  then obtain b where s: "split_once CHR ''='' l = Some (k, b)"
    by (auto simp: secret_var_line_def rbind_Inr_iff split_eq_def list_nth_def split: option.splits if_splits)
  then have l: "l = k @ CHR ''='' # b" and k: "CHR ''='' \<notin> set k" by (simp_all add: split_once_Some)
  have "newline \<notin> set (butlast l)" using Cons.prems(2) by simp
  then have "newline \<notin> set k" by (simp add: l butlast_append)
  then have "\<forall>j\<in>fst ` set (dict_set k v vars). CHR ''='' \<notin> set j \<and> newline \<notin> set j"
    using Cons.prems(3) k by simp
  moreover have "\<forall>l\<in>set ls. newline \<notin> set (butlast l)" using Cons.prems(2) by simp
  ultimately show ?case using Cons.IH [OF rest] wf_dict_set [OF Cons.prems(4)] by blast
qed simp

text \<open>The contract of Fernet: a token is made of letters, digits and \<open>-_=\<close>, and decrypts to the text.\<close>

definition fernet_ok :: "fernet \<Rightarrow> string \<Rightarrow> bool" where
  "fernet_ok F key \<longleftrightarrow> (\<forall>t e. fn_encrypt F key t = Inr e \<longrightarrow>
     fn_decrypt F key e = Inr t \<and> newline \<notin> set e \<and> CHR ''\"'' \<notin> set e)"

lemma map_values_Inr:
  "map_values f d = Inr d' \<Longrightarrow> map fst d' = map fst d \<and> (\<forall>x\<in>set d'. \<exists>t. f t = Inr (snd x))"
  by (induction d arbitrary: d') (force simp: map_values_def rbind_Inr_iff)+

lemma map_values_back:
  "map_values f d = Inr d' \<Longrightarrow> (\<And>t e. f t = Inr e \<Longrightarrow> g e = Inr t) \<Longrightarrow> map_values g d' = Inr d"
  by (induction d arbitrary: d') (auto simp: map_values_def rbind_Inr_iff)

lemma encrypt_plain: "encrypt_nbvars F key (map (\<lambda>(k, v). (k, Str v)) d) = map_values (fn_encrypt F key) d"
  by (induction d) (auto simp: encrypt_nbvars_def map_values_def)

text \<open>Encrypted with a key and written, the variables of a file load back under that key.\<close>

lemma secrets_load_back:
  assumes vars: "open_vars_file files f = Inr d" and F: "fernet_ok F key"
    and enc: "map_values (fn_encrypt F key) d = Inr d'" and content: "files' g = Some (encoded_vars d')"
  shows "rbind (open_vars_file files' g) (map_values (fn_decrypt F key)) = Inr d"
proof -
  have keys: "wf_dict d \<and> (\<forall>k\<in>fst ` set d. CHR ''='' \<notin> set k \<and> newline \<notin> set k)"
  proof (cases "files f")
    case None
    then show ?thesis using vars by (simp add: open_vars_file_def)
  next
    case (Some t)
    then show ?thesis
      using vars vars_of_lines_keys [of "readlines t" "[]" d] readlines_no_break [of _ t]
      by (auto simp: open_vars_file_def)
  qed
  note d' = map_values_Inr [OF enc]
  have dist: "distinct (map fst d')" using d' keys by (simp add: wf_dict_def)
  have "list_all var_ok d'"
    unfolding list_all_iff
  proof
    fix x assume x: "x \<in> set d'"
    then have "fst x \<in> fst ` set d" using d' by (metis image_eqI list.set_map)
    then show "var_ok x" using x d' keys F by (auto simp: var_ok_def fernet_ok_def)
  qed
  then have "open_vars_file files' g = Inr d'"
    using fold_dict_set [of "[]" d'] dist by (simp add: open_vars_file_def content readlines_vars)
  then show ?thesis
    using map_values_back [OF enc] F by (simp add: fernet_ok_def)
qed

end
