(* ===== verification/Bundler.thy ===== *)
theory Bundler
  imports Secrets Contexts
begin

text \<open>
  Bundling a project for its build (\<open>runtimes/bundler.py\<close>). The world is the text files by their path, the
  archives written by Python itself, and the commands run; \<open>run\<close> says what a command prints (what
  \<open>git archive\<close> writes is git's). Directories are not kept, and paths are in normal form.
\<close>

definition CLIENT_TMP_FOLDER :: string where "CLIENT_TMP_FOLDER = ''.nb_tmp''"
definition ZIP_GIT_PREFIX :: string where "ZIP_GIT_PREFIX = ''src/''"

record bundle_world =
  bw_files :: "string dict"
  bw_zips :: "string dict dict"
  bw_calls :: "string list"

type_synonym cmd_lib = "string list \<Rightarrow> string \<times> string"

definition call_cmd :: "cmd_lib \<Rightarrow> string \<Rightarrow> bundle_world \<Rightarrow> string result \<times> bundle_world" where
  "call_cmd run cmd w = (execute_cmd run cmd, w\<lparr>bw_calls := bw_calls w @ [cmd]\<rparr>)"

definition write_file_at :: "string \<Rightarrow> string \<Rightarrow> bundle_world \<Rightarrow> bundle_world" where
  "write_file_at p t w = w\<lparr>bw_files := dict_set p t (bw_files w)\<rparr>"

definition unlink_file :: "string \<Rightarrow> bundle_world \<Rightarrow> bundle_world" where
  "unlink_file p w = w\<lparr>bw_files := dict_del p (bw_files w)\<rparr>"

definition secrets_filepath :: "string \<Rightarrow> string" where
  "secrets_filepath wa = wa @ CHR ''/'' # CLIENT_TMP_FOLDER @ CHR ''/'' # SECRETS_FILENAME"

definition bundle_write_secrets ::
  "fernet \<Rightarrow> string \<Rightarrow> string \<Rightarrow> py_text dict \<Rightarrow> bundle_world \<Rightarrow> string result \<times> bundle_world" where
  "bundle_write_secrets F wa key nbvars w =
     (case encrypt_nbvars F key nbvars of
        Inl e \<Rightarrow> (Inl e, w)
      | Inr d \<Rightarrow> (Inr (secrets_filepath wa), write_file_at (secrets_filepath wa) (encoded_vars d) w))"

definition output_zip :: "string \<Rightarrow> string \<Rightarrow> string" where
  "output_zip wa filename = wa @ CHR ''/'' # CLIENT_TMP_FOLDER @ CHR ''/'' # filename"

definition zip_git_stash ::
  "cmd_lib \<Rightarrow> string \<Rightarrow> string \<Rightarrow> string \<Rightarrow> bundle_world \<Rightarrow> project_bundle_file option result \<times> bundle_world" where
  "zip_git_stash run wa runtime_name prefix w =
     (let filename = runtime_name @ ''.stash.zip'';
          out = output_zip wa filename
      in case call_cmd run ''git stash create'' w of
           (Inl e, w1) \<Rightarrow> (Inl e, w1)
         | (Inr stash_id, w1) \<Rightarrow>
             if stash_id = [] then (Inr None, w1)
             else (case call_cmd run (''git archive --prefix='' @ prefix @ '' --add-file '' @ secrets_filepath wa @
                          '' -o '' @ out @ '' '' @ stash_id @ '' '') w1 of
                     (Inl e, w2) \<Rightarrow> (Inl e, w2)
                   | (Inr _, w2) \<Rightarrow>
                       (Inr (Some \<lparr>bf_runtime_name = runtime_name, bf_version = ''stash'', bf_filepath = out,
                          bf_filename = filename, bf_commit = None, bf_stash = Some True, bf_current = Some False,
                          bf_format_type = ''zip''\<rparr>), w2)))"

text \<open>The last tag; only the exception of \<open>execute_cmd\<close> itself is caught. Then the last commit.\<close>

definition git_name :: "cmd_lib \<Rightarrow> bundle_world \<Rightarrow> string result \<times> bundle_world" where
  "git_name run w =
     (case call_cmd run ''git describe --tags'' w of
        (Inr tag, w1) \<Rightarrow> if tag \<noteq> [] then (Inr tag, w1) else call_cmd run ''git rev-parse --short HEAD'' w1
      | (Inl e, w1) \<Rightarrow>
          if e = CommandExecutionException then call_cmd run ''git rev-parse --short HEAD'' w1 else (Inl e, w1))"

definition zip_git_head ::
  "cmd_lib \<Rightarrow> string \<Rightarrow> string \<Rightarrow> string \<Rightarrow> bundle_world \<Rightarrow> project_bundle_file result \<times> bundle_world" where
  "zip_git_head run wa runtime_name prefix w =
     (case git_name run w of
        (Inl e, w1) \<Rightarrow> (Inl e, w1)
      | (Inr tagname, w1) \<Rightarrow>
          (let filename = runtime_name @ CHR ''.'' # tagname @ ''.zip'';
               out = output_zip wa filename
           in case call_cmd run (''git archive --prefix='' @ prefix @ '' --add-file '' @ secrets_filepath wa @
                     '' -o '' @ out @ '' HEAD '') w1 of
                (Inl e, w2) \<Rightarrow> (Inl e, w2)
              | (Inr _, w2) \<Rightarrow>
                  (Inr \<lparr>bf_runtime_name = runtime_name, bf_version = lower tagname, bf_filepath = out,
                     bf_filename = filename, bf_commit = Some tagname, bf_stash = Some False, bf_current = Some False,
                     bf_format_type = ''zip''\<rparr>, w2)))"

definition skipped :: "string \<Rightarrow> bool" where
  "skipped i \<longleftrightarrow> startswith ''.venv'' i \<or> startswith ''.git'' i \<or> startswith ''.tox'' i \<or> startswith CLIENT_TMP_FOLDER i"

text \<open>The files below a directory, by their path from it.\<close>

definition below :: "string \<Rightarrow> string dict \<Rightarrow> string dict" where
  "below root fs = map (\<lambda>(p, t). (drop (Suc (length root)) p, t)) (filter (\<lambda>(p, _). startswith (root @ ''/'') p) fs)"

definition arc_name :: "string \<Rightarrow> string \<Rightarrow> string" where
  "arc_name prefix i = (if prefix \<noteq> [] then path_str (path_join (py_path prefix) (py_path i)) else i)"

definition zip_entries :: "string \<Rightarrow> string \<Rightarrow> string dict \<Rightarrow> string dict" where
  "zip_entries prefix root fs = map (\<lambda>(i, t). (arc_name prefix i, t)) (filter (\<lambda>(i, _). \<not> skipped i) (below root fs))"

definition zip_current ::
  "string \<Rightarrow> string \<Rightarrow> string \<Rightarrow> string \<Rightarrow> bundle_world \<Rightarrow> project_bundle_file result \<times> bundle_world" where
  "zip_current root wa runtime_name prefix w =
     (let filename = runtime_name @ ''.current.zip'';
          out = output_zip wa filename;
          dst = root @ ''/.secrets''
      in case map_of (bw_files w) (secrets_filepath wa) of
           None \<Rightarrow> (Inl FileNotFoundError, w)
         | Some t \<Rightarrow>
             (let w1 = write_file_at dst t w;
                  w2 = w1\<lparr>bw_zips := dict_set out (zip_entries prefix root (bw_files w1)) (bw_zips w1)\<rparr>
              in (Inr \<lparr>bf_runtime_name = runtime_name, bf_version = ''current'', bf_filepath = out,
                     bf_filename = filename, bf_commit = None, bf_stash = Some False, bf_current = Some True,
                     bf_format_type = ''zip''\<rparr>, unlink_file dst w2)))"

text \<open>\<open>privkey\<close> is the key of the project, \<open>env_key\<close> and \<open>env_vars\<close> the variables of the environment that
  loading the secrets looks at.\<close>

definition bundle_project ::
  "fernet \<Rightarrow> cmd_lib \<Rightarrow> string \<Rightarrow> string \<Rightarrow> runtime_spec \<Rightarrow> string option \<Rightarrow> bool \<Rightarrow> bool \<Rightarrow> string option \<Rightarrow>
   string option \<Rightarrow> bundle_world \<Rightarrow> project_bundle_file result \<times> bundle_world" where
  "bundle_project F run root wa spec privkey stash current env_key env_vars w =
     (if map_of (bw_files w) (root @ CHR ''/'' # ds_requirements (rs_container spec)) = None
      then (Inl (KeyError ''A requirements file is missing''), w)
      else
        case load_secrets F (map_of (bw_files w)) env_key env_vars (Some root) of
          Inl e \<Rightarrow> (Inl e, w)
        | Inr nbvars \<Rightarrow>
            (case (if opt_truthy privkey then bundle_write_secrets F wa (the privkey) nbvars w else (Inr [], w)) of
               (Inl e, w1) \<Rightarrow> (Inl e, w1)
             | (Inr secrets_file, w1) \<Rightarrow>
                 (case (if stash \<and> \<not> current
                        then (case zip_git_stash run wa (rs_name spec) ZIP_GIT_PREFIX w1 of
                                (Inl e, w2) \<Rightarrow> (Inl e, w2)
                              | (Inr None, w2) \<Rightarrow> (Inl TypeError, w2)
                              | (Inr (Some z), w2) \<Rightarrow> (Inr z, w2))
                        else if current \<and> \<not> stash then zip_current root wa (rs_name spec) ZIP_GIT_PREFIX w1
                        else if \<not> current \<and> \<not> stash then zip_git_head run wa (rs_name spec) ZIP_GIT_PREFIX w1
                        else (Inl AttributeError, w1)) of
                    (Inl e, w2) \<Rightarrow> (Inl e, w2)
                  | (Inr z, w2) \<Rightarrow> (Inr z, if opt_truthy privkey then unlink_file secrets_file w2 else w2))))"

section \<open>The properties\<close>

lemma secrets_filepath_root: "secrets_filepath wa = root @ ''/.secrets'' \<longleftrightarrow> wa @ ''/.nb_tmp'' = root"
proof -
  have "secrets_filepath wa = (wa @ ''/.nb_tmp'') @ ''/.secrets''"
    by (simp add: secrets_filepath_def CLIENT_TMP_FOLDER_def SECRETS_FILENAME_def)
  then show ?thesis by (simp only: append_same_eq)
qed

lemma arc_secrets: "arc_name ZIP_GIT_PREFIX ''.secrets'' = ''src/.secrets''"
  by code_simp

lemma secrets_in_zip:
  "map_of fs (root @ ''/.secrets'') = Some t \<Longrightarrow> (''src/.secrets'', t) \<in> set (zip_entries ZIP_GIT_PREFIX root fs)"
proof -
  assume "map_of fs (root @ ''/.secrets'') = Some t"
  then have "(root @ ''/.secrets'', t) \<in> set fs" by (rule map_of_SomeD)
  then have "(''.secrets'', t) \<in> set (below root fs)"
    by (force simp: below_def startswith_iff)
  moreover have "\<not> skipped ''.secrets''" by code_simp
  ultimately have "(arc_name ZIP_GIT_PREFIX ''.secrets'', t) \<in> set (zip_entries ZIP_GIT_PREFIX root fs)"
    by (force simp: zip_entries_def)
  then show ?thesis by (simp add: arc_secrets)
qed

text \<open>What \<open>zip_current\<close> does when it returns.\<close>

lemma zip_current_Inr:
  assumes "zip_current root wa n ZIP_GIT_PREFIX w = (Inr z, w')"
  shows "\<exists>t entries. map_of (bw_files w) (secrets_filepath wa) = Some t \<and>
     map_of (bw_zips w') (bf_filepath z) = Some entries \<and> (''src/.secrets'', t) \<in> set entries \<and>
     bw_files w' = dict_del (root @ ''/.secrets'') (dict_set (root @ ''/.secrets'') t (bw_files w))"
  using assms
  by (force simp: zip_current_def Let_def write_file_at_def unlink_file_def intro!: secrets_in_zip split: option.splits)

lemma load_plain:
  assumes "load_secrets F files None env_vars (Some root) = Inr x" and "root \<noteq> []"
  shows "\<exists>d. open_vars_file files (root @ CHR ''/'' # (case env_vars of None \<Rightarrow> ''local.nbvars'' | Some f \<Rightarrow> f)) = Inr d \<and>
     x = map (\<lambda>(k, v). (k, Str v)) d"
  using assms by (cases env_vars) (auto simp: load_secrets_def base_file_def rbind_Inr_iff)

text \<open>C15. A bundle of the current files that succeeds with a key carries the project's variables: the
  archive holds \<open>src/.secrets\<close>, and wherever that text is the secrets file of a process that has
  the key, loading gives exactly the variables of the plain file; and the secrets are left
  neither in the project nor in the working area.\<close>

theorem bundled_secrets_load:
  assumes run: "bundle_project F git root wa spec (Some key) False True None env_vars w = (Inr z, w')"
    and key: "key \<noteq> []" and root: "root \<noteq> []" and F: "fernet_ok F key" and dirs: "wa @ ''/.nb_tmp'' \<noteq> root"
  shows "\<exists>d entries t.
     open_vars_file (map_of (bw_files w)) (root @ CHR ''/'' # (case env_vars of None \<Rightarrow> ''local.nbvars'' | Some f \<Rightarrow> f)) = Inr d \<and>
     map_of (bw_zips w') (bf_filepath z) = Some entries \<and> (''src/.secrets'', t) \<in> set entries \<and>
     (\<forall>files base nb. files (base_file base SECRETS_FILENAME) = Some t \<longrightarrow>
        load_secrets F files (Some key) nb base = Inr (map (\<lambda>(k, v). (k, Bytes v)) d)) \<and>
     map_of (bw_files w') (root @ ''/.secrets'') = None \<and> map_of (bw_files w') (secrets_filepath wa) = None"
proof -
  let ?f = "root @ CHR ''/'' # (case env_vars of None \<Rightarrow> ''local.nbvars'' | Some f \<Rightarrow> f)"
  let ?sp = "secrets_filepath wa"
  obtain x d' w2 where x: "load_secrets F (map_of (bw_files w)) None env_vars (Some root) = Inr x"
    and enc: "encrypt_nbvars F key x = Inr d'"
    and w2: "zip_current root wa (rs_name spec) ZIP_GIT_PREFIX (write_file_at ?sp (encoded_vars d') w) = (Inr z, w2)"
      "w' = unlink_file ?sp w2"
    using run key by (auto simp: bundle_project_def bundle_write_secrets_def split: if_splits sum.splits prod.splits)
  obtain d where d: "open_vars_file (map_of (bw_files w)) ?f = Inr d" "x = map (\<lambda>(k, v). (k, Str v)) d"
    using load_plain [OF x root] by blast
  have d': "map_values (fn_encrypt F key) d = Inr d'" using enc by (simp add: d(2) encrypt_plain)
  obtain entries where e: "map_of (bw_zips w2) (bf_filepath z) = Some entries" "(''src/.secrets'', encoded_vars d') \<in> set entries"
    and fs: "bw_files w2 = dict_del (root @ ''/.secrets'') (dict_set (root @ ''/.secrets'') (encoded_vars d')
        (dict_set ?sp (encoded_vars d') (bw_files w)))"
    using zip_current_Inr [OF w2(1)] by (auto simp: write_file_at_def)
  have "load_secrets F files (Some key) nb base = Inr (map (\<lambda>(k, v). (k, Bytes v)) d)"
    if g: "files (base_file base SECRETS_FILENAME) = Some (encoded_vars d')" for files base nb
  proof -
    obtain x where "open_vars_file files (base_file base SECRETS_FILENAME) = Inr x" "map_values (fn_decrypt F key) x = Inr d"
      using secrets_load_back [where files' = files, OF d(1) F d' g] by (auto simp: rbind_Inr_iff)
    then show ?thesis using key by (simp add: load_secrets_def)
  qed
  moreover have "map_of (bw_files w') (root @ ''/.secrets'') = None" "map_of (bw_files w') ?sp = None"
    using dirs by (simp_all add: w2(2) unlink_file_def fs secrets_filepath_root [symmetric])
  ultimately show ?thesis
    using d(1) e by (intro exI [of _ d] exI [of _ entries] exI [of _ "encoded_vars d'"]) (auto simp: w2(2) unlink_file_def)
qed

lemma zip_files_kept:
  "zip_git_stash git wa n prefix v = (r, v') \<Longrightarrow> bw_files v' = bw_files v"
  "zip_git_head git wa n prefix v = (r', v') \<Longrightarrow> bw_files v' = bw_files v"
  "zip_current root wa n prefix v = (Inl e, v') \<Longrightarrow> bw_files v' = bw_files v"
  by (auto simp: zip_git_stash_def zip_git_head_def zip_current_def git_name_def call_cmd_def Let_def
      split: sum.splits if_splits prod.splits option.splits)

text \<open>Secrets of a bundle that failed get into a later one. When bundling with a key fails after the
  secrets were written, they stay in the working area; a later bundle of the current files that
  was given no key then packs them, and it succeeds only because they are there.\<close>

lemma failed_bundle_leaves_secrets:
  assumes first: "bundle_project F git root wa spec (Some key) stash current env_key env_vars w = (Inl e, w1)"
    and later: "bundle_project F git' root wa spec' None False True env_key' env_vars' w1 = (Inr z, w2)"
    and key: "key \<noteq> []" and clean: "map_of (bw_files w) (secrets_filepath wa) = None"
  shows "\<exists>x d' entries. load_secrets F (map_of (bw_files w)) env_key env_vars (Some root) = Inr x \<and>
     encrypt_nbvars F key x = Inr d' \<and> map_of (bw_zips w2) (bf_filepath z) = Some entries \<and>
     (''src/.secrets'', encoded_vars d') \<in> set entries"
proof -
  obtain w0 where z: "zip_current root wa (rs_name spec') ZIP_GIT_PREFIX w1 = (Inr z, w0)" "w2 = w0"
    using later by (auto simp: bundle_project_def split: if_splits sum.splits prod.splits)
  obtain t entries where t: "map_of (bw_files w1) (secrets_filepath wa) = Some t"
    "map_of (bw_zips w2) (bf_filepath z) = Some entries" "(''src/.secrets'', t) \<in> set entries"
    using zip_current_Inr [OF z(1)] z(2) by auto
  obtain x d' where x: "load_secrets F (map_of (bw_files w)) env_key env_vars (Some root) = Inr x"
    "encrypt_nbvars F key x = Inr d'"
    and fs: "bw_files w1 = bw_files (write_file_at (secrets_filepath wa) (encoded_vars d') w)"
    using first key t(1) clean
    by (auto simp: bundle_project_def bundle_write_secrets_def split: if_splits sum.splits prod.splits option.splits
        dest!: zip_files_kept)
  have "t = encoded_vars d'" using t(1) by (simp add: fs write_file_at_def)
  then show ?thesis using x t by blast
qed

definition demo_fernet :: fernet where
  "demo_fernet = \<lparr>fn_encrypt = (\<lambda>k t. if newline \<in> set t \<or> CHR ''\"'' \<in> set t then Inl ValueError else Inr (CHR ''g'' # t)),
     fn_decrypt = (\<lambda>k e. if e = [] then Inl ValueError else Inr (tl e))\<rparr>"

lemma demo_fernet_ok: "fernet_ok demo_fernet key"
  by (auto simp: fernet_ok_def demo_fernet_def newline_def split: if_splits)

definition demo_world :: bundle_world where
  "demo_world = \<lparr>bw_files = [(''/p/requirements.txt'', []), (''/p/local.nbvars'', ''TOKEN=\"abc\"''), (''/p/nb.py'', ''x'')],
     bw_zips = [], bw_calls = []\<rparr>"

theorem bundled_secrets_load_witness:
  "\<exists>z w' entries t. bundle_project demo_fernet (\<lambda>_. ([], [])) ''/p'' ''/h'' demo_spec (Some ''key'') False True None None demo_world = (Inr z, w') \<and>
     map_of (bw_zips w') (bf_filepath z) = Some entries \<and> (''src/.secrets'', t) \<in> set entries \<and>
     load_secrets demo_fernet [''/app/.secrets'' \<mapsto> t] (Some ''key'') None (Some ''/app'') = Inr [(''TOKEN'', Bytes ''abc'')]"
proof -
  let ?run = "bundle_project demo_fernet (\<lambda>_. ([], [])) ''/p'' ''/h'' demo_spec (Some ''key'') False True None None demo_world"
  have v: "open_vars_file (map_of (bw_files demo_world)) ''/p/local.nbvars'' = Inr [(''TOKEN'', ''abc'')]"
    by code_simp
  have l: "load_secrets demo_fernet (map_of (bw_files demo_world)) None None (Some ''/p'') = Inr [(''TOKEN'', Str ''abc'')]"
    using v by (simp add: load_secrets_def base_file_def)
  have e: "encrypt_nbvars demo_fernet ''key'' [(''TOKEN'', Str ''abc'')] = Inr [(''TOKEN'', ''gabc'')]"
    by code_simp
  have r: "map_of (bw_files demo_world) ''/p/requirements.txt'' = Some []" by (simp add: demo_world_def)
  obtain z w' where run: "?run = (Inr z, w')"
    using r by (simp add: bundle_project_def demo_spec_def l e bundle_write_secrets_def zip_current_def write_file_at_def Let_def)
  have "''/h'' @ ''/.nb_tmp'' \<noteq> ''/p''" by simp
  from bundled_secrets_load [OF run _ _ demo_fernet_ok this]
  obtain d entries t where b: "open_vars_file (map_of (bw_files demo_world)) ''/p/local.nbvars'' = Inr d"
    "map_of (bw_zips w') (bf_filepath z) = Some entries" "(''src/.secrets'', t) \<in> set entries"
    "\<And>files base nb. files (base_file base SECRETS_FILENAME) = Some t \<Longrightarrow>
        load_secrets demo_fernet files (Some ''key'') nb base = Inr (map (\<lambda>(k, v). (k, Bytes v)) d)"
    by auto
  have d: "d = [(''TOKEN'', ''abc'')]" using b(1) v by simp
  have d: "d = [(''TOKEN'', ''abc'')]" using b(1) v by simp
  have "load_secrets demo_fernet [''/app/.secrets'' \<mapsto> t] (Some ''key'') None (Some ''/app'') = Inr [(''TOKEN'', Bytes ''abc'')]"
    using b(4) [of "[''/app/.secrets'' \<mapsto> t]" "Some ''/app''" None] by (simp add: d base_file_def SECRETS_FILENAME_def)
  then show ?thesis using run b(2,3) by blast
qed

end
