(* ===== verification/Build_Cmd.thy ===== *)
theory Build_Cmd
  imports Pipelines Bundler Project_Init
begin

text \<open>
  The command \<open>runtimes build\<close> and its neighbours (\<open>cmd/runtimes.py\<close>): the key, the spec, the bundle, and
  then the upload and the build on the server, or a build by the local Docker. The bundle is that
  of \<open>Bundler\<close>, the server's handlers those of \<open>Control\<close>, the build that of \<open>Executors\<close>. \<open>read_zip\<close> gives the
  content of an archive on disk. Each command gives its exit, what it prints and the states after.
\<close>

section \<open>The steps\<close>

record build_opts =
  bo_name :: string
  bo_only_bundle :: bool
  bo_stash :: bool
  bo_current :: bool
  bo_local :: bool
  bo_requirements :: bool

text \<open>The client of the command: its key, its working area and the specs of its runtimes file.\<close>

record build_client =
  bl_key :: "string result"
  bl_area :: "string result"
  bl_spec :: "string \<Rightarrow> runtime_spec result"

text \<open>Only a missing key is taken for no key.\<close>

definition build_key :: "build_client \<Rightarrow> (string option \<times> string list) result" where
  "build_key c =
     (case bl_key c of
        Inr k \<Rightarrow> Inr (Some k, [])
      | Inl e \<Rightarrow> if e = PrivateKeyNotFound then Inr (None, [''[cyan bold]=> Not private key found for this project[/]'']) else Inl e)"

text \<open>\<open>--requirements\<close> runs a command line with a redirection that no shell sees.\<close>

definition freeze_requirements :: "cmd_lib \<Rightarrow> bool \<Rightarrow> bundle_world \<Rightarrow> unit result \<times> bundle_world" where
  "freeze_requirements run requirements w =
     (if requirements
      then (case call_cmd run ''pip3 list --format=freeze > requirements.txt'' w of
              (Inl e, w') \<Rightarrow> (Inl e, w') | (Inr _, w') \<Rightarrow> (Inr (), w'))
      else (Inr (), w))"

definition bundle_failure :: "runtime_spec \<Rightarrow> py_error \<Rightarrow> string option" where
  "bundle_failure spec e =
     (case e of
        KeyError _ \<Rightarrow> Some (''[red bold](x) requirements file missing from '' @ ds_requirements (rs_container spec) @ ''[/]'')
      | TypeError \<Rightarrow> Some (''[red bold](x) There isn't changes in the git repository to perform a '' @
          ''STASH zip file. For untracked files you should add to the stash the changes, perform: git add .[/]'')
      | AttributeError \<Rightarrow> Some ''[red bold](x) Bad option: current and stash are different options[/]''
      | _ \<Rightarrow> None)"

definition build_bundle ::
  "fernet \<Rightarrow> cmd_lib \<Rightarrow> string \<Rightarrow> string option \<Rightarrow> string option \<Rightarrow> build_client \<Rightarrow> runtime_spec \<Rightarrow> string option \<Rightarrow>
   bool \<Rightarrow> bool \<Rightarrow> bundle_world \<Rightarrow> project_bundle_file result \<times> string list \<times> bundle_world" where
  "build_bundle F run root env_key env_vars c spec pv stash current w =
     (case (case bl_area c of
              Inl e \<Rightarrow> (Inl e, w)
            | Inr wa \<Rightarrow> bundle_project F run root wa spec pv stash current env_key env_vars w) of
        (Inr z, w') \<Rightarrow> (Inr z, [''=> Bundle generated in '' @ bf_filepath z], w')
      | (Inl e, w') \<Rightarrow>
          (case bundle_failure spec e of
             None \<Rightarrow> (Inl e, [], w') | Some m \<Rightarrow> (Inl (SystemExit 255), [m], w')))"

section \<open>On the server\<close>

record ('s, 'b) build_api =
  bu_upload :: "string \<Rightarrow> string \<Rightarrow> 'b list list \<Rightarrow> 's \<Rightarrow> int result \<times> 's"
  bu_build :: "runtime_spec \<Rightarrow> string \<Rightarrow> 's \<Rightarrow> (int \<times> string result) result \<times> 's"

text \<open>The pieces are read of the file while they are sent; a refused upload is reported and ends the command
  as a success. \<open>watch\<close> is the watcher of an execution, when it was asked for.\<close>

definition build_remote ::
  "('s, 'b) build_api \<Rightarrow> (string \<Rightarrow> 's \<Rightarrow> unit result \<times> string list) option \<Rightarrow> (string \<Rightarrow> 'b list result) \<Rightarrow> runtime_spec \<Rightarrow>
   project_bundle_file \<Rightarrow> 's \<Rightarrow> unit result \<times> string list \<times> 's" where
  "build_remote A watch read_zip spec z st =
     (case read_zip (bf_filepath z) of
        Inl e \<Rightarrow> (Inl e, [], st)
      | Inr content \<Rightarrow>
          (case bu_upload A (bf_runtime_name z) (bf_version z) (file_chunks 1024 content) st of
             (up, st1) \<Rightarrow>
               (case rbind up projects_upload of
                  Inl e \<Rightarrow> if e = ProjectUploadError then (Inr (), [''[bold red](x) Error uploading file[/]''], st1) else (Inl e, [], st1)
                | Inr _ \<Rightarrow>
                    (let uploaded = ''[bold green]=> Succesfully uploaded file[/]''; (b, st2) = bu_build A spec (bf_version z) st1 in
                     case rbind b projects_build of
                       Inl e \<Rightarrow> (Inl e, [uploaded], st2)
                     | Inr execid \<Rightarrow>
                         if opt_truthy execid
                         then (let (r, ls) = (case watch of None \<Rightarrow> (Inr (), []) | Some f \<Rightarrow> f (fmt_opt execid) st2)
                               in (r, [uploaded, ''=> Build task sent with execid: [bold magenta]'' @ fmt_opt execid @ ''[/]''] @ ls, st2))
                         else (Inl (SystemExit 255), [uploaded, ''[bold red](x) Error sending build task [/]''], st2)))))"

section \<open>By the local Docker\<close>

definition PROJECTS_STORE_CLASS :: string where "PROJECTS_STORE_CLASS = ''labfunctions.io.kv_local.KVLocal''"
definition PROJECTS_STORE_BUCKET :: string where "PROJECTS_STORE_BUCKET = ''labfunctions''"

definition build_lines :: "build_ctx \<Rightarrow> docker_build_log \<Rightarrow> string list" where
  "build_lines ctx rs =
     [''=> Image: [magenta]'' @ bx_docker_name ctx @ CHR '':'' # bx_version ctx @ ''[/]'',
      ''=> Version: [magenta]'' @ bx_version ctx @ ''[/]''] @
     (if opt_truthy (bx_registry ctx) then [''=> Registry: [magenta]'' @ the (bx_registry ctx) @ ''[/]''] else []) @
     (if db_error rs
      then [''[red bold](x) Error building [magenta]'' @ bx_docker_name ctx @ CHR '':'' # bx_version ctx @ ''[/][/]'',
            ''[red]'' @ dl_logs_text (db_build_log rs)]
      else [''[green bold]=> Succesfully[/]''])"

text \<open>\<open>creds\<close> are the client's, put into the environment first; \<open>builder\<close> is \<open>builder_exec\<close> with \<open>LF_RUN_LOCAL\<close> set.
  Nothing is registered, whatever the build gave, and the exit does not tell.\<close>

definition build_local ::
  "token_creds result \<Rightarrow> os_env \<Rightarrow> (string \<Rightarrow> string) \<Rightarrow> nanoid \<Rightarrow> ('k, 'b) kv_ops \<Rightarrow> (build_ctx \<Rightarrow> 'k \<Rightarrow> docker_exc + docker_build_log) \<Rightarrow>
   (string \<Rightarrow> 'b list list result) \<Rightarrow> string result \<Rightarrow> runtime_spec \<Rightarrow> project_bundle_file \<Rightarrow> 'k \<Rightarrow>
   (docker_exc + unit) \<times> string list \<times> 'k" where
  "build_local creds os nfkd gen kv builder from_file_gen projectid spec z k =
     (case rbind creds (\<lambda>_. rbind projectid (\<lambda>pid. rbind (from_file_gen (bf_filepath z)) (\<lambda>chunks. Inr (pid, chunks)))) of
        Inl e \<Rightarrow> (Inl (OtherError e), [], k)
      | Inr (pid, chunks) \<Rightarrow>
          (let ctx = create_build_ctx os nfkd gen pid spec (bf_version z) PROJECTS_STORE_CLASS PROJECTS_STORE_BUCKET None
           in case kv_put_stream kv (bx_download_zip ctx) chunks k of
                (Inl e, k') \<Rightarrow> (Inl (OtherError e), [], k')
              | (Inr _, k') \<Rightarrow>
                  (case builder ctx k' of
                     Inl e \<Rightarrow> (Inl e, [], k') | Inr rs \<Rightarrow> (Inr (), build_lines ctx rs, k'))))"

section \<open>The command\<close>

text \<open>Up to the bundle; \<open>get_spec_from_file\<close> raises for a name that is not there, so the message for it is never
  printed.\<close>

definition build_prepare ::
  "fernet \<Rightarrow> cmd_lib \<Rightarrow> string \<Rightarrow> string option \<Rightarrow> string option \<Rightarrow> build_client \<Rightarrow> build_opts \<Rightarrow> bundle_world \<Rightarrow>
   (runtime_spec \<times> project_bundle_file) result \<times> string list \<times> bundle_world" where
  "build_prepare F run root env_key env_vars c opts w =
     (case build_key c of
        Inl e \<Rightarrow> (Inl e, [], w)
      | Inr (pv, ls) \<Rightarrow>
          (case freeze_requirements run (bo_requirements opts) w of
             (Inl e, w1) \<Rightarrow> (Inl e, ls, w1)
           | (Inr _, w1) \<Rightarrow>
               (case bl_spec c (bo_name opts) of
                  Inl e \<Rightarrow> (Inl e, ls, w1)
                | Inr spec \<Rightarrow>
                    (case build_bundle F run root env_key env_vars c spec pv (bo_stash opts) (bo_current opts) w1 of
                       (r, ls', w2) \<Rightarrow>
                         (rbind r (\<lambda>z. Inr (spec, z)),
                          ls @ [''=> Bundling runtime [bold magenta]'' @ bo_name opts @ ''[/]''] @ ls', w2)))))"

text \<open>\<open>--only-bundle\<close> keeps the command from the server, but not from the local Docker.\<close>

datatype build_mode = OnServer | Locally | OnlyBundle

definition build_mode :: "build_opts \<Rightarrow> build_mode" where
  "build_mode opts =
     (if \<not> bo_only_bundle opts \<and> \<not> bo_local opts then OnServer else if bo_local opts then Locally else OnlyBundle)"

definition build_cmd ::
  "fernet \<Rightarrow> cmd_lib \<Rightarrow> string \<Rightarrow> string option \<Rightarrow> string option \<Rightarrow> build_client \<Rightarrow> build_opts \<Rightarrow> ('s, 'b) build_api \<Rightarrow>
   (string \<Rightarrow> 's \<Rightarrow> unit result \<times> string list) option \<Rightarrow> (bundle_world \<Rightarrow> string \<Rightarrow> 'b list result) \<Rightarrow>
   (runtime_spec \<Rightarrow> project_bundle_file \<Rightarrow> bundle_world \<Rightarrow> 's \<Rightarrow> unit result \<times> string list \<times> 's) \<Rightarrow> bundle_world \<Rightarrow> 's \<Rightarrow>
   unit result \<times> string list \<times> bundle_world \<times> 's" where
  "build_cmd F run root env_key env_vars c opts A watch read_zip local_build w st =
     (case build_prepare F run root env_key env_vars c opts w of
        (Inl e, ls, w') \<Rightarrow> (Inl e, ls, w', st)
      | (Inr (spec, z), ls, w') \<Rightarrow>
          (case (case build_mode opts of
                   OnServer \<Rightarrow> build_remote A watch (read_zip w') spec z st
                 | Locally \<Rightarrow> local_build spec z w' st
                 | OnlyBundle \<Rightarrow> (Inr (), [], st)) of
             (r, ls', st') \<Rightarrow> (r, ls @ ls', w', st')))"

text \<open>\<open>runtimes list\<close> and \<open>runtimes generate\<close>.\<close>

definition runtimes_list_cmd :: "runtime_data list result \<Rightarrow> string list list result" where
  "runtimes_list_cmd rows = rbind rows (\<lambda>rs. Inr (map (\<lambda>r. [rd_runtime_name r, rd_docker_name r, rd_version r]) rs))"

definition generate_cmd :: "text_lib \<Rightarrow> path \<Rightarrow> string \<Rightarrow> string \<Rightarrow> string list disk_op" where
  "generate_cmd X cwd lab_file name =
     disk_bind (reading (\<lambda>d. get_spec_from_file (tx_parse_spec X) name (open_yaml_at X (under cwd lab_file) d))) (\<lambda>spec.
     disk_bind (generate_dockerfile X cwd spec) (\<lambda>_.
       of_result (Inr [''[green]Dockerfile generated as Dockerfile.'' @ name @ ''[/]''])))"

section \<open>Facts\<close>

lemma bundle_project_name:
  "bundle_project F run root wa spec pv stash current env_key env_vars w = (Inr z, w') \<Longrightarrow> bf_runtime_name z = rs_name spec"
  by (auto simp: bundle_project_def zip_git_stash_def zip_current_def zip_git_head_def Let_def
      split: if_splits sum.splits prod.splits option.splits)

lemma build_prepared:
  assumes "build_prepare F run root env_key env_vars c opts w = (Inr (spec, z), ls, w')"
  shows "bl_spec c (bo_name opts) = Inr spec \<and> bf_runtime_name z = rs_name spec \<and>
    (\<exists>wa pv w1. bl_area c = Inr wa \<and> bundle_project F run root wa spec pv (bo_stash opts) (bo_current opts) env_key env_vars w1 = (Inr z, w'))"
proof -
  obtain pv ls0 w1 where "bl_spec c (bo_name opts) = Inr spec"
    and "\<exists>ls'. build_bundle F run root env_key env_vars c spec pv (bo_stash opts) (bo_current opts) w1 = (Inr z, ls', w')"
    using assms by (auto simp: build_prepare_def rbind_Inr_iff split: sum.splits prod.splits)
  then obtain wa where "bl_area c = Inr wa"
    "bundle_project F run root wa spec pv (bo_stash opts) (bo_current opts) env_key env_vars w1 = (Inr z, w')"
    by (auto simp: build_bundle_def split: sum.splits prod.splits option.splits)
  then show ?thesis using bundle_project_name \<open>bl_spec c (bo_name opts) = Inr spec\<close> by blast
qed

text \<open>The flag that freezes the requirements writes no file.\<close>

lemma freeze_writes_nothing: "freeze_requirements run b w = (r, w') \<Longrightarrow> bw_files w' = bw_files w"
  by (auto simp: freeze_requirements_def call_cmd_def split: if_splits sum.splits prod.splits)

lemma only_bundle_local: "bo_local opts \<Longrightarrow> build_mode opts = Locally"
  by (simp add: build_mode_def)

section \<open>With the server\<close>

text \<open>The endpoints over the database, the store and the queue; \<open>dumps\<close> and \<open>parse\<close> carry the spec.\<close>

type_synonym 'k build_server = "db \<times> 'k \<times> queue_call list"

definition lab_build_api ::
  "os_env \<Rightarrow> (string \<Rightarrow> string) \<Rightarrow> nanoid \<Rightarrow> queue_lib \<Rightarrow> ('k, 'b) kv_ops \<Rightarrow> string \<Rightarrow> string \<Rightarrow> string option \<Rightarrow> string \<Rightarrow>
   (runtime_spec \<Rightarrow> pyval) \<Rightarrow> (pyval \<Rightarrow> runtime_spec result) \<Rightarrow> string \<Rightarrow> ('k build_server, 'b) build_api" where
  "lab_build_api os nfkd gen lib kv cls bucket registry timeout dumps parse pid =
     \<lparr>bu_upload = (\<lambda>rt v chunks (db, k, calls).
        case project_upload os nfkd kv pid (Some rt) (Some v) chunks db k of
          (Inl _, k') \<Rightarrow> (Inr 500, (db, k', calls)) | (Inr (code, _), k') \<Rightarrow> (Inr code, (db, k', calls))),
      bu_build = (\<lambda>spec v (db, k, calls).
        case project_build lib os nfkd gen cls bucket registry timeout parse pid (dumps spec) (Some v) db of
          (Inl _, db', new) \<Rightarrow> (Inr (500, Inl (KeyError ''execid'')), (db', k, calls @ new))
        | (Inr (code, b), db', new) \<Rightarrow>
            (Inr (code, case b of BBuild ctx \<Rightarrow> Inr (bx_execid ctx) | _ \<Rightarrow> Inl (KeyError ''execid'')), (db', k, calls @ new)))\<rparr>"

lemma project_upload_local_codes:
  assumes "project_upload os nfkd (akv_local root bucket) pid rt v ds db fs = (Inr (code, b), fs')"
  shows "code = 201"
  using assms
  by (auto simp: project_upload_def akv_local_def akvl_put_stream_def Let_def split: sum.splits option.splits prod.splits bool.splits)

lemma project_build_done:
  assumes "parse (dumps spec) = Inr spec" and "\<And>c. lib c = None"
  shows "\<exists>ctx calls. enqueue_build os nfkd gen cls bucket registry timeout pid spec (Some v) = Inr (ctx, calls) \<and>
     calls = [Enqueue BUILD_QUEUE ''labfunctions.control.tasks.build_dispatcher'' (bx_execid ctx) (PStr timeout) (BuildData ctx)] \<and>
     bx_execid ctx \<noteq> [] \<and>
     project_build lib os nfkd gen cls bucket registry timeout parse pid (dumps spec) (Some v) db = (Inr (202, BBuild ctx), db, calls)"
  using assms
  by (simp add: project_build_def enqueue_build_def Let_def commit_def perform_silent create_build_ctx_def execid_for_build_def)

text \<open>C7. What \<open>runtimes build\<close> sends is what a worker builds. When the command ends well against the server's
  handlers, the bundle was made of the spec of that name; either the upload was refused, which the
  user reads although the command succeeds, and nothing is queued, or one build is queued, the
  user reads its execution id, and the worker that takes it from the same store gives Docker the
  content of the bundle first of all, with the Dockerfile of the runtime and the image name of
  the project, the registry in front when there is one.\<close>

theorem build_from_command_line:
  assumes run: "build_cmd F git root env_key env_vars c opts
      (lab_build_api os nfkd gen lib (akv_local kroot bucket) cls bucket registry timeout dumps parse pid) None read_zip locally w (db, fs, []) =
      (Inr (), out, w', (db', fs', calls))"
    and mode: "build_mode opts = OnServer"
    and json: "\<forall>spec. bl_spec c (bo_name opts) = Inr spec \<longrightarrow> parse (dumps spec) = Inr spec" and silent: "\<And>c. lib c = None"
  shows "\<exists>spec z content. bl_spec c (bo_name opts) = Inr spec \<and>
     (\<exists>wa pv w1. bl_area c = Inr wa \<and> bundle_project F git root wa spec pv (bo_stash opts) (bo_current opts) env_key env_vars w1 = (Inr z, w')) \<and>
     read_zip w' (bf_filepath z) = Inr content \<and> db' = db \<and>
     (calls = [] \<and> ''[bold red](x) Error uploading file[/]'' \<in> set out \<or>
      (\<exists>ctx. calls = [Enqueue BUILD_QUEUE ''labfunctions.control.tasks.build_dispatcher'' (bx_execid ctx) (PStr timeout) (BuildData ctx)] \<and>
         ''=> Build task sent with execid: [bold magenta]'' @ bx_execid ctx @ ''[/]'' \<in> set out \<and>
         (\<forall>unzip dir loads L. unzip content = Inr dir \<longrightarrow>
            (\<exists>rest. snd (build_task_run (kv_local nl kroot bucket) unzip loads L ctx fs') =
               BuildImage dir (''Dockerfile.'' @ rs_name spec)
                 ((if opt_truthy registry then the registry @ ''/'' else []) @ ''labfunctions/'' @ pid @ ''-'' @ rs_name spec) False # rest))))"
proof -
  let ?A = "lab_build_api os nfkd gen lib (akv_local kroot bucket) cls bucket registry timeout dumps parse pid"
  obtain spec z ls where prep: "build_prepare F git root env_key env_vars c opts w = (Inr (spec, z), ls, w')"
    using run by (auto simp: build_cmd_def split: sum.splits prod.splits)
  obtain out' where rem: "build_remote ?A None (read_zip w') spec z (db, fs, []) = (Inr (), out', (db', fs', calls))" and out: "out = ls @ out'"
    using run mode by (auto simp: build_cmd_def prep split: prod.splits)
  note p = build_prepared [OF prep]
  obtain content where content: "read_zip w' (bf_filepath z) = Inr content"
    using rem by (auto simp: build_remote_def split: sum.splits)
  obtain up fs1 where up: "project_upload os nfkd (akv_local kroot bucket) pid (Some (rs_name spec)) (Some (bf_version z)) (file_chunks 1024 content) db fs = (up, fs1)"
    by (rule prod.exhaust)
  obtain ctx new where b: "enqueue_build os nfkd gen cls bucket registry timeout pid spec (Some (bf_version z)) = Inr (ctx, new)"
    "new = [Enqueue BUILD_QUEUE ''labfunctions.control.tasks.build_dispatcher'' (bx_execid ctx) (PStr timeout) (BuildData ctx)]"
    "bx_execid ctx \<noteq> []"
    "project_build lib os nfkd gen cls bucket registry timeout parse pid (dumps spec) (Some (bf_version z)) db = (Inr (202, BBuild ctx), db, new)"
    using project_build_done [where parse = parse and dumps = dumps and lib = lib and spec = spec, OF json [rule_format, OF conjunct1 [OF p]] silent] by blast
  have name: "bf_runtime_name z = rs_name spec" using p by blast
  have main: "db' = db \<and> (calls = [] \<and> ''[bold red](x) Error uploading file[/]'' \<in> set out \<or>
      (\<exists>ctx. calls = [Enqueue BUILD_QUEUE ''labfunctions.control.tasks.build_dispatcher'' (bx_execid ctx) (PStr timeout) (BuildData ctx)] \<and>
         ''=> Build task sent with execid: [bold magenta]'' @ bx_execid ctx @ ''[/]'' \<in> set out \<and>
         (\<forall>unzip dir loads L. unzip content = Inr dir \<longrightarrow>
            (\<exists>rest. snd (build_task_run (kv_local nl kroot bucket) unzip loads L ctx fs') =
               BuildImage dir (''Dockerfile.'' @ rs_name spec)
                 ((if opt_truthy registry then the registry @ ''/'' else []) @ ''labfunctions/'' @ pid @ ''-'' @ rs_name spec) False # rest))))"
  proof (cases up)
    case (Inl e)
    then show ?thesis
      using rem by (auto simp: build_remote_def content lab_build_api_def name up projects_upload_def out)
  next
    case (Inr x)
    obtain code bd where split: "x = (code, bd)" by (rule prod.exhaust)
    have "code = 201" by (rule project_upload_local_codes [OF up [unfolded Inr split]])
    then have x: "up = Inr (201, bd)" using Inr split by simp
    have "db' = db \<and> fs' = fs1 \<and> calls = new \<and> ''=> Build task sent with execid: [bold magenta]'' @ bx_execid ctx @ ''[/]'' \<in> set out"
      unfolding out using rem b(3) by (simp add: build_remote_def content lab_build_api_def name up x projects_upload_def projects_build_def b(4))
        (metis fmt_opt.simps(2) list.set_intros)
    moreover have "\<exists>rest. snd (build_task_run (kv_local nl kroot bucket) unzip loads L ctx fs1) =
        BuildImage dir (''Dockerfile.'' @ rs_name spec)
          ((if opt_truthy registry then the registry @ ''/'' else []) @ ''labfunctions/'' @ pid @ ''-'' @ rs_name spec) False # rest"
      if "unzip content = Inr dir" for unzip dir loads L
      using uploaded_bundle_is_built [OF up [unfolded x] b(1), of unzip dir nl loads L] that by (simp add: concat_file_chunks)
    ultimately show ?thesis using b(2) by blast
  qed
  have made: "\<exists>wa pv w1. bl_area c = Inr wa \<and>
      bundle_project F git root wa spec pv (bo_stash opts) (bo_current opts) env_key env_vars w1 = (Inr z, w')"
    using p by blast
  show ?thesis
    by (intro exI [of _ spec] exI [of _ z] exI [of _ content] conjI conjunct1 [OF p] made content
        conjunct1 [OF main] conjunct2 [OF main])
qed

definition demo_client :: build_client where
  "demo_client = \<lparr>bl_key = Inr ''key'', bl_area = Inr ''/h'', bl_spec = (\<lambda>_. Inr demo_spec)\<rparr>"

definition demo_opts :: build_opts where
  "demo_opts = \<lparr>bo_name = ''cpu'', bo_only_bundle = False, bo_stash = False, bo_current = True, bo_local = False, bo_requirements = False\<rparr>"

lemma demo_prepare:
  "\<exists>z ls w'. build_prepare demo_fernet (\<lambda>_. ([], [])) ''/p'' None None demo_client demo_opts demo_world = (Inr (demo_spec, z), ls, w') \<and>
     bf_runtime_name z = ''cpu'' \<and> bf_version z = ''current''"
proof -
  have v: "open_vars_file (map_of (bw_files demo_world)) ''/p/local.nbvars'' = Inr [(''TOKEN'', ''abc'')]"
    by code_simp
  have l: "load_secrets demo_fernet (map_of (bw_files demo_world)) None None (Some ''/p'') = Inr [(''TOKEN'', Str ''abc'')]"
    using v by (simp add: load_secrets_def base_file_def)
  have e: "encrypt_nbvars demo_fernet ''key'' [(''TOKEN'', Str ''abc'')] = Inr [(''TOKEN'', ''gabc'')]"
    by code_simp
  have r: "map_of (bw_files demo_world) ''/p/requirements.txt'' = Some []" by (simp add: demo_world_def)
  show ?thesis
    by (simp add: build_prepare_def build_key_def demo_client_def demo_opts_def freeze_requirements_def build_bundle_def
        bundle_project_def demo_spec_def r l [unfolded demo_spec_def] e bundle_write_secrets_def zip_current_def write_file_at_def Let_def)
qed

lemma demo_upload:
  "\<exists>fs'. project_upload posix id (akv_local ''/tmp'' ''lab'') ''pid'' (Some ''cpu'') (Some ''current'') [''zip''] admin_db root_fs =
      (Inr (201, BMsg ''ok''), fs')"
proof -
  have n: "secure_filename posix id ''cpu.current.zip'' = ''cpu.current.zip''"
    using secure_filename_fixes [of id "''cpu.current.zip''"] by (simp add: filename_char_def)
  have uri: "build_upload_uri posix id ''pid'' ''cpu'' ''current'' = ''pid/uploads/cpu.current.zip''"
    by (simp add: build_upload_uri_def n PROJECT_UPLOADS_def Let_def) code_simp
  have pp: "path_parts (kv_uri ''/tmp'' ''lab'' ''pid/uploads/cpu.current.zip'') = [''tmp'', ''lab'', ''pid'', ''uploads'', ''cpu.current.zip'']"
    by (simp add: kv_uri_def path_parts_def)
  have "\<exists>pd. get_by_projectid ''pid'' None admin_db = Inr (Some pd)"
    by (simp add: get_by_projectid_def owned_by_def model2projectdata_def get_userid_async_def first_row_def admin_db_def
        empty_db_def demo_project_def demo_admin_def demo_user_def)
  then obtain pd where prj: "get_by_projectid ''pid'' None admin_db = Inr (Some pd)" and pd: "pd_projectid pd = ''pid''"
    using get_by_projectid_id by blast
  show ?thesis
    by (simp add: project_upload_def prj pd uri akv_local_def akvl_put_stream_def Let_def parent_parts_def pp mkdir_p_def
        through_def resolve_parts_def write_file_def walks_def root_fs_def)
qed

theorem build_from_command_line_witness:
  "\<exists>out w' fs' ctx rest.
     build_cmd demo_fernet (\<lambda>_. ([], [])) ''/p'' None None demo_client demo_opts
       (lab_build_api posix id demo_nanoid (\<lambda>_. None) (akv_local ''/tmp'' ''lab'') ''KVLocal'' ''lab'' None ''60'' (\<lambda>_. PNone) (\<lambda>_. Inr demo_spec) ''pid'')
       None (\<lambda>_ _. Inr ''zip'') (\<lambda>_ _ _ st. (Inr (), [], st)) demo_world (admin_db, root_fs, []) =
       (Inr (), out, w', (admin_db, fs', [Enqueue BUILD_QUEUE ''labfunctions.control.tasks.build_dispatcher'' (bx_execid ctx) (PStr ''60'') (BuildData ctx)])) \<and>
     snd (build_task_run (kv_local (\<lambda>c. c = newline) ''/tmp'' ''lab'') Inr demo_loads (demo_docker None []) ctx fs') =
       BuildImage ''zip'' ''Dockerfile.cpu'' ''labfunctions/pid-cpu'' False # rest"
proof -
  let ?parse = "\<lambda>_::pyval. Inr demo_spec :: runtime_spec result" and ?dumps = "\<lambda>_::runtime_spec. PNone" and ?lib = "\<lambda>_::queue_call. None"
  let ?A = "lab_build_api posix id demo_nanoid ?lib (akv_local ''/tmp'' ''lab'') ''KVLocal'' ''lab'' None ''60'' ?dumps ?parse ''pid''"
  let ?local = "\<lambda>_ _ _ st. (Inr (), [], st)"
  let ?run = "build_cmd demo_fernet (\<lambda>_. ([], [])) ''/p'' None None demo_client demo_opts ?A None (\<lambda>_ _. Inr ''zip'') ?local demo_world (admin_db, root_fs, [])"
  obtain z ls w' where prep: "build_prepare demo_fernet (\<lambda>_. ([], [])) ''/p'' None None demo_client demo_opts demo_world = (Inr (demo_spec, z), ls, w')"
    and z: "bf_runtime_name z = ''cpu''" "bf_version z = ''current''" using demo_prepare by blast
  obtain fs' where up: "project_upload posix id (akv_local ''/tmp'' ''lab'') ''pid'' (Some ''cpu'') (Some ''current'') [''zip''] admin_db root_fs =
      (Inr (201, BMsg ''ok''), fs')" using demo_upload by blast
  obtain ctx new where b: "new = [Enqueue BUILD_QUEUE ''labfunctions.control.tasks.build_dispatcher'' (bx_execid ctx) (PStr ''60'') (BuildData ctx)]"
    "bx_execid ctx \<noteq> []"
    "project_build ?lib posix id demo_nanoid ''KVLocal'' ''lab'' None ''60'' ?parse ''pid'' PNone (Some ''current'') admin_db = (Inr (202, BBuild ctx), admin_db, new)"
    using project_build_done [where parse = ?parse and dumps = ?dumps and lib = ?lib and spec = demo_spec and os = posix and nfkd = id
        and gen = demo_nanoid and cls = "''KVLocal''" and bucket = "''lab''" and registry = None and timeout = "''60''" and pid = "''pid''"
        and v = "''current''" and db = admin_db, OF refl refl] by (elim exE conjE)
  have m: "build_mode demo_opts = OnServer" by (simp add: build_mode_def demo_opts_def)
  have chunks: "file_chunks 1024 ''zip'' = [''zip'']" by (simp add: file_chunks.simps)
  have run: "\<exists>out. ?run = (Inr (), out, w', (admin_db, fs', new))"
    using b(2) by (simp add: build_cmd_def prep m build_remote_def lab_build_api_def z chunks up projects_upload_def projects_build_def b(3))
  then obtain out where run: "?run = (Inr (), out, w', (admin_db, fs', new))" by blast
  have "\<exists>rest. snd (build_task_run (kv_local (\<lambda>c. c = newline) ''/tmp'' ''lab'') Inr demo_loads (demo_docker None []) ctx fs') =
       BuildImage ''zip'' ''Dockerfile.cpu'' ''labfunctions/pid-cpu'' False # rest"
  proof -
    have spec: "\<forall>s. bl_spec demo_client (bo_name demo_opts) = Inr s \<longrightarrow> (Inr demo_spec :: runtime_spec result) = Inr s"
      by (simp add: demo_client_def)
    from build_from_command_line [OF run m spec refl, where nl = "\<lambda>c. c = newline"]
    obtain spec content where h: "bl_spec demo_client (bo_name demo_opts) = Inr spec" "Inr ''zip'' = (Inr content :: string result)"
      and q: "new = [] \<and> ''[bold red](x) Error uploading file[/]'' \<in> set out \<or>
        (\<exists>ctx. new = [Enqueue BUILD_QUEUE ''labfunctions.control.tasks.build_dispatcher'' (bx_execid ctx) (PStr ''60'') (BuildData ctx)] \<and>
         ''=> Build task sent with execid: [bold magenta]'' @ bx_execid ctx @ ''[/]'' \<in> set out \<and>
         (\<forall>unzip (dir :: string) loads L. unzip content = Inr dir \<longrightarrow>
            (\<exists>rest. snd (build_task_run (kv_local (\<lambda>c. c = newline) ''/tmp'' ''lab'') unzip loads L ctx fs') =
               BuildImage dir (''Dockerfile.'' @ rs_name spec)
                 ((if opt_truthy None then the None @ ''/'' else []) @ ''labfunctions/'' @ ''pid'' @ ''-'' @ rs_name spec) False # rest)))"
      by (elim exE conjE)
    have "spec = demo_spec" "content = ''zip''" using h by (simp_all add: demo_client_def)
    with q have dispatched: "unzip ''zip'' = Inr dir \<Longrightarrow> \<exists>rest. snd (build_task_run (kv_local (\<lambda>c. c = newline) ''/tmp'' ''lab'') unzip loads L ctx fs') =
        BuildImage dir ''Dockerfile.cpu'' ''labfunctions/pid-cpu'' False # rest" for unzip and dir :: string and loads L
      by (simp add: b(1) opt_truthy.simps) (simp add: demo_spec_def)
    show ?thesis by (rule dispatched) (rule refl)
  qed
  then show ?thesis using run b(1) by blast
qed

end
