(* ===== verification/Redis_Conn.thy ===== *)
theory Redis_Conn
  imports Py_Prelude
begin

text \<open>
  The connection to redis (\<open>redis_conn.py\<close>): the address is split as \<open>urllib.parse\<close> splits it (scheme,
  network location, path; addresses without control characters), and the parts become the
  settings of the connection.
\<close>

section \<open>\<open>urlparse\<close>\<close>

record url_parts =
  url_scheme :: string
  url_netloc :: string
  url_path :: string

definition scheme_char :: "char \<Rightarrow> bool" where
  "scheme_char c \<longleftrightarrow> (let n = of_char c :: nat in
     (48 \<le> n \<and> n \<le> 57) \<or> (65 \<le> n \<and> n \<le> 90) \<or> (97 \<le> n \<and> n \<le> 122)) \<or> c \<in> {CHR ''+'', CHR ''-'', CHR ''.''}"

definition before :: "char \<Rightarrow> string \<Rightarrow> string" where
  "before c s = (case split_once c s of None \<Rightarrow> s | Some (a, _) \<Rightarrow> a)"

text \<open>\<open>s.partition(c)\<close>: the second part is \<open>None\<close> without the separator.\<close>

definition partition_at :: "char \<Rightarrow> string \<Rightarrow> string \<times> string option" where
  "partition_at c s = (case split_once c s of None \<Rightarrow> (s, None) | Some (a, b) \<Rightarrow> (a, Some b))"

definition netloc_char :: "char \<Rightarrow> bool" where
  "netloc_char c \<longleftrightarrow> c \<notin> {CHR ''/'', CHR ''?'', CHR ''#''}"

definition url_scheme_split :: "string \<Rightarrow> string \<times> string" where
  "url_scheme_split url =
     (case split_once CHR '':'' url of
        None \<Rightarrow> ([], url)
      | Some (s, rest) \<Rightarrow> if s \<noteq> [] \<and> list_all scheme_char s then (lower s, rest) else ([], url))"

definition urlparse :: "string \<Rightarrow> url_parts result" where
  "urlparse url =
     (let (scheme, rest) = url_scheme_split url;
          (netloc, tail) = (if startswith ''//'' rest
             then (takeWhile netloc_char (drop 2 rest), dropWhile netloc_char (drop 2 rest)) else ([], rest))
      in if (CHR ''['' \<in> set netloc) \<noteq> (CHR '']'' \<in> set netloc) then Inl ValueError
         else Inr \<lparr>url_scheme = scheme, url_netloc = netloc, url_path = before CHR ''?'' (before CHR ''#'' tail)\<rparr>)"

definition url_userinfo :: "url_parts \<Rightarrow> string option \<times> string option" where
  "url_userinfo u =
     (case rsplit_once CHR ''@'' (url_netloc u) of
        None \<Rightarrow> (None, None)
      | Some (info, _) \<Rightarrow> (Some (fst (partition_at CHR '':'' info)), snd (partition_at CHR '':'' info)))"

text \<open>The host and the text of the port.\<close>

definition url_hostinfo :: "url_parts \<Rightarrow> string \<times> string" where
  "url_hostinfo u =
     (let info = (case rsplit_once CHR ''@'' (url_netloc u) of None \<Rightarrow> url_netloc u | Some (_, h) \<Rightarrow> h);
          text_of = (\<lambda>p. case p of None \<Rightarrow> [] | Some x \<Rightarrow> x)
      in case split_once CHR ''['' info of
           Some (_, bracketed) \<Rightarrow>
             (let (h, rest) = partition_at CHR '']'' bracketed
              in (h, text_of (snd (partition_at CHR '':'' (text_of rest)))))
         | None \<Rightarrow> (fst (partition_at CHR '':'' info), text_of (snd (partition_at CHR '':'' info))))"

text \<open>A zone after a percent sign keeps its case.\<close>

definition url_hostname :: "url_parts \<Rightarrow> string option" where
  "url_hostname u =
     (let h = fst (url_hostinfo u)
      in if h = [] then None
         else case split_once CHR ''%'' h of
                None \<Rightarrow> Some (lower h)
              | Some (a, zone) \<Rightarrow> Some (lower a @ CHR ''%'' # zone))"

definition url_port :: "url_parts \<Rightarrow> int option result" where
  "url_port u =
     (let t = snd (url_hostinfo u)
      in if t = [] then Inr None
         else rbind (py_int t) (\<lambda>n. if 0 \<le> n \<and> n \<le> 65535 then Inr (Some n) else Inl ValueError))"

section \<open>Settings\<close>

record redis_settings =
  rd_host :: string
  rd_port :: int
  rd_database :: int
  rd_username :: "string option"
  rd_password :: "string option"
  rd_ssl :: bool
  rd_conn_timeout :: int
  rd_conn_retries :: int
  rd_conn_retry_delay :: int
  rd_decode_responses :: bool
  rd_sentinel :: bool
  rd_sentinel_master :: string

definition from_dsn :: "string \<Rightarrow> bool \<Rightarrow> redis_settings result" where
  "from_dsn dsn decode_responses =
     rbind (urlparse dsn) (\<lambda>conf.
       if url_scheme conf \<notin> {''redis'', ''rediss''} then Inl AssertionError
       else
         rbind (url_port conf) (\<lambda>port.
         rbind (py_int (strip_chars (\<lambda>c. c = CHR ''/'') (if url_path conf = [] then ''0'' else url_path conf))) (\<lambda>db.
           Inr \<lparr>rd_host = or_str (url_hostname conf) ''localhost'',
                rd_port = (case port of None \<Rightarrow> 6379 | Some n \<Rightarrow> if n = 0 then 6379 else n),
                rd_database = db, rd_username = fst (url_userinfo conf), rd_password = snd (url_userinfo conf),
                rd_ssl = (url_scheme conf = ''rediss''), rd_conn_timeout = 1, rd_conn_retries = 5, rd_conn_retry_delay = 1,
                rd_decode_responses = decode_responses, rd_sentinel = False, rd_sentinel_master = ''mymaster''\<rparr>)))"

text \<open>The keyword arguments of the client that is made.\<close>

record redis_pool =
  rp_host :: string
  rp_port :: int
  rp_timeout :: int
  rp_ssl :: bool
  rp_decode_responses :: bool
  rp_db :: int
  rp_username :: "string option"
  rp_password :: "string option"
  rp_encoding :: string

text \<open>The host is always a string, so the assertion refuses a sentinel; the argument for decoding is not
  passed on.\<close>

definition create_pool :: "string \<Rightarrow> bool \<Rightarrow> redis_pool result" where
  "create_pool dsn_url decode_responses =
     rbind (from_dsn dsn_url True) (\<lambda>s.
       if rd_sentinel s then Inl AssertionError
       else Inr \<lparr>rp_host = rd_host s, rp_port = rd_port s, rp_timeout = rd_conn_timeout s, rp_ssl = rd_ssl s,
                 rp_decode_responses = rd_decode_responses s, rp_db = rd_database s, rp_username = rd_username s,
                 rp_password = rd_password s, rp_encoding = ''utf8''\<rparr>)"

section \<open>Numbers are read back\<close>

lemma is_digit_digit: "d < 10 \<Longrightarrow> is_digit (digit d) \<and> of_char (digit d) = 48 + d"
  by (simp add: is_digit_def digit_def)

lemma py_digits_append:
  "list_all is_digit s \<Longrightarrow> py_digits acc (s @ t) = py_digits (fold (\<lambda>c a. 10 * a + (of_char c - 48)) s acc) t"
  by (induction s arbitrary: acc) auto

lemma str_nat_digits: "list_all is_digit (str_nat n) \<and> fold (\<lambda>c a. 10 * a + (of_char c - 48)) (str_nat n) 0 = n \<and> str_nat n \<noteq> []"
proof (induction n rule: str_nat.induct)
  case (1 n)
  show ?case
  proof (cases "n < 10")
    case True
    then show ?thesis by (subst (1 2 3) str_nat.simps) (simp add: is_digit_digit)
  next
    case False
    then show ?thesis using 1 by (subst (1 2 3) str_nat.simps) (simp add: is_digit_digit)
  qed
qed

lemma digit_plain:
  assumes "is_digit c"
  shows "\<not> py_isspace c" "c \<noteq> CHR ''-''" "c \<noteq> CHR ''+''" "netloc_char c" "c \<notin> {CHR '':'', CHR ''@'', CHR ''['', CHR '']'', CHR ''%''}"
  using assms by (auto simp: is_digit_def py_isspace_def netloc_char_def)

lemma py_int_str_nat: "py_int (str_nat n) = Inr (int n)"
proof -
  have d: "list_all is_digit (str_nat n)" "str_nat n \<noteq> []" and v: "fold (\<lambda>c a. 10 * a + (of_char c - 48)) (str_nat n) 0 = n"
    using str_nat_digits [of n] by auto
  have "strip (str_nat n) = str_nat n"
    unfolding strip_def using d by (intro strip_chars_id) (auto simp: list_all_iff digit_plain(1))
  moreover have "py_digits 0 (str_nat n) = Inr n" using py_digits_append [OF d(1), of 0 "[]"] v by simp
  ultimately show ?thesis
    using d by (cases "str_nat n") (auto simp: py_int_def py_nat_def digit_plain)
qed

section \<open>The property\<close>

definition dsn_part :: "string \<Rightarrow> bool" where
  "dsn_part s \<longleftrightarrow> list_all (\<lambda>c. netloc_char c \<and> c \<noteq> CHR ''['' \<and> c \<noteq> CHR '']'') s"

definition dsn_host :: "string \<Rightarrow> bool" where
  "dsn_host h \<longleftrightarrow> dsn_part h \<and> h \<noteq> [] \<and> lower h = h \<and> CHR '':'' \<notin> set h \<and> CHR ''@'' \<notin> set h \<and> CHR ''%'' \<notin> set h"

definition make_dsn :: "string \<Rightarrow> string \<Rightarrow> string \<Rightarrow> string \<Rightarrow> nat \<Rightarrow> string \<Rightarrow> string" where
  "make_dsn scheme user pass host port path =
     scheme @ CHR '':'' # ''//'' @ (user @ CHR '':'' # pass @ CHR ''@'' # host @ CHR '':'' # str_nat port) @ path"

lemma str_nat_dsn_part: "dsn_part (str_nat n)" "CHR '':'' \<notin> set (str_nat n)" "CHR ''@'' \<notin> set (str_nat n)" "CHR ''/'' \<notin> set (str_nat n)"
    "CHR ''#'' \<notin> set (str_nat n)" "CHR ''?'' \<notin> set (str_nat n)"
  using str_nat_digits [of n] by (auto simp: dsn_part_def list_all_iff digit_plain is_digit_def netloc_char_def)

lemma takeWhile_part: "dsn_part s \<Longrightarrow> p = [] \<or> hd p = CHR ''/'' \<Longrightarrow> takeWhile netloc_char (s @ p) = s \<and> dropWhile netloc_char (s @ p) = p"
proof (induction s)
  case Nil
  then show ?case by (cases p) (auto simp: netloc_char_def)
next
  case (Cons c s)
  then show ?case by (simp add: dsn_part_def)
qed

lemma split_once_absent: "c \<notin> set s \<Longrightarrow> split_once c s = None"
  by (simp add: split_once_None_iff)

lemma before_absent: "c \<notin> set s \<Longrightarrow> before c s = s"
  by (simp add: before_def split_once_absent)

lemma urlparse_dsn:
  assumes s: "scheme \<in> {''redis'', ''rediss''}" and n: "dsn_part netloc" and p: "path = [] \<or> hd path = CHR ''/''"
    and c: "CHR ''#'' \<notin> set path" "CHR ''?'' \<notin> set path"
  shows "urlparse (scheme @ CHR '':'' # ''//'' @ netloc @ path) = Inr \<lparr>url_scheme = scheme, url_netloc = netloc, url_path = path\<rparr>"
proof -
  have "url_scheme_split (scheme @ CHR '':'' # r) = (scheme, r)" for r
  proof -
    have "CHR '':'' \<notin> set scheme" "scheme \<noteq> []" "list_all scheme_char scheme" "lower scheme = scheme"
      using s by (auto simp: scheme_char_def lower_def lower_char_def)
    then show ?thesis by (simp add: url_scheme_split_def split_once_append)
  qed
  moreover have "CHR ''['' \<notin> set netloc" "CHR '']'' \<notin> set netloc" using n by (auto simp: dsn_part_def list_all_iff)
  ultimately show ?thesis
    using takeWhile_part [OF n p] c by (simp add: urlparse_def startswith_def before_absent)
qed

text \<open>C34. An address that is put together of a scheme, a user, a password, a host, a port and a number of a
  database gives settings with exactly these parts; the pool made of it decodes what it reads,
  whatever its caller asks for; and the address that ends with a slash is refused.\<close>

theorem dsn_roundtrip:
  assumes s: "scheme \<in> {''redis'', ''rediss''}" and u: "dsn_part user" "CHR '':'' \<notin> set user" and w: "dsn_part pass"
    and h: "dsn_host host" and port: "0 < port" "port \<le> 65535"
  shows "from_dsn (make_dsn scheme user pass host port (CHR ''/'' # str_nat n)) dec =
      Inr \<lparr>rd_host = host, rd_port = int port, rd_database = int n, rd_username = Some user, rd_password = Some pass,
           rd_ssl = (scheme = ''rediss''), rd_conn_timeout = 1, rd_conn_retries = 5, rd_conn_retry_delay = 1,
           rd_decode_responses = dec, rd_sentinel = False, rd_sentinel_master = ''mymaster''\<rparr> \<and>
    create_pool (make_dsn scheme user pass host port (CHR ''/'' # str_nat n)) dec =
      Inr \<lparr>rp_host = host, rp_port = int port, rp_timeout = 1, rp_ssl = (scheme = ''rediss''), rp_decode_responses = True,
           rp_db = int n, rp_username = Some user, rp_password = Some pass, rp_encoding = ''utf8''\<rparr> \<and>
    from_dsn (make_dsn scheme user pass host port ''/'') dec = Inl ValueError"
proof -
  let ?net = "user @ CHR '':'' # pass @ CHR ''@'' # host @ CHR '':'' # str_nat port"
  have net: "dsn_part ?net"
    using u w h str_nat_dsn_part(1) [of port] by (simp add: dsn_part_def dsn_host_def netloc_char_def)
  have parse: "urlparse (make_dsn scheme user pass host port path) = Inr \<lparr>url_scheme = scheme, url_netloc = ?net, url_path = path\<rparr>"
    if "hd path = CHR ''/''" "CHR ''#'' \<notin> set path" "CHR ''?'' \<notin> set path" for path
    using urlparse_dsn [OF s net, of path] that by (simp add: make_dsn_def)
  have at: "rsplit_once CHR ''@'' ?net = Some (user @ CHR '':'' # pass, host @ CHR '':'' # str_nat port)"
    using rsplit_once_append [of "CHR ''@''" "host @ CHR '':'' # str_nat port" "user @ CHR '':'' # pass"] h str_nat_dsn_part(3)
    by (simp add: dsn_host_def)
  have info: "url_userinfo \<lparr>url_scheme = scheme, url_netloc = ?net, url_path = path\<rparr> = (Some user, Some pass)" for path
    using u(2) by (simp add: url_userinfo_def at partition_at_def split_once_append)
  have "CHR ''['' \<notin> set (host @ CHR '':'' # str_nat port)"
    using h str_nat_dsn_part(1) [of port] by (auto simp: dsn_host_def dsn_part_def list_all_iff)
  then have hi: "url_hostinfo \<lparr>url_scheme = scheme, url_netloc = ?net, url_path = path\<rparr> = (host, str_nat port)" for path
    using h by (simp add: url_hostinfo_def at partition_at_def split_once_append split_once_absent dsn_host_def Let_def)
  have "url_hostname \<lparr>url_scheme = scheme, url_netloc = ?net, url_path = path\<rparr> = Some host" for path
    using h by (simp add: url_hostname_def hi dsn_host_def split_once_absent)
  moreover have "url_port \<lparr>url_scheme = scheme, url_netloc = ?net, url_path = path\<rparr> = Inr (Some (int port))" for path
    using port str_nat_digits [of port] by (simp add: url_port_def hi py_int_str_nat)
  moreover have "strip_chars (\<lambda>c. c = CHR ''/'') (CHR ''/'' # str_nat n) = str_nat n"
  proof -
    have "strip_chars (\<lambda>c. c = CHR ''/'') (str_nat n) = str_nat n"
      using str_nat_digits [of n] str_nat_dsn_part(4) [of n] by (intro strip_chars_id) (metis hd_in_set last_in_set)
    then show ?thesis by (simp add: strip_chars_def)
  qed
  ultimately have dsn: "from_dsn (make_dsn scheme user pass host port (CHR ''/'' # str_nat n)) d =
      Inr \<lparr>rd_host = host, rd_port = int port, rd_database = int n, rd_username = Some user, rd_password = Some pass,
           rd_ssl = (scheme = ''rediss''), rd_conn_timeout = 1, rd_conn_retries = 5, rd_conn_retry_delay = 1,
           rd_decode_responses = d, rd_sentinel = False, rd_sentinel_master = ''mymaster''\<rparr>" for d
    using s h port str_nat_dsn_part [of n] by (simp add: from_dsn_def parse info py_int_str_nat dsn_host_def)
  have "py_int [] = Inl ValueError" by (simp add: py_int_def strip_def strip_chars_def)
  then have "from_dsn (make_dsn scheme user pass host port ''/'') d = Inl ValueError" for d
    using s port str_nat_digits [of port] by (simp add: from_dsn_def parse url_port_def hi py_int_str_nat strip_chars_def)
  then show ?thesis by (simp add: dsn create_pool_def)
qed

theorem dsn_roundtrip_witness:
  "map_sum id rd_database (from_dsn ''redis://me:s3:cr@t@db.local:6380/12'' True) = Inr 12 \<and>
   map_sum id rp_decode_responses (create_pool ''redis://me:s3:cr@t@db.local:6380/12'' False) = Inr True"
proof -
  have "make_dsn ''redis'' ''me'' ''s3:cr@t'' ''db.local'' 6380 (CHR ''/'' # str_nat 12) = ''redis://me:s3:cr@t@db.local:6380/12''"
    by (simp add: make_dsn_def str_nat.simps)
  moreover have "dsn_part ''me''" "dsn_part ''s3:cr@t''" "dsn_host ''db.local''" by code_simp+
  ultimately show ?thesis
    using dsn_roundtrip [of "''redis''" "''me''" "''s3:cr@t''" "''db.local''" 6380 12] by simp
qed

end
