(* ===== verification/Gce.thy ===== *)
theory Gce
  imports Fleet
begin

text \<open>
  The Google Cloud provider (\<open>cluster/providers/gcloud.py\<close>) over the driver of libcloud, the record
  \<open>gce_driver\<close>: what it lists is a function of its state, and creating, attaching and destroying may
  change the state or fail.
\<close>

record gce_volume =
  gv_id :: string
  gv_name :: string
  gv_extra :: "pyval dict option"

record gce_node =
  gn_id :: string
  gn_name :: string
  gn_state :: string
  gn_zone :: string
  gn_tags :: "string list option"
  gn_labels :: "pyval dict option"
  gn_private_ips :: "string list"
  gn_public_ips :: "string list"

text \<open>The arguments of \<open>create_node\<close> that the code computes.\<close>

record gce_node_req =
  gr_name :: string
  gr_size :: string
  gr_image :: string
  gr_location :: string
  gr_boot_disk :: "string option"
  gr_network :: string
  gr_ssh_keys :: string
  gr_tags :: pyval
  gr_labels :: "pyval dict"
  gr_accelerator :: "(string \<times> int) option"
  gr_on_host_maintenance :: "string option"

record 'g gce_driver =
  gd_volumes :: "'g \<Rightarrow> gce_volume list"
  gd_nodes :: "string option \<Rightarrow> 'g \<Rightarrow> gce_node list"
  gd_create_volume :: "block_storage \<Rightarrow> bool \<Rightarrow> 'g \<Rightarrow> gce_volume result \<times> 'g"
  gd_create_node :: "gce_node_req \<Rightarrow> 'g \<Rightarrow> gce_node result \<times> 'g"
  gd_attach :: "gce_node \<Rightarrow> gce_volume \<Rightarrow> 'g \<Rightarrow> bool result \<times> 'g"
  gd_destroy_volume :: "gce_volume \<Rightarrow> 'g \<Rightarrow> bool result \<times> 'g"
  gd_destroy_node :: "gce_node \<Rightarrow> 'g \<Rightarrow> unit result \<times> 'g"

text \<open>A block instance is the disk with an id and what the driver adds.\<close>

record block_instance =
  bi_id :: string
  bi_disk :: block_storage
  bi_extra :: "pyval dict option"

section \<open>Volumes\<close>

definition gce_get_volume :: "'g gce_driver \<Rightarrow> string \<Rightarrow> 'g \<Rightarrow> gce_volume option" where
  "gce_get_volume D n g = find (\<lambda>v. gv_name v = n) (gd_volumes D g)"

text \<open>The volumes found by name, and those made because they were missing (their image is not passed).\<close>

fun volumes_to_attach :: "'g gce_driver \<Rightarrow> block_storage list \<Rightarrow> 'g \<Rightarrow> gce_volume list result \<times> 'g" where
  "volumes_to_attach D [] g = (Inr [], g)"
| "volumes_to_attach D (vol # vols) g =
     (case gce_get_volume D (bs_name vol) g of
        Some v \<Rightarrow> (case volumes_to_attach D vols g of (Inl e, g') \<Rightarrow> (Inl e, g') | (Inr vs, g') \<Rightarrow> (Inr (v # vs), g'))
      | None \<Rightarrow>
          if bs_create_if_not_exist vol
          then (case gd_create_volume D vol False g of
                  (Inl e, g1) \<Rightarrow> (Inl e, g1)
                | (Inr v, g1) \<Rightarrow>
                    (case volumes_to_attach D vols g1 of (Inl e, g') \<Rightarrow> (Inl e, g') | (Inr vs, g') \<Rightarrow> (Inr (v # vs), g')))
          else volumes_to_attach D vols g)"

definition gce_create_volume :: "'g gce_driver \<Rightarrow> block_storage \<Rightarrow> 'g \<Rightarrow> block_instance result \<times> 'g" where
  "gce_create_volume D disk g =
     (case gd_create_volume D disk True g of
        (Inl e, g') \<Rightarrow> (Inl e, g')
      | (Inr v, g') \<Rightarrow> (Inr \<lparr>bi_id = gv_id v, bi_disk = disk, bi_extra = gv_extra v\<rparr>, g'))"

text \<open>The first volume mounted at the root is made under a new name.\<close>

definition create_boot_disk :: "'g gce_driver \<Rightarrow> nanoid \<Rightarrow> block_storage list \<Rightarrow> 'g \<Rightarrow> block_instance option result \<times> 'g" where
  "create_boot_disk D gen volumes g =
     (case find (\<lambda>v. bs_mount v = ''/'') volumes of
        None \<Rightarrow> (Inr None, g)
      | Some v \<Rightarrow>
          (case gce_create_volume D (v\<lparr>bs_name := ''boot-'' @ gen NANO_MACHINE_ALPHABET 6\<rparr>) g of
             (Inl e, g') \<Rightarrow> (Inl e, g')
           | (Inr b, g') \<Rightarrow> (Inr (Some b), g')))"

fun attach_all :: "'g gce_driver \<Rightarrow> gce_node \<Rightarrow> gce_volume list \<Rightarrow> 'g \<Rightarrow> string list result \<times> 'g" where
  "attach_all D n [] g = (Inr [], g)"
| "attach_all D n (v # vs) g =
     (case gd_attach D n v g of
        (Inl e, g1) \<Rightarrow> (Inl e, g1)
      | (Inr ok, g1) \<Rightarrow>
          (case attach_all D n vs g1 of
             (Inl e, g') \<Rightarrow> (Inl e, g')
           | (Inr names, g') \<Rightarrow> (Inr (if ok then gv_name v # names else names), g')))"

definition gce_destroy_volume :: "'g gce_driver \<Rightarrow> string \<Rightarrow> 'g \<Rightarrow> bool result \<times> 'g" where
  "gce_destroy_volume D n g =
     (case gce_get_volume D n g of None \<Rightarrow> (Inl IndexError, g) | Some v \<Rightarrow> gd_destroy_volume D v g)"

section \<open>Machines\<close>

text \<open>The request sent: \<open>labels["tags"]\<close> are its tags, the other labels its labels.\<close>

definition gce_node_of :: "machine_request \<Rightarrow> string option \<Rightarrow> gce_node_req result" where
  "gce_node_of node boot_name =
     (case mr_labels node of
        None \<Rightarrow> Inl AttributeError
      | Some labels \<Rightarrow>
          (case map_of labels ''tags'' of
             None \<Rightarrow> Inl (KeyError ''tags'')
           | Some tags \<Rightarrow>
               Inr \<lparr>gr_name = mr_name node, gr_size = mr_size node, gr_image = mr_image node,
                    gr_location = mr_location node, gr_boot_disk = boot_name, gr_network = mr_network node,
                    gr_ssh_keys = fmt_opt (mr_ssh_user node) @ '': '' @ fmt_opt (mr_ssh_public_cert node),
                    gr_tags = tags, gr_labels = dict_del ''tags'' labels,
                    gr_accelerator = map_option (\<lambda>u. (gp_gpu_type u, gp_count u)) (mr_gpu node),
                    gr_on_host_maintenance = (if mr_gpu node = None then None else Some ''TERMINATE'')\<rparr>))"

text \<open>The boot disk is listed with the volumes only when other volumes were attached.\<close>

definition gce_create_machine ::
  "'g gce_driver \<Rightarrow> nanoid \<Rightarrow> machine_request \<Rightarrow> 'g \<Rightarrow> machine_instance result \<times> 'g" where
  "gce_create_machine D gen node g =
     (case volumes_to_attach D (filter (\<lambda>v. bs_mount v \<noteq> ''/'') (mr_volumes node)) g of
        (Inl e, g1) \<Rightarrow> (Inl e, g1)
      | (Inr volumes, g1) \<Rightarrow>
          (case create_boot_disk D gen (mr_volumes node) g1 of
             (Inl e, g2) \<Rightarrow> (Inl e, g2)
           | (Inr boot, g2) \<Rightarrow>
               (case gce_node_of node (map_option (bs_name \<circ> bi_disk) boot) of
                  Inl e \<Rightarrow> (Inl e, g2)
                | Inr req \<Rightarrow>
                    (case gd_create_node D req g2 of
                       (Inl e, g3) \<Rightarrow> (Inl e, g3)
                     | (Inr n, g3) \<Rightarrow>
                         (case attach_all D n volumes g3 of
                            (Inl e, g4) \<Rightarrow> (Inl e, g4)
                          | (Inr names, g4) \<Rightarrow>
                              (let attached = (if volumes = [] then []
                                 else names @ (case boot of None \<Rightarrow> [] | Some b \<Rightarrow> [bs_name (bi_disk b)]))
                               in (rbind (list_nth (gn_private_ips n) 0) (\<lambda>_.
                                     Inr \<lparr>mi_machine_id = ''/gce/'' @ mr_location node @ CHR ''/'' # mr_name node,
                                          mi_machine_name = mr_name node, mi_location = mr_location node,
                                          mi_private_ips = gn_private_ips n, mi_public_ips = gn_public_ips n,
                                          mi_volumes = attached, mi_labels = None, mi_cluster = ''default'',
                                          mi_extra = None\<rparr>), g4)))))))"

definition gce_instance :: "gce_node \<Rightarrow> machine_instance result" where
  "gce_instance n =
     rbind (list_nth (gn_private_ips n) 0) (\<lambda>_.
       Inr \<lparr>mi_machine_id = gn_id n, mi_machine_name = gn_name n, mi_location = gn_zone n,
            mi_private_ips = gn_private_ips n, mi_public_ips = gn_public_ips n, mi_volumes = [],
            mi_labels = Some (fold (\<lambda>(k, v). dict_set k v) (case gn_labels n of None \<Rightarrow> [] | Some l \<Rightarrow> l)
              [(''tags'', case gn_tags n of None \<Rightarrow> PNone | Some ts \<Rightarrow> PList (map PStr ts))]),
            mi_cluster = ''default'', mi_extra = None\<rparr>)"

text \<open>With tags, a running node is taken once for each tag it has.\<close>

definition gce_list_machines ::
  "'g gce_driver \<Rightarrow> string option \<Rightarrow> string list option \<Rightarrow> 'g \<Rightarrow> machine_instance list result" where
  "gce_list_machines D location tags g =
     (let nodes = filter (\<lambda>n. gn_state n = ''running'') (gd_nodes D location g);
          chosen = (case tags of
              Some (t # ts) \<Rightarrow> concat (map (\<lambda>n. case gn_tags n of None \<Rightarrow> []
                | Some own \<Rightarrow> map (\<lambda>_. n) (filter (\<lambda>x. x \<in> set own) (t # ts))) nodes)
            | _ \<Rightarrow> nodes)
      in rmap gce_instance chosen)"

definition gce_destroy_machine :: "'g gce_driver \<Rightarrow> string \<Rightarrow> 'g \<Rightarrow> unit result \<times> 'g" where
  "gce_destroy_machine D name g =
     (case find (\<lambda>n. gn_name n = name) (gd_nodes D None g) of
        None \<Rightarrow> (Inl IndexError, g)
      | Some n \<Rightarrow> gd_destroy_node D n g)"

definition gce_provider :: "'g gce_driver \<Rightarrow> nanoid \<Rightarrow> 'g provider" where
  "gce_provider D gen = \<lparr>pv_create = gce_create_machine D gen, pv_destroy = gce_destroy_machine D\<rparr>"

section \<open>Where it breaks the contract of a provider\<close>

text \<open>A creation that fails while it attaches a volume leaves the node running: \<open>create_fails\<close> of the
  provider's contract does not hold, and nobody registers the machine.\<close>

lemma gce_failed_create:
  assumes "volumes_to_attach D (filter (\<lambda>v. bs_mount v \<noteq> ''/'') (mr_volumes node)) g = (Inr vs, g1)"
    and "create_boot_disk D gen (mr_volumes node) g1 = (Inr boot, g2)"
    and "gce_node_of node (map_option (bs_name \<circ> bi_disk) boot) = Inr req"
    and "gd_create_node D req g2 = (Inr n, g3)" and "attach_all D n vs g3 = (Inl e, g4)"
  shows "gce_create_machine D gen node g = (Inl e, g4)"
  using assms by (simp add: gce_create_machine_def)

text \<open>A running node with both of two different tags is listed twice.\<close>

lemma gce_listed_twice:
  assumes "gd_nodes D location g = [n]" and "gn_state n = ''running''" and "gn_tags n = Some own"
    and "{a, b} \<subseteq> set own" and "gce_instance n = Inr i"
  shows "gce_list_machines D location (Some [a, b]) g = Inr [i, i]"
  using assms by (simp add: gce_list_machines_def)

end
