(* ===== verification/Cache.thy ===== *)
theory Cache
  imports Utils Types
begin

text \<open>
  Freezing the result of a function between executions (\<open>io/cache.py\<close>). Values are pickled to text by
  \<open>pickler\<close>; the local files are a map from their path; the file server is two operations over its
  own state. Times are seconds, \<open>moment\<close> reads the text of one.
\<close>

section \<open>Contexts and stores\<close>

record simple_ctx =
  sx_wfid :: pyval
  sx_execid :: pyval
  sx_execution_dt :: pyval

record cache_config =
  cc_name :: "string option"
  cc_ctx :: simple_ctx
  cc_valid_for_min :: int
  cc_strategy :: string

definition dict_get_or :: "pyval dict \<Rightarrow> string \<Rightarrow> pyval \<Rightarrow> pyval" where
  "dict_get_or d k v = (case map_of d k of None \<Rightarrow> v | Some x \<Rightarrow> x)"

definition build_ctx_global :: "string \<Rightarrow> pyval dict \<Rightarrow> simple_ctx" where
  "build_ctx_global now g =
     \<lparr>sx_wfid = dict_get_or g ''WFID'' PNone, sx_execid = dict_get_or g ''EXECUTIONID'' PNone,
      sx_execution_dt = dict_get_or g ''NOW'' (PStr now)\<rparr>"

definition build_ctx :: "string \<Rightarrow> pyval \<Rightarrow> pyval \<Rightarrow> string option \<Rightarrow> simple_ctx" where
  "build_ctx utcnow wfid execid now =
     \<lparr>sx_wfid = wfid, sx_execid = execid, sx_execution_dt = PStr (or_str now utcnow)\<rparr>"

definition ctx_dict :: "simple_ctx \<Rightarrow> pyval dict" where
  "ctx_dict c = [(''wfid'', sx_wfid c), (''execid'', sx_execid c), (''execution_dt'', sx_execution_dt c)]"

text \<open>\<open>f"{x}"\<close> of the values a context holds.\<close>

fun fmt_val :: "(pyval \<Rightarrow> string) \<Rightarrow> pyval \<Rightarrow> string" where
  "fmt_val show (PStr s) = s"
| "fmt_val show PNone = ''None''"
| "fmt_val show v = show v"

record 'd pickler =
  pk_dumps :: "'d \<Rightarrow> string"
  pk_loads :: "string \<Rightarrow> 'd result"
  pk_json :: "pyval dict \<Rightarrow> string"
  pk_unjson :: "string \<Rightarrow> pyval dict result"
  pk_show :: "pyval \<Rightarrow> string"

record 's file_server =
  fsv_put :: "string \<Rightarrow> string \<Rightarrow> 's \<Rightarrow> int result \<times> 's"
  fsv_get :: "string \<Rightarrow> 's \<Rightarrow> (int \<times> string) result"

record 's cache_world =
  cw_files :: "string \<Rightarrow> string option"
  cw_server :: 's

definition cache_name :: "'d pickler \<Rightarrow> string \<Rightarrow> simple_ctx \<Rightarrow> string" where
  "cache_name P name c = fmt_val (pk_show P) (sx_wfid c) @ CHR ''.'' # fmt_val (pk_show P) (sx_execid c) @ CHR ''.'' # name"

definition pickle_path :: "'d pickler \<Rightarrow> string \<Rightarrow> simple_ctx \<Rightarrow> string" where
  "pickle_path P name c = ''/tmp/'' @ cache_name P name c @ ''.pickle''"

definition meta_path :: "'d pickler \<Rightarrow> string \<Rightarrow> simple_ctx \<Rightarrow> string" where
  "meta_path P name c = ''/tmp/'' @ cache_name P name c @ ''.json''"

definition write_pickle :: "'d pickler \<Rightarrow> string \<Rightarrow> 'd \<Rightarrow> simple_ctx \<Rightarrow> 's cache_world \<Rightarrow> 's cache_world" where
  "write_pickle P name data c w =
     w\<lparr>cw_files := (cw_files w)(pickle_path P name c \<mapsto> pk_dumps P data,
       meta_path P name c \<mapsto> pk_json P (ctx_dict c))\<rparr>"

text \<open>A value that was read: the data, or the text of the metadata, which \<open>_restore_pickle\<close> puts in the
  same variable.\<close>

datatype 'd cached = Value 'd | MetaText string

text \<open>\<open>None\<close> for a missing file, and for an empty pickle (\<open>EOFError\<close>). Other errors escape.\<close>

definition restore_pickle ::
  "'d pickler \<Rightarrow> string \<Rightarrow> simple_ctx \<Rightarrow> 's cache_world \<Rightarrow> ('d cached \<times> pyval dict) option result" where
  "restore_pickle P name c w =
     (case cw_files w (pickle_path P name c) of
        None \<Rightarrow> Inr None
      | Some b \<Rightarrow>
          if b = [] then Inr None
          else rbind (pk_loads P b) (\<lambda>_.
            case cw_files w (meta_path P name c) of
              None \<Rightarrow> Inr None
            | Some data \<Rightarrow> rbind (pk_unjson P data) (\<lambda>meta. Inr (Some (MetaText data, meta)))))"

definition server_url :: "'d pickler \<Rightarrow> string \<Rightarrow> string \<Rightarrow> simple_ctx \<Rightarrow> string" where
  "server_url P root name c = root @ ''/cache/'' @ cache_name P name c"

text \<open>Two requests; whatever they answer only a warning may follow.\<close>

definition write_fileserver ::
  "'d pickler \<Rightarrow> 's file_server \<Rightarrow> string \<Rightarrow> string \<Rightarrow> 'd \<Rightarrow> simple_ctx \<Rightarrow> 's cache_world \<Rightarrow> unit result \<times> 's cache_world" where
  "write_fileserver P S root name data c w =
     (case fsv_put S (server_url P root name c) (pk_dumps P data) (cw_server w) of
        (Inl e, s) \<Rightarrow> (Inl e, w\<lparr>cw_server := s\<rparr>)
      | (Inr _, s) \<Rightarrow>
          (case fsv_put S (server_url P root name c @ ''.json'') (pk_json P (ctx_dict c)) s of
             (Inl e, s') \<Rightarrow> (Inl e, w\<lparr>cw_server := s'\<rparr>)
           | (Inr _, s') \<Rightarrow> (Inr (), w\<lparr>cw_server := s'\<rparr>)))"

text \<open>Every exception is caught; what was read before it stays read.\<close>

definition restore_fileserver ::
  "'d pickler \<Rightarrow> 's file_server \<Rightarrow> string \<Rightarrow> string \<Rightarrow> simple_ctx \<Rightarrow> 's cache_world \<Rightarrow> 'd cached option \<times> pyval dict option" where
  "restore_fileserver P S root name c w =
     (case (fsv_get S (server_url P root name c) (cw_server w), fsv_get S (server_url P root name c @ ''.json'') (cw_server w)) of
        (Inr (code, b), Inr (code', b')) \<Rightarrow>
          if code = 200 \<and> code' = 200
          then (case pk_loads P b of
                  Inl _ \<Rightarrow> (None, None)
                | Inr d \<Rightarrow> (Some (Value d), case pk_unjson P b' of Inl _ \<Rightarrow> None | Inr m \<Rightarrow> Some m))
          else (None, None)
      | _ \<Rightarrow> (None, None))"

section \<open>The manager and the decorator\<close>

text \<open>\<open>timedelta.seconds\<close> leaves the days out.\<close>

definition is_valid_date :: "(pyval \<Rightarrow> int result) \<Rightarrow> int \<Rightarrow> pyval \<Rightarrow> int \<Rightarrow> bool result" where
  "is_valid_date moment now cache_dt valid_for_min =
     rbind (moment cache_dt) (\<lambda>dt.
       Inr (\<not> int (round_div (nat ((now - dt) mod 86400)) 60) > valid_for_min))"

definition cache_manager_write ::
  "'d pickler \<Rightarrow> 's file_server \<Rightarrow> string \<Rightarrow> 'd \<Rightarrow> cache_config \<Rightarrow> 's cache_world \<Rightarrow> unit result \<times> 's cache_world" where
  "cache_manager_write P S root data conf w =
     (if cc_strategy conf = ''local'' \<and> truthy (sx_wfid (cc_ctx conf))
      then (Inr (), write_pickle P (fmt_opt (cc_name conf)) data (cc_ctx conf) w)
      else if cc_strategy conf = ''fileserver'' \<and> truthy (sx_wfid (cc_ctx conf))
      then write_fileserver P S root (fmt_opt (cc_name conf)) data (cc_ctx conf) w
      else (Inr (), w))"

text \<open>Unpacking \<open>None\<close> is a type error.\<close>

definition cache_manager_read ::
  "'d pickler \<Rightarrow> 's file_server \<Rightarrow> string \<Rightarrow> cache_config \<Rightarrow> 's cache_world \<Rightarrow> ('d cached option \<times> pyval dict option) result" where
  "cache_manager_read P S root conf w =
     (if cc_strategy conf = ''local'' \<and> truthy (sx_wfid (cc_ctx conf))
      then rbind (restore_pickle P (fmt_opt (cc_name conf)) (cc_ctx conf) w) (\<lambda>r.
             case r of None \<Rightarrow> Inl TypeError | Some (d, m) \<Rightarrow> Inr (Some d, Some m))
      else if cc_strategy conf = ''fileserver'' \<and> truthy (sx_wfid (cc_ctx conf))
      then Inr (restore_fileserver P S root (fmt_opt (cc_name conf)) (cc_ctx conf) w)
      else Inr (None, None))"

definition frozen_result ::
  "string \<Rightarrow> string option \<Rightarrow> pyval \<Rightarrow> pyval \<Rightarrow> int \<Rightarrow> string \<Rightarrow> pyval dict option \<Rightarrow> cache_config result" where
  "frozen_result utcnow name wfid execid valid_for_min strategy from_global =
     (if \<not> truthy wfid \<and> (from_global = None \<or> from_global = Some []) then Inl TypeError
      else Inr \<lparr>cc_name = name,
                cc_ctx = (case from_global of
                            Some (g # gs) \<Rightarrow> build_ctx_global utcnow (g # gs)
                          | _ \<Rightarrow> build_ctx utcnow wfid execid None),
                cc_valid_for_min = valid_for_min, cc_strategy = strategy\<rparr>)"

text \<open>A call of the decorated function \<open>func\<close>, named \<open>fname\<close>, with arguments \<open>a\<close> at time \<open>now\<close>.\<close>

definition cache_fresh :: "(pyval \<Rightarrow> int result) \<Rightarrow> int \<Rightarrow> int \<Rightarrow> pyval dict option \<Rightarrow> bool result" where
  "cache_fresh moment now valid_for_min meta =
     (case meta of
        None \<Rightarrow> Inr False
      | Some m \<Rightarrow>
          if m = [] then Inr False
          else rbind (dict_get m ''execution_dt'') (\<lambda>dt. is_valid_date moment now dt valid_for_min))"

definition frozen_call ::
  "'d pickler \<Rightarrow> 's file_server \<Rightarrow> string \<Rightarrow> (pyval \<Rightarrow> int result) \<Rightarrow> ('d cached \<Rightarrow> bool) \<Rightarrow> string \<Rightarrow> ('a \<Rightarrow> 'd result) \<Rightarrow>
   cache_config \<Rightarrow> int \<Rightarrow> 'a \<Rightarrow> 's cache_world \<Rightarrow> 'd cached result \<times> 's cache_world" where
  "frozen_call P S root moment truth fname func cache_conf now a w =
     (let conf = (if opt_truthy (cc_name cache_conf) then cache_conf else cache_conf\<lparr>cc_name := Some fname\<rparr>)
      in case rbind (cache_manager_read P S root conf w) (\<lambda>(result, meta).
              rbind (cache_fresh moment now (cc_valid_for_min conf) meta) (\<lambda>valid. Inr (result, valid))) of
           Inl e \<Rightarrow> (Inl e, w)
         | Inr (result, valid) \<Rightarrow>
             if valid \<and> (case result of None \<Rightarrow> False | Some r \<Rightarrow> truth r) then (Inr (the result), w)
             else (case func a of
                     Inl e \<Rightarrow> (Inl e, w)
                   | Inr d \<Rightarrow> (case cache_manager_write P S root d conf w of
                                (Inl e, w') \<Rightarrow> (Inl e, w') | (Inr _, w') \<Rightarrow> (Inr (Value d), w'))))"

section \<open>The properties\<close>

text \<open>The local strategy never caches a result. As long as there is no pickle of the context and
  name, every call ends in a type error before the function runs, and leaves no pickle; and where
  one was put by other means, a call within its time returns the text of the metadata instead.\<close>

lemma local_cache_broken:
  assumes conf: "cc_strategy conf = ''local''" "cc_name conf = Some name" "name \<noteq> []" "truthy (sx_wfid (cc_ctx conf))"
  shows "(cw_files w (pickle_path P name (cc_ctx conf)) = None \<longrightarrow>
        frozen_call P S root moment truth fname func conf now a w = (Inl TypeError, w)) \<and>
     (cw_files w (pickle_path P name (cc_ctx conf)) = Some b \<longrightarrow> b \<noteq> [] \<longrightarrow> pk_loads P b = Inr d \<longrightarrow>
        cw_files w (meta_path P name (cc_ctx conf)) = Some t \<longrightarrow> pk_unjson P t = Inr m \<longrightarrow>
        cache_fresh moment now (cc_valid_for_min conf) (Some m) = Inr True \<longrightarrow> truth (MetaText t) \<longrightarrow>
        frozen_call P S root moment truth fname func conf now a w = (Inr (MetaText t), w))"
  using conf by (auto simp: frozen_call_def cache_manager_read_def restore_pickle_def)

text \<open>What a file server keeps: the last text put under an address.\<close>

definition server_keeps :: "'s file_server \<Rightarrow> bool" where
  "server_keeps S \<longleftrightarrow> (\<forall>u b s code s'. fsv_put S u b s = (Inr code, s') \<longrightarrow>
     fsv_get S u s' = Inr (200, b) \<and> (\<forall>v. v \<noteq> u \<longrightarrow> fsv_get S v s' = fsv_get S v s))"

lemma url_neq: "server_url P root name c \<noteq> server_url P root name c @ ''.json''"
  by simp

lemma write_restore_fileserver:
  assumes "write_fileserver P S root name d c w = (Inr u, w')" and "server_keeps S"
    and "pk_loads P (pk_dumps P d) = Inr d" and "pk_unjson P (pk_json P (ctx_dict c)) = Inr (ctx_dict c)"
  shows "restore_fileserver P S root name c w' = (Some (Value d), Some (ctx_dict c))"
proof -
  let ?u = "server_url P root name c"
  obtain c1 s1 c2 s2 where 1: "fsv_put S ?u (pk_dumps P d) (cw_server w) = (Inr c1, s1)"
    and 2: "fsv_put S (?u @ ''.json'') (pk_json P (ctx_dict c)) s1 = (Inr c2, s2)" and w': "cw_server w' = s2"
    using assms(1) by (auto simp: write_fileserver_def split: prod.splits sum.splits)
  have "fsv_get S ?u s2 = Inr (200, pk_dumps P d)"
    using assms(2) 1 2 url_neq unfolding server_keeps_def by metis
  moreover have "fsv_get S (?u @ ''.json'') s2 = Inr (200, pk_json P (ctx_dict c))"
    using assms(2) 2 unfolding server_keeps_def by metis
  ultimately show ?thesis using assms(3,4) by (simp add: restore_fileserver_def w')
qed

text \<open>What a frozen function returns after a first run that stored its result with the file server:
  the same result, without running, for any arguments and from any function of that name, when the
  minutes since the start of its execution, counted without whole days, round to at most the
  time it is valid for; so again on every later day. Otherwise it runs again, even at once.\<close>

lemma frozen_across_arguments:
  assumes conf: "cc_strategy conf = ''fileserver''" "cc_name conf = Some name" "name \<noteq> []" "truthy (sx_wfid (cc_ctx conf))"
    and first: "frozen_call P S root moment truth fname func conf now a w = (Inr (Value d), w1)" "func a = Inr d"
    and miss: "restore_fileserver P S root name (cc_ctx conf) w = (None, None)"
    and keeps: "server_keeps S" and pickle: "pk_loads P (pk_dumps P d) = Inr d"
    and json: "pk_unjson P (pk_json P (ctx_dict (cc_ctx conf))) = Inr (ctx_dict (cc_ctx conf))"
    and dt: "moment (sx_execution_dt (cc_ctx conf)) = Inr dt" and truth: "truth (Value d)"
  shows "frozen_call P S root moment truth fname' func' conf later a' w1 =
     (if int (round_div (nat ((later - dt) mod 86400)) 60) \<le> cc_valid_for_min conf then (Inr (Value d), w1)
      else case func' a' of
             Inl e \<Rightarrow> (Inl e, w1)
           | Inr d' \<Rightarrow> (case write_fileserver P S root name d' (cc_ctx conf) w1 of
                          (Inl e, w2) \<Rightarrow> (Inl e, w2) | (Inr _, w2) \<Rightarrow> (Inr (Value d'), w2)))"
proof -
  obtain u where "write_fileserver P S root name d (cc_ctx conf) w = (Inr u, w1)"
    using conf first miss
    by (auto simp: frozen_call_def cache_manager_read_def cache_manager_write_def cache_fresh_def split: prod.splits sum.splits)
  note hit = write_restore_fileserver [OF this keeps pickle json]
  have "dict_get (ctx_dict (cc_ctx conf)) ''execution_dt'' = Inr (sx_execution_dt (cc_ctx conf))" "ctx_dict (cc_ctx conf) \<noteq> []"
    by (simp_all add: ctx_dict_def dict_get_def)
  then show ?thesis
    using conf truth dt
    by (simp add: frozen_call_def cache_manager_read_def cache_manager_write_def cache_fresh_def hit is_valid_date_def not_le split: sum.split)
qed

definition demo_pickler :: "string pickler" where
  "demo_pickler = \<lparr>pk_dumps = (\<lambda>s. CHR ''p'' # s), pk_loads = (\<lambda>b. if b = [] then Inl ValueError else Inr (tl b)),
     pk_json = (\<lambda>_. ''json''),
     pk_unjson = (\<lambda>_. Inr [(''wfid'', PStr ''wf''), (''execid'', PStr ''e''), (''execution_dt'', PStr ''t0'')]), pk_show = (\<lambda>_. [])\<rparr>"

definition demo_server :: "(string \<Rightarrow> string option) file_server" where
  "demo_server = \<lparr>fsv_put = (\<lambda>u b s. (Inr 201, s(u \<mapsto> b))),
     fsv_get = (\<lambda>u s. Inr (case s u of None \<Rightarrow> (404, []) | Some b \<Rightarrow> (200, b)))\<rparr>"

lemma demo_server_keeps: "server_keeps demo_server"
  by (auto simp: server_keeps_def demo_server_def)

definition demo_cache :: "string \<Rightarrow> cache_config" where
  "demo_cache strategy = \<lparr>cc_name = Some ''f'', cc_ctx = build_ctx ''t0'' (PStr ''wf'') (PStr ''e'') None, cc_valid_for_min = 5,
     cc_strategy = strategy\<rparr>"

definition no_cache :: "(string \<Rightarrow> string option) cache_world" where
  "no_cache = \<lparr>cw_files = (\<lambda>_. None), cw_server = (\<lambda>_. None)\<rparr>"

end
