(* ===== verification/Agents.thy ===== *)
theory Agents
  imports Cluster
begin

text \<open>
  The agents of the RQ control plane: their register in Redis (\<open>control_plane/register.py\<close>), the idle time
  of a worker (\<open>control_plane/worker.py\<close>), the key of the heartbeat (\<open>control_plane/heartbeat.py\<close>) and the
  life of an agent (\<open>control_plane/agent.py\<close>). Redis is the one of \<open>Cluster\<close>; which workers RQ finds
  for a queue, and what starting one does, are arguments.
\<close>

section \<open>The register\<close>

record agent_node =
  an_ip_address :: string
  an_name :: string
  an_pid :: string
  an_qnames :: "string list"
  an_cluster :: string
  an_workers :: "string list"
  an_birthday :: int
  an_machine_id :: "string option"

definition AGENT_PREFIX :: string where "AGENT_PREFIX = ''nb.ag''"
definition AGENT_LIST :: string where "AGENT_LIST = ''nb.agents''"
definition AGENT_CLUSTERS :: string where "AGENT_CLUSTERS = ''nb.clusters''"
definition AGENT_CLUSTER_PREFIX :: string where "AGENT_CLUSTER_PREFIX = ''nb.cluster''"
definition MACHINE_PREFIX :: string where "MACHINE_PREFIX = ''nb.mch''"

definition agent_key :: "string \<Rightarrow> string" where
  "agent_key name = AGENT_PREFIX @ CHR ''.'' # name"

definition cluster_set :: "string \<Rightarrow> string" where
  "cluster_set c = AGENT_CLUSTER_PREFIX @ CHR ''.'' # c"

definition register_agent :: "(agent_node \<Rightarrow> string) \<Rightarrow> agent_node \<Rightarrow> redis \<Rightarrow> redis" where
  "register_agent dumps node r =
     sadd AGENT_LIST (an_name node)
       (set_str (agent_key (an_name node)) (Some (dumps node))
         (sadd (cluster_set (an_cluster node)) (an_name node)
           (sadd AGENT_CLUSTERS (an_cluster node) r)))"

definition unregister_agent :: "agent_node \<Rightarrow> redis \<Rightarrow> redis" where
  "unregister_agent node r =
     srem AGENT_LIST (an_name node)
       (set_str (agent_key (an_name node)) None (srem (cluster_set (an_cluster node)) (an_name node) r))"

definition get_agent :: "(string \<Rightarrow> agent_node result) \<Rightarrow> string \<Rightarrow> redis \<Rightarrow> agent_node option result" where
  "get_agent loads name r =
     (case rd_strs r (agent_key name) of
        None \<Rightarrow> Inr None
      | Some d \<Rightarrow> if d = [] then Inr None else rbind (loads d) (\<lambda>n. Inr (Some n)))"

definition remove_agent :: "string \<Rightarrow> redis \<Rightarrow> redis" where
  "remove_agent agent r = set_str (agent_key agent) None (srem AGENT_LIST agent r)"

definition agent_clusters :: "redis \<Rightarrow> string list" where
  "agent_clusters r = rd_sets r AGENT_CLUSTERS"

definition list_agents :: "string option \<Rightarrow> redis \<Rightarrow> string list" where
  "list_agents from_cluster r =
     rd_sets r (if opt_truthy from_cluster then cluster_set (the from_cluster) else AGENT_LIST)"

definition machine_reg_key :: "string \<Rightarrow> string \<Rightarrow> string" where
  "machine_reg_key cluster machine_id = MACHINE_PREFIX @ CHR ''.'' # cluster @ CHR ''.'' # machine_id"

definition register_machine :: "(machine_instance \<Rightarrow> string) \<Rightarrow> string \<Rightarrow> machine_instance \<Rightarrow> redis \<Rightarrow> redis" where
  "register_machine dumps cluster node r = set_str (machine_reg_key cluster (mi_machine_id node)) (Some (dumps node)) r"

definition unregister_machine :: "string \<Rightarrow> string \<Rightarrow> redis \<Rightarrow> redis" where
  "unregister_machine cluster machine_id r = set_str (machine_reg_key cluster machine_id) None r"

text \<open>\<open>json.loads(None)\<close> is a type error.\<close>

definition get_reg_machine :: "(string \<Rightarrow> machine_instance result) \<Rightarrow> string \<Rightarrow> string \<Rightarrow> redis \<Rightarrow> machine_instance result" where
  "get_reg_machine loads cluster machine_id r =
     (case rd_strs r (machine_reg_key cluster machine_id) of None \<Rightarrow> Inl TypeError | Some d \<Rightarrow> loads d)"

section \<open>Workers\<close>

record rq_worker =
  wk_name :: string
  wk_birth :: int
  wk_working :: int

text \<open>\<open>timedelta.seconds\<close> leaves the days out.\<close>

definition inactive_time :: "int \<Rightarrow> rq_worker \<Rightarrow> int" where
  "inactive_time now w = (now - wk_birth w) mod 86400 - wk_working w"

definition reg_qname :: "string \<Rightarrow> string \<Rightarrow> string" where
  "reg_qname cluster q = qname cluster q"

type_synonym worker_lib = "string \<Rightarrow> rq_worker list"

definition agent_of_worker :: "rq_worker \<Rightarrow> string" where
  "agent_of_worker w = hd (split_on CHR ''.'' (wk_name w))"

definition workers2dict :: "rq_worker list \<Rightarrow> rq_worker list dict" where
  "workers2dict ws = fold (\<lambda>w d. let a = agent_of_worker w in
     case map_of d a of None \<Rightarrow> dict_set a [w] d | Some l \<Rightarrow> dict_set a (l @ [w]) d) ws []"

text \<open>The queue name an object of the class builds from a name; \<open>get_workers_from_q\<close> builds it again.\<close>

definition get_workers_from_q :: "worker_lib \<Rightarrow> string \<Rightarrow> string \<Rightarrow> rq_worker list" where
  "get_workers_from_q all cluster q = all (reg_qname cluster q)"

definition list_agents_by_queue :: "worker_lib \<Rightarrow> string \<Rightarrow> string \<Rightarrow> string set" where
  "list_agents_by_queue all cluster q =
     (\<lambda>w. case rsplit_once CHR ''.'' (wk_name w) of None \<Rightarrow> wk_name w | Some (a, _) \<Rightarrow> a) `
       set (get_workers_from_q all cluster (reg_qname cluster q))"

text \<open>The least idle time of the workers of each agent; the code divides it by 60. \<open>queues\<close> are the
  names of the queues.\<close>

definition idle_agents :: "worker_lib \<Rightarrow> int \<Rightarrow> string list \<Rightarrow> string list \<Rightarrow> int dict result" where
  "idle_agents all now agents queues =
     (let d = workers2dict (concat (map all queues))
      in rbind (rmap (\<lambda>a. rbind (dict_get d a) (\<lambda>ws. Inr (a, hd (sort (map (inactive_time now) ws))))) agents)
           (\<lambda>xs. Inr (fold (\<lambda>(a, t). dict_set a t) xs [])))"

definition idle_agents_from_cluster ::
  "worker_lib \<Rightarrow> int \<Rightarrow> string \<Rightarrow> string \<Rightarrow> string list \<Rightarrow> redis \<Rightarrow> int dict result" where
  "idle_agents_from_cluster all now own_cluster cluster qnames r =
     (let names = map (reg_qname own_cluster) qnames
      in idle_agents all now (list_agents (Some cluster) r) (map (reg_qname own_cluster) names))"

text \<open>The workers told to shut down, in order; the attribute error of an unknown agent is caught.\<close>

definition kill_workers_from_agent ::
  "(string \<Rightarrow> agent_node result) \<Rightarrow> string \<Rightarrow> redis \<Rightarrow> (bool \<times> string list) result" where
  "kill_workers_from_agent loads name r =
     rbind (get_agent loads name r) (\<lambda>n. Inr (case n of None \<Rightarrow> (False, []) | Some n \<Rightarrow> (True, an_workers n)))"

definition kill_workers_from_queue :: "worker_lib \<Rightarrow> string \<Rightarrow> string \<Rightarrow> string list" where
  "kill_workers_from_queue all cluster q = map wk_name (all (reg_qname cluster q))"

section \<open>The life of an agent\<close>

definition heart_key :: "string \<Rightarrow> string" where
  "heart_key name = ''nb.ag.heart'' @ CHR ''.'' # name"

definition workers_names :: "string \<Rightarrow> int \<Rightarrow> string list" where
  "workers_names name n = map (\<lambda>x. name @ CHR ''.'' # str_int x) [0..n - 1]"

definition node_of :: "agent_config \<Rightarrow> string \<Rightarrow> string \<Rightarrow> string \<Rightarrow> int \<Rightarrow> agent_node" where
  "node_of conf name ip pid now =
     \<lparr>an_ip_address = ip, an_name = name, an_pid = pid, an_qnames = ac_qnames conf, an_cluster = ac_cluster conf,
      an_workers = workers_names name (ac_workers_n conf), an_birthday = now, an_machine_id = Some (ac_machine_id conf)\<rparr>"

text \<open>What \<open>run\<close> does once the heart beats: what it submits to a pool or serves itself, with the register
  as it is at that moment. \<open>serve\<close> is a worker that works until it is shut down or fails.\<close>

datatype agent_event = Submitted string redis | Served string redis

definition agent_life ::
  "(agent_node \<Rightarrow> string) \<Rightarrow> (string \<Rightarrow> unit result) \<Rightarrow> agent_config \<Rightarrow> string \<Rightarrow> string \<Rightarrow> int \<Rightarrow> redis \<Rightarrow>
   unit result \<times> agent_event list \<times> redis" where
  "agent_life dumps serve conf ip pid now r =
     (case agent_name_of conf of
        Inl e \<Rightarrow> (Inl e, [], r)
      | Inr name \<Rightarrow>
          (let node = node_of conf name ip pid now;
               beat = set_str (heart_key name) (Some ''alive'');
               r1 = register_agent dumps node (beat r);
               stop = (\<lambda>s. set_str (heart_key name) None (unregister_agent node s))
           in if ac_workers_n conf > 1
              then (Inr (), map (\<lambda>w. Submitted w r1) (an_workers node), stop r1)
              else case an_workers node of
                     [] \<Rightarrow> (Inl IndexError, [], r1)
                   | w # _ \<Rightarrow>
                       (case serve w of
                          Inl e \<Rightarrow> (Inl e, [Served w r1], r1)
                        | Inr _ \<Rightarrow> (Inr (), [Served w r1], stop r1))))"

section \<open>The properties\<close>

lemmas agent_register_ops = register_agent_def unregister_agent_def get_agent_def sadd_def srem_def set_str_def
  list_agents_def agent_key_def cluster_set_def AGENT_PREFIX_def AGENT_LIST_def AGENT_CLUSTERS_def
  AGENT_CLUSTER_PREFIX_def heart_key_def remove_agent_def

text \<open>No agent of a cluster listens to a queue whose name went twice through \<open>qname\<close>.\<close>

lemma no_double_queue:
  assumes "reg_qname own (reg_qname own q) \<in> set (cluster_queues conf)"
    and "CHR ''.'' \<notin> set (ac_cluster conf)" and "\<forall>n\<in>set (ac_qnames conf). CHR ''.'' \<notin> set n"
  shows False
proof -
  obtain n where n: "n \<in> set (ac_qnames conf)" "reg_qname own (reg_qname own q) = qname (ac_cluster conf) n"
    using assms(1) by (auto simp: cluster_queues_def)
  let ?dots = "\<lambda>s. length (filter (\<lambda>c. c = CHR ''.'') s)"
  have "?dots (qname (ac_cluster conf) n) = 1"
    using n(1) assms(2,3) by (simp add: qname_def filter_empty_conv) (metis assms(2) filter_False list.size(3) n(1))
  moreover have "?dots (reg_qname own (reg_qname own q)) \<ge> 2" by (simp add: reg_qname_def qname_def)
  ultimately show False using n(2) by simp
qed

lemma workers2dict_Nil [simp]: "workers2dict [] = []"
  by (simp add: workers2dict_def)

lemma concat_none: "(\<And>q. q \<in> set qs \<Longrightarrow> f q = []) \<Longrightarrow> concat (map f qs) = []"
  by (induction qs) auto

text \<open>The register never finds an idle agent. When every worker listens to queues of an agent, whose
  cluster and queue names have no dot, asking for the idle agents of a cluster raises a key error
  for the first agent the cluster has, and the agents of a queue are always none: both put the
  cluster in front of the queue's name twice.\<close>

lemma idle_agents_fail:
  assumes listen: "\<And>q w. w \<in> set (all q) \<Longrightarrow> \<exists>conf. q \<in> set (cluster_queues conf) \<and>
      CHR ''.'' \<notin> set (ac_cluster conf) \<and> (\<forall>n\<in>set (ac_qnames conf). CHR ''.'' \<notin> set n)"
  shows "idle_agents_from_cluster all now own c qnames r =
      (case list_agents (Some c) r of [] \<Rightarrow> Inr [] | a # _ \<Rightarrow> Inl (KeyError a)) \<and>
    list_agents_by_queue all own q = {}"
proof -
  have none: "all (reg_qname own (reg_qname own n)) = []" for n
    using listen [of _ "reg_qname own (reg_qname own n)"] no_double_queue by (cases "all (reg_qname own (reg_qname own n))") force+
  then have c: "concat (map all (map (reg_qname own) (map (reg_qname own) qnames))) = []"
    by (intro concat_none) auto
  show ?thesis
    unfolding idle_agents_from_cluster_def idle_agents_def list_agents_by_queue_def get_workers_from_q_def Let_def
    by (simp add: c none dict_get_def del: map_map split: list.split)
qed

definition demo_conf :: agent_config where
  "demo_conf = \<lparr>ac_cluster = ''gpu'', ac_qnames = [''default''], ac_machine_id = ''local/here/m1'', ac_agent_name = None, ac_workers_n = 1\<rparr>"

definition demo_workers :: worker_lib where
  "demo_workers q = (if q \<in> set (cluster_queues demo_conf) then [\<lparr>wk_name = ''m1.0'', wk_birth = 0, wk_working = 0\<rparr>] else [])"

text \<open>An agent that hands its workers to a pool takes itself off the register at once.\<close>

lemma pool_agent_unregistered:
  assumes "agent_name_of conf = Inr name" and "1 < ac_workers_n conf"
    and "agent_life dumps serve conf ip pid now r = (res, evs, r')"
  shows "res = Inr () \<and> rd_strs r' (agent_key name) = None \<and> name \<notin> set (list_agents None r') \<and>
     (\<forall>e\<in>set evs. \<exists>w r1. e = Submitted w r1 \<and> rd_strs r1 (agent_key name) \<noteq> None)"
  using assms by (auto simp: agent_life_def Let_def agent_register_ops node_of_def)

text \<open>An agent that is removed by name stays in the set of its cluster.\<close>

lemma removed_agent_listed:
  assumes "name \<in> set (list_agents (Some c) r)" and "c \<noteq> []"
  shows "name \<in> set (list_agents (Some c) (remove_agent name r)) \<and> get_agent loads name (remove_agent name r) = Inr None"
  using assms by (auto simp: agent_register_ops)

end
