(* ===== verification/Rq_Scheduler.thy ===== *)
theory Rq_Scheduler
  imports Control
begin

text \<open>
  The scheduler over RQ (\<open>scheduler.py\<close>): the dispatcher that a scheduled job runs, and the executor that
  asks RQ and RQ-Scheduler to enqueue, schedule and cancel. What it asks of them is the list of
  \<open>rq_call\<close>s; \<open>jobs\<close> are the ids the library lists.
\<close>

datatype rq_call =
    RqEnqueueDispatch string string string string string
  | RqEnqueueNotebook string exec_task string int
  | RqEnqueueBuild string build_ctx string int
  | RqSchedule string int "string list" "string option" "int option" string int
  | RqCron string string "string list" "int option" string int
  | RqCancel string

text \<open>The timeout of the dispatcher's job: five minutes.\<close>

definition DEFAULT_SCH_TASK_TO :: int where "DEFAULT_SCH_TASK_TO = 60 * 5"

text \<open>The runtime is looked up under the variable that is to hold it, which is \<open>None\<close>: no row has
  that id. When there is no enabled workflow the context was never bound.\<close>

definition get_by_rid_sync :: "string option \<Rightarrow> db \<Rightarrow> runtime_data option result" where
  "get_by_rid_sync runtimeid db = (case runtimeid of None \<Rightarrow> Inr None | Some r \<Rightarrow> get_by_rid r db)"

definition prepare_notebook_job :: "ctx_env \<Rightarrow> string \<Rightarrow> string \<Rightarrow> string \<Rightarrow> db \<Rightarrow> exec_task result" where
  "prepare_notebook_job E projectid wfid execid db =
     (case get_by_prj_and_wfid_sync projectid wfid db of
        None \<Rightarrow> Inl UnboundLocalError
      | Some wm \<Rightarrow>
          if \<not> wf_enabled wm then Inl UnboundLocalError
          else rbind (if opt_truthy (nb_runtime (wf_nbtask wm)) then get_by_rid_sync None db else Inr None) (\<lambda>runtime.
                 Inr (nb_create_ctx (ce_show E) (ce_version E) (ce_wfid E) (ce_execid E) (ce_today E) (ce_now E)
                   projectid (wf_nbtask wm) (Some execid) runtime (Some wfid))))"

definition rq_enqueue_notebook :: "exec_task \<Rightarrow> string option \<Rightarrow> rq_call" where
  "rq_enqueue_notebook ctx q =
     RqEnqueueNotebook (or_str q (qname (et_cluster ctx) (et_machine ctx))) ctx (et_execid ctx) (et_timeout ctx)"

definition rq_enqueue_build :: "string \<Rightarrow> build_ctx \<Rightarrow> rq_call" where
  "rq_enqueue_build build_queue ctx = RqEnqueueBuild build_queue ctx (bx_execid ctx) ((60 * 60) * 24)"

text \<open>Three exceptions are caught, of which two also cancel the job.\<close>

definition scheduler_dispatcher ::
  "ctx_env \<Rightarrow> nanoid \<Rightarrow> string \<Rightarrow> string \<Rightarrow> string option \<Rightarrow> db \<Rightarrow> unit result \<times> rq_call list" where
  "scheduler_dispatcher E gen projectid wfid execid db =
     (let signed = firm_with ''dsp'' (execid_init gen (Some (or_str execid (execid_init gen None EXECID_LEN None))) EXECID_LEN None)
      in case prepare_notebook_job E projectid wfid signed db of
           Inr ctx \<Rightarrow> (Inr (), [rq_enqueue_notebook ctx (Some (et_machine ctx))])
         | Inl e \<Rightarrow>
             if e = WorkflowNotFound then (Inr (), [])
             else if e = WorkflowDisabled \<or> e = RuntimeNotFound then (Inr (), [RqCancel wfid])
             else (Inl e, []))"

definition rq_dispatcher :: "nanoid \<Rightarrow> string \<Rightarrow> string \<Rightarrow> string \<Rightarrow> string option \<Rightarrow> rq_call" where
  "rq_dispatcher gen q projectid wfid execid =
     (let final_id = firm_with ''dsp'' (execid_init gen execid EXECID_LEN None)
      in RqEnqueueDispatch q projectid wfid final_id final_id)"

definition interval2redis :: "string \<Rightarrow> string \<Rightarrow> string \<Rightarrow> schedule_data \<Rightarrow> rq_call" where
  "interval2redis q projectid wfid sch =
     RqSchedule wfid (sd_start_in_min sch) [projectid, wfid] (sd_interval sch) (sd_repeat sch) q DEFAULT_SCH_TASK_TO"

definition cron2redis :: "string \<Rightarrow> string \<Rightarrow> string \<Rightarrow> string \<Rightarrow> schedule_data \<Rightarrow> rq_call" where
  "cron2redis q cron projectid wfid sch = RqCron cron wfid [projectid, wfid] (sd_repeat sch) q DEFAULT_SCH_TASK_TO"

definition rq_schedule :: "string \<Rightarrow> string \<Rightarrow> string \<Rightarrow> workflow_data_web \<Rightarrow> rq_call result" where
  "rq_schedule q project_id wfid wd =
     (case wd_schedule wd of
        None \<Rightarrow> Inl AttributeError
      | Some sch \<Rightarrow>
          if opt_truthy (sd_cron sch) then Inr (cron2redis q (the (sd_cron sch)) project_id wfid sch)
          else Inr (interval2redis q project_id wfid sch))"

definition cancel_all :: "string list \<Rightarrow> rq_call list" where
  "cancel_all jobs = map RqCancel jobs"

definition cancel_job :: "string \<Rightarrow> rq_call" where
  "cancel_job wfid = RqCancel wfid"

definition rq_delete_workflow :: "string \<Rightarrow> string \<Rightarrow> db \<Rightarrow> rq_call list \<times> db" where
  "rq_delete_workflow projectid wfid db = ([cancel_job wfid], delete_wf projectid wfid db)"

section \<open>The properties\<close>

lemma no_runtime [simp]: "(if b then get_by_rid_sync None db else Inr None) = Inr None"
  by (simp add: get_by_rid_sync_def)

text \<open>What a dispatched job does. For a workflow that its project does not have, or that is disabled,
  it fails with an unbound variable, and the schedule is not cancelled. Otherwise it asks for one
  notebook, under the workflow's own id, with the default image whatever runtime the task names,
  and on a queue named like the machine alone: no agent of any cluster listens to it as long as
  machine names have no dot.\<close>

lemma dispatched_job:
  assumes "scheduler_dispatcher E gen pid wfid execid db = (r, calls)"
  shows "(case get_by_prj_and_wfid_sync pid wfid db of
       Some wm \<Rightarrow>
         if wf_enabled wm
         then r = Inr () \<and> (\<exists>ctx. calls = [RqEnqueueNotebook (or_str (Some (et_machine ctx)) (qname (et_cluster ctx) (et_machine ctx)))
                ctx (et_execid ctx) (et_timeout ctx)] \<and>
              et_wfid ctx = or_str (Some wfid) (dummy_wfid (ce_wfid E)) \<and> et_machine ctx = nb_machine (wf_nbtask wm) \<and>
              et_runtime ctx = nb_prepare_runtime (ce_show E) (ce_version E) None (nb_gpu_support (wf_nbtask wm)) \<and>
              (CHR ''.'' \<notin> set (et_machine ctx) \<and> et_machine ctx \<noteq> [] \<longrightarrow>
                 (\<forall>c q. qname c q \<noteq> or_str (Some (et_machine ctx)) (qname (et_cluster ctx) (et_machine ctx)))))
         else r = Inl UnboundLocalError \<and> calls = []
     | None \<Rightarrow> r = Inl UnboundLocalError \<and> calls = [])"
proof -
  have dot: "CHR ''.'' \<notin> set m \<Longrightarrow> qname c q \<noteq> m" for c q m by (auto simp: qname_def)
  show ?thesis
  proof (cases "get_by_prj_and_wfid_sync pid wfid db")
    case None
    then show ?thesis using assms by (simp add: scheduler_dispatcher_def prepare_notebook_job_def)
  next
    case (Some wm)
    show ?thesis
    proof (cases "wf_enabled wm")
      case False
      then show ?thesis using assms Some by (simp add: scheduler_dispatcher_def prepare_notebook_job_def)
    next
      case True
      obtain execid' ctx where
        ctx: "ctx = nb_create_ctx (ce_show E) (ce_version E) (ce_wfid E) (ce_execid E) (ce_today E) (ce_now E) pid
            (wf_nbtask wm) (Some execid') None (Some wfid)"
        and calls: "r = Inr ()" "calls = [rq_enqueue_notebook ctx (Some (et_machine ctx))]"
        using assms True Some
        by (auto simp: scheduler_dispatcher_def prepare_notebook_job_def no_runtime Let_def)
      have "et_wfid ctx = or_str (Some wfid) (dummy_wfid (ce_wfid E))" "et_machine ctx = nb_machine (wf_nbtask wm)"
        "et_runtime ctx = nb_prepare_runtime (ce_show E) (ce_version E) None (nb_gpu_support (wf_nbtask wm))"
        by (simp_all add: ctx nb_create_ctx_def Let_def)
      then show ?thesis using True Some calls dot by (auto simp: rq_enqueue_notebook_def)
    qed
  qed
qed

end
