(* ===== verification/Manager_Cmd.thy ===== *)
theory Manager_Cmd
  imports Projects
begin

text \<open>
  The manager's commands (\<open>cmd/manager.py\<close>): users and agents made, disabled and deleted straight in the
  database, without the server. A command gives its exit, the lines it prints and the states after;
  a session that is closed without a commit leaves nothing. \<open>derive\<close> is the key derivation of the
  passwords, the token store that of the server.
\<close>

section \<open>Users\<close>

text \<open>What the user types: the prompt for an optional address gives none for an empty line.\<close>

record prompts =
  pt_username :: string
  pt_password :: string
  pt_repeat :: string
  pt_email :: "string option"

definition new_user :: "prompts \<Rightarrow> string \<Rightarrow> bool \<Rightarrow> user_orm" where
  "new_user p scopes superuser =
     \<lparr>uo_username = pt_username p, uo_id = None, uo_email = pt_email p, uo_password = None, uo_scopes = scopes,
      uo_is_superuser = superuser, uo_is_active = True, uo_is_agent = False, uo_projects = []\<rparr>"

text \<open>A name that is taken makes the flush fail; the manager hides that, and the commit that follows is of
  a session that was rolled back.\<close>

definition users_create ::
  "kdf \<Rightarrow> string \<Rightarrow> prompts \<Rightarrow> string \<Rightarrow> bool \<Rightarrow> nat \<Rightarrow> db \<Rightarrow> unit result \<times> string list \<times> db" where
  "users_create derive salt p scopes superuser now db =
     (if pt_password p \<noteq> pt_repeat p then (Inl (SystemExit 255), [''[bold red]Paswords doesn't match[/]''], db)
      else case um_create derive (new_user p scopes superuser) (Some (pt_password p)) (Some salt) now db of
             (None, _) \<Rightarrow> (Inl PendingRollbackError, [], db)
           | (Some _, db') \<Rightarrow> (Inr (), [''[bold magenta]Congrats!! user '' @ pt_username p @ '' created''], db'))"

definition users_disable :: "string option \<Rightarrow> nat \<Rightarrow> db \<Rightarrow> unit result \<times> string list \<times> db" where
  "users_disable username now db =
     (case (case username of None \<Rightarrow> Inr (None, db) | Some n \<Rightarrow> um_disable_user n now db) of
        Inl e \<Rightarrow> (Inl e, [], db)
      | Inr (u, db') \<Rightarrow> (Inr (), [fmt_opt username @ (if u \<noteq> None then '' disabled'' else '' not found'')], db'))"

definition users_reset :: "kdf \<Rightarrow> string \<Rightarrow> prompts \<Rightarrow> nat \<Rightarrow> db \<Rightarrow> unit result \<times> string list \<times> db" where
  "users_reset derive salt p now db =
     (case um_change_pass derive (pt_username p) (pt_password p) salt now db of
        Inl e \<Rightarrow> (Inl e, [], db)
      | Inr (changed, db') \<Rightarrow>
          (Inr (), [if changed then ''[bold magenta]Pasword changed[/]'' else ''[bold red]User may not exist [/]''], db'))"

text \<open>The action \<open>change-scopes\<close> is offered and does nothing.\<close>

datatype users_action = UsersCreate | UsersDisable | UsersReset | UsersChangeScopes

definition users_cmd ::
  "kdf \<Rightarrow> string \<Rightarrow> prompts \<Rightarrow> bool \<Rightarrow> string \<Rightarrow> string option \<Rightarrow> users_action \<Rightarrow> nat \<Rightarrow> db \<Rightarrow> unit result \<times> string list \<times> db" where
  "users_cmd derive salt p superuser scopes username action now db =
     (case action of
        UsersCreate \<Rightarrow> users_create derive salt p scopes superuser now db
      | UsersDisable \<Rightarrow> users_disable username now db
      | UsersReset \<Rightarrow> users_reset derive salt p now db
      | UsersChangeScopes \<Rightarrow> (Inr (), [''[red bold]Wrongs params[/]''], db))"

section \<open>Agents\<close>

datatype manager_line = Line string | JsonData pyval

definition agent_data :: "user_row \<Rightarrow> jwt_response \<Rightarrow> pyval" where
  "agent_data um jwt =
     PDict [(''username'', PStr (us_username um)), (''scopes'', PList (map PStr (split_on CHR '','' (us_scopes um)))),
            (''jwt'', jwt_response_dict jwt)]"

text \<open>The new row, which the tokens are made of before it reaches the database.\<close>

definition agent_row :: "nanoid \<Rightarrow> nanoid \<Rightarrow> string \<Rightarrow> bool \<Rightarrow> nat \<Rightarrow> db \<Rightarrow> user_row" where
  "agent_row gen gen' scopes admin now db =
     \<lparr>us_id = db_seq db, us_username = agent_name gen gen' None, us_email = None, us_password = None,
      us_scopes = (if admin then AGENT_ADMIN_SCOPES else scopes), us_is_superuser = False, us_is_active = True,
      us_is_agent = True, us_updated_at = now\<rparr>"

text \<open>The commit comes last: an agent that cannot be inserted leaves its refresh token in the store.\<close>

definition manager_agent_create ::
  "nanoid \<Rightarrow> nanoid \<Rightarrow> jwt_lib \<Rightarrow> jwt_config \<Rightarrow> 's token_store \<Rightarrow> int \<Rightarrow> string \<Rightarrow> string \<Rightarrow> bool \<Rightarrow> int \<Rightarrow> nat \<Rightarrow> db \<Rightarrow> 's \<Rightarrow>
   unit result \<times> manager_line list \<times> db \<times> 's" where
  "manager_agent_create gen gen' J conf T t drawn scopes admin exp now db st =
     (let um = agent_row gen gen' scopes admin now db;
          (jwt, st') = get_jwt_token J conf T t drawn um exp st
      in case create_agent gen gen' None scopes admin now db of
           Inl e \<Rightarrow> (Inl e, [], db, st')
         | Inr (_, db') \<Rightarrow> (Inr (), [JsonData (agent_data um jwt)], db', st'))"

definition manager_get_token ::
  "jwt_lib \<Rightarrow> jwt_config \<Rightarrow> 's token_store \<Rightarrow> int \<Rightarrow> string \<Rightarrow> string option \<Rightarrow> int \<Rightarrow> db \<Rightarrow> 's \<Rightarrow> manager_line list \<times> 's" where
  "manager_get_token J conf T t drawn username exp db st =
     (if \<not> opt_truthy username then ([Line ''[bold red]A username should be given[/]''], st)
      else case get_user (the username) db of
             None \<Rightarrow> ([Line ''[bold red]Username not found[/]''], st)
           | Some um \<Rightarrow>
               (let (jwt, st') = get_jwt_token J conf T t drawn um exp st in ([JsonData (agent_data um jwt)], st')))"

definition manager_agent_delete :: "string option \<Rightarrow> db \<Rightarrow> unit result \<times> manager_line list \<times> db" where
  "manager_agent_delete username db =
     (if \<not> opt_truthy username then (Inr (), [Line ''[bold red]A username should be given[/]''], db)
      else case um_delete_user (the username) db of
             Inl e \<Rightarrow> (Inl e, [], db)
           | Inr db' \<Rightarrow> (Inr (), [Line ''[bold green]Agent deleted[/]''], db'))"

definition manager_agent_list :: "db \<Rightarrow> manager_line list" where
  "manager_agent_list db = map (\<lambda>ag. Line (''=> [magenta]'' @ ag @ ''[/]'')) (get_agent_list None db)"

datatype manager_action = MAgentCreate | MAgentGetToken | MAgentDelete | MAgentList

definition manager_agent_cmd ::
  "nanoid \<Rightarrow> nanoid \<Rightarrow> jwt_lib \<Rightarrow> jwt_config \<Rightarrow> 's token_store \<Rightarrow> int \<Rightarrow> string \<Rightarrow> string \<Rightarrow> string option \<Rightarrow> manager_action \<Rightarrow>
   bool \<Rightarrow> int \<Rightarrow> nat \<Rightarrow> db \<Rightarrow> 's \<Rightarrow> unit result \<times> manager_line list \<times> db \<times> 's" where
  "manager_agent_cmd gen gen' J conf T t drawn scopes username action admin exp now db st =
     (case action of
        MAgentCreate \<Rightarrow> manager_agent_create gen gen' J conf T t drawn scopes admin exp now db st
      | MAgentGetToken \<Rightarrow> (let (ls, st') = manager_get_token J conf T t drawn username exp db st in (Inr (), ls, db, st'))
      | MAgentDelete \<Rightarrow> (let (r, ls, db') = manager_agent_delete username db in (r, ls, db', st))
      | MAgentList \<Rightarrow> (Inr (), manager_agent_list db, db, st))"

section \<open>The invariant of the database\<close>

lemma manager_ok [db_writes]:
  assumes "db_ok db"
  shows "users_cmd derive salt p superuser scopes username action now db = (r, ls, db') \<Longrightarrow> db_ok db'"
    and "manager_agent_cmd gen gen' J conf T t drawn scopes username act admin exp now db st = (q, ms, db', st') \<Longrightarrow> db_ok db'"
  using assms
  by (auto simp: users_cmd_def users_create_def users_disable_def users_reset_def manager_agent_cmd_def manager_agent_create_def
      manager_agent_delete_def create_agent_def Let_def rbind_Inr_iff dest: users_mg_ok insert_user_ok
      split: users_action.splits manager_action.splits if_splits option.splits sum.splits prod.splits)

lemma agent_row_created:
  "create_agent gen gen' None scopes admin now db = Inr (u, db') \<Longrightarrow> u = agent_row gen gen' scopes admin now db"
  by (auto simp: create_agent_def agent_row_def Let_def rbind_Inr_iff)

section \<open>Who can log in\<close>

text \<open>The row of the user that \<open>users create\<close> makes.\<close>

definition created_row :: "kdf \<Rightarrow> string \<Rightarrow> prompts \<Rightarrow> string \<Rightarrow> bool \<Rightarrow> nat \<Rightarrow> db \<Rightarrow> user_row" where
  "created_row derive salt p scopes superuser now db =
     \<lparr>us_id = db_seq db, us_username = pt_username p, us_email = pt_email p,
      us_password = (if pt_password p \<noteq> [] then Some (derive salt (pt_password p)) else None),
      us_scopes = (if superuser \<and> \<not> contains ''admin:read:write'' scopes then scopes @ '',admin:r:w'' else scopes),
      us_is_superuser = superuser, us_is_active = True, us_is_agent = False, us_updated_at = now\<rparr>"

definition with_user :: "user_row \<Rightarrow> db \<Rightarrow> db" where
  "with_user u db = db\<lparr>db_users := db_users db @ [u], db_seq := Suc (db_seq db)\<rparr>"

lemma created_row_simps [simp]:
  "us_username (created_row derive salt p scopes superuser now db) = pt_username p"
  "us_scopes (created_row derive salt p scopes superuser now db) =
     (if superuser \<and> \<not> contains ''admin:read:write'' scopes then scopes @ '',admin:r:w'' else scopes)"
  "us_password (created_row derive salt p scopes superuser now db) =
     (if pt_password p \<noteq> [] then Some (derive salt (pt_password p)) else None)"
  "us_is_active (created_row derive salt p scopes superuser now db)" "\<not> us_is_agent (created_row derive salt p scopes superuser now db)"
  by (simp_all add: created_row_def)

lemma um_create_new:
  assumes "db_seq db \<notin> userids db" and "salt \<noteq> []"
  shows "um_create derive (new_user p scopes superuser) (Some (pt_password p)) (Some salt) now db =
    (if pt_username p \<in> us_username ` set (db_users db) then (None, db)
     else let u = created_row derive salt p scopes superuser now db in (Some u, with_user u db))"
  using assms by (simp add: um_create_def new_user_def orm_row_def insert_user_def Let_def script_encrypt_def created_row_def with_user_def)

lemma get_user_appended:
  "us_username u \<notin> us_username ` set (db_users db) \<Longrightarrow>
     get_user n (with_user u db) = (if n = us_username u then Some u else get_user n db)"
proof (cases "n = us_username u")
  case True
  assume "us_username u \<notin> us_username ` set (db_users db)"
  then have "filter (\<lambda>v. us_username v = us_username u) (db_users db) = []" by (auto simp: filter_empty_conv) (metis image_eqI)
  then show ?thesis by (simp add: True get_user_def first_row_def with_user_def)
qed (simp add: get_user_def with_user_def)

text \<open>C40. Creating a user. The command refuses two different passwords and fails for a name that is taken,
  in both cases without a change. Otherwise there is a new active user, who is no agent, with the
  scopes given and, for a superuser, the administrator's; it logs in with the password typed and
  no other, never when that was empty, and every other login is as before.\<close>

theorem created_user_logs_in:
  assumes fresh: "db_seq db \<notin> userids db" and salt: "salt \<noteq> []" and login: "parse_user_login (req_json req) = Inr (n, q)"
  shows "\<exists>r ls db'. users_create derive salt p scopes superuser now db = (r, ls, db') \<and>
    (if pt_password p \<noteq> pt_repeat p then r = Inl (SystemExit 255) \<and> db' = db
     else if pt_username p \<in> us_username ` set (db_users db) then r = Inl PendingRollbackError \<and> db' = db
     else r = Inr () \<and>
       (\<exists>u. set (db_users db') = insert u (set (db_users db)) \<and> us_username u = pt_username p \<and> \<not> us_is_agent u \<and>
          us_scopes u = (if superuser \<and> \<not> contains ''admin:read:write'' scopes then scopes @ '',admin:r:w'' else scopes) \<and>
          authenticate derive salt db' req =
            (if n = pt_username p
             then if pt_password p \<noteq> [] \<and> derive salt q = derive salt (pt_password p) then Inr u else Inl AuthValidationFailed
             else authenticate derive salt db req)))"
proof (cases "pt_password p = pt_repeat p \<and> pt_username p \<notin> us_username ` set (db_users db)")
  case True
  let ?u = "created_row derive salt p scopes superuser now db"
  have "users_create derive salt p scopes superuser now db =
      (Inr (), [''[bold magenta]Congrats!! user '' @ pt_username p @ '' created''], with_user ?u db)"
    using True um_create_new [OF fresh salt, of derive p scopes superuser now] by (simp add: users_create_def Let_def)
  moreover have "authenticate derive salt (with_user ?u db) req =
      (if n = pt_username p
       then if pt_password p \<noteq> [] \<and> derive salt q = derive salt (pt_password p) then Inr ?u else Inl AuthValidationFailed
       else authenticate derive salt db req)"
    using True by (auto simp: authenticate_char [OF login] get_user_appended)
  moreover have "set (db_users (with_user ?u db)) = insert ?u (set (db_users db))" by (simp add: with_user_def)
  ultimately show ?thesis using True by (auto intro!: exI [of _ ?u])
next
  case False
  then show ?thesis using um_create_new [OF fresh salt, of derive p scopes superuser now] by (auto simp: users_create_def)
qed

theorem created_user_logs_in_witness:
  "\<exists>u db'. users_create (\<lambda>s p. s @ CHR '':'' # p) ''salt'' \<lparr>pt_username = ''bob'', pt_password = ''pw'', pt_repeat = ''pw'', pt_email = None\<rparr>
      ''user'' True 5 demo_db = (Inr (), [''[bold magenta]Congrats!! user bob created''], db') \<and> us_scopes u = ''user,admin:r:w'' \<and>
    authenticate (\<lambda>s p. s @ CHR '':'' # p) ''salt'' db'
      \<lparr>req_token = None, req_json = PDict [(''username'', PStr ''bob''), (''password'', PStr ''pw'')]\<rparr> = Inr u"
proof -
  let ?p = "\<lparr>pt_username = ''bob'', pt_password = ''pw'', pt_repeat = ''pw'', pt_email = None\<rparr>"
  let ?d = "\<lambda>s p. s @ CHR '':'' # p" and ?r = "\<lparr>req_token = None, req_json = PDict [(''username'', PStr ''bob''), (''password'', PStr ''pw'')]\<rparr>"
  have login: "parse_user_login (req_json ?r) = Inr (''bob'', ''pw'')" by (simp add: parse_user_login_def)
  have fresh: "db_seq demo_db \<notin> userids demo_db" by (simp add: demo_db_def empty_db_def demo_user_def userids_def)
  have free: "pt_username ?p \<notin> us_username ` set (db_users demo_db)" by (simp add: demo_db_def demo_user_def)
  have c: "\<not> contains ''admin:read:write'' ''user''" by code_simp
  obtain ls db' u where run: "users_create ?d ''salt'' ?p ''user'' True 5 demo_db = (Inr (), ls, db')" and "us_scopes u = ''user,admin:r:w''"
      "authenticate ?d ''salt'' db' ?r = Inr u"
    using created_user_logs_in [OF fresh _ login, of "''salt''" ?d ?p "''user''" True 5] free c by auto
  moreover have "ls = [''[bold magenta]Congrats!! user bob created'']"
    using run free by (auto simp: users_create_def split: prod.splits option.splits)
  ultimately show ?thesis by blast
qed

section \<open>Tokens handed out by the manager\<close>

lemma decode_timed:
  assumes "jwt_contract J conf (build_payload conf t p (Some e) None None)" and "set (requires_claims conf) \<subseteq> {''exp''}" and "e \<noteq> 0"
  shows "auth_decode J conf t' (auth_encode J conf t p (Some e) None None) vs True None None =
     (if e * 1000000 \<le> t' then Inl InvalidTokenError else Inr (build_payload conf t p (Some e) None None))"
proof -
  let ?q = "build_payload conf t p (Some e) None None"
  have e: "map_of ?q ''exp'' = Some (PInt e)" using assms(3) by (simp add: build_payload_keys)
  then have "''exp'' \<in> fst ` set ?q" by (metis domI dom_map_of_conv_image_fst)
  with assms(2) have "set (requires_claims conf) \<subseteq> fst ` set ?q" by auto
  with assms(1) e show ?thesis by (simp add: auth_decode_def auth_encode_def jwt_contract_def)
qed

lemma manager_token:
  assumes "get_user n db = Some u" and "n \<noteq> []"
  shows "manager_get_token J conf T t d (Some n) exp db st =
    ([JsonData (agent_data u \<lparr>access_token = auth_encode J conf t (login_claims (us_username u) (us_scopes u)) (Some (get_delta t exp)) None None,
        refresh_token = Some d\<rparr>)], ts_put T (rtkn_key (us_username u) d) (us_username u) (Some (ttl_refresh_token conf)) st)"
  using assms by (simp add: manager_get_token_def get_jwt_token_def store_refresh_token_def Let_def login_claims_def)

lemma users_disable_row:
  assumes "db_ok db" and "u \<in> set (db_users db)" and "users_disable (Some (us_username u)) now db = (r, ls, db')"
  shows "get_user (us_username u) db' = Some (u\<lparr>us_is_active := False, us_updated_at := now\<rparr>) \<and> r = Inr ()"
proof -
  have "get_user (us_username u) db = Some u" using assms(1,2) by (simp add: get_user_iff)
  then show ?thesis
    using assms(3) update_one_user [OF assms(1,2), of "\<lambda>v. v\<lparr>us_is_active := False, us_updated_at := now\<rparr>", simplified]
    by (auto simp: users_disable_def um_disable_user_def Let_def)
qed

text \<open>C36. Disabling a user keeps nobody who runs the manager from giving that user tokens: once disabled,
  every login is refused, but the command for an agent's tokens asks neither for an agent nor for
  an active user. The access token it prints opens the endpoints the user's scopes allow until it
  expires, and the refresh token is on record.\<close>

theorem disabled_user_gets_tokens:
  assumes ok: "db_ok db" and u: "u \<in> set (db_users db)" "us_username u \<noteq> []"
    and off: "users_disable (Some (us_username u)) now db = (r, ls, db')"
    and con: "jwt_contract J conf (build_payload conf t (login_claims (us_username u) (us_scopes u)) (Some (get_delta t exp)) None None)"
    and rq: "set (requires_claims conf) \<subseteq> {''exp''}"
    and live: "0 < get_delta t exp" "t' < get_delta t exp * 1000000"
    and run: "manager_get_token J conf (redis_token_store dr ns) t d (Some (us_username u)) exp db' st = (out, st')"
    and signed: "auth_encode J conf t (login_claims (us_username u) (us_scopes u)) (Some (get_delta t exp)) None None = at" "at \<noteq> []"
    and f: "\<forall>c s. fst (f c s) \<noteq> Inl AuthValidationFailed"
  shows "out = [JsonData (agent_data u \<lparr>access_token = at, refresh_token = Some d\<rparr>)] \<and>
    rts_get dr ns (rtkn_key (us_username u) d) st' = Some (us_username u) \<and>
    protected J conf t' (Some req) True f \<lparr>req_token = Some at, req_json = b\<rparr> s =
      (if req = [] \<or> scopes_validate req (split_on CHR '','' (us_scopes u)) True True
       then f (build_payload conf t (login_claims (us_username u) (us_scopes u)) (Some (get_delta t exp)) None None) s
       else (Inl WebAuthFailed, s)) \<and>
    (\<forall>lg p. parse_user_login (req_json lg) = Inr (us_username u, p) \<longrightarrow> authenticate derive salt db' lg = Inl AuthValidationFailed)"
proof -
  let ?c = "build_payload conf t (login_claims (us_username u) (us_scopes u)) (Some (get_delta t exp)) None None"
  let ?u = "u\<lparr>us_is_active := False, us_updated_at := now\<rparr>"
  have g: "get_user (us_username u) db' = Some ?u" using users_disable_row [OF ok u(1) off] by simp
  have sc: "dict_get ?c ''scopes'' = Inr (PList (map PStr (split_on CHR '','' (us_scopes u))))"
    by (simp add: dict_get_Inr_iff build_payload_keys login_claims_def)
  have dec: "auth_decode J conf t' at True True None None = Inr ?c"
    using decode_timed [OF con rq, of t' True] live signed(1) by simp
  have val: "auth_validate J conf t' at (Some req) True None None =
      (if req = [] \<or> scopes_validate req (split_on CHR '','' (us_scopes u)) True True then Inr ?c else Inl AuthValidationFailed)"
    by (simp add: auth_validate_def dec sc split: list.splits)
  have "out = [JsonData (agent_data ?u \<lparr>access_token = at, refresh_token = Some d\<rparr>)]"
    and st: "st' = ts_put (redis_token_store dr ns) (rtkn_key (us_username u) d) (us_username u) (Some (ttl_refresh_token conf)) st"
    using run manager_token [OF g u(2), of J conf "redis_token_store dr ns" t d exp st] signed(1) by simp_all
  moreover have "agent_data ?u j = agent_data u j" for j by (simp add: agent_data_def)
  moreover have "rts_get dr ns (rtkn_key (us_username u) d) st' = Some (us_username u)"
    by (simp add: st redis_token_store_def rts_put_def rts_get_eq)
  moreover have "protected J conf t' (Some req) True f \<lparr>req_token = Some at, req_json = b\<rparr> s =
      (if req = [] \<or> scopes_validate req (split_on CHR '','' (us_scopes u)) True True then f ?c s else (Inl WebAuthFailed, s))"
  proof -
    obtain x y where fx: "f ?c s = (x, y)" by fastforce
    moreover have "x \<noteq> Inl AuthValidationFailed" using f fx by (metis fst_conv)
    ultimately show ?thesis
      using signed(2) val by (auto simp: protected_def split: sum.splits py_error.splits)
  qed
  moreover have "parse_user_login (req_json lg) = Inr (us_username u, p) \<Longrightarrow> authenticate derive salt db' lg = Inl AuthValidationFailed" for lg p
    using g by (simp add: authenticate_char)
  ultimately show ?thesis by simp
qed

theorem disabled_user_gets_tokens_witness:
  "\<exists>ls db' out st'. users_disable (Some ''ana'') 5 demo_db = (Inr (), ls, db') \<and>
     manager_get_token (expiring_jwt (login_claims ''ana'' ''user:r:w'' @ [(''exp'', PInt 1800)]) 1800) demo_conf
       (redis_token_store True ''rtkn'') 0 ''aa'' (Some ''ana'') 30 db' [] = (out, st') \<and>
     rts_get True ''rtkn'' (rtkn_key ''ana'' ''aa'') st' = Some ''ana'' \<and>
     protected (expiring_jwt (login_claims ''ana'' ''user:r:w'' @ [(''exp'', PInt 1800)]) 1800) demo_conf 5
       (Some [''user:r'']) True (\<lambda>c s. (Inr (json (PDict c) 200), s)) \<lparr>req_token = Some ''signed'', req_json = PNone\<rparr> () =
     (Inr (json (PDict (login_claims ''ana'' ''user:r:w'' @ [(''exp'', PInt 1800)])) 200), ()) \<and>
     authenticate (\<lambda>s p. s @ CHR '':'' # p) ''salt'' db' (demo_login ''old'') = Inl AuthValidationFailed"
proof -
  let ?J = "expiring_jwt (login_claims ''ana'' ''user:r:w'' @ [(''exp'', PInt 1800)]) 1800"
  let ?f = "\<lambda>c s. (Inr (json (PDict c) 200), s) :: response result \<times> unit"
  have n: "us_username demo_user = ''ana''" "us_scopes demo_user = ''user:r:w''" by (simp_all add: demo_user_def)
  have u: "demo_user \<in> set (db_users demo_db)" "us_username demo_user \<noteq> []" by (simp_all add: demo_db_def n)
  obtain ls db' where off: "users_disable (Some (us_username demo_user)) 5 demo_db = (Inr (), ls, db')"
    using users_disable_row [OF demo_db_ok u(1)] by (metis prod_cases3)
  have p: "build_payload demo_conf 0 (login_claims ''ana'' ''user:r:w'') (Some (get_delta 0 30)) None None =
      login_claims ''ana'' ''user:r:w'' @ [(''exp'', PInt 1800)]"
    by (simp add: build_payload_def demo_conf_def login_claims_def get_delta_def dict_set_def Let_def)
  have con: "jwt_contract ?J demo_conf
      (build_payload demo_conf 0 (login_claims (us_username demo_user) (us_scopes demo_user)) (Some (get_delta 0 30)) None None)"
    unfolding n p by (simp add: jwt_contract_def expiring_jwt_def login_claims_def)
  have rq: "set (requires_claims demo_conf) \<subseteq> {''exp''}" by (simp add: demo_conf_def)
  have live: "0 < get_delta 0 30" "5 < get_delta 0 30 * 1000000" by (simp_all add: get_delta_def)
  obtain out st' where run: "manager_get_token ?J demo_conf (redis_token_store True ''rtkn'') 0 ''aa'' (Some (us_username demo_user)) 30 db' [] = (out, st')"
    by (rule prod.exhaust)
  have signed: "auth_encode ?J demo_conf 0 (login_claims (us_username demo_user) (us_scopes demo_user)) (Some (get_delta 0 30)) None None = ''signed''"
    "(''signed'' :: string) \<noteq> []"
    by (simp_all add: auth_encode_def expiring_jwt_def)
  have f: "\<forall>c s. fst (?f c s) \<noteq> Inl AuthValidationFailed" by simp
  have val: "scopes_validate [''user:r''] (split_on CHR '','' ''user:r:w'') True True" by code_simp
  note all = disabled_user_gets_tokens [OF demo_db_ok u off con rq live run signed f, where req = "[''user:r'']" and b = PNone and s = "()"
      and derive = "\<lambda>s p. s @ CHR '':'' # p" and salt = "''salt''"]
  have login: "parse_user_login (req_json (demo_login ''old'')) = Inr (us_username demo_user, ''old'')"
    by (simp add: demo_login_parse n)
  show ?thesis
    using off run conjunct1 [OF conjunct2 [OF all]] conjunct1 [OF conjunct2 [OF conjunct2 [OF all]]]
      conjunct2 [OF conjunct2 [OF conjunct2 [OF all]], rule_format, OF login] val
    unfolding n p by (intro exI conjI) (assumption | simp)+
qed

end
