(* ===== verification/Web_App.thy ===== *)
theory Web_App
  imports Workflows
begin

text \<open>
  The web application (\<open>server.py\<close>, \<open>web/utils.py\<close>, the route tables of the blueprints in \<open>web/\<close> and
  \<open>security/auth_bp.py\<close>, \<open>cmd/services.py\<close>) and the addresses the client asks for (\<open>client/*_client.py\<close>,
  \<open>client/base.py\<close>): which handler a request of the client reaches, and what it must carry. The router
  of the web framework is a parameter; the handlers themselves are in the theories of their
  components.
\<close>

section \<open>Route tables\<close>

text \<open>A segment of a path is a literal or a parameter with the label of its type.\<close>

datatype seg = Lit string | Par string string

record route =
  rt_method :: string
  rt_segs :: "seg list"
  rt_guarded :: bool
  rt_handler :: string

record blueprint =
  bp_name :: string
  bp_prefix :: string
  bp_routes :: "route list"

definition route_to :: "string \<Rightarrow> seg list \<Rightarrow> bool \<Rightarrow> string \<Rightarrow> route" where
  "route_to meth segs guarded handler = \<lparr>rt_method = meth, rt_segs = segs, rt_guarded = guarded, rt_handler = handler\<rparr>"

definition par :: "string \<Rightarrow> seg" where
  "par name = Par name ''str''"

definition workflows_bp :: blueprint where
  "workflows_bp = \<lparr>bp_name = ''workflows'', bp_prefix = ''workflows'', bp_routes =
     [route_to ''GET'' [par ''projectid'', Lit ''notebooks'', Lit ''_files''] True ''notebooks_list'',
      route_to ''POST'' [par ''projectid'', Lit ''notebooks'', Lit ''_run''] True ''notebooks_run'',
      route_to ''GET'' [par ''projectid''] True ''workflows_list'',
      route_to ''POST'' [par ''projectid''] True ''workflow_create'',
      route_to ''PUT'' [par ''projectid''] True ''workflow_update'',
      route_to ''DELETE'' [par ''projectid'', par ''wfid''] True ''workflow_delete'',
      route_to ''GET'' [par ''projectid'', par ''wfid''] True ''workflow_get'',
      route_to ''POST'' [par ''projectid'', Lit ''_run'', par ''wfid''] True ''workflow_enqueue'']\<rparr>"

definition projects_bp :: blueprint where
  "projects_bp = \<lparr>bp_name = ''projects'', bp_prefix = ''projects'', bp_routes =
     [route_to ''POST'' [] True ''project_create'',
      route_to ''PUT'' [] True ''project_create_or_update'',
      route_to ''GET'' [] True ''project_list'',
      route_to ''GET'' [par ''projectid''] True ''project_get_one'',
      route_to ''DELETE'' [par ''projectid''] True ''project_delete'',
      route_to ''POST'' [par ''projectid'', Lit ''agent''] True ''project_create_user_agent'',
      route_to ''DELETE'' [par ''projectid'', Lit ''agent'', par ''agentname''] True ''project_delete_user_agent'',
      route_to ''POST'' [par ''projectid'', Lit ''agent'', Lit ''_token''] True ''project_get_last_agent_token'',
      route_to ''POST'' [par ''projectid'', Lit ''agent'', par ''agent'', Lit ''_token''] True ''project_get_agent_token'',
      route_to ''GET'' [par ''projectid'', Lit ''agent''] True ''project_agents_list'',
      route_to ''POST'' [par ''projectid'', Lit ''_build''] True ''project_build'',
      route_to ''POST'' [par ''projectid'', Lit ''_upload''] True ''project_upload'',
      route_to ''GET'' [par ''projectid'', Lit ''_private_key''] True ''project_private_key'']\<rparr>"

definition history_bp :: blueprint where
  "history_bp = \<lparr>bp_name = ''history'', bp_prefix = ''history'', bp_routes =
     [route_to ''POST'' [] True ''history_create'',
      route_to ''GET'' [par ''projectid''] True ''history_get_all'',
      route_to ''GET'' [par ''projectid'', Lit ''detail'', par ''execid''] True ''history_detail_job'',
      route_to ''GET'' [par ''projectid'', par ''wfid''] True ''history_last_job'',
      route_to ''POST'' [par ''projectid'', Lit ''_output_ok''] True ''history_output_ok'',
      route_to ''POST'' [par ''projectid'', Lit ''_output_fail''] True ''history_output_fail'',
      route_to ''GET'' [par ''projectid'', Lit ''_get_output''] True ''history_get_output'',
      route_to ''GET'' [par ''projectid'', Lit ''task'', par ''execid''] True ''history_get_task'']\<rparr>"

definition events_bp :: blueprint where
  "events_bp = \<lparr>bp_name = ''events'', bp_prefix = ''events'', bp_routes =
     [route_to ''GET'' [par ''projectid'', par ''execid'', Lit ''_listen''] True ''event_listen'',
      route_to ''POST'' [par ''projectid'', par ''execid'', Lit ''_publish''] True ''event_publish'']\<rparr>"

text \<open>The label of the last parameter starts with a space.\<close>

definition runtimes_bp :: blueprint where
  "runtimes_bp = \<lparr>bp_name = ''runtimes'', bp_prefix = ''runtimes'', bp_routes =
     [route_to ''GET'' [par ''projectid''] True ''runtimes_list'',
      route_to ''POST'' [par ''projectid''] True ''runtimes_create'',
      route_to ''DELETE'' [par ''projectid'', Par ''rid'' '' str''] True ''runtimes_delete'']\<rparr>"

text \<open>Four of the five handlers of the clusters are not protected.\<close>

definition clusters_bp :: blueprint where
  "clusters_bp = \<lparr>bp_name = ''clusters'', bp_prefix = ''clusters'', bp_routes =
     [route_to ''GET'' [Lit ''get-clusters-spec''] True ''cluster_get_spec'',
      route_to ''POST'' [] False ''cluster_instance_create'',
      route_to ''POST'' [par ''cluster_name'', par ''machine'', Lit ''_agent''] False ''cluster_agent_deploy'',
      route_to ''DELETE'' [par ''cluster_name'', par ''machine''] False ''cluster_instance_destroy'',
      route_to ''GET'' [par ''cluster_name''] False ''cluster_instances_list'']\<rparr>"

definition auth_bp :: blueprint where
  "auth_bp = \<lparr>bp_name = ''auth_api'', bp_prefix = ''auth'', bp_routes =
     [route_to ''POST'' [Lit ''login''] False ''login_handler'',
      route_to ''GET'' [Lit ''verify''] True ''verify_handler'',
      route_to ''POST'' [Lit ''refresh_token''] False ''refresh_handler'']\<rparr>"

section \<open>The application\<close>

text \<open>The names a module of a package has that end in \<open>_bp\<close>.\<close>

definition web_module :: "string \<Rightarrow> blueprint list option" where
  "web_module = map_of [(''workflows'', [workflows_bp]), (''projects'', [projects_bp]), (''history'', [history_bp]),
     (''events'', [events_bp]), (''runtimes'', [runtimes_bp]), (''clusters'', [clusters_bp])]"

definition security_module :: "string \<Rightarrow> blueprint list option" where
  "security_module = map_of [(''auth'', [auth_bp])]"

definition init_blueprints ::
  "(string \<Rightarrow> blueprint list option) \<Rightarrow> string list \<Rightarrow> blueprint list \<Rightarrow> blueprint list result" where
  "init_blueprints modules blueprints_allowed app =
     rbind (rmap (\<lambda>name. case modules name of None \<Rightarrow> Inl ModuleNotFoundError | Some bps \<Rightarrow> Inr bps) blueprints_allowed)
       (\<lambda>l. Inr (app @ remdups (concat l)))"

record web_app =
  ap_blueprints :: "blueprint list"
  ap_auth :: bool
  ap_cluster :: bool

text \<open>What \<open>create_app\<close> and \<open>startserver\<close> set up: the blueprints, the authenticator, and a cluster control when the
  settings name a cluster file.\<close>

definition create_app :: "string option \<Rightarrow> string list \<Rightarrow> bool \<Rightarrow> bool \<Rightarrow> web_app result" where
  "create_app cluster_filepath list_bp with_auth with_auth_bp =
     rbind (init_blueprints web_module list_bp []) (\<lambda>bps.
     rbind (if with_auth \<and> with_auth_bp then init_blueprints security_module [''auth''] bps else Inr bps) (\<lambda>bps'.
       Inr \<lparr>ap_blueprints = bps', ap_auth = with_auth, ap_cluster = opt_truthy cluster_filepath\<rparr>))"

definition DEFAULT_APPS :: string where "DEFAULT_APPS = ''workflows,projects,history,events,runtimes''"

definition webcli :: "string option \<Rightarrow> string \<Rightarrow> web_app result" where
  "webcli cluster_filepath apps = create_app cluster_filepath (split_on CHR '','' apps) True True"

definition get_auth :: "web_app \<Rightarrow> unit result" where
  "get_auth app = (if ap_auth app then Inr () else Inl AttributeError)"

definition get_cluster :: "web_app \<Rightarrow> unit result" where
  "get_cluster app = (if ap_cluster app then Inr () else Inl AttributeError)"

text \<open>All routes with their full paths; the status page is the only one outside the blueprints.\<close>

definition mounted :: "blueprint \<Rightarrow> route list" where
  "mounted bp = map (\<lambda>r. r\<lparr>rt_segs := Lit ''v1'' # Lit (bp_prefix bp) # rt_segs r\<rparr>) (bp_routes bp)"

definition app_routes :: "web_app \<Rightarrow> route list" where
  "app_routes app = concat (map mounted (ap_blueprints app)) @ [route_to ''GET'' [Lit ''status''] False ''status_handler'']"

section \<open>The interface of the router\<close>

fun seg_match :: "(string \<Rightarrow> string \<Rightarrow> bool) \<Rightarrow> seg list \<Rightarrow> string list \<Rightarrow> bool" where
  "seg_match label_ok [] ps = (ps = [])"
| "seg_match label_ok (Lit a # ss) ps = (case ps of [] \<Rightarrow> False | p # ps \<Rightarrow> p = a \<and> seg_match label_ok ss ps)"
| "seg_match label_ok (Par n l # ss) ps = (case ps of [] \<Rightarrow> False | p # ps \<Rightarrow> label_ok l p \<and> seg_match label_ok ss ps)"

text \<open>A path with a literal where the other has its first parameter of the two that differ.\<close>

fun more_specific :: "seg list \<Rightarrow> seg list \<Rightarrow> bool" where
  "more_specific (Lit a # ss) (Par n l # ts) = True"
| "more_specific (Lit a # ss) (Lit b # ts) = more_specific ss ts"
| "more_specific (Par n l # ss) (Par n' l' # ts) = more_specific ss ts"
| "more_specific ss ts = False"

definition candidates :: "(string \<Rightarrow> string \<Rightarrow> bool) \<Rightarrow> route list \<Rightarrow> string \<Rightarrow> string list \<Rightarrow> route list" where
  "candidates label_ok rs meth ps = filter (\<lambda>r. rt_method r = meth \<and> seg_match label_ok (rt_segs r) ps) rs"

text \<open>What the framework documents: a request goes to a route that matches it, a literal segment before a
  parameter; the type \<open>str\<close> matches every segment that is not empty.\<close>

locale web_router =
  fixes label_ok :: "string \<Rightarrow> string \<Rightarrow> bool" and dispatch :: "route list \<Rightarrow> string \<Rightarrow> string list \<Rightarrow> route option"
  assumes str_label: "label_ok ''str'' p \<longleftrightarrow> p \<noteq> []"
    and found: "dispatch rs meth ps = Some r \<Longrightarrow> r \<in> set (candidates label_ok rs meth ps)"
    and finds: "candidates label_ok rs meth ps \<noteq> [] \<Longrightarrow> dispatch rs meth ps \<noteq> None"
    and literal_first: "dispatch rs meth ps = Some r \<Longrightarrow> r' \<in> set (candidates label_ok rs meth ps) \<Longrightarrow>
      \<not> more_specific (rt_segs r') (rt_segs r)"
begin

lemma none_served: "candidates label_ok rs meth ps = [] \<Longrightarrow> dispatch rs meth ps = None"
  using found [of rs meth ps] by (cases "dispatch rs meth ps") auto

lemma one_served: "candidates label_ok rs meth ps = [r] \<Longrightarrow> dispatch rs meth ps = Some r"
  using found [of rs meth ps] finds [of rs meth ps] by (cases "dispatch rs meth ps") auto

lemma literal_served:
  "candidates label_ok rs meth ps = [r, s] \<or> candidates label_ok rs meth ps = [s, r] \<Longrightarrow> more_specific (rt_segs r) (rt_segs s) \<Longrightarrow>
     dispatch rs meth ps = Some r"
  using found [of rs meth ps] finds [of rs meth ps] literal_first [of rs meth ps s r]
  by (cases "dispatch rs meth ps") auto

end

text \<open>A router that keeps the laws: the first of the most specific.\<close>

fun seg_rank :: "seg list \<Rightarrow> nat" where
  "seg_rank [] = 0"
| "seg_rank (Lit a # ss) = seg_rank ss"
| "seg_rank (Par n l # ss) = 2 ^ length ss + seg_rank ss"

fun best_route :: "route list \<Rightarrow> route option" where
  "best_route [] = None"
| "best_route (r # rs) =
     (case best_route rs of None \<Rightarrow> Some r | Some s \<Rightarrow> if seg_rank (rt_segs r) \<le> seg_rank (rt_segs s) then Some r else Some s)"

definition plain_label :: "string \<Rightarrow> string \<Rightarrow> bool" where
  "plain_label l p \<longleftrightarrow> p \<noteq> []"

definition plain_dispatch :: "route list \<Rightarrow> string \<Rightarrow> string list \<Rightarrow> route option" where
  "plain_dispatch rs meth ps = best_route (candidates plain_label rs meth ps)"

lemma seg_rank_bound: "seg_rank ss < 2 ^ length ss"
  by (induction ss rule: seg_rank.induct) auto

lemma more_specific_rank:
  "more_specific ss ts \<Longrightarrow> length ss = length ts \<Longrightarrow> seg_rank ss < seg_rank ts"
proof (induction ss ts rule: more_specific.induct)
  case (1 a ss n l ts)
  then show ?case using seg_rank_bound [of ss] by simp
qed auto

lemma seg_match_length: "seg_match ok ss ps \<Longrightarrow> length ss = length ps"
  by (induction ok ss ps rule: seg_match.induct) (auto split: list.splits)

lemma best_route_None: "best_route rs = None \<longleftrightarrow> rs = []"
  by (cases rs) (auto split: option.splits)

lemma best_route_Some: "best_route rs = Some r \<Longrightarrow> r \<in> set rs \<and> (\<forall>r' \<in> set rs. seg_rank (rt_segs r) \<le> seg_rank (rt_segs r'))"
proof (induction rs arbitrary: r)
  case (Cons a rs)
  then show ?case
    by (cases "best_route rs") (auto simp: best_route_None split: if_splits)
qed simp

interpretation plain: web_router plain_label plain_dispatch
proof unfold_locales
  fix rs meth ps r r'
  assume d: "plain_dispatch rs meth ps = Some r" and r': "r' \<in> set (candidates plain_label rs meth ps)"
  have "r \<in> set (candidates plain_label rs meth ps)" "seg_rank (rt_segs r) \<le> seg_rank (rt_segs r')"
    using best_route_Some [of "candidates plain_label rs meth ps" r] d r' by (auto simp: plain_dispatch_def)
  moreover have "length (rt_segs r') = length (rt_segs r)"
    using calculation(1) r' by (auto simp: candidates_def dest!: seg_match_length)
  ultimately show "\<not> more_specific (rt_segs r') (rt_segs r)"
    using more_specific_rank [of "rt_segs r'" "rt_segs r"] by auto
qed (auto simp: plain_label_def plain_dispatch_def best_route_None dest: best_route_Some)

section \<open>What the client asks for\<close>

datatype wf_call = WfCreate | WfUpdate | WfList | WfGet string | WfDelete string | WfEnqueue string | NbRun
datatype prj_call = PrjCreate | PrjGet | PrjList | PrjUpload string string | PrjBuild string | AgCreate | AgToken "string option" |
  AgList | AgDelete string | PrivateKey | RtList int | RtCreate | RtDelete string
datatype hs_call = HsCreate | HsLast "string option" int | HsDetail string | HsOutput string | HsUpload bool | HsTask string
datatype cl_call = ClSpecs | ClCreate | ClDeploy string string | ClDestroy string string | ClList string
datatype base_call = EvListen string "string option" | EvPublish string | AuthLogin | AuthVerify | AuthRefresh

text \<open>Method and address of each, relative to the service and its version; \<open>pid\<close> is the project of the client.\<close>

fun wf_request :: "string \<Rightarrow> wf_call \<Rightarrow> string \<times> string" where
  "wf_request pid WfCreate = (''POST'', ''/workflows/'' @ pid)"
| "wf_request pid WfUpdate = (''PUT'', ''/workflows/'' @ pid)"
| "wf_request pid WfList = (''GET'', ''/workflows/'' @ pid)"
| "wf_request pid (WfGet w) = (''GET'', ''/workflows/'' @ pid @ CHR ''/'' # w)"
| "wf_request pid (WfDelete w) = (''DELETE'', ''/workflows/'' @ pid @ CHR ''/'' # w)"
| "wf_request pid (WfEnqueue w) = (''POST'', ''/workflows/'' @ pid @ ''/_run/'' @ w)"
| "wf_request pid NbRun = (''POST'', ''/workflows/'' @ pid @ ''/notebooks/_run'')"

fun prj_request :: "string \<Rightarrow> prj_call \<Rightarrow> string \<times> string" where
  "prj_request pid PrjCreate = (''POST'', ''/projects'')"
| "prj_request pid PrjGet = (''GET'', ''/projects/'' @ pid)"
| "prj_request pid PrjList = (''GET'', ''/projects'')"
| "prj_request pid (PrjUpload n v) = (''POST'', ''/projects/'' @ pid @ ''/_upload?runtime='' @ n @ ''&version='' @ v)"
| "prj_request pid (PrjBuild v) = (''POST'', ''/projects/'' @ pid @ ''/_build?version='' @ v)"
| "prj_request pid AgCreate = (''POST'', ''/projects/'' @ pid @ ''/agent'')"
| "prj_request pid (AgToken name) =
     (''POST'', ''/projects/'' @ pid @ (if opt_truthy name then ''/agent/'' @ the name @ ''/_token'' else ''/agent/_token''))"
| "prj_request pid AgList = (''GET'', ''/projects/'' @ pid @ ''/agent'')"
| "prj_request pid (AgDelete name) = (''DELETE'', ''/projects/'' @ pid @ ''/agent/'' @ name)"
| "prj_request pid PrivateKey = (''GET'', ''/projects/'' @ pid @ ''/_private_key'')"
| "prj_request pid (RtList lt) = (''GET'', ''/runtimes/'' @ pid @ ''?lt='' @ str_int lt)"
| "prj_request pid RtCreate = (''POST'', ''/runtimes/'' @ pid)"
| "prj_request pid (RtDelete rid) = (''DELETE'', ''/runtimes/'' @ pid @ CHR ''/'' # rid)"

fun hs_request :: "string \<Rightarrow> hs_call \<Rightarrow> string \<times> string" where
  "hs_request pid HsCreate = (''POST'', ''/history'')"
| "hs_request pid (HsLast w n) =
     (''GET'', ''/history/'' @ pid @ (if opt_truthy w then CHR ''/'' # the w else []) @ ''?lt='' @ str_int n)"
| "hs_request pid (HsDetail e) = (''GET'', ''/history/'' @ pid @ ''/detail/'' @ e)"
| "hs_request pid (HsOutput uri) = (''GET'', ''/history/'' @ pid @ ''/_get_output?file='' @ uri)"
| "hs_request pid (HsUpload err) = (''POST'', ''/history/'' @ pid @ (if err then ''/_output_fail'' else ''/_output_ok''))"
| "hs_request pid (HsTask e) = (''GET'', ''/history/'' @ pid @ ''/task/'' @ e)"

fun cl_request :: "cl_call \<Rightarrow> string \<times> string" where
  "cl_request ClSpecs = (''GET'', ''/clusters/get-clusters-spec'')"
| "cl_request ClCreate = (''POST'', ''/clusters'')"
| "cl_request (ClDeploy c m) = (''POST'', ''/clusters/'' @ c @ CHR ''/'' # m @ ''/_agent'')"
| "cl_request (ClDestroy c m) = (''DELETE'', ''/clusters/'' @ c @ CHR ''/'' # m)"
| "cl_request (ClList c) = (''GET'', ''/clusters/'' @ c)"

fun base_request :: "string \<Rightarrow> base_call \<Rightarrow> string \<times> string" where
  "base_request pid (EvListen e since) =
     (''GET'', ''/events/'' @ pid @ CHR ''/'' # e @ ''/_listen'' @ (if opt_truthy since then ''?last='' @ the since else []))"
| "base_request pid (EvPublish e) = (''POST'', ''/events/'' @ pid @ CHR ''/'' # e @ ''/_publish'')"
| "base_request pid AuthLogin = (''POST'', ''/auth/login'')"
| "base_request pid AuthVerify = (''GET'', ''/auth/verify'')"
| "base_request pid AuthRefresh = (''POST'', ''/auth/refresh_token'')"

datatype api_call = Wf wf_call | Prj prj_call | Hs hs_call | Cl cl_call | Base base_call

fun api_request :: "string \<Rightarrow> api_call \<Rightarrow> string \<times> string" where
  "api_request pid (Wf c) = wf_request pid c"
| "api_request pid (Prj c) = prj_request pid c"
| "api_request pid (Hs c) = hs_request pid c"
| "api_request pid (Cl c) = cl_request c"
| "api_request pid (Base c) = base_request pid c"

text \<open>The segments of an address: of the path before the query, under the version.\<close>

definition url_path :: "string \<Rightarrow> string list" where
  "url_path url = ''v1'' # tl (split_on CHR ''/'' (takeWhile (\<lambda>c. c \<noteq> CHR ''?'') url))"

section \<open>Facts\<close>

lemmas blueprint_defs = workflows_bp_def projects_bp_def history_bp_def events_bp_def runtimes_bp_def clusters_bp_def auth_bp_def

lemma bp_prefix_simps [simp]:
  "bp_prefix workflows_bp = ''workflows''" "bp_prefix projects_bp = ''projects''" "bp_prefix history_bp = ''history''"
  "bp_prefix events_bp = ''events''" "bp_prefix runtimes_bp = ''runtimes''" "bp_prefix clusters_bp = ''clusters''"
  "bp_prefix auth_bp = ''auth''"
  by (simp_all add: blueprint_defs)

definition web_blueprints :: "blueprint list" where
  "web_blueprints = [workflows_bp, projects_bp, history_bp, events_bp, runtimes_bp, clusters_bp]"

lemma init_web:
  assumes "init_blueprints web_module names [] = Inr bps"
  shows "distinct bps" and "bp \<in> set bps \<longleftrightarrow> (\<exists>n \<in> set names. web_module n = Some [bp])"
proof -
  have one: "web_module n = Some l \<Longrightarrow> \<exists>bp. l = [bp]" for n l by (auto simp: web_module_def split: if_splits)
  have r: "rmap (\<lambda>name. case web_module name of None \<Rightarrow> Inl ModuleNotFoundError | Some bps \<Rightarrow> Inr bps) names = Inr l \<Longrightarrow>
      bp \<in> set (concat l) \<longleftrightarrow> (\<exists>n \<in> set names. web_module n = Some [bp])" for l
  proof (induction names arbitrary: l)
    case (Cons n names)
    show ?case
    proof (cases "web_module n")
      case None
      then show ?thesis using Cons.prems by simp
    next
      case (Some x)
      then obtain b where "x = [b]" using one by blast
      then show ?thesis using Cons.IH Cons.prems Some by (auto simp: rbind_Inr_iff)
    qed
  qed simp
  show "distinct bps" "bp \<in> set bps \<longleftrightarrow> (\<exists>n \<in> set names. web_module n = Some [bp])"
    using assms r by (auto simp: init_blueprints_def rbind_Inr_iff)
qed

lemma web_module_prefix: "web_module n = Some [bp] \<Longrightarrow> bp_prefix bp = n \<and> bp \<in> set web_blueprints"
  by (auto simp: web_module_def web_blueprints_def split: if_splits)

lemma web_not_auth: "bp \<in> set web_blueprints \<Longrightarrow> bp_prefix bp \<noteq> ''auth''"
  by (auto simp: web_blueprints_def)

text \<open>A blueprint is mounted when its module was named, and that of the authentication always.\<close>

lemma webcli_blueprints:
  assumes "webcli cluster_file apps = Inr app"
  shows "distinct (ap_blueprints app) \<and> set (ap_blueprints app) \<subseteq> insert auth_bp (set web_blueprints) \<and> ap_auth app \<and>
    auth_bp \<in> set (ap_blueprints app) \<and>
    (\<forall>n bp. web_module n = Some [bp] \<longrightarrow> (bp \<in> set (ap_blueprints app) \<longleftrightarrow> n \<in> set (split_on CHR '','' apps)))"
proof -
  have auth: "init_blueprints security_module [''auth''] x = Inr (x @ [auth_bp])" for x
    by (simp add: init_blueprints_def security_module_def)
  obtain bps where b: "init_blueprints web_module (split_on CHR '','' apps) [] = Inr bps"
    and app: "ap_blueprints app = bps @ [auth_bp]" "ap_auth app"
    using assms auth by (auto simp: webcli_def create_app_def rbind_Inr_iff)
  have web: "bp \<in> set bps \<Longrightarrow> bp \<in> set web_blueprints" for bp
    using init_web(2) [OF b, of bp] web_module_prefix by blast
  have new: "auth_bp \<notin> set bps" using web web_not_auth [of auth_bp] by auto
  have "bp \<in> set bps \<longleftrightarrow> n \<in> set (split_on CHR '','' apps)" if n: "web_module n = Some [bp]" for n bp
    using init_web(2) [OF b, of bp] web_module_prefix n by metis
  moreover have "bp \<noteq> auth_bp" if n: "web_module n = Some [bp]" for n bp
    using web_module_prefix [OF n] web_not_auth by fastforce
  ultimately show ?thesis
    using init_web(1) [OF b] web new by (auto simp: app)
qed

lemma candidates_append: "candidates ok (rs @ ss) meth ps = candidates ok rs meth ps @ candidates ok ss meth ps"
  by (simp add: candidates_def)

lemma candidates_mounted: "candidates ok (mounted bp) meth (''v1'' # pre # ps) =
   (if pre = bp_prefix bp then map (\<lambda>r. r\<lparr>rt_segs := Lit ''v1'' # Lit (bp_prefix bp) # rt_segs r\<rparr>) (candidates ok (bp_routes bp) meth ps) else [])"
  by (auto simp: candidates_def mounted_def filter_map comp_def intro!: filter_False)

text \<open>Only the blueprint of the prefix counts.\<close>

lemma candidates_app:
  assumes "distinct (ap_blueprints app)" and "set (ap_blueprints app) \<subseteq> insert auth_bp (set web_blueprints)"
    and "bp \<in> insert auth_bp (set web_blueprints)"
  shows "candidates ok (app_routes app) meth (''v1'' # bp_prefix bp # ps) =
    (if bp \<in> set (ap_blueprints app)
     then map (\<lambda>r. r\<lparr>rt_segs := Lit ''v1'' # Lit (bp_prefix bp) # rt_segs r\<rparr>) (candidates ok (bp_routes bp) meth ps) else [])"
proof -
  have inj: "b \<in> insert auth_bp (set web_blueprints) \<Longrightarrow> bp_prefix bp = bp_prefix b \<Longrightarrow> b = bp" for b
    using assms(3) by (auto simp: web_blueprints_def)
  have "distinct bs \<Longrightarrow> set bs \<subseteq> insert auth_bp (set web_blueprints) \<Longrightarrow>
      candidates ok (concat (map mounted bs)) meth (''v1'' # bp_prefix bp # ps) =
      (if bp \<in> set bs then map (\<lambda>r. r\<lparr>rt_segs := Lit ''v1'' # Lit (bp_prefix bp) # rt_segs r\<rparr>) (candidates ok (bp_routes bp) meth ps) else [])" for bs
  proof (induction bs)
    case (Cons b bs)
    then show ?case using inj [of b] by (auto simp: candidates_append candidates_mounted)
  qed (simp add: candidates_def)
  then show ?thesis using assms(1,2) by (simp add: app_routes_def candidates_append) (simp add: candidates_def route_to_def)
qed

section \<open>Requests of the client\<close>

text \<open>The blueprint and the handler a call is meant for, and the arguments that become segments of its path.\<close>

fun wf_target :: "wf_call \<Rightarrow> string \<times> string list" where
  "wf_target WfCreate = (''workflow_create'', [])" | "wf_target WfUpdate = (''workflow_update'', [])"
| "wf_target WfList = (''workflows_list'', [])" | "wf_target (WfGet w) = (''workflow_get'', [w])"
| "wf_target (WfDelete w) = (''workflow_delete'', [w])" | "wf_target (WfEnqueue w) = (''workflow_enqueue'', [w])"
| "wf_target NbRun = (''notebooks_run'', [])"

fun prj_target :: "prj_call \<Rightarrow> blueprint \<times> string \<times> string list" where
  "prj_target PrjCreate = (projects_bp, ''project_create'', [])" | "prj_target PrjGet = (projects_bp, ''project_get_one'', [])"
| "prj_target PrjList = (projects_bp, ''project_list'', [])" | "prj_target (PrjUpload n v) = (projects_bp, ''project_upload'', [])"
| "prj_target (PrjBuild v) = (projects_bp, ''project_build'', [])" | "prj_target AgCreate = (projects_bp, ''project_create_user_agent'', [])"
| "prj_target (AgToken a) =
     (if opt_truthy a then (projects_bp, ''project_get_agent_token'', [the a]) else (projects_bp, ''project_get_last_agent_token'', []))"
| "prj_target AgList = (projects_bp, ''project_agents_list'', [])" | "prj_target (AgDelete a) = (projects_bp, ''project_delete_user_agent'', [a])"
| "prj_target PrivateKey = (projects_bp, ''project_private_key'', [])"
| "prj_target (RtList lt) = (runtimes_bp, ''runtimes_list'', [])" | "prj_target RtCreate = (runtimes_bp, ''runtimes_create'', [])"
| "prj_target (RtDelete rid) = (runtimes_bp, ''runtimes_delete'', [rid])"

fun hs_target :: "hs_call \<Rightarrow> string \<times> string list" where
  "hs_target HsCreate = (''history_create'', [])"
| "hs_target (HsLast w n) = (if opt_truthy w then (''history_last_job'', [the w]) else (''history_get_all'', []))"
| "hs_target (HsDetail e) = (''history_detail_job'', [e])" | "hs_target (HsOutput u) = (''history_get_output'', [])"
| "hs_target (HsUpload err) = (if err then ''history_output_fail'' else ''history_output_ok'', [])"
| "hs_target (HsTask e) = (''history_get_task'', [e])"

fun cl_target :: "cl_call \<Rightarrow> string \<times> string list" where
  "cl_target ClSpecs = (''cluster_get_spec'', [])" | "cl_target ClCreate = (''cluster_instance_create'', [])"
| "cl_target (ClDeploy c m) = (''cluster_agent_deploy'', [c, m])" | "cl_target (ClDestroy c m) = (''cluster_instance_destroy'', [c, m])"
| "cl_target (ClList c) = (''cluster_instances_list'', [c])"

fun base_target :: "base_call \<Rightarrow> blueprint \<times> string \<times> string list" where
  "base_target (EvListen e l) = (events_bp, ''event_listen'', [e])" | "base_target (EvPublish e) = (events_bp, ''event_publish'', [e])"
| "base_target AuthLogin = (auth_bp, ''login_handler'', [])" | "base_target AuthVerify = (auth_bp, ''verify_handler'', [])"
| "base_target AuthRefresh = (auth_bp, ''refresh_handler'', [])"

fun api_target :: "api_call \<Rightarrow> blueprint \<times> string \<times> string list" where
  "api_target (Wf c) = (workflows_bp, wf_target c)" | "api_target (Prj c) = prj_target c" | "api_target (Hs c) = (history_bp, hs_target c)"
| "api_target (Cl c) = (clusters_bp, cl_target c)" | "api_target (Base c) = base_target c"

text \<open>Identifiers and names that are segments as they stand, and none of the literals of the tables.\<close>

definition plain_seg :: "string \<Rightarrow> bool" where
  "plain_seg s \<longleftrightarrow> s \<noteq> [] \<and> CHR ''/'' \<notin> set s \<and> CHR ''?'' \<notin> set s \<and> s \<noteq> ''get-clusters-spec'' \<and> s \<noteq> ''_get_output''"

lemma plain_segD:
  assumes "plain_seg s"
  shows "s \<noteq> []" "CHR ''/'' \<notin> set s" "CHR ''?'' \<notin> set s" "s \<noteq> ''get-clusters-spec''" "s \<noteq> ''_get_output''"
    "takeWhile (\<lambda>c. c \<noteq> CHR ''?'') (s @ t) = s @ takeWhile (\<lambda>c. c \<noteq> CHR ''?'') t"
    "takeWhile (\<lambda>c. c \<noteq> CHR ''?'') s = s"
    "split_on CHR ''/'' (s @ CHR ''/'' # t) = s # split_on CHR ''/'' t" "split_on CHR ''/'' s = [s]"
  using assms by (auto simp: plain_seg_def split_on_append split_on_no_sep takeWhile_append takeWhile_eq_all_conv)

lemmas route_simps = candidates_def route_to_def par_def blueprint_defs

text \<open>The candidates of each call in the table of its blueprint: one, or one that is more literal than the other.\<close>

definition served :: "(string \<Rightarrow> string \<Rightarrow> bool) \<Rightarrow> blueprint \<Rightarrow> string \<Rightarrow> string list \<Rightarrow> string \<Rightarrow> bool" where
  "served ok bp meth ps h \<longleftrightarrow>
     (case candidates ok (bp_routes bp) meth ps of
        [r] \<Rightarrow> rt_handler r = h
      | [r, s] \<Rightarrow> (more_specific (rt_segs r) (rt_segs s) \<and> rt_handler r = h) \<or> (more_specific (rt_segs s) (rt_segs r) \<and> rt_handler s = h)
      | _ \<Rightarrow> False)"

lemma servedE:
  assumes "served ok bp meth ps h"
  obtains r where "rt_handler r = h" "candidates ok (bp_routes bp) meth ps = [r]"
  | r s where "rt_handler r = h" "candidates ok (bp_routes bp) meth ps = [r, s] \<or> candidates ok (bp_routes bp) meth ps = [s, r]"
    "more_specific (rt_segs r) (rt_segs s)"
  using assms by (auto simp: served_def split: list.splits)

context web_router
begin

lemma served_dispatch:
  assumes "served label_ok bp meth ps h" and "distinct (ap_blueprints app)" and "set (ap_blueprints app) \<subseteq> insert auth_bp (set web_blueprints)"
    and "bp \<in> insert auth_bp (set web_blueprints)"
  shows "map_option rt_handler (dispatch (app_routes app) meth (''v1'' # bp_prefix bp # ps)) =
    (if bp \<in> set (ap_blueprints app) then Some h else None)"
proof (cases "bp \<in> set (ap_blueprints app)")
  case False
  then show ?thesis using none_served candidates_app [OF assms(2-4), of label_ok meth ps] by simp
next
  case True
  let ?m = "\<lambda>r. r\<lparr>rt_segs := Lit ''v1'' # Lit (bp_prefix bp) # rt_segs r\<rparr>"
  have c: "candidates label_ok (app_routes app) meth (''v1'' # bp_prefix bp # ps) = map ?m (candidates label_ok (bp_routes bp) meth ps)"
    using True candidates_app [OF assms(2-4), of label_ok meth ps] by simp
  from assms(1) obtain r where "rt_handler r = h" "dispatch (app_routes app) meth (''v1'' # bp_prefix bp # ps) = Some (?m r)"
  proof (cases rule: servedE)
    case (1 r)
    then show ?thesis using that one_served [of "app_routes app"] by (simp add: c)
  next
    case (2 r s)
    then show ?thesis using that literal_served [of "app_routes app" _ _ "?m r" "?m s"] by (auto simp: c)
  qed
  then show ?thesis using True by simp
qed

lemma wf_served:
  assumes "plain_seg pid" and "list_all plain_seg (snd (wf_target c))"
  shows "\<exists>ps. url_path (snd (wf_request pid c)) = ''v1'' # ''workflows'' # ps \<and> served label_ok workflows_bp (fst (wf_request pid c)) ps (fst (wf_target c))"
  using assms(2) by (cases c) (simp_all add: url_path_def served_def route_simps str_label plain_segD [OF assms(1)] plain_segD)

lemma prj_served:
  assumes "plain_seg pid" and "list_all plain_seg (snd (snd (prj_target c)))" and "\<forall>rid. c \<noteq> RtDelete rid"
  shows "\<exists>ps. url_path (snd (prj_request pid c)) = ''v1'' # bp_prefix (fst (prj_target c)) # ps \<and>
    served label_ok (fst (prj_target c)) (fst (prj_request pid c)) ps (fst (snd (prj_target c)))"
  using assms(2,3)
  by (cases c) (simp_all add: url_path_def served_def route_simps str_label plain_segD [OF assms(1)] plain_segD split: if_splits)

lemma hs_served:
  assumes "plain_seg pid" and "list_all plain_seg (snd (hs_target c))"
  shows "\<exists>ps. url_path (snd (hs_request pid c)) = ''v1'' # ''history'' # ps \<and>
    served label_ok history_bp (fst (hs_request pid c)) ps (fst (hs_target c))"
  using assms(2)
  by (cases c) (simp_all add: url_path_def served_def route_simps str_label plain_segD [OF assms(1)] plain_segD split: if_splits)

lemma cl_served:
  assumes "list_all plain_seg (snd (cl_target c))"
  shows "\<exists>ps. url_path (snd (cl_request c)) = ''v1'' # ''clusters'' # ps \<and> served label_ok clusters_bp (fst (cl_request c)) ps (fst (cl_target c))"
  using assms by (cases c) (simp_all add: url_path_def served_def route_simps str_label plain_segD)

lemma base_served:
  assumes "plain_seg pid" and "list_all plain_seg (snd (snd (base_target c)))"
  shows "\<exists>ps. url_path (snd (base_request pid c)) = ''v1'' # bp_prefix (fst (base_target c)) # ps \<and>
    served label_ok (fst (base_target c)) (fst (base_request pid c)) ps (fst (snd (base_target c)))"
  using assms(2)
  by (cases c) (simp_all add: url_path_def served_def route_simps str_label plain_segD [OF assms(1)] plain_segD)

lemma call_served:
  assumes app: "webcli cluster_file apps = Inr app"
    and target: "api_target c = (bp, h, args)" and plain: "plain_seg pid" "list_all plain_seg args" and other: "\<forall>rid. c \<noteq> Prj (RtDelete rid)"
  shows "map_option rt_handler (dispatch (app_routes app) (fst (api_request pid c)) (url_path (snd (api_request pid c)))) =
    (if bp_prefix bp \<in> insert ''auth'' (set (split_on CHR '','' apps)) then Some h else None)"
proof -
  note a = webcli_blueprints [OF app]
  have "bp = auth_bp \<or> bp \<in> set web_blueprints"
    using target
    by (cases c rule: api_target.cases; simp add: web_blueprints_def; elim prj_target.elims base_target.elims; simp split: if_splits)
  moreover have "web_module (bp_prefix bp) = Some [bp]" if "bp \<in> set web_blueprints"
    using that by (auto simp: web_blueprints_def web_module_def)
  ultimately have known: "bp \<in> insert auth_bp (set web_blueprints)"
    and mounted: "bp \<in> set (ap_blueprints app) \<longleftrightarrow> bp_prefix bp \<in> insert ''auth'' (set (split_on CHR '','' apps))"
    using a web_not_auth by auto
  obtain ps where ps: "url_path (snd (api_request pid c)) = ''v1'' # bp_prefix bp # ps" "served label_ok bp (fst (api_request pid c)) ps h"
  proof (cases c)
    case (Wf x)
    then show ?thesis using that wf_served [OF plain(1), of x] target plain(2) by auto
  next
    case (Prj x)
    then show ?thesis using that prj_served [OF plain(1), of x] target plain(2) other by auto
  next
    case (Hs x)
    then show ?thesis using that hs_served [OF plain(1), of x] target plain(2) by auto
  next
    case (Cl x)
    then show ?thesis using that cl_served [of x] target plain(2) by auto
  next
    case (Base x)
    then show ?thesis using that base_served [OF plain(1), of x] target plain(2) by auto
  qed
  show ?thesis using served_dispatch [OF ps(2) _ _ known] a mounted by (simp add: ps(1))
qed

end

text \<open>C11. Every call of the client reaches the handler it is meant for, when the arguments are plain
  identifiers: on any application the command line starts, and with any router that keeps the
  documented order, the request goes to that handler if the module of its blueprint is named among
  the apps, and nowhere otherwise; the endpoints of the authentication are always there.\<close>

theorem client_calls_served:
  assumes "web_router label_ok dispatch" and "webcli cluster_file apps = Inr app"
    and "api_target c = (bp, h, args)" and "plain_seg pid" "list_all plain_seg args" and "\<forall>rid. c \<noteq> Prj (RtDelete rid)"
  shows "map_option rt_handler (dispatch (app_routes app) (fst (api_request pid c)) (url_path (snd (api_request pid c)))) =
    (if bp_prefix bp \<in> insert ''auth'' (set (split_on CHR '','' apps)) then Some h else None)"
  using assms(2-6) by (rule web_router.call_served [OF assms(1)])

text \<open>The apps mounted when none are named leave the clusters out.\<close>

lemma default_apps: "set (split_on CHR '','' DEFAULT_APPS) = {''workflows'', ''projects'', ''history'', ''events'', ''runtimes''}"
  by (simp add: DEFAULT_APPS_def)

theorem client_calls_served_witness:
  "\<exists>app. webcli None DEFAULT_APPS = Inr app \<and>
     map_option rt_handler (plain_dispatch (app_routes app) ''GET'' (url_path ''/history/pid/_get_output?file=a/b'')) = Some ''history_get_output'' \<and>
     map_option rt_handler (plain_dispatch (app_routes app) ''DELETE'' (url_path ''/clusters/c1/m1'')) = None"
proof -
  have "\<exists>app. webcli None DEFAULT_APPS = Inr app"
    by (simp add: webcli_def create_app_def init_blueprints_def DEFAULT_APPS_def web_module_def security_module_def)
  then obtain app where app: "webcli None DEFAULT_APPS = Inr app" by blast
  have p: "plain_seg ''pid''" "plain_seg ''c1''" "plain_seg ''m1''" by (simp_all add: plain_seg_def)
  show ?thesis
    using app client_calls_served [OF plain.web_router_axioms app, of "Hs (HsOutput ''a/b'')" history_bp "''history_get_output''" "[]" "''pid''"]
      client_calls_served [OF plain.web_router_axioms app, of "Cl (ClDestroy ''c1'' ''m1'')" clusters_bp "''cluster_instance_destroy''" "[''c1'', ''m1'']" "''pid''"]
    by (auto simp: p default_apps)
qed

section \<open>Who may call\<close>

text \<open>A request on the application: the decorator of the guarded handlers asks for a valid token and for no
  scope. \<open>handlers\<close> gives the handlers by name; \<open>None\<close> is the page that is not found.\<close>

definition serve ::
  "(route list \<Rightarrow> string \<Rightarrow> string list \<Rightarrow> route option) \<Rightarrow> jwt_lib \<Rightarrow> jwt_config \<Rightarrow> int \<Rightarrow> web_app \<Rightarrow> (string \<Rightarrow> 's handler) \<Rightarrow>
   string \<Rightarrow> string list \<Rightarrow> request \<Rightarrow> 's \<Rightarrow> response result option \<times> 's" where
  "serve dispatch J conf now app handlers meth ps req st =
     (case dispatch (app_routes app) meth ps of
        None \<Rightarrow> (None, st)
      | Some r \<Rightarrow>
          (if rt_guarded r
           then (case get_auth app of
                   Inl e \<Rightarrow> (Some (Inl e), st)
                 | Inr _ \<Rightarrow> (let (x, st') = protected J conf now None True (handlers (rt_handler r)) req st in (Some x, st')))
           else (let (x, st') = handlers (rt_handler r) [] st in (Some x, st'))))"

definition open_handlers :: "string list" where
  "open_handlers = [''login_handler'', ''refresh_handler'', ''status_handler'', ''cluster_instance_create'', ''cluster_agent_deploy'',
     ''cluster_instance_destroy'', ''cluster_instances_list'']"

lemma guarded_routes:
  assumes "set (ap_blueprints app) \<subseteq> insert auth_bp (set web_blueprints)" and "r \<in> set (app_routes app)"
  shows "rt_guarded r \<or> rt_handler r \<in> set open_handlers"
proof -
  have "\<forall>bp \<in> insert auth_bp (set web_blueprints). \<forall>r \<in> set (mounted bp). rt_guarded r \<or> rt_handler r \<in> set open_handlers"
    by (simp add: web_blueprints_def blueprint_defs mounted_def route_to_def open_handlers_def)
  then show ?thesis using assms by (auto simp: app_routes_def route_to_def open_handlers_def)
qed

lemma serve_valid:
  assumes router: "web_router label_ok dispatch" and app: "webcli cluster_file apps = Inr app"
    and route: "dispatch (app_routes app) meth ps = Some r" and h: "rt_handler r = h" "h \<notin> set open_handlers"
    and token: "req_token req = Some tok" "tok \<noteq> []" "auth_decode J conf now tok True True None None = Inr claims"
    and f: "fst (handlers h claims st) \<noteq> Inl AuthValidationFailed"
  shows "serve dispatch J conf now app handlers meth ps req st = (Some (fst (handlers h claims st)), snd (handlers h claims st))"
proof -
  note a = webcli_blueprints [OF app]
  have "r \<in> set (app_routes app)" using web_router.found [OF router route] by (simp add: candidates_def)
  then have guarded: "rt_guarded r" using guarded_routes a h by blast
  have auth: "get_auth app = Inr ()" using a by (simp add: get_auth_def)
  obtain x y where xy: "handlers h claims st = (x, y)" by fastforce
  then have "protected J conf now None True (handlers h) req st = (x, y)"
    using token f by (auto simp: protected_def auth_validate_def split: sum.splits py_error.splits)
  then show ?thesis by (simp add: serve_def route h guarded auth xy)
qed

text \<open>C9. Who may call what. Without a token only the logins, the status page and four of the five endpoints
  of the clusters run, so anyone creates and destroys machines; every other request is refused and
  nothing changes. With a valid token every handler runs whatever the scopes in it: no endpoint
  asks for any, so an agent's token of one project is as good as its owner's.\<close>

theorem who_may_call:
  assumes router: "web_router label_ok dispatch" and app: "webcli cluster_file apps = Inr app"
    and route: "dispatch (app_routes app) meth ps = Some r" and h: "rt_handler r = h"
    and f: "\<forall>c s. fst (handlers h c s) \<noteq> Inl AuthValidationFailed"
  shows "(req_token req = None \<and> h \<notin> set open_handlers \<longrightarrow>
      serve dispatch J conf now app handlers meth ps req st = (Some (Inl MissingAuthorizationHeader), st)) \<and>
    (\<forall>tok claims. req_token req = Some tok \<and> tok \<noteq> [] \<and> auth_decode J conf now tok True True None None = Inr claims \<and> h \<notin> set open_handlers \<longrightarrow>
      serve dispatch J conf now app handlers meth ps req st = (Some (fst (handlers h claims st)), snd (handlers h claims st))) \<and>
    (h \<in> set open_handlers \<and> \<not> rt_guarded r \<longrightarrow>
      serve dispatch J conf now app handlers meth ps req st = (Some (fst (handlers h [] st)), snd (handlers h [] st)))"
proof -
  note a = webcli_blueprints [OF app]
  have "r \<in> set (app_routes app)" using web_router.found [OF router route] by (simp add: candidates_def)
  then have g: "rt_guarded r \<or> h \<in> set open_handlers" using guarded_routes a h by blast
  have auth: "get_auth app = Inr ()" using a by (simp add: get_auth_def)
  have "serve dispatch J conf now app handlers meth ps req st = (Some (fst (handlers h claims st)), snd (handlers h claims st))"
    if v: "req_token req = Some tok \<and> tok \<noteq> [] \<and> auth_decode J conf now tok True True None None = Inr claims \<and> h \<notin> set open_handlers" for tok claims
    by (rule serve_valid [OF router app route h]) (use v f in auto)
  then show ?thesis
    using g by (auto simp: serve_def route h auth protected_def split_beta)
qed

definition echo_handlers :: "string \<Rightarrow> string list handler" where
  "echo_handlers h c st = (Inr (json (PStr h) 200), h # st)"

theorem who_may_call_witness:
  "\<exists>app. webcli (Some ''clusters.yaml'') ''projects,clusters'' = Inr app \<and>
     serve plain_dispatch (expiring_jwt [(''usr'', PStr ''agt''), (''exp'', PInt 9)] 9) demo_conf 5 app echo_handlers ''DELETE''
       [''v1'', ''clusters'', ''c1'', ''m1''] \<lparr>req_token = None, req_json = PNone\<rparr> [] =
       (Some (Inr (json (PStr ''cluster_instance_destroy'') 200)), [''cluster_instance_destroy'']) \<and>
     serve plain_dispatch (expiring_jwt [(''usr'', PStr ''agt''), (''exp'', PInt 9)] 9) demo_conf 5 app echo_handlers ''DELETE''
       [''v1'', ''projects'', ''pid''] \<lparr>req_token = None, req_json = PNone\<rparr> [] = (Some (Inl MissingAuthorizationHeader), []) \<and>
     serve plain_dispatch (expiring_jwt [(''usr'', PStr ''agt''), (''exp'', PInt 9)] 9) demo_conf 5 app echo_handlers ''DELETE''
       [''v1'', ''projects'', ''pid''] \<lparr>req_token = Some ''tk'', req_json = PNone\<rparr> [] =
       (Some (Inr (json (PStr ''project_delete'') 200)), [''project_delete''])"
proof -
  let ?J = "expiring_jwt [(''usr'', PStr ''agt''), (''exp'', PInt 9)] 9"
  let ?no = "\<lparr>req_token = None, req_json = PNone\<rparr>" and ?yes = "\<lparr>req_token = Some ''tk'', req_json = PNone\<rparr>"
  let ?app = "\<lparr>ap_blueprints = [projects_bp, clusters_bp, auth_bp], ap_auth = True, ap_cluster = True\<rparr>"
  have "projects_bp \<noteq> clusters_bp" by (auto dest: arg_cong [where f = bp_prefix])
  then have app: "webcli (Some ''clusters.yaml'') ''projects,clusters'' = Inr ?app"
    by (simp add: webcli_def create_app_def init_blueprints_def web_module_def security_module_def)
  have c: "\<exists>r. plain_dispatch (app_routes ?app) ''DELETE'' [''v1'', ''clusters'', ''c1'', ''m1''] = Some r \<and>
      rt_handler r = ''cluster_instance_destroy'' \<and> \<not> rt_guarded r"
    by (simp add: plain_dispatch_def candidates_def app_routes_def mounted_def blueprint_defs route_to_def par_def plain_label_def)
  have p: "\<exists>r. plain_dispatch (app_routes ?app) ''DELETE'' [''v1'', ''projects'', ''pid''] = Some r \<and> rt_handler r = ''project_delete''"
    by (simp add: plain_dispatch_def candidates_def app_routes_def mounted_def blueprint_defs route_to_def par_def plain_label_def)
  obtain r r' where r: "plain_dispatch (app_routes ?app) ''DELETE'' [''v1'', ''clusters'', ''c1'', ''m1''] = Some r"
      "rt_handler r = ''cluster_instance_destroy''" "\<not> rt_guarded r"
    and r': "plain_dispatch (app_routes ?app) ''DELETE'' [''v1'', ''projects'', ''pid''] = Some r'" "rt_handler r' = ''project_delete''"
    using c p by blast
  have f: "\<forall>c s. fst (echo_handlers h c s) \<noteq> Inl AuthValidationFailed" for h by (simp add: echo_handlers_def)
  note w = who_may_call [OF plain.web_router_axioms app, where handlers = echo_handlers and J = ?J and conf = demo_conf and now = 5 and st = "[]"]
  have "serve plain_dispatch ?J demo_conf 5 ?app echo_handlers ''DELETE'' [''v1'', ''clusters'', ''c1'', ''m1''] ?no [] =
      (Some (Inr (json (PStr ''cluster_instance_destroy'') 200)), [''cluster_instance_destroy''])"
    using w [OF r(1,2) f, of ?no] r(3) by (simp add: open_handlers_def echo_handlers_def)
  moreover have "serve plain_dispatch ?J demo_conf 5 ?app echo_handlers ''DELETE'' [''v1'', ''projects'', ''pid''] ?no [] =
      (Some (Inl MissingAuthorizationHeader), [])"
    using w [OF r' f, of ?no] by (simp add: open_handlers_def)
  moreover have "serve plain_dispatch ?J demo_conf 5 ?app echo_handlers ''DELETE'' [''v1'', ''projects'', ''pid''] ?yes [] =
      (Some (Inr (json (PStr ''project_delete'') 200)), [''project_delete''])"
    using w [OF r' f, of ?yes] by (simp add: open_handlers_def echo_handlers_def auth_decode_def expiring_jwt_def)
  ultimately show ?thesis using app by blast
qed

section \<open>What no request reaches\<close>

text \<open>A runtime's identifier has two slashes, so deleting it over the client is a path of seven segments, which
  no route has, whatever the label of the parameter means.\<close>

lemma delete_lengths:
  assumes "set (ap_blueprints app) \<subseteq> insert auth_bp (set web_blueprints)" and "r \<in> set (app_routes app)" and "rt_method r = ''DELETE''"
  shows "length (rt_segs r) \<le> 5"
proof -
  have "\<forall>bp \<in> insert auth_bp (set web_blueprints). \<forall>r \<in> set (mounted bp). rt_method r = ''DELETE'' \<longrightarrow> length (rt_segs r) \<le> 5"
    by (simp add: web_blueprints_def blueprint_defs mounted_def route_to_def)
  then show ?thesis using assms by (auto simp: app_routes_def route_to_def)
qed

lemma runtime_never_deleted:
  assumes router: "web_router label_ok dispatch" and app: "webcli cluster_file apps = Inr app" and pid: "plain_seg pid"
    and rq: "plain_seg (rq_project_id rq)" "plain_seg (rq_runtime_name rq)"
  shows "dispatch (app_routes app) (fst (prj_request pid (RtDelete (runtime_id rq)))) (url_path (snd (prj_request pid (RtDelete (runtime_id rq))))) = None"
proof -
  obtain l where l: "url_path (snd (prj_request pid (RtDelete (runtime_id rq)))) =
      ''v1'' # ''runtimes'' # pid # rq_project_id rq # rq_runtime_name rq # l" "l \<noteq> []"
    by (simp add: url_path_def runtime_id_def plain_segD [OF pid] plain_segD [OF rq(1)] plain_segD [OF rq(2)])
  have "candidates label_ok (app_routes app) ''DELETE'' (''v1'' # ''runtimes'' # pid # rq_project_id rq # rq_runtime_name rq # l) = []"
    using delete_lengths [of app] webcli_blueprints [OF app] l(2)
    by (fastforce simp: candidates_def filter_empty_conv dest: seg_match_length simp: Suc_le_eq)
  then have "dispatch (app_routes app) ''DELETE'' (''v1'' # ''runtimes'' # pid # rq_project_id rq # rq_runtime_name rq # l) = None"
    by (rule web_router.none_served [OF router])
  moreover have "fst (prj_request pid (RtDelete (runtime_id rq))) = ''DELETE''" by simp
  ultimately show ?thesis by (simp only: l(1))
qed

end
