(* ===== verification/Jupyter.thy ===== *)
theory Jupyter
  imports Docker
begin

text \<open>
  Jupyter on demand (\<open>executors/jupyter_exec.py\<close>, the command \<open>exec jupyter\<close> of \<open>cmd/executors.py\<close>, \<open>shell\<close> of
  \<open>commands.py\<close>): a context with address, port, token and base address, handed over in an environment
  variable, and the server started from it, here or in a container. Processes are a library that
  answers each call given the earlier ones, as the Docker daemon is in \<open>Docker\<close>; \<open>dumps\<close> and \<open>loads\<close> are those of
  JSON. An operation gives its result and the calls made.
\<close>

section \<open>Running a command line\<close>

text \<open>\<open>shlex.split\<close>: words between white space, with quotes and backslashes; \<open>w\<close> is the word begun, if any.\<close>

datatype quoting = Unquoted | Single | Double

definition flush :: "string option \<Rightarrow> string list \<Rightarrow> string list" where
  "flush w ws = (case w of None \<Rightarrow> ws | Some u \<Rightarrow> u # ws)"

definition grown :: "string option \<Rightarrow> string \<Rightarrow> string option" where
  "grown w s = Some ((case w of None \<Rightarrow> [] | Some u \<Rightarrow> u) @ s)"

definition shell_space :: "char \<Rightarrow> bool" where
  "shell_space c \<longleftrightarrow> of_char c \<in> {9, 10, 13, 32 :: nat}"

fun shlex_words :: "quoting \<Rightarrow> string option \<Rightarrow> string \<Rightarrow> string list result" where
  "shlex_words Unquoted w [] = Inr (flush w [])"
| "shlex_words q w [] = Inl ValueError"
| "shlex_words Unquoted w (c # cs) =
     (if shell_space c then rbind (shlex_words Unquoted None cs) (\<lambda>ws. Inr (flush w ws))
      else if c = CHR 0x27 then shlex_words Single (grown w []) cs
      else if c = CHR 0x22 then shlex_words Double (grown w []) cs
      else if c = CHR 0x5C
      then (case cs of [] \<Rightarrow> Inl ValueError | d # ds \<Rightarrow> shlex_words Unquoted (grown w [d]) ds)
      else shlex_words Unquoted (grown w [c]) cs)"
| "shlex_words Single w (c # cs) =
     (if c = CHR 0x27 then shlex_words Unquoted w cs else shlex_words Single (grown w [c]) cs)"
| "shlex_words Double w (c # cs) =
     (if c = CHR 0x22 then shlex_words Unquoted w cs
      else if c = CHR 0x5C
      then (case cs of [] \<Rightarrow> Inl ValueError
            | d # ds \<Rightarrow> shlex_words Double (grown w (if d = CHR 0x22 \<or> d = CHR 0x5C then [d] else [c, d])) ds)
      else shlex_words Double (grown w [c]) cs)"

definition shlex_split :: "string \<Rightarrow> string list result" where
  "shlex_split s = shlex_words Unquoted None s"

record proc_call =
  pc_argv :: "string list"
  pc_env :: "string dict"

record completed =
  cp_returncode :: int
  cp_stdout :: string
  cp_stderr :: string

type_synonym proc_lib = "proc_call list \<Rightarrow> proc_call \<Rightarrow> completed result"

text \<open>\<open>env\<close> is the environment of the process: what was given, or that of this one.\<close>

definition shell :: "proc_lib \<Rightarrow> string \<Rightarrow> bool \<Rightarrow> string dict \<Rightarrow> proc_call list \<Rightarrow> completed result \<times> proc_call list" where
  "shell P command check env h =
     (case shlex_split command of
        Inl e \<Rightarrow> (Inl e, h)
      | Inr argv \<Rightarrow>
          (let c = \<lparr>pc_argv = argv, pc_env = env\<rparr>
           in (rbind (P h c) (\<lambda>r. if check \<and> cp_returncode r \<noteq> 0 then Inl CalledProcessError else Inr r), h @ [c])))"

section \<open>The context\<close>

text \<open>A data class: the fields hold whatever the decoded JSON had.\<close>

record jupyter_ctx =
  jc_addr :: pyval
  jc_port :: pyval
  jc_token :: pyval
  jc_base_url :: pyval

definition jupyter_dict :: "jupyter_ctx \<Rightarrow> pyval dict" where
  "jupyter_dict ctx =
     [(''addr'', jc_addr ctx), (''port'', jc_port ctx), (''token'', jc_token ctx), (''base_url'', jc_base_url ctx)]"

definition jupyter_of_dict :: "pyval dict \<Rightarrow> jupyter_ctx result" where
  "jupyter_of_dict d =
     (if map_of d ''addr'' = None \<or> \<not> fst ` set d \<subseteq> {''addr'', ''port'', ''token'', ''base_url''} then Inl TypeError
      else Inr \<lparr>jc_addr = the (map_of d ''addr''),
        jc_port = (case map_of d ''port'' of None \<Rightarrow> PNone | Some v \<Rightarrow> v),
        jc_token = (case map_of d ''token'' of None \<Rightarrow> PNone | Some v \<Rightarrow> v),
        jc_base_url = (case map_of d ''base_url'' of None \<Rightarrow> PStr ''/'' | Some v \<Rightarrow> v)\<rparr>)"

definition JUPYTERCTX_VAR :: string where "JUPYTERCTX_VAR = ''LF_JUPYTER_CTX''"

definition str_json :: "(pyval \<Rightarrow> string) \<Rightarrow> jupyter_ctx \<Rightarrow> string" where
  "str_json dumps ctx = dumps (PDict (jupyter_dict ctx))"

definition set_env :: "(pyval \<Rightarrow> string) \<Rightarrow> jupyter_ctx \<Rightarrow> string dict \<Rightarrow> string dict" where
  "set_env dumps ctx env = dict_set JUPYTERCTX_VAR (str_json dumps ctx) env"

text \<open>Without the variable, \<open>json.loads(None)\<close> is a type error; a value that is no object cannot be unpacked.\<close>

definition jupyter_from_env :: "(string \<Rightarrow> pyval result) \<Rightarrow> string dict \<Rightarrow> jupyter_ctx result" where
  "jupyter_from_env loads env =
     (case map_of env JUPYTERCTX_VAR of
        None \<Rightarrow> Inl TypeError
      | Some s \<Rightarrow> rbind (loads s) (\<lambda>v. case v of PDict d \<Rightarrow> jupyter_of_dict d | _ \<Rightarrow> Inl TypeError))"

text \<open>\<open>free_port\<close> binds a socket to the address; \<open>tok\<close> is the token drawn.\<close>

definition create_jupyter_ctx :: "nanoid \<Rightarrow> (string \<Rightarrow> int result) \<Rightarrow> string \<Rightarrow> string \<Rightarrow> jupyter_ctx result" where
  "create_jupyter_ctx gen free_port tok addr =
     rbind (free_port addr) (\<lambda>port.
       Inr \<lparr>jc_addr = PStr addr, jc_port = PInt port, jc_token = PStr tok,
            jc_base_url = PStr (CHR ''/'' # gen NANO_URLSAFE_ALPHABET 10)\<rparr>)"

record jupyter_result =
  jr_messages :: string
  jr_error :: bool

definition from_command :: "completed \<Rightarrow> jupyter_result" where
  "from_command r = \<lparr>jr_messages = cp_stderr r @ cp_stdout r, jr_error = (cp_returncode r \<noteq> 0)\<rparr>"

section \<open>Starting the server\<close>

text \<open>\<open>show\<close> is how a value prints inside an f-string.\<close>

definition ctx_url :: "(pyval \<Rightarrow> string) \<Rightarrow> jupyter_ctx \<Rightarrow> string" where
  "ctx_url show ctx = show (jc_addr ctx) @ CHR '':'' # show (jc_port ctx) @ show (jc_base_url ctx)"

definition jupyter_cmdline :: "(pyval \<Rightarrow> string) \<Rightarrow> jupyter_ctx \<Rightarrow> string" where
  "jupyter_cmdline show ctx =
     ''jupyter lab --ip='' @ show (jc_addr ctx) @ ''  --ServerApp.port='' @ show (jc_port ctx) @
     '' --ServerApp.base_url='' @ show (jc_base_url ctx) @ '' --no-browser --ServerApp.shutdown_no_activity_timeout=15''"

text \<open>A command that is not there raises out of \<open>shell\<close>.\<close>

definition check_jupyter_installed :: "proc_lib \<Rightarrow> string dict \<Rightarrow> proc_call list \<Rightarrow> bool result \<times> proc_call list" where
  "check_jupyter_installed P env h =
     (case shell P ''jupyter lab --help'' False env h of
        (r, h') \<Rightarrow> (rbind r (\<lambda>c. Inr (cp_returncode c = 0)), h'))"

definition jupyter_exec ::
  "proc_lib \<Rightarrow> (string \<Rightarrow> pyval result) \<Rightarrow> (pyval \<Rightarrow> string) \<Rightarrow> bool \<Rightarrow> string dict \<Rightarrow> proc_call list \<Rightarrow>
   jupyter_result result \<times> string list \<times> string dict \<times> proc_call list" where
  "jupyter_exec P loads show install_jupyter env h =
     (case rbind (jupyter_from_env loads env) (\<lambda>ctx. case jc_token ctx of PStr t \<Rightarrow> Inr (ctx, t) | _ \<Rightarrow> Inl TypeError) of
        Inl e \<Rightarrow> (Inl e, [], env, h)
      | Inr (ctx, t) \<Rightarrow>
          (let env1 = dict_set ''JUPYTER_TOKEN'' t env in
           case check_jupyter_installed P env1 h of
             (Inl e, h1) \<Rightarrow> (Inl e, [], env1, h1)
           | (Inr installed, h1) \<Rightarrow>
               if \<not> installed \<and> \<not> install_jupyter
               then (Inl (SystemExit 255), [''[red bold](x) Jupyter lab is not installed[/]''], env1, h1)
               else (case (if installed then (Inr (), h1)
                           else (case shell P ''pip install jupyterlab'' True env1 h1 of (r, h') \<Rightarrow> (rbind r (\<lambda>_. Inr ()), h'))) of
                       (Inl e, h2) \<Rightarrow> (Inl e, [], env1, h2)
                     | (Inr _, h2) \<Rightarrow>
                         (case shell P (jupyter_cmdline show ctx) False env1 h2 of
                            (r, h3) \<Rightarrow>
                              (rbind r (\<lambda>c. Inr (from_command c)),
                               [''=> Running jupyter into: [magenta bold]'' @ ctx_url show ctx @ ''[/]'', ''Access token: '' @ t], env1, h3)))))"

text \<open>The container has the network of the host and the time limit of every run, two minutes.\<close>

definition jupyter_docker_exec ::
  "(pyval \<Rightarrow> string) \<Rightarrow> (pyval \<Rightarrow> string) \<Rightarrow> nanoid \<Rightarrow> (string \<Rightarrow> int result) \<Rightarrow> string \<Rightarrow> string \<Rightarrow> string \<Rightarrow> 'f docker_lib \<Rightarrow> 'f docker_calls \<Rightarrow>
   (docker_exc + docker_run_result) \<times> string list \<times> 'f docker_calls" where
  "jupyter_docker_exec dumps show gen free_port tok addr docker_image L h =
     (case create_jupyter_ctx gen free_port tok addr of
        Inl e \<Rightarrow> (Inl (OtherError e), [], h)
      | Inr ctx \<Rightarrow>
          (case docker_run (''lab exec jupyter --addr '' @ addr @ '' --docker'') docker_image 120 [(JUPYTERCTX_VAR, str_json dumps ctx)]
                  True False ''host'' PNone \<lparr>dr_mem_limit = None, dr_mem_reservation = None\<rparr> L h of
             (r, h') \<Rightarrow> (r, [''=> URL: '' @ ctx_url show ctx, ''=> Token: '' @ show (jc_token ctx)], h')))"

section \<open>The command\<close>

record jupyter_opts =
  jo_addr :: string
  jo_image :: string
  jo_local :: bool
  jo_docker :: bool
  jo_remote :: bool

text \<open>\<open>here\<close> is the server started by this process, given whether to install it and the environment, \<open>there\<close> the one in a
  container. A server started here is not looked at when it ends; the container's context is
  made twice, and the first one is dropped.\<close>

definition jupyter_cmd ::
  "(pyval \<Rightarrow> string) \<Rightarrow> (string \<Rightarrow> jupyter_ctx result) \<Rightarrow>
   (bool \<Rightarrow> string dict \<Rightarrow> 'p \<Rightarrow> jupyter_result result \<times> string list \<times> string dict \<times> 'p) \<Rightarrow>
   (string \<Rightarrow> string \<Rightarrow> 'p \<Rightarrow> (docker_exc + docker_run_result) \<times> string list \<times> 'p) \<Rightarrow> jupyter_opts \<Rightarrow> string dict \<Rightarrow> 'p \<Rightarrow>
   (docker_exc + unit) \<times> string list \<times> string dict \<times> 'p" where
  "jupyter_cmd dumps create here there opts env p =
     (if jo_local opts \<and> \<not> jo_docker opts
      then (case create (jo_addr opts) of
              Inl e \<Rightarrow> (Inl (OtherError e), [], env, p)
            | Inr ctx \<Rightarrow>
                (case here False (set_env dumps ctx env) p of
                   (Inl e, ls, env', p') \<Rightarrow> (Inl (OtherError e), ls, env', p') | (Inr _, ls, env', p') \<Rightarrow> (Inr (), ls, env', p')))
      else if jo_local opts
      then (case create (jo_addr opts) of
              Inl e \<Rightarrow> (Inl (OtherError e), [], env, p)
            | Inr _ \<Rightarrow>
                (case there (jo_addr opts) (jo_image opts) p of
                   (Inl e, ls, p') \<Rightarrow> (Inl e, ls, env, p') | (Inr r, ls, p') \<Rightarrow> (Inr (), ls @ [dr_msg r], env, p')))
      else if jo_remote opts
      then (Inr (), [''[bold yellow]Not implemented to run remote[/]'', ''[bold yellow]Use -L instead[/]''], env, p)
      else if jo_docker opts
      then (case here True env p of
              (Inl e, ls, env', p') \<Rightarrow> (Inl (OtherError e), ls, env', p')
            | (Inr r, ls, env', p') \<Rightarrow>
                (Inr (), ls @ (if jr_error r then [''[bold red]'' @ jr_messages r @ ''[/]''] else []), env', p'))
      else (Inl (OtherError (SystemExit 255)), [''[bold red]Bad use of parameters[/]''], env, p))"

section \<open>Facts\<close>

definition plain_word :: "string \<Rightarrow> bool" where
  "plain_word s \<longleftrightarrow> (\<forall>c \<in> set s. \<not> shell_space c \<and> c \<notin> {CHR 0x27, CHR 0x22, CHR 0x5C})"

lemma shlex_plain:
  "plain_word s \<Longrightarrow> shlex_words Unquoted (Some w) (s @ t) = shlex_words Unquoted (Some (w @ s)) t"
proof (induction s arbitrary: w)
  case (Cons c s)
  then show ?case using Cons.IH [of "w @ [c]"] by (simp add: plain_word_def grown_def)
qed simp

lemma shlex_plain_start:
  assumes "plain_word s" and "s \<noteq> []"
  shows "shlex_words Unquoted None (s @ t) = shlex_words Unquoted (Some s) t"
proof -
  obtain c u where s: "s = c # u" using assms(2) by (cases s) auto
  then have "plain_word u" "\<not> shell_space c" "c \<notin> {CHR 0x27, CHR 0x22, CHR 0x5C}" using assms(1) by (auto simp: plain_word_def)
  then show ?thesis using shlex_plain [of u "[c]" t] by (simp add: s grown_def)
qed

lemma docker_run_first:
  "docker_run cmd img timeout env_data remove gpu net ports res L [] = (r, h) \<Longrightarrow>
     \<exists>rest. h = RunContainer (run_args_of cmd img env_data gpu net ports res) # rest"
  by (auto simp: docker_run_def run_container_def wait_result_def container_status_def kill_container_def dk_defs
      split: sum.splits prod.splits docker_exc.splits option.splits list.splits if_splits)

lemmas shlex_eval = shlex_split_def shlex_plain grown_def flush_def shell_space_def

lemma jupyter_words:
  assumes "plain_word (show (jc_addr ctx))" and "plain_word (show (jc_port ctx))" and "plain_word (show (jc_base_url ctx))"
  shows "shlex_split (jupyter_cmdline show ctx) =
    Inr [''jupyter'', ''lab'', ''--ip='' @ show (jc_addr ctx), ''--ServerApp.port='' @ show (jc_port ctx),
      ''--ServerApp.base_url='' @ show (jc_base_url ctx), ''--no-browser'', ''--ServerApp.shutdown_no_activity_timeout=15'']"
  using assms by (simp add: jupyter_cmdline_def shlex_eval)

lemma jupyter_dict_back: "jupyter_of_dict (jupyter_dict ctx) = Inr ctx"
  by (simp add: jupyter_of_dict_def jupyter_dict_def)

lemma jupyter_exec_run:
  assumes ctx: "jupyter_from_env loads env = Inr ctx" "jc_token ctx = PStr t"
    and answered: "P h \<lparr>pc_argv = [''jupyter'', ''lab'', ''--help''], pc_env = dict_set ''JUPYTER_TOKEN'' t env\<rparr> = Inr fin" "cp_returncode fin = 0"
    and words: "shlex_split (jupyter_cmdline show ctx) = Inr argv"
  shows "\<exists>r ls. jupyter_exec P loads show install env h =
    (r, ls, dict_set ''JUPYTER_TOKEN'' t env,
     h @ [\<lparr>pc_argv = [''jupyter'', ''lab'', ''--help''], pc_env = dict_set ''JUPYTER_TOKEN'' t env\<rparr>,
          \<lparr>pc_argv = argv, pc_env = dict_set ''JUPYTER_TOKEN'' t env\<rparr>])"
proof -
  have "shlex_split ''jupyter lab --help'' = Inr [''jupyter'', ''lab'', ''--help'']" by (simp add: shlex_eval)
  then show ?thesis
    by (simp add: jupyter_exec_def ctx check_jupyter_installed_def shell_def answered words Let_def)
qed

text \<open>C39. A Jupyter server in a container is where the user was told. What \<open>exec jupyter -L -D\<close> prints is the
  address, port, base address and token of a context; the container it starts has the host's
  network and a command line and a variable that, read inside by the same command, start the
  server at that address, port and base address with that token. The container is waited for
  two minutes, and then killed like any other run.\<close>

theorem jupyter_where_told:
  fixes L :: "'f docker_lib"
  assumes created: "create_jupyter_ctx gen free_port tok addr = Inr ctx"
    and json: "loads (str_json dumps ctx) = Inr (PDict (jupyter_dict ctx))"
    and prints: "\<forall>s. show (PStr s) = s" "plain_word (show (jc_port ctx))" and plain: "plain_word addr" "addr \<noteq> []" "plain_word (gen NANO_URLSAFE_ALPHABET 10)"
    and run: "jupyter_docker_exec dumps show gen free_port tok addr img L [] = (res, out, calls)"
  shows "\<exists>args rest. calls = RunContainer args # rest \<and> ra_image args = img \<and> ra_network args = ''host'' \<and>
    (\<forall>cid. dl_run L [] args = Inr cid \<longrightarrow> (\<exists>more. rest = WaitContainer cid 120 # more)) \<and>
    shlex_split (ra_cmd args) = Inr [''lab'', ''exec'', ''jupyter'', ''--addr'', addr, ''--docker''] \<and>
    out = [''=> URL: '' @ addr @ CHR '':'' # show (jc_port ctx) @ show (jc_base_url ctx), ''=> Token: '' @ tok] \<and>
    (\<forall>env P fin there opts. map_of env JUPYTERCTX_VAR = map_of (ra_env args) JUPYTERCTX_VAR \<and>
       P [] \<lparr>pc_argv = [''jupyter'', ''lab'', ''--help''], pc_env = dict_set ''JUPYTER_TOKEN'' tok env\<rparr> = Inr fin \<and> cp_returncode fin = 0 \<and>
       jo_docker opts \<and> \<not> jo_local opts \<and> \<not> jo_remote opts \<longrightarrow>
       (\<exists>r ls help. jupyter_cmd dumps (create_jupyter_ctx gen free_port tok) (jupyter_exec P loads show) there opts env [] =
          (r, ls, dict_set ''JUPYTER_TOKEN'' tok env,
           [help, \<lparr>pc_argv = [''jupyter'', ''lab'', ''--ip='' @ addr, ''--ServerApp.port='' @ show (jc_port ctx),
                     ''--ServerApp.base_url='' @ show (jc_base_url ctx), ''--no-browser'', ''--ServerApp.shutdown_no_activity_timeout=15''],
                  pc_env = dict_set ''JUPYTER_TOKEN'' tok env\<rparr>])))"
proof -
  have ctx: "jc_addr ctx = PStr addr" "jc_token ctx = PStr tok" "jc_base_url ctx = PStr (CHR ''/'' # gen NANO_URLSAFE_ALPHABET 10)"
    using created by (auto simp: create_jupyter_ctx_def rbind_Inr_iff)
  have base: "plain_word (show (jc_base_url ctx))" using plain(3) prints by (simp add: ctx plain_word_def shell_space_def)
  let ?args = "run_args_of (''lab exec jupyter --addr '' @ addr @ '' --docker'') img [(JUPYTERCTX_VAR, str_json dumps ctx)] False ''host'' PNone
      \<lparr>dr_mem_limit = None, dr_mem_reservation = None\<rparr>"
  obtain rest where calls: "calls = RunContainer ?args # rest"
    using run created docker_run_first by (fastforce simp: jupyter_docker_exec_def split: prod.splits)
  have out: "out = [''=> URL: '' @ ctx_url show ctx, ''=> Token: '' @ tok]"
    using run created ctx prints by (auto simp: jupyter_docker_exec_def split: prod.splits)
  have words: "shlex_split (jupyter_cmdline show ctx) =
    Inr [''jupyter'', ''lab'', ''--ip='' @ addr, ''--ServerApp.port='' @ show (jc_port ctx),
      ''--ServerApp.base_url='' @ show (jc_base_url ctx), ''--no-browser'', ''--ServerApp.shutdown_no_activity_timeout=15'']"
    using jupyter_words [of "show" ctx] prints plain base by (simp add: ctx)
  have inside: "\<exists>r ls help. jupyter_cmd dumps (create_jupyter_ctx gen free_port tok) (jupyter_exec P loads show) there opts env [] =
          (r, ls, dict_set ''JUPYTER_TOKEN'' tok env,
           [help, \<lparr>pc_argv = [''jupyter'', ''lab'', ''--ip='' @ addr, ''--ServerApp.port='' @ show (jc_port ctx),
                     ''--ServerApp.base_url='' @ show (jc_base_url ctx), ''--no-browser'', ''--ServerApp.shutdown_no_activity_timeout=15''],
                  pc_env = dict_set ''JUPYTER_TOKEN'' tok env\<rparr>])"
    if env: "map_of env JUPYTERCTX_VAR = map_of (ra_env ?args) JUPYTERCTX_VAR"
      and answered: "P [] \<lparr>pc_argv = [''jupyter'', ''lab'', ''--help''], pc_env = dict_set ''JUPYTER_TOKEN'' tok env\<rparr> = Inr fin" "cp_returncode fin = 0"
      and opts: "jo_docker opts" "\<not> jo_local opts" "\<not> jo_remote opts" for env P fin there opts
  proof -
    have "jupyter_from_env loads env = Inr ctx"
      using env json by (simp add: run_args_of_def jupyter_from_env_def jupyter_dict_back)
    from jupyter_exec_run [where install = True and P = P and h = "[]", OF this ctx(2) answered words]
    obtain r ls where "jupyter_exec P loads show True env [] = (r, ls, dict_set ''JUPYTER_TOKEN'' tok env,
        [\<lparr>pc_argv = [''jupyter'', ''lab'', ''--help''], pc_env = dict_set ''JUPYTER_TOKEN'' tok env\<rparr>,
         \<lparr>pc_argv = [''jupyter'', ''lab'', ''--ip='' @ addr, ''--ServerApp.port='' @ show (jc_port ctx),
            ''--ServerApp.base_url='' @ show (jc_base_url ctx), ''--no-browser'', ''--ServerApp.shutdown_no_activity_timeout=15''],
          pc_env = dict_set ''JUPYTER_TOKEN'' tok env\<rparr>])" by auto
    then show ?thesis using opts by (cases r) (auto simp: jupyter_cmd_def)
  qed
  have "shlex_split (ra_cmd ?args) = Inr [''lab'', ''exec'', ''jupyter'', ''--addr'', addr, ''--docker'']"
    using plain by (simp add: run_args_of_def shlex_eval shlex_plain_start)
  moreover have "\<forall>cid. dl_run L [] ?args = Inr cid \<longrightarrow> (\<exists>more. rest = WaitContainer cid 120 # more)"
    using run created calls
    by (auto simp: jupyter_docker_exec_def docker_run_def run_container_def wait_result_def container_status_def kill_container_def dk_defs
      split: sum.splits prod.splits docker_exc.splits option.splits list.splits if_splits)
  moreover have "ra_image ?args = img" "ra_network ?args = ''host''" by (simp_all add: run_args_of_def)
  ultimately show ?thesis
    using calls out inside ctx prints by (intro exI [of _ ?args] exI [of _ rest]) (simp add: ctx_url_def)
qed

definition demo_jupyter :: jupyter_ctx where
  "demo_jupyter = \<lparr>jc_addr = PStr ''127.0.0.1'', jc_port = PInt 8888, jc_token = PStr ''tk'', jc_base_url = PStr ''/0000000000''\<rparr>"

definition demo_show :: "pyval \<Rightarrow> string" where
  "demo_show v = (case v of PStr s \<Rightarrow> s | _ \<Rightarrow> ''8888'')"

text \<open>The daemon's wait runs out of time; the server inside the container answers the first call.\<close>

theorem jupyter_where_told_witness:
  "\<exists>res calls args more r ls help env. jupyter_docker_exec (\<lambda>_. ''js'') demo_show demo_nanoid (\<lambda>_. Inr 8888) ''tk'' ''127.0.0.1'' ''lab:1''
       (demo_docker None [] :: unit docker_lib) [] =
     (res, [''=> URL: 127.0.0.1:8888/0000000000'', ''=> Token: tk''], calls) \<and>
     calls = RunContainer args # WaitContainer ''c1'' 120 # more \<and>
     jupyter_cmd (\<lambda>_. ''js'') (create_jupyter_ctx demo_nanoid (\<lambda>_. Inr 8888) ''tk'')
       (jupyter_exec (\<lambda>_ _. Inr \<lparr>cp_returncode = 0, cp_stdout = [], cp_stderr = []\<rparr>) (\<lambda>_. Inr (PDict (jupyter_dict demo_jupyter))) demo_show)
       (\<lambda>_ _ p. (Inl (APIError []), [], p))
       \<lparr>jo_addr = ''127.0.0.1'', jo_image = [], jo_local = False, jo_docker = True, jo_remote = False\<rparr> (ra_env args) [] =
     (r, ls, env, [help, \<lparr>pc_argv = [''jupyter'', ''lab'', ''--ip=127.0.0.1'', ''--ServerApp.port=8888'', ''--ServerApp.base_url=/0000000000'',
        ''--no-browser'', ''--ServerApp.shutdown_no_activity_timeout=15''], pc_env = env\<rparr>])"
proof -
  let ?dumps = "\<lambda>_::pyval. ''js''" and ?loads = "\<lambda>_::string. Inr (PDict (jupyter_dict demo_jupyter)) :: pyval result"
  let ?P = "\<lambda>_ _. Inr \<lparr>cp_returncode = 0, cp_stdout = [], cp_stderr = []\<rparr> :: completed result"
  let ?L = "demo_docker None [] :: unit docker_lib" and ?port = "\<lambda>_::string. Inr 8888 :: int result"
  let ?opts = "\<lparr>jo_addr = ''127.0.0.1'', jo_image = [], jo_local = False, jo_docker = True, jo_remote = False\<rparr>"
  let ?there = "\<lambda>_ _ p. (Inl (APIError []), [], p)"
  have gen: "demo_nanoid NANO_URLSAFE_ALPHABET 10 = ''0000000000''" by (simp add: demo_nanoid_def NANO_URLSAFE_ALPHABET_def numeral_eq_Suc)
  have created: "create_jupyter_ctx demo_nanoid ?port ''tk'' ''127.0.0.1'' = Inr demo_jupyter"
    by (simp add: create_jupyter_ctx_def gen demo_jupyter_def)
  have prints: "\<forall>s. demo_show (PStr s) = s" "plain_word (demo_show (jc_port demo_jupyter))"
    by (simp_all add: demo_show_def demo_jupyter_def plain_word_def shell_space_def)
  have plain: "plain_word ''127.0.0.1''" "(''127.0.0.1'' :: string) \<noteq> []" "plain_word (demo_nanoid NANO_URLSAFE_ALPHABET 10)"
    unfolding gen by (simp_all add: plain_word_def shell_space_def)
  have json: "?loads (str_json ?dumps demo_jupyter) = Inr (PDict (jupyter_dict demo_jupyter))" by simp
  obtain res out calls where run: "jupyter_docker_exec ?dumps demo_show demo_nanoid ?port ''tk'' ''127.0.0.1'' ''lab:1'' ?L [] = (res, out, calls)"
    by (rule prod_cases3)
  from jupyter_where_told [OF created json prints plain run]
  obtain args rest where a: "calls = RunContainer args # rest"
    "\<forall>cid. dl_run ?L [] args = Inr cid \<longrightarrow> (\<exists>more. rest = WaitContainer cid 120 # more)"
    "out = [''=> URL: '' @ ''127.0.0.1'' @ CHR '':'' # demo_show (jc_port demo_jupyter) @ demo_show (jc_base_url demo_jupyter), ''=> Token: '' @ ''tk'']"
    and b: "\<forall>env P fin there opts. map_of env JUPYTERCTX_VAR = map_of (ra_env args) JUPYTERCTX_VAR \<and>
       P [] \<lparr>pc_argv = [''jupyter'', ''lab'', ''--help''], pc_env = dict_set ''JUPYTER_TOKEN'' ''tk'' env\<rparr> = Inr fin \<and> cp_returncode fin = 0 \<and>
       jo_docker opts \<and> \<not> jo_local opts \<and> \<not> jo_remote opts \<longrightarrow>
       (\<exists>r ls help. jupyter_cmd ?dumps (create_jupyter_ctx demo_nanoid ?port ''tk'') (jupyter_exec P ?loads demo_show) there opts env [] =
          (r, ls, dict_set ''JUPYTER_TOKEN'' ''tk'' env,
           [help, \<lparr>pc_argv = [''jupyter'', ''lab'', ''--ip='' @ ''127.0.0.1'', ''--ServerApp.port='' @ demo_show (jc_port demo_jupyter),
                     ''--ServerApp.base_url='' @ demo_show (jc_base_url demo_jupyter), ''--no-browser'', ''--ServerApp.shutdown_no_activity_timeout=15''],
                  pc_env = dict_set ''JUPYTER_TOKEN'' ''tk'' env\<rparr>]))"
    by (elim exE conjE)
  obtain more where more: "rest = WaitContainer ''c1'' 120 # more" using a(2) by (auto simp: demo_docker_def)
  from b [rule_format, of "ra_env args" ?P "\<lparr>cp_returncode = 0, cp_stdout = [], cp_stderr = []\<rparr>" ?opts ?there]
  obtain r ls hlp where "jupyter_cmd ?dumps (create_jupyter_ctx demo_nanoid ?port ''tk'') (jupyter_exec ?P ?loads demo_show) ?there ?opts (ra_env args) [] =
      (r, ls, dict_set ''JUPYTER_TOKEN'' ''tk'' (ra_env args),
       [hlp, \<lparr>pc_argv = [''jupyter'', ''lab'', ''--ip=127.0.0.1'', ''--ServerApp.port=8888'', ''--ServerApp.base_url=/0000000000'',
        ''--no-browser'', ''--ServerApp.shutdown_no_activity_timeout=15''], pc_env = dict_set ''JUPYTER_TOKEN'' ''tk'' (ra_env args)\<rparr>])"
    by (auto simp: demo_show_def demo_jupyter_def)
  then show ?thesis using run a(1,3) more by (fastforce simp: demo_show_def demo_jupyter_def)
qed

end
