(* ===== verification/Machines.thy ===== *)
theory Machines
  imports Users
begin

text \<open>
  The table of machines (\<open>managers/machine_mg.py\<close>, \<open>MachineModel\<close> of \<open>models.py\<close>) and the models that go in and
  out of it (\<open>types/machine.py\<close>), with their checks and conversions as the model library makes them;
  and the older deployment of an agent (\<open>control_plane/deploy.py\<close>).
\<close>

section \<open>Fields of a model\<close>

text \<open>A number is taken from a number, a boolean or the text of one.\<close>

fun pydantic_int :: "pyval \<Rightarrow> int result" where
  "pydantic_int (PInt i) = Inr i"
| "pydantic_int (PBool b) = Inr (if b then 1 else 0)"
| "pydantic_int (PStr s) = (case py_int s of Inl _ \<Rightarrow> Inl ValidationError | Inr i \<Rightarrow> Inr i)"
| "pydantic_int _ = Inl ValidationError"

fun pydantic_dict :: "pyval \<Rightarrow> pyval dict result" where
  "pydantic_dict (PDict d) = Inr d"
| "pydantic_dict _ = Inl ValidationError"

fun pydantic_strs :: "pyval \<Rightarrow> string list result" where
  "pydantic_strs (PList xs) = rmap pydantic_str xs"
| "pydantic_strs _ = Inl ValidationError"

fun pydantic_opt :: "(pyval \<Rightarrow> 'a result) \<Rightarrow> pyval \<Rightarrow> 'a option result" where
  "pydantic_opt f PNone = Inr None"
| "pydantic_opt f v = rbind (f v) (\<lambda>x. Inr (Some x))"

definition model_field :: "(pyval \<Rightarrow> 'a result) \<Rightarrow> 'a option \<Rightarrow> string \<Rightarrow> pyval dict \<Rightarrow> 'a result" where
  "model_field f dflt k d =
     (case map_of d k of Some v \<Rightarrow> f v | None \<Rightarrow> (case dflt of None \<Rightarrow> Inl ValidationError | Some x \<Rightarrow> Inr x))"

section \<open>The models\<close>

record machine_type =
  mt_size :: string
  mt_image :: string
  mt_vcpus :: int
  mt_network :: string
  mt_extra :: "pyval dict option"

record machine_gpu =
  mg_name :: string
  mg_gpu_type :: string
  mg_count :: int
  mg_extra :: "pyval dict option"

record machine_orm =
  mo_name :: string
  mo_provider :: string
  mo_location :: string
  mo_machine_type :: machine_type
  mo_gpu :: "machine_gpu option"
  mo_volumes :: "string list"
  mo_desc :: "string option"

definition machine_type_of :: "pyval dict \<Rightarrow> machine_type result" where
  "machine_type_of d =
     rbind (model_field pydantic_str None ''size'' d) (\<lambda>sz.
     rbind (model_field pydantic_str None ''image'' d) (\<lambda>img.
     rbind (model_field pydantic_int (Some 1) ''vcpus'' d) (\<lambda>cpus.
     rbind (model_field pydantic_str (Some ''default'') ''network'' d) (\<lambda>net.
     rbind (model_field (pydantic_opt pydantic_dict) (Some None) ''extra'' d) (\<lambda>ex.
       Inr \<lparr>mt_size = sz, mt_image = img, mt_vcpus = cpus, mt_network = net, mt_extra = ex\<rparr>)))))"

definition machine_gpu_of :: "pyval dict \<Rightarrow> machine_gpu result" where
  "machine_gpu_of d =
     rbind (model_field pydantic_str None ''name'' d) (\<lambda>n.
     rbind (model_field pydantic_str None ''gpu_type'' d) (\<lambda>t.
     rbind (model_field pydantic_int (Some 1) ''count'' d) (\<lambda>c.
     rbind (model_field (pydantic_opt pydantic_dict) (Some None) ''extra'' d) (\<lambda>ex.
       Inr \<lparr>mg_name = n, mg_gpu_type = t, mg_count = c, mg_extra = ex\<rparr>))))"

definition opt_dict :: "pyval dict option \<Rightarrow> pyval" where
  "opt_dict x = (case x of None \<Rightarrow> PNone | Some d \<Rightarrow> PDict d)"

definition machine_type_dict :: "machine_type \<Rightarrow> pyval" where
  "machine_type_dict t =
     PDict [(''size'', PStr (mt_size t)), (''image'', PStr (mt_image t)), (''vcpus'', PInt (mt_vcpus t)),
            (''network'', PStr (mt_network t)), (''extra'', opt_dict (mt_extra t))]"

definition machine_gpu_dict :: "machine_gpu \<Rightarrow> pyval" where
  "machine_gpu_dict g =
     PDict [(''name'', PStr (mg_name g)), (''gpu_type'', PStr (mg_gpu_type g)), (''count'', PInt (mg_count g)),
            (''extra'', opt_dict (mg_extra g))]"

section \<open>The table\<close>

text \<open>The columns of JSON hold any value.\<close>

record machine_row =
  mw_id :: nat
  mw_name :: string
  mw_location :: string
  mw_provider :: string
  mw_desc :: "string option"
  mw_machine_type :: pyval
  mw_gpu :: pyval
  mw_volumes :: pyval
  mw_created_at :: nat

type_synonym machine_table = "machine_row list"

definition machine_row_of :: "nat \<Rightarrow> nat \<Rightarrow> machine_orm \<Rightarrow> machine_row" where
  "machine_row_of fresh now m =
     \<lparr>mw_id = fresh, mw_name = mo_name m, mw_location = mo_location m, mw_provider = mo_provider m, mw_desc = mo_desc m,
      mw_machine_type = machine_type_dict (mo_machine_type m),
      mw_gpu = (case mo_gpu m of None \<Rightarrow> PNone | Some g \<Rightarrow> machine_gpu_dict g),
      mw_volumes = PList (map PStr (mo_volumes m)), mw_created_at = now\<rparr>"

text \<open>The name is unique, by itself and with the provider; the fresh number is the next of the table.\<close>

definition insert_machine :: "machine_row \<Rightarrow> machine_table \<Rightarrow> machine_table result" where
  "insert_machine r tbl =
     (if mw_id r \<in> mw_id ` set tbl \<or> mw_name r \<in> mw_name ` set tbl then Inl IntegrityError else Inr (tbl @ [r]))"

definition next_machine :: "machine_table \<Rightarrow> nat" where
  "next_machine tbl = Suc (Max (insert 0 (mw_id ` set tbl)))"

definition machine_create :: "nat \<Rightarrow> machine_orm \<Rightarrow> machine_table \<Rightarrow> bool \<times> machine_table" where
  "machine_create now m tbl =
     (case insert_machine (machine_row_of (next_machine tbl) now m) tbl of Inl _ \<Rightarrow> (False, tbl) | Inr tbl' \<Rightarrow> (True, tbl'))"

text \<open>\<open>MachineOrm\<close> has no primary key, so the merge is an insert, which fails at the commit for a name that is there.\<close>

definition machine_create_or_update :: "nat \<Rightarrow> machine_orm \<Rightarrow> machine_table \<Rightarrow> machine_table result" where
  "machine_create_or_update now m tbl = insert_machine (machine_row_of (next_machine tbl) now m) tbl"

definition machine_from_orm :: "machine_row \<Rightarrow> machine_orm result" where
  "machine_from_orm r =
     rbind (rbind (pydantic_dict (mw_machine_type r)) machine_type_of) (\<lambda>t.
     rbind (pydantic_opt (\<lambda>v. rbind (pydantic_dict v) machine_gpu_of) (mw_gpu r)) (\<lambda>g.
     rbind (pydantic_strs (mw_volumes r)) (\<lambda>vs.
       Inr \<lparr>mo_name = mw_name r, mo_provider = mw_provider r, mo_location = mw_location r, mo_machine_type = t,
            mo_gpu = g, mo_volumes = vs, mo_desc = mw_desc r\<rparr>)))"

definition machine_get_list :: "nat \<Rightarrow> machine_table \<Rightarrow> machine_orm list result" where
  "machine_get_list limit tbl = rmap machine_from_orm (take limit (rev (sort_key mw_created_at tbl)))"

definition machine_get_one :: "string \<Rightarrow> machine_table \<Rightarrow> machine_row option" where
  "machine_get_one name tbl = first_row (filter (\<lambda>r. mw_name r = name) tbl)"

section \<open>The older deployment of an agent\<close>

record old_agent_request =
  og_machine_ip :: string
  og_machine_id :: string
  og_private_key_path :: string
  og_cluster :: string
  og_qnames :: "string list"
  og_agent_homedir :: string
  og_agent_name :: "string option"
  og_advertise_addr :: "string option"
  og_docker_image :: string
  og_docker_version :: string
  og_worker_procs :: int

definition old_agent_cmd :: "string \<Rightarrow> string \<Rightarrow> int \<Rightarrow> string" where
  "old_agent_cmd ip_address qnames workers = ''nb agent -w '' @ str_int workers @ '' -i '' @ ip_address @ '' -q '' @ qnames"

definition old_docker_cmd :: "string \<Rightarrow> string \<Rightarrow> string \<Rightarrow> string \<Rightarrow> int \<Rightarrow> string \<Rightarrow> string" where
  "old_docker_cmd ip_address qnames docker_image env_file workers docker_version =
     ''docker run -d -v /var/run/docker.sock:/var/run/docker.sock -e LF_SERVER=true  --env-file='' @ env_file @ CHR '' '' #
     docker_image @ CHR '':'' # docker_version @ CHR '' '' # old_agent_cmd ip_address qnames workers"

text \<open>The request has no \<open>node_ip\<close>: once the file of variables is rendered, the copy to the machine raises, and
  the command above is never sent.\<close>

definition old_deploy_agent :: "unit result \<Rightarrow> old_agent_request \<Rightarrow> string result" where
  "old_deploy_agent rendered req = rbind rendered (\<lambda>_. Inl AttributeError)"

section \<open>What is stored comes back\<close>

lemma rmap_pydantic_str [simp]: "rmap pydantic_str (map PStr xs) = Inr xs"
  by (induction xs) auto

lemma pydantic_opt_dict [simp]: "pydantic_opt pydantic_dict (opt_dict x) = Inr x"
  by (cases x) (simp_all add: opt_dict_def)

lemma machine_type_back: "rbind (pydantic_dict (machine_type_dict t)) machine_type_of = Inr t"
  by (simp add: machine_type_dict_def machine_type_of_def model_field_def)

lemma machine_gpu_back: "rbind (pydantic_dict (machine_gpu_dict g)) machine_gpu_of = Inr g"
  by (simp add: machine_gpu_dict_def machine_gpu_of_def model_field_def)

lemma machine_row_back: "machine_from_orm (machine_row_of i now m) = Inr m"
proof -
  have "pydantic_opt (\<lambda>v. rbind (pydantic_dict v) machine_gpu_of) (machine_gpu_dict g) = Inr (Some g)" for g
    using machine_gpu_back [of g] by (simp add: machine_gpu_dict_def)
  then show ?thesis
    by (simp add: machine_from_orm_def machine_row_of_def machine_type_back split: option.splits)
qed

text \<open>The tables that the manager's writes lead to, from the empty one.\<close>

inductive machine_reach :: "machine_table \<Rightarrow> bool" where
  no_machines: "machine_reach []"
| created: "machine_reach tbl \<Longrightarrow> machine_reach (snd (machine_create now m tbl))"
| merged: "machine_reach tbl \<Longrightarrow> machine_create_or_update now m tbl = Inr tbl' \<Longrightarrow> machine_reach tbl'"

definition stored_machine :: "machine_row \<Rightarrow> bool" where
  "stored_machine r \<longleftrightarrow> (\<exists>i now m. r = machine_row_of i now m)"

lemma stored_machine_row [simp]: "stored_machine (machine_row_of i now m)"
  by (auto simp: stored_machine_def)

lemma machine_row_of_simps [simp]:
  "mw_name (machine_row_of i now m) = mo_name m" "mw_id (machine_row_of i now m) = i"
  by (simp_all add: machine_row_of_def)

definition machine_table_ok :: "machine_table \<Rightarrow> bool" where
  "machine_table_ok tbl \<longleftrightarrow> distinct (map mw_id tbl) \<and> distinct (map mw_name tbl) \<and> list_all stored_machine tbl"

lemma insert_machine_ok:
  "machine_table_ok tbl \<Longrightarrow> insert_machine (machine_row_of i now m) tbl = Inr tbl' \<Longrightarrow> machine_table_ok tbl'"
  by (auto simp: machine_table_ok_def insert_machine_def split: if_splits)

lemma machine_reach_ok: "machine_reach tbl \<Longrightarrow> machine_table_ok tbl"
proof (induction rule: machine_reach.induct)
  case no_machines
  then show ?case by (simp add: machine_table_ok_def)
next
  case (created tbl now m)
  then show ?case using insert_machine_ok by (auto simp: machine_create_def split: sum.splits)
next
  case (merged tbl now m tbl')
  then show ?case using insert_machine_ok by (simp add: machine_create_or_update_def)
qed

lemma next_machine_fresh: "next_machine tbl \<notin> mw_id ` set tbl"
proof
  assume "next_machine tbl \<in> mw_id ` set tbl"
  then have "next_machine tbl \<le> Max (insert 0 (mw_id ` set tbl))" by (intro Max_ge) auto
  then show False by (simp add: next_machine_def)
qed

lemma insert_next_machine:
  "insert_machine (machine_row_of (next_machine tbl) now m) tbl =
     (if mo_name m \<in> mw_name ` set tbl then Inl IntegrityError else Inr (tbl @ [machine_row_of (next_machine tbl) now m]))"
  using next_machine_fresh [of tbl] by (simp add: insert_machine_def)

lemma rmap_returns: "(\<forall>x \<in> set xs. \<exists>y. f x = Inr y) \<Longrightarrow> \<exists>ys. rmap f xs = Inr ys \<and> length ys = length xs \<and> (\<forall>y \<in> set ys. \<exists>x \<in> set xs. f x = Inr y)"
  by (induction xs) fastforce+

lemma stored_machine_back: "stored_machine r \<Longrightarrow> \<exists>m. machine_from_orm r = Inr m \<and> mo_name m = mw_name r"
  by (auto simp: stored_machine_def machine_row_back)

lemma machine_get_one_iff:
  "machine_table_ok tbl \<Longrightarrow> r \<in> set tbl \<Longrightarrow> machine_get_one (mw_name r) tbl = Some r"
  using first_row_unique [of mw_name tbl r] by (simp add: machine_get_one_def machine_table_ok_def)


definition demo_machine :: machine_orm where
  "demo_machine = \<lparr>mo_name = ''m1'', mo_provider = ''gce'', mo_location = ''ny'',
     mo_machine_type = \<lparr>mt_size = ''s'', mt_image = ''deb'', mt_vcpus = 2, mt_network = ''default'', mt_extra = None\<rparr>,
     mo_gpu = Some \<lparr>mg_name = ''nv'', mg_gpu_type = ''tesla'', mg_count = 1, mg_extra = None\<rparr>, mo_volumes = [''v''], mo_desc = None\<rparr>"


end
