(* ===== verification/KV_Remote.thy ===== *)
theory KV_Remote
  imports Lab_Client
begin

text \<open>
  The stores that are not local: Google's buckets (\<open>io/kv_gcs.py\<close>) and the streams of the file server
  (\<open>io/kv_files.py\<close>). The client of the buckets is a library; what a caller hands over as the data of a
  stream is a generator of bytes, synchronous or asynchronous, and the two are not told apart
  before the first piece is asked for.
\<close>

section \<open>Google's buckets\<close>

text \<open>\<open>gl_stream\<close> is a file of the bucket opened for writing, the pieces written to it, and left in order or by an
  exception; \<open>gl_lines\<close> reads one line by line.\<close>

record ('s, 'b) gcs_lib =
  gl_upload :: "string \<Rightarrow> 'b list \<Rightarrow> 's \<Rightarrow> unit result \<times> 's"
  gl_download :: "string \<Rightarrow> 's \<Rightarrow> 'b list result"
  gl_stream :: "string \<Rightarrow> 'b list list \<Rightarrow> bool \<Rightarrow> 's \<Rightarrow> unit result \<times> 's"
  gl_lines :: "string \<Rightarrow> 's \<Rightarrow> 'b list list result"

datatype 'b generator = SyncGen "'b list list" | AsyncGen "'b list list"

definition gs_uri :: "string \<Rightarrow> string \<Rightarrow> string" where
  "gs_uri bucket key = ''gs://'' @ bucket @ CHR ''/'' # key"

definition kvgs_put :: "('s, 'b) gcs_lib \<Rightarrow> string \<Rightarrow> 'b list \<Rightarrow> 's \<Rightarrow> unit result \<times> 's" where
  "kvgs_put L key bdata s = gl_upload L key bdata s"

text \<open>\<open>__next__\<close> is of synchronous generators only.\<close>

definition kvgs_writer :: "('s, 'b) gcs_lib \<Rightarrow> string \<Rightarrow> string \<Rightarrow> 'b generator \<Rightarrow> 's \<Rightarrow> unit result \<times> 's" where
  "kvgs_writer L bucket key generator s =
     (case generator of
        SyncGen ds \<Rightarrow> gl_stream L (gs_uri bucket key) ds True s
      | AsyncGen ds \<Rightarrow>
          (case gl_stream L (gs_uri bucket key) [] False s of
             (Inl e, s') \<Rightarrow> (Inl e, s') | (Inr _, s') \<Rightarrow> (Inl AttributeError, s')))"

definition kvgs_put_stream :: "('s, 'b) gcs_lib \<Rightarrow> string \<Rightarrow> string \<Rightarrow> 'b generator \<Rightarrow> 's \<Rightarrow> bool \<times> 's" where
  "kvgs_put_stream L bucket key generator s =
     (case kvgs_writer L bucket key generator s of (Inl _, s') \<Rightarrow> (False, s') | (Inr _, s') \<Rightarrow> (True, s'))"

definition kvgs_get :: "('s, 'b) gcs_lib \<Rightarrow> string \<Rightarrow> 's \<Rightarrow> 'b list option" where
  "kvgs_get L key s = (case gl_download L key s of Inl _ \<Rightarrow> None | Inr d \<Rightarrow> Some d)"

definition kvgs_get_stream :: "('s, 'b) gcs_lib \<Rightarrow> string \<Rightarrow> string \<Rightarrow> 's \<Rightarrow> 'b list list result" where
  "kvgs_get_stream L bucket key s = gl_lines L (gs_uri bucket key) s"

text \<open>The asynchronous store hands everything to the synchronous one; its stream has one piece, which is the
  generator of the other, so whoever sends the pieces on gets a type error.\<close>

definition akvgs_put_stream :: "('s, 'b) gcs_lib \<Rightarrow> string \<Rightarrow> string \<Rightarrow> 'b generator \<Rightarrow> 's \<Rightarrow> bool \<times> 's" where
  "akvgs_put_stream L bucket key generator s = kvgs_put_stream L bucket key generator s"

datatype 'b piece = Piece "'b list" | Pieces "'b list list result"

definition akvgs_get_stream :: "('s, 'b) gcs_lib \<Rightarrow> string \<Rightarrow> string \<Rightarrow> 's \<Rightarrow> 'b piece list" where
  "akvgs_get_stream L bucket key s = [Pieces (kvgs_get_stream L bucket key s)]"

fun send_pieces :: "'b piece list \<Rightarrow> 'b list list result" where
  "send_pieces [] = Inr []"
| "send_pieces (Piece d # ps) = rbind (send_pieces ps) (\<lambda>ds. Inr (d # ds))"
| "send_pieces (Pieces _ # ps) = Inl TypeError"

text \<open>The stores as the handlers use them: on the server the data of an upload comes from an asynchronous
  generator.\<close>

definition kv_gs :: "('s, 'b) gcs_lib \<Rightarrow> string \<Rightarrow> ('s, 'b) kv_ops" where
  "kv_gs L bucket =
     \<lparr>kv_put = kvgs_put L, kv_put_stream = (\<lambda>k ds s. case kvgs_put_stream L bucket k (SyncGen ds) s of (b, s') \<Rightarrow> (Inr b, s')),
      kv_get = (\<lambda>k s. case kvgs_get L k s of None \<Rightarrow> Inl KeyReadError | Some d \<Rightarrow> Inr d), kv_get_stream = kvgs_get_stream L bucket\<rparr>"

definition akv_gs :: "('s, 'b) gcs_lib \<Rightarrow> string \<Rightarrow> ('s, 'b) kv_ops" where
  "akv_gs L bucket =
     \<lparr>kv_put = kvgs_put L, kv_put_stream = (\<lambda>k ds s. case akvgs_put_stream L bucket k (AsyncGen ds) s of (b, s') \<Rightarrow> (Inr b, s')),
      kv_get = (\<lambda>k s. case kvgs_get L k s of None \<Rightarrow> Inl KeyReadError | Some d \<Rightarrow> Inr d),
      kv_get_stream = (\<lambda>k s. send_pieces (akvgs_get_stream L bucket k s))\<rparr>"

section \<open>Streams of the file server\<close>

text \<open>The synchronous \<open>put_stream\<close> calls its generator, which a generator object does not allow.\<close>

datatype 'b body_source = GenFunction "'b list list" | GenObject "'b list list"

definition kvf_put_stream ::
  "('s, 'b) file_server \<Rightarrow> string \<Rightarrow> string \<Rightarrow> string \<Rightarrow> 'b body_source \<Rightarrow> 's \<Rightarrow> bool result \<times> 's" where
  "kvf_put_stream srv url bucket key generator st =
     (case generator of
        GenObject _ \<Rightarrow> (Inl TypeError, st)
      | GenFunction ds \<Rightarrow> (let (b, st') = kvf_put srv url bucket key (concat ds) st in (Inr b, st')))"

text \<open>No stream looks at the status: the page of an error is streamed as the content. \<open>chunks_of\<close> is how the body is cut.\<close>

definition kvf_get_stream ::
  "('s, 'b) file_server \<Rightarrow> ('b list \<Rightarrow> 'b list list) \<Rightarrow> string \<Rightarrow> string \<Rightarrow> string \<Rightarrow> 's \<Rightarrow> 'b list list \<times> 's" where
  "kvf_get_stream srv chunks_of url bucket key st =
     (let (status, body, st') = srv ''GET'' (kvf_url url bucket key) [] st in (chunks_of body, st'))"

definition akvf_put :: "('s, 'b) file_server \<Rightarrow> string \<Rightarrow> string \<Rightarrow> string \<Rightarrow> 'b list \<Rightarrow> 's \<Rightarrow> bool \<times> 's" where
  "akvf_put srv url bucket key bdata st =
     (let (status, _, st') = srv ''PUT'' (kvf_url url bucket key) bdata st in (status = 201, st'))"

definition akvf_put_stream :: "('s, 'b) file_server \<Rightarrow> string \<Rightarrow> string \<Rightarrow> string \<Rightarrow> 'b list list \<Rightarrow> 's \<Rightarrow> bool \<times> 's" where
  "akvf_put_stream srv url bucket key generator st = akvf_put srv url bucket key (concat generator) st"

definition akvf_get_stream ::
  "('s, 'b) file_server \<Rightarrow> ('b list \<Rightarrow> 'b list list) \<Rightarrow> string \<Rightarrow> string \<Rightarrow> string \<Rightarrow> 's \<Rightarrow> 'b list list \<times> 's" where
  "akvf_get_stream srv chunks_of url bucket key st = kvf_get_stream srv chunks_of url bucket key st"

section \<open>What happens to a bundle\<close>

lemma gs_stream_kept:
  assumes "\<And>k ds s s'. gl_stream L (gs_uri bucket k) ds True s = (Inr (), s') \<Longrightarrow> gl_download L k s' = Inr (concat ds)"
    and "kv_put_stream (kv_gs L bucket) k ds s = (Inr True, s')"
  shows "kv_get (kv_gs L bucket) k s' = Inr (concat ds)"
  using assms by (auto simp: kv_gs_def kvgs_put_stream_def kvgs_writer_def kvgs_get_def split: sum.splits prod.splits)

lemma error_page_is_content:
  assumes "srv ''GET'' (kvf_url url bucket key) [] st = (404, page, st')" and "\<And>d. concat (chunks_of d) = d"
  shows "fst (kvf_get srv url bucket key st) = None \<and> concat (fst (kvf_get_stream srv chunks_of url bucket key st)) = page \<and>
    fst (akvf_get srv url bucket key st) = page"
  using assms by (simp add: kvf_get_def kvf_get_stream_def akvf_get_def)

text \<open>C38. On Google's buckets no bundle ever gets to the server. Whatever a client uploads, the handler's store
  writes nothing of it and the handler answers 204, which the client takes for a success; the
  bucket is left as by a file that was opened and broken off, the same for every content. Reading
  any output back through the handlers fails too.\<close>

theorem gcs_upload_lost:
  assumes project: "get_by_projectid pid None db = Inr (Some pd)"
    and up: "project_upload os nfkd (akv_gs L bucket) pid rt v ds db s = (r, s')"
  shows "r = Inr (204, BEmpty) \<and> projects_upload 204 = Inr () \<and>
    s' = snd (gl_stream L (gs_uri bucket (build_upload_uri os nfkd (pd_projectid pd) (fmt_opt rt) (fmt_opt v))) [] False s) \<and>
    project_upload os nfkd (akv_gs L bucket) pid rt v ds' db s = (r, s') \<and>
    kv_get_stream (akv_gs L bucket) k s' = Inl TypeError"
proof -
  have "kv_put_stream (akv_gs L bucket) key es s = (Inr False, snd (gl_stream L (gs_uri bucket key) [] False s))" for key es
    by (auto simp: akv_gs_def akvgs_put_stream_def kvgs_put_stream_def kvgs_writer_def split: prod.splits sum.splits)
  then have "project_upload os nfkd (akv_gs L bucket) pid rt v es db s =
      (Inr (204, BEmpty), snd (gl_stream L (gs_uri bucket (build_upload_uri os nfkd (pd_projectid pd) (fmt_opt rt) (fmt_opt v))) [] False s))" for es
    by (simp add: project_upload_def project Let_def)
  then show ?thesis using up by (simp add: projects_upload_def akv_gs_def akvgs_get_stream_def)
qed

text \<open>A bucket as the blobs by address; a file that is broken off leaves an empty one.\<close>

definition blob_lib :: "(string \<Rightarrow> 'b list option, 'b) gcs_lib" where
  "blob_lib = \<lparr>gl_upload = (\<lambda>k d s. (Inr (), s(gs_uri ''lab'' k \<mapsto> d))),
     gl_download = (\<lambda>k s. case s (gs_uri ''lab'' k) of None \<Rightarrow> Inl FileNotFoundError | Some d \<Rightarrow> Inr d),
     gl_stream = (\<lambda>u ds ok s. (Inr (), s(u \<mapsto> concat ds))),
     gl_lines = (\<lambda>u s. case s u of None \<Rightarrow> Inl FileNotFoundError | Some d \<Rightarrow> Inr [d])\<rparr>"

theorem gcs_upload_lost_witness:
  "\<exists>s'. project_upload posix id (akv_gs blob_lib ''lab'') ''pid'' (Some ''cpu'') (Some ''v1'') [''zi'', ''p''] admin_db Map.empty =
     (Inr (204, BEmpty), s') \<and> s' (gs_uri ''lab'' (build_upload_uri posix id ''pid'' ''cpu'' ''v1'')) = Some []"
proof -
  have "\<exists>pd. get_by_projectid ''pid'' None admin_db = Inr (Some pd) \<and> pd_projectid pd = ''pid''"
    by (simp add: get_by_projectid_def owned_by_def model2projectdata_def get_userid_async_def first_row_def admin_db_def
        empty_db_def demo_project_def demo_admin_def demo_user_def)
  then obtain pd where prj: "get_by_projectid ''pid'' None admin_db = Inr (Some pd)" and pd: "pd_projectid pd = ''pid''"
    by blast
  obtain r s' where up: "project_upload posix id (akv_gs blob_lib ''lab'') ''pid'' (Some ''cpu'') (Some ''v1'') [''zi'', ''p''] admin_db Map.empty = (r, s')"
    by (rule prod.exhaust)
  show ?thesis using gcs_upload_lost [OF prj up] up by (auto simp: pd blob_lib_def)
qed

end
