(* ===== verification/Schema.thy ===== *)
theory Schema
  imports Workflows
begin

text \<open>
  The schema of the database, declared twice: by the models (\<open>models.py\<close>, with the type compilers of
  \<open>db/common.py\<close>) and by the statements of the first migration (\<open>migrations/versions/0000_init.py\<close>),
  and the commands that make, drop and migrate it (\<open>db/sync.py\<close>, \<open>db/nosync.py\<close>, \<open>cmd/manager.py\<close>,
  \<open>migrations/env.py\<close>). A schema is the list of its tables; what the library writes for a type or for
  \<open>functions.now()\<close>, and what the database takes, is the dialect.
\<close>

section \<open>Statements\<close>

datatype sql_type = SInteger | SBigInteger | SString "nat option" | SBoolean | SFloat | SDateTime | SJSON | SBinary

datatype ddl_error = ProgrammingError | OperationalError | CommandError

text \<open>\<open>di_now\<close> is how \<open>functions.now()\<close> is written, \<open>di_default_ok\<close> which expressions a column may have as its
  default. SQLite neither names the foreign keys nor looks at them when a table is made or dropped.\<close>

record db_dialect =
  di_name :: string
  di_generic :: "sql_type \<Rightarrow> string"
  di_now :: string
  di_default_ok :: "string \<Rightarrow> bool"
  di_fk_named :: bool
  di_fk_enforced :: bool
  di_transactional :: bool

text \<open>The types the program compiles itself.\<close>

definition compile_jsonb_postgres :: string where "compile_jsonb_postgres = ''JSONB''"

definition compile_bytea_postgres :: string where "compile_bytea_postgres = ''BYTEA''"

definition compile_integer_sqlite :: string where "compile_integer_sqlite = ''Integer''"

definition type_ddl :: "db_dialect \<Rightarrow> sql_type \<Rightarrow> string" where
  "type_ddl D t =
     (if t = SJSON \<and> di_name D = ''postgresql'' then compile_jsonb_postgres
      else if t = SBinary \<and> di_name D = ''postgresql'' then compile_bytea_postgres
      else if t = SBigInteger \<and> di_name D = ''sqlite'' then compile_integer_sqlite
      else di_generic D t)"

datatype server_default = NoDefault | FuncNow | TextDefault string

fun default_sql :: "db_dialect \<Rightarrow> server_default \<Rightarrow> string option" where
  "default_sql D NoDefault = None"
| "default_sql D FuncNow = Some (di_now D)"
| "default_sql D (TextDefault t) = Some t"

record ddl_column =
  dc_name :: string
  dc_type :: sql_type
  dc_nullable :: bool
  dc_default :: server_default

record fkey =
  fk_col :: string
  fk_table :: string
  fk_refcol :: string
  fk_ondelete :: "string option"

datatype ddl =
    CreateTable string "ddl_column list" "string list" "fkey list" "(string option \<times> string list) list"
  | CreateIndex string string "string list" bool
  | DropIndex string string
  | DropConstraint string fkey
  | DropTable string

section \<open>Executing them\<close>

record column =
  cl_name :: string
  cl_type :: string
  cl_nullable :: bool
  cl_default :: "string option"

record table_def =
  tb_columns :: "column list"
  tb_pk :: "string list"
  tb_fkeys :: "fkey list"
  tb_uniques :: "(string option \<times> string list) list"
  tb_indexes :: "(string \<times> string list \<times> bool) set"

type_synonym schema = "(string \<times> table_def) list"

definition column_of :: "db_dialect \<Rightarrow> ddl_column \<Rightarrow> column" where
  "column_of D c = \<lparr>cl_name = dc_name c, cl_type = type_ddl D (dc_type c), cl_nullable = dc_nullable c,
     cl_default = default_sql D (dc_default c)\<rparr>"

definition defaults_ok :: "db_dialect \<Rightarrow> ddl_column list \<Rightarrow> bool" where
  "defaults_ok D cols = list_all (\<lambda>c. case default_sql D (dc_default c) of None \<Rightarrow> True | Some e \<Rightarrow> di_default_ok D e) cols"

definition at_table :: "string \<Rightarrow> (table_def \<Rightarrow> table_def) \<Rightarrow> schema \<Rightarrow> schema" where
  "at_table n f s = map (\<lambda>(m, t). (m, if m = n then f t else t)) s"

fun exec_ddl :: "db_dialect \<Rightarrow> ddl \<Rightarrow> schema \<Rightarrow> ddl_error + schema" where
  "exec_ddl D (CreateTable n cols pk fks uqs) s =
     (if n \<in> fst ` set s then Inl ProgrammingError
      else if \<not> defaults_ok D cols then Inl OperationalError
      else if di_fk_enforced D \<and> \<not> list_all (\<lambda>k. fk_table k \<in> insert n (fst ` set s)) fks then Inl ProgrammingError
      else Inr (s @ [(n, \<lparr>tb_columns = map (column_of D) cols, tb_pk = pk, tb_fkeys = fks, tb_uniques = uqs, tb_indexes = {}\<rparr>)]))"
| "exec_ddl D (CreateIndex i n cols u) s =
     (case map_of s n of
        None \<Rightarrow> Inl ProgrammingError
      | Some t \<Rightarrow>
          if i \<in> fst ` tb_indexes t then Inl ProgrammingError
          else Inr (at_table n (\<lambda>t. t\<lparr>tb_indexes := insert (i, cols, u) (tb_indexes t)\<rparr>) s))"
| "exec_ddl D (DropIndex i n) s =
     (case map_of s n of
        None \<Rightarrow> Inl ProgrammingError
      | Some t \<Rightarrow>
          if i \<notin> fst ` tb_indexes t then Inl ProgrammingError
          else Inr (at_table n (\<lambda>t. t\<lparr>tb_indexes := {x \<in> tb_indexes t. fst x \<noteq> i}\<rparr>) s))"
| "exec_ddl D (DropConstraint n k) s = Inr (at_table n (\<lambda>t. t\<lparr>tb_fkeys := filter (\<lambda>x. x \<noteq> k) (tb_fkeys t)\<rparr>) s)"
| "exec_ddl D (DropTable n) s =
     (if n \<notin> fst ` set s then Inl ProgrammingError
      else if di_fk_enforced D \<and> list_ex (\<lambda>(m, t). m \<noteq> n \<and> list_ex (\<lambda>k. fk_table k = n) (tb_fkeys t)) s then Inl ProgrammingError
      else Inr (filter (\<lambda>(m, t). m \<noteq> n) s))"

text \<open>A run stops at the first error; what it leaves then is for the caller to keep or to roll back.\<close>

fun exec_all :: "db_dialect \<Rightarrow> ddl list \<Rightarrow> schema \<Rightarrow> ddl_error option \<times> schema" where
  "exec_all D [] s = (None, s)"
| "exec_all D (d # ds) s = (case exec_ddl D d s of Inl e \<Rightarrow> (Some e, s) | Inr s' \<Rightarrow> exec_all D ds s')"

section \<open>The models\<close>

text \<open>A column as it is declared: without a type it takes that of the column it refers to.\<close>

record mcol =
  mc_name :: string
  mc_type :: "sql_type option"
  mc_fk :: "(string \<times> string \<times> string option) option"
  mc_pk :: bool
  mc_unique :: bool
  mc_index :: bool
  mc_nullable :: "bool option"
  mc_now :: bool

record model =
  md_table :: string
  md_columns :: "mcol list"
  md_uniques :: "(string \<times> string list) list"

definition Col :: "string \<Rightarrow> sql_type \<Rightarrow> mcol" where
  "Col n t = \<lparr>mc_name = n, mc_type = Some t, mc_fk = None, mc_pk = False, mc_unique = False, mc_index = False,
     mc_nullable = None, mc_now = False\<rparr>"

definition id_col :: "sql_type \<Rightarrow> mcol" where
  "id_col t = Col ''id'' t\<lparr>mc_pk := True\<rparr>"

definition now_col :: "string \<Rightarrow> mcol" where
  "now_col n = Col n SDateTime\<lparr>mc_now := True, mc_nullable := Some False\<rparr>"

definition req :: "mcol \<Rightarrow> mcol" where
  "req c = c\<lparr>mc_nullable := Some False\<rparr>"

definition opt :: "mcol \<Rightarrow> mcol" where
  "opt c = c\<lparr>mc_nullable := Some True\<rparr>"

definition idx :: "mcol \<Rightarrow> mcol" where
  "idx c = c\<lparr>mc_index := True\<rparr>"

definition uniq :: "mcol \<Rightarrow> mcol" where
  "uniq c = c\<lparr>mc_unique := True\<rparr>"

definition refers :: "string \<Rightarrow> string \<Rightarrow> string option \<Rightarrow> mcol \<Rightarrow> mcol" where
  "refers t c ondelete m = m\<lparr>mc_fk := Some (t, c, ondelete)\<rparr>"

definition assoc_projects_users :: model where
  "assoc_projects_users = \<lparr>md_table = ''lf_projects_users'', md_columns =
     [refers ''lf_project'' ''projectid'' None (Col ''project_id'' SInteger)\<lparr>mc_type := None\<rparr>,
      refers ''lf_user'' ''id'' None (Col ''user_id'' SInteger)\<lparr>mc_type := None\<rparr>], md_uniques = []\<rparr>"

definition project_relation_mixin :: "mcol list" where
  "project_relation_mixin = [opt (refers ''lf_project'' ''projectid'' (Some ''SET NULL'') (Col ''project_id'' (SString (Some 16))))]"

definition user_mixin :: "mcol list" where
  "user_mixin = [id_col SBigInteger, opt (Col ''password'' SBinary), req (Col ''is_superuser'' SBoolean),
     req (Col ''is_active'' SBoolean), req (Col ''scopes'' (SString None)), now_col ''created_at'', now_col ''updated_at'']"

definition HistoryModel :: model where
  "HistoryModel = \<lparr>md_table = ''lf_history'', md_columns =
     [id_col SBigInteger, Col ''wfid'' (SString (Some 24)), Col ''execid'' (SString (Some 24)), req (Col ''nb_name'' (SString None)),
      req (Col ''result'' SJSON), req (Col ''elapsed_secs'' SFloat), idx (Col ''status'' SInteger), idx (now_col ''created_at'')]
     @ project_relation_mixin, md_uniques = []\<rparr>"

definition ProjectModel :: model where
  "ProjectModel = \<lparr>md_table = ''lf_project'', md_columns =
     [id_col SBigInteger, req (uniq (idx (Col ''projectid'' (SString (Some 16))))), req (uniq (Col ''name'' (SString (Some 128)))),
      req (Col ''private_key'' SBinary), Col ''description'' (SString None), opt (Col ''repository'' (SString (Some 2048))),
      opt (refers ''lf_user'' ''id'' (Some ''SET NULL'') (Col ''owner_id'' SBigInteger)), now_col ''created_at'', now_col ''updated_at''],
     md_uniques = []\<rparr>"

definition UserModel :: model where
  "UserModel = \<lparr>md_table = ''lf_user'', md_columns = user_mixin @
     [req (uniq (idx (Col ''username'' (SString None)))), opt (idx (Col ''email'' (SString None))), req (idx (Col ''is_agent'' SBoolean))],
     md_uniques = []\<rparr>"

definition WorkflowModel :: model where
  "WorkflowModel = \<lparr>md_table = ''lf_workflow'', md_columns =
     [id_col SInteger, uniq (idx (Col ''wfid'' (SString (Some 24)))), req (idx (Col ''alias'' (SString (Some 33)))),
      req (Col ''nbtask'' SJSON), req (Col ''schedule'' SJSON), req (Col ''enabled'' SBoolean), now_col ''created_at'',
      (now_col ''updated_at'')\<lparr>mc_nullable := None\<rparr>] @ project_relation_mixin,
     md_uniques = [(''_lf_workflow__project_alias'', [''alias'', ''project_id''])]\<rparr>"

definition NotebookFile :: model where
  "NotebookFile = \<lparr>md_table = ''lf_notebook_file'', md_columns =
     [id_col SInteger, idx (Col ''nb_name'' (SString (Some 24))), opt (Col ''remote_path'' (SString (Some 24))),
      opt (Col ''params'' (SString None)), req (idx (Col ''runtimeid'' (SString None))),
      req (refers ''lf_user'' ''id'' (Some ''SET NULL'') (Col ''owner_id'' SBigInteger)), now_col ''created_at'']
     @ project_relation_mixin,
     md_uniques = [(''_lf_notebook_file__name_project'', [''nb_name'', ''project_id''])]\<rparr>"

definition RuntimeModel :: model where
  "RuntimeModel = \<lparr>md_table = ''lf_runtime'', md_columns =
     [id_col SInteger, req (uniq (idx (Col ''runtimeid'' (SString None)))), req (idx (Col ''runtime_name'' (SString None))),
      req (Col ''docker_name'' (SString None)), req (Col ''spec'' SJSON), req (Col ''version'' (SString None)),
      opt (Col ''registry'' (SString None)), idx (now_col ''created_at'')] @ project_relation_mixin,
     md_uniques = []\<rparr>"

definition MachineModel :: model where
  "MachineModel = \<lparr>md_table = ''lf_machine'', md_columns =
     [id_col SInteger, req (uniq (idx (Col ''name'' (SString None)))), req (idx (Col ''location'' (SString None))),
      req (idx (Col ''provider'' (SString None))), opt (Col ''desc'' (SString None)), req (Col ''machine_type'' SJSON),
      opt (Col ''gpu'' SJSON), opt (Col ''volumes'' SJSON), idx (now_col ''created_at''), now_col ''updated_at''],
     md_uniques = [(''_lf_machine__name_provider'', [''name'', ''provider''])]\<rparr>"

definition model_metadata :: "model list" where
  "model_metadata = [assoc_projects_users, HistoryModel, ProjectModel, UserModel, WorkflowModel, NotebookFile, RuntimeModel, MachineModel]"

text \<open>What the library makes of a model: a column with an index and \<open>unique\<close> gets a unique index, one with
  \<open>unique\<close> alone a constraint without a name.\<close>

definition referred_type :: "string \<Rightarrow> string \<Rightarrow> sql_type" where
  "referred_type t c =
     (case [x. m \<leftarrow> model_metadata, md_table m = t, y \<leftarrow> md_columns m, mc_name y = c, x \<leftarrow> (case mc_type y of None \<Rightarrow> [] | Some x \<Rightarrow> [x])] of
        [] \<Rightarrow> SInteger | x # _ \<Rightarrow> x)"

definition model_column :: "mcol \<Rightarrow> ddl_column" where
  "model_column c = \<lparr>dc_name = mc_name c,
     dc_type = (case mc_type c of Some t \<Rightarrow> t | None \<Rightarrow> (case mc_fk c of None \<Rightarrow> SInteger | Some (t, r, _) \<Rightarrow> referred_type t r)),
     dc_nullable = (case mc_nullable c of Some b \<Rightarrow> b | None \<Rightarrow> \<not> mc_pk c),
     dc_default = (if mc_now c then FuncNow else NoDefault)\<rparr>"

definition model_fkeys :: "model \<Rightarrow> fkey list" where
  "model_fkeys m = concat (map (\<lambda>c. case mc_fk c of None \<Rightarrow> []
     | Some (t, r, d) \<Rightarrow> [\<lparr>fk_col = mc_name c, fk_table = t, fk_refcol = r, fk_ondelete = d\<rparr>]) (md_columns m))"

definition model_uniques :: "model \<Rightarrow> (string option \<times> string list) list" where
  "model_uniques m = map (\<lambda>(n, cs). (Some n, cs)) (md_uniques m) @ [(None, [mc_name c]). c \<leftarrow> md_columns m, mc_unique c \<and> \<not> mc_index c]"

definition model_indexes :: "model \<Rightarrow> (string \<times> string list \<times> bool) list" where
  "model_indexes m = [(''ix_'' @ md_table m @ CHR ''_'' # mc_name c, [mc_name c], mc_unique c). c \<leftarrow> md_columns m, mc_index c]"

definition create_ops :: "model \<Rightarrow> ddl list" where
  "create_ops m =
     CreateTable (md_table m) (map model_column (md_columns m)) (map mc_name (filter mc_pk (md_columns m))) (model_fkeys m) (model_uniques m)
     # map (\<lambda>(i, cs, u). CreateIndex i (md_table m) cs u) (model_indexes m)"

section \<open>The migration\<close>

definition mig_col :: "string \<Rightarrow> sql_type \<Rightarrow> bool \<Rightarrow> ddl_column" where
  "mig_col n t nullable = \<lparr>dc_name = n, dc_type = t, dc_nullable = nullable, dc_default = NoDefault\<rparr>"

definition mig_now :: "string \<Rightarrow> bool \<Rightarrow> ddl_column" where
  "mig_now n nullable = \<lparr>dc_name = n, dc_type = SDateTime, dc_nullable = nullable, dc_default = TextDefault ''now()''\<rparr>"

definition mig_fk :: "string \<Rightarrow> string \<Rightarrow> string \<Rightarrow> string option \<Rightarrow> fkey" where
  "mig_fk c t r d = \<lparr>fk_col = c, fk_table = t, fk_refcol = r, fk_ondelete = d\<rparr>"

definition upgrade :: "ddl list" where
  "upgrade =
    [CreateTable ''lf_machine''
       [mig_col ''id'' SInteger False, mig_col ''name'' (SString None) False, mig_col ''location'' (SString None) False,
        mig_col ''provider'' (SString None) False, mig_col ''desc'' (SString None) True, mig_col ''machine_type'' SJSON False,
        mig_col ''gpu'' SJSON True, mig_col ''volumes'' SJSON True, mig_now ''created_at'' False,
        mig_now ''updated_at'' False]
       [''id''] [] [(Some ''_lf_machine__name_provider'', [''name'', ''provider''])],
     CreateIndex ''ix_lf_machine_created_at'' ''lf_machine'' [''created_at''] False,
     CreateIndex ''ix_lf_machine_location'' ''lf_machine'' [''location''] False,
     CreateIndex ''ix_lf_machine_name'' ''lf_machine'' [''name''] True,
     CreateIndex ''ix_lf_machine_provider'' ''lf_machine'' [''provider''] False,
     CreateTable ''lf_user''
       [mig_col ''id'' SBigInteger False, mig_col ''password'' SBinary True, mig_col ''is_superuser'' SBoolean False,
        mig_col ''is_active'' SBoolean False, mig_col ''scopes'' (SString None) False, mig_now ''created_at'' False,
        mig_now ''updated_at'' False, mig_col ''username'' (SString None) False, mig_col ''email'' (SString None) True,
        mig_col ''is_agent'' SBoolean False]
       [''id''] [] [],
     CreateIndex ''ix_lf_user_email'' ''lf_user'' [''email''] False,
     CreateIndex ''ix_lf_user_is_agent'' ''lf_user'' [''is_agent''] False,
     CreateIndex ''ix_lf_user_username'' ''lf_user'' [''username''] True,
     CreateTable ''lf_project''
       [mig_col ''id'' SBigInteger False, mig_col ''projectid'' (SString (Some 16)) False, mig_col ''name'' (SString (Some 128)) False,
        mig_col ''private_key'' SBinary False, mig_col ''description'' (SString None) True, mig_col ''repository'' (SString (Some 2048)) True,
        mig_col ''owner_id'' SBigInteger True, mig_now ''created_at'' False, mig_now ''updated_at'' False]
       [''id''] [mig_fk ''owner_id'' ''lf_user'' ''id'' (Some ''SET NULL'')] [(None, [''name''])],
     CreateIndex ''ix_lf_project_projectid'' ''lf_project'' [''projectid''] True,
     CreateTable ''lf_history''
       [mig_col ''id'' SBigInteger False, mig_col ''wfid'' (SString (Some 24)) True, mig_col ''execid'' (SString (Some 24)) True,
        mig_col ''nb_name'' (SString None) False, mig_col ''result'' SJSON False, mig_col ''elapsed_secs'' SFloat False,
        mig_col ''status'' SInteger True, mig_now ''created_at'' False, mig_col ''project_id'' (SString (Some 16)) True]
       [''id''] [mig_fk ''project_id'' ''lf_project'' ''projectid'' (Some ''SET NULL'')] [],
     CreateIndex ''ix_lf_history_created_at'' ''lf_history'' [''created_at''] False,
     CreateIndex ''ix_lf_history_status'' ''lf_history'' [''status''] False,
     CreateTable ''lf_notebook_file''
       [mig_col ''id'' SInteger False, mig_col ''nb_name'' (SString (Some 24)) True, mig_col ''remote_path'' (SString (Some 24)) True,
        mig_col ''params'' (SString None) True, mig_col ''runtimeid'' (SString None) False, mig_col ''owner_id'' SBigInteger False,
        mig_now ''created_at'' False, mig_col ''project_id'' (SString (Some 16)) True]
       [''id''] [mig_fk ''owner_id'' ''lf_user'' ''id'' (Some ''SET NULL''), mig_fk ''project_id'' ''lf_project'' ''projectid'' (Some ''SET NULL'')] [(Some ''_lf_notebook_file__name_project'', [''nb_name'', ''project_id''])],
     CreateIndex ''ix_lf_notebook_file_nb_name'' ''lf_notebook_file'' [''nb_name''] False,
     CreateIndex ''ix_lf_notebook_file_runtimeid'' ''lf_notebook_file'' [''runtimeid''] False,
     CreateTable ''lf_projects_users''
       [mig_col ''project_id'' (SString (Some 16)) True, mig_col ''user_id'' SBigInteger True]
       [] [mig_fk ''project_id'' ''lf_project'' ''projectid'' None, mig_fk ''user_id'' ''lf_user'' ''id'' None] [],
     CreateTable ''lf_runtime''
       [mig_col ''id'' SInteger False, mig_col ''runtimeid'' (SString None) False, mig_col ''runtime_name'' (SString None) False,
        mig_col ''docker_name'' (SString None) False, mig_col ''spec'' SJSON False, mig_col ''version'' (SString None) False,
        mig_col ''registry'' (SString None) True, mig_now ''created_at'' False, mig_col ''project_id'' (SString (Some 16)) True]
       [''id''] [mig_fk ''project_id'' ''lf_project'' ''projectid'' (Some ''SET NULL'')] [],
     CreateIndex ''ix_lf_runtime_created_at'' ''lf_runtime'' [''created_at''] False,
     CreateIndex ''ix_lf_runtime_runtime_name'' ''lf_runtime'' [''runtime_name''] False,
     CreateIndex ''ix_lf_runtime_runtimeid'' ''lf_runtime'' [''runtimeid''] True,
     CreateTable ''lf_workflow''
       [mig_col ''id'' SInteger False, mig_col ''wfid'' (SString (Some 24)) True, mig_col ''alias'' (SString (Some 33)) False,
        mig_col ''nbtask'' SJSON False, mig_col ''schedule'' SJSON False, mig_col ''enabled'' SBoolean False,
        mig_now ''created_at'' False, mig_now ''updated_at'' True, mig_col ''project_id'' (SString (Some 16)) True]
       [''id''] [mig_fk ''project_id'' ''lf_project'' ''projectid'' (Some ''SET NULL'')] [(Some ''_lf_workflow__project_alias'', [''alias'', ''project_id''])],
     CreateIndex ''ix_lf_workflow_alias'' ''lf_workflow'' [''alias''] False,
     CreateIndex ''ix_lf_workflow_wfid'' ''lf_workflow'' [''wfid''] True]"

definition downgrade :: "ddl list" where
  "downgrade =
    [DropIndex ''ix_lf_workflow_wfid'' ''lf_workflow'',
     DropIndex ''ix_lf_workflow_alias'' ''lf_workflow'',
     DropTable ''lf_workflow'',
     DropIndex ''ix_lf_runtime_runtimeid'' ''lf_runtime'',
     DropIndex ''ix_lf_runtime_runtime_name'' ''lf_runtime'',
     DropIndex ''ix_lf_runtime_created_at'' ''lf_runtime'',
     DropTable ''lf_runtime'',
     DropTable ''lf_projects_users'',
     DropIndex ''ix_lf_notebook_file_runtimeid'' ''lf_notebook_file'',
     DropIndex ''ix_lf_notebook_file_nb_name'' ''lf_notebook_file'',
     DropTable ''lf_notebook_file'',
     DropIndex ''ix_lf_history_status'' ''lf_history'',
     DropIndex ''ix_lf_history_created_at'' ''lf_history'',
     DropTable ''lf_history'',
     DropIndex ''ix_lf_project_projectid'' ''lf_project'',
     DropTable ''lf_project'',
     DropIndex ''ix_lf_user_username'' ''lf_user'',
     DropIndex ''ix_lf_user_is_agent'' ''lf_user'',
     DropIndex ''ix_lf_user_email'' ''lf_user'',
     DropTable ''lf_user'',
     DropIndex ''ix_lf_machine_provider'' ''lf_machine'',
     DropIndex ''ix_lf_machine_name'' ''lf_machine'',
     DropIndex ''ix_lf_machine_location'' ''lf_machine'',
     DropIndex ''ix_lf_machine_created_at'' ''lf_machine'',
     DropTable ''lf_machine'']"

section \<open>The commands\<close>

record sql_db =
  sd_tables :: schema
  sd_version :: "string option"

definition empty_sql :: sql_db where
  "empty_sql = \<lparr>sd_tables = [], sd_version = None\<rparr>"

text \<open>\<open>metadata.create_all\<close> makes the tables that are missing, referred ones first; \<open>order\<close> is an order
  the library takes.\<close>

fun refs_first :: "string list \<Rightarrow> model list \<Rightarrow> bool" where
  "refs_first seen [] = True"
| "refs_first seen (m # ms) =
     (list_all (\<lambda>k. fk_table k \<in> set (md_table m # seen)) (model_fkeys m) \<and> refs_first (md_table m # seen) ms)"

definition load_order :: "model list \<Rightarrow> bool" where
  "load_order order \<longleftrightarrow> set order = set model_metadata \<and> distinct order \<and> refs_first [] order"

definition metadata_create_all :: "db_dialect \<Rightarrow> model list \<Rightarrow> schema \<Rightarrow> ddl_error option \<times> schema" where
  "metadata_create_all D order s = exec_all D (concat (map create_ops (filter (\<lambda>m. md_table m \<notin> fst ` set s) order))) s"

definition metadata_drop_all :: "db_dialect \<Rightarrow> model list \<Rightarrow> schema \<Rightarrow> ddl_error option \<times> schema" where
  "metadata_drop_all D order s = exec_all D (map (DropTable \<circ> md_table) (filter (\<lambda>m. md_table m \<in> fst ` set s) (rev order))) s"

text \<open>A transaction that fails leaves the database as it was.\<close>

definition transacted :: "db_dialect \<Rightarrow> sql_db \<Rightarrow> ddl_error option \<times> sql_db \<Rightarrow> ddl_error option \<times> sql_db" where
  "transacted D db r = (case r of (None, db') \<Rightarrow> (None, db') | (Some e, db') \<Rightarrow> (Some e, if di_transactional D then db else db'))"

definition create_all :: "db_dialect \<Rightarrow> model list \<Rightarrow> sql_db \<Rightarrow> ddl_error option \<times> sql_db" where
  "create_all D order db =
     transacted D db (let (e, s) = metadata_create_all D order (sd_tables db) in (e, db\<lparr>sd_tables := s\<rparr>))"

text \<open>The tables of the live database are dropped, whatever the models say, after every foreign key that has a name;
  among them is the table of the version.\<close>

definition drop_everything :: "db_dialect \<Rightarrow> sql_db \<Rightarrow> ddl_error option \<times> sql_db" where
  "drop_everything D db =
     (let all_fkeys = concat (map (\<lambda>(n, t). map (DropConstraint n) (if di_fk_named D then tb_fkeys t else [])) (sd_tables db));
          (e, s) = exec_all D (all_fkeys @ map (DropTable \<circ> fst) (sd_tables db)) (sd_tables db)
      in transacted D db (e, \<lparr>sd_tables = s, sd_version = None\<rparr>))"

definition async_drop_all :: "db_dialect \<Rightarrow> model list \<Rightarrow> sql_db \<Rightarrow> ddl_error option \<times> sql_db" where
  "async_drop_all D order db =
     transacted D db (let (e, s) = metadata_drop_all D order (sd_tables db) in (e, db\<lparr>sd_tables := s\<rparr>))"

text \<open>The upgrade to the head: a database at the only revision is left alone.\<close>

definition run_migrations_online :: "db_dialect \<Rightarrow> sql_db \<Rightarrow> ddl_error option \<times> sql_db" where
  "run_migrations_online D db =
     (case sd_version db of
        Some v \<Rightarrow> ((if v = ''0000'' then None else Some CommandError), db)
      | None \<Rightarrow>
          transacted D db (case exec_all D upgrade (sd_tables db) of
             (None, s) \<Rightarrow> (None, \<lparr>sd_tables = s, sd_version = Some ''0000''\<rparr>)
           | (Some e, s) \<Rightarrow> (Some e, db\<lparr>sd_tables := s\<rparr>)))"

text \<open>The command: the databases by address. The environment of the migrations reads the address of
  the settings of the server, which the option of the command does not reach.\<close>

datatype db_action = DbCreate | DbDrop | DbUpgrade

definition alembic_ugprade ::
  "(string \<Rightarrow> db_dialect) \<Rightarrow> string \<Rightarrow> string \<Rightarrow> (string \<Rightarrow> sql_db) \<Rightarrow> ddl_error option \<times> (string \<Rightarrow> sql_db)" where
  "alembic_ugprade dialect settings_sql dburi dbs =
     (let (e, db) = run_migrations_online (dialect settings_sql) (dbs settings_sql) in (e, dbs(settings_sql := db)))"

definition manager_db ::
  "(string \<Rightarrow> db_dialect) \<Rightarrow> model list \<Rightarrow> string \<Rightarrow> string option \<Rightarrow> db_action \<Rightarrow> (string \<Rightarrow> sql_db) \<Rightarrow>
   ddl_error option \<times> string list \<times> (string \<Rightarrow> sql_db)" where
  "manager_db dialect order settings_sql sql action dbs =
     (let u = (case sql of None \<Rightarrow> settings_sql | Some u \<Rightarrow> u) in
      case action of
        DbCreate \<Rightarrow> (let (e, db) = create_all (dialect u) order (dbs u) in (e, if e = None then [''Created...''] else [], dbs(u := db)))
      | DbDrop \<Rightarrow> (let (e, db) = drop_everything (dialect u) (dbs u) in (e, if e = None then [''Droped...''] else [], dbs(u := db)))
      | DbUpgrade \<Rightarrow> (let (e, dbs') = alembic_ugprade dialect settings_sql u dbs in (e, [], dbs')))"

section \<open>The migration against the models\<close>

definition compiled :: "db_dialect \<Rightarrow> model \<Rightarrow> table_def" where
  "compiled D m = \<lparr>tb_columns = map (column_of D \<circ> model_column) (md_columns m), tb_pk = map mc_name (filter mc_pk (md_columns m)),
     tb_fkeys = model_fkeys m, tb_uniques = model_uniques m, tb_indexes = set (model_indexes m)\<rparr>"

definition compiled_all :: "db_dialect \<Rightarrow> model list \<Rightarrow> schema" where
  "compiled_all D order = map (\<lambda>m. (md_table m, compiled D m)) order"

definition index_ops :: "string \<Rightarrow> (string \<times> string list \<times> bool) list \<Rightarrow> ddl list" where
  "index_ops n ixs = map (\<lambda>(i, cs, u). CreateIndex i n cs u) ixs"

lemma exec_all_append: "exec_all D ds s = (None, s') \<Longrightarrow> exec_all D (ds @ es) s = exec_all D es s'"
  by (induction ds arbitrary: s) (auto split: sum.splits)

lemma at_table_last: "n \<notin> fst ` set s \<Longrightarrow> at_table n f (s @ [(n, t)]) = s @ [(n, f t)]"
  by (induction s) (auto simp: at_table_def)

lemma map_of_last: "n \<notin> fst ` set s \<Longrightarrow> map_of (s @ [(n, t)]) n = Some t"
  by (induction s) auto

lemma exec_index_ops:
  assumes "n \<notin> fst ` set s" and "distinct (map fst ixs)" and "fst ` tb_indexes t \<inter> fst ` set ixs = {}"
  shows "exec_all D (index_ops n ixs) (s @ [(n, t)]) = (None, s @ [(n, t\<lparr>tb_indexes := tb_indexes t \<union> set ixs\<rparr>)])"
  using assms(2,3)
proof (induction ixs arbitrary: t)
  case (Cons ix ixs)
  obtain i cs u where ix: "ix = (i, cs, u)" by (cases ix)
  have "fst ` tb_indexes (t\<lparr>tb_indexes := insert ix (tb_indexes t)\<rparr>) \<inter> fst ` set ixs = {}" using Cons.prems by auto
  from Cons.IH [OF _ this] show ?case
    using Cons.prems by (simp add: index_ops_def ix map_of_last at_table_last assms(1) del: map_of_append)
qed (simp add: index_ops_def)

text \<open>A table with its indexes, made where all it refers to is there.\<close>

lemma exec_table:
  assumes "n \<notin> fst ` set s" and "defaults_ok D cols" and "list_all (\<lambda>k. fk_table k \<in> insert n (fst ` set s)) fks" and "distinct (map fst ixs)"
  shows "exec_all D (CreateTable n cols pk fks uqs # index_ops n ixs) s =
    (None, s @ [(n, \<lparr>tb_columns = map (column_of D) cols, tb_pk = pk, tb_fkeys = fks, tb_uniques = uqs, tb_indexes = set ixs\<rparr>)])"
  using assms exec_index_ops [OF assms(1,4), where D = D] by simp

lemmas column_defs = id_col_def now_col_def req_def opt_def idx_def uniq_def refers_def Col_def project_relation_mixin_def user_mixin_def

lemmas model_defs = assoc_projects_users_def HistoryModel_def ProjectModel_def UserModel_def WorkflowModel_def NotebookFile_def
  RuntimeModel_def MachineModel_def

lemma model_tables:
  "md_table assoc_projects_users = ''lf_projects_users''" "md_table HistoryModel = ''lf_history''" "md_table ProjectModel = ''lf_project''"
  "md_table UserModel = ''lf_user''" "md_table WorkflowModel = ''lf_workflow''" "md_table NotebookFile = ''lf_notebook_file''"
  "md_table RuntimeModel = ''lf_runtime''" "md_table MachineModel = ''lf_machine''"
  by (simp_all add: model_defs)

lemma index_names:
  "map fst (model_indexes m) = map (\<lambda>c. ''ix_'' @ md_table m @ CHR ''_'' # c) (map mc_name (filter mc_index (md_columns m)))"
proof -
  have "map fst [(f c, g c). c \<leftarrow> cs, mc_index c] = map f (filter mc_index cs)" for cs and f :: "mcol \<Rightarrow> string" and g :: "mcol \<Rightarrow> string list \<times> bool"
    by (induction cs) auto
  then show ?thesis by (simp add: model_indexes_def comp_def)
qed

lemma distinct_index_names: "distinct (map mc_name (md_columns m)) \<Longrightarrow> distinct (map fst (model_indexes m))"
  by (simp add: index_names distinct_map_filter distinct_map inj_on_def del: list.map_comp map_map)

lemma model_names:
  "m \<in> set model_metadata \<Longrightarrow> distinct (map mc_name (md_columns m))"
  "m \<in> set model_metadata \<Longrightarrow> m' \<in> set model_metadata \<Longrightarrow> md_table m = md_table m' \<Longrightarrow> m = m'"
proof -
  have "list_all (\<lambda>m. distinct (map mc_name (md_columns m))) model_metadata"
    by (simp add: model_metadata_def model_defs column_defs)
  then show "m \<in> set model_metadata \<Longrightarrow> distinct (map mc_name (md_columns m))" by (simp add: list_all_iff)
  show "m \<in> set model_metadata \<Longrightarrow> m' \<in> set model_metadata \<Longrightarrow> md_table m = md_table m' \<Longrightarrow> m = m'"
    by (auto simp: model_metadata_def model_tables)
qed

lemma model_defaults_ok: "di_default_ok D (di_now D) \<Longrightarrow> defaults_ok D (map model_column cs)"
  by (auto simp: defaults_ok_def list_all_iff model_column_def)

lemma exec_create_ops:
  assumes "m \<in> set model_metadata" and "md_table m \<notin> fst ` set s" and "di_default_ok D (di_now D)"
    and "list_all (\<lambda>k. fk_table k \<in> insert (md_table m) (fst ` set s)) (model_fkeys m)"
  shows "exec_all D (create_ops m) s = (None, s @ [(md_table m, compiled D m)])"
  using exec_table [OF assms(2) model_defaults_ok [OF assms(3)] assms(4) distinct_index_names [OF model_names(1) [OF assms(1)]]]
  by (simp add: create_ops_def index_ops_def compiled_def del: exec_all.simps)

lemma exec_create_all:
  assumes "refs_first seen order" and "set order \<subseteq> set model_metadata" and "distinct order" and "di_default_ok D (di_now D)"
    and "set seen \<subseteq> fst ` set s" and "fst ` set s \<inter> md_table ` set order = {}"
  shows "exec_all D (concat (map create_ops order)) s = (None, s @ compiled_all D order)"
  using assms
proof (induction order arbitrary: seen s)
  case (Cons m ms)
  let ?s = "s @ [(md_table m, compiled D m)]"
  have "list_all (\<lambda>k. fk_table k \<in> insert (md_table m) (fst ` set s)) (model_fkeys m)"
    using Cons.prems(1,5) by (auto simp: list_all_iff)
  then have step: "exec_all D (create_ops m) s = (None, ?s)" using Cons.prems by (intro exec_create_ops) auto
  have new: "md_table m \<notin> md_table ` set ms"
  proof
    assume "md_table m \<in> md_table ` set ms"
    then obtain m' where "m' \<in> set ms" "md_table m = md_table m'" by blast
    then show False using model_names(2) [of m m'] Cons.prems(2,3) by auto
  qed
  have "exec_all D (concat (map create_ops ms)) ?s = (None, ?s @ compiled_all D ms)"
  proof (rule Cons.IH)
    show "refs_first (md_table m # seen) ms" using Cons.prems(1) by simp
    show "fst ` set ?s \<inter> md_table ` set ms = {}" using Cons.prems(6) new by auto
  qed (use Cons.prems in auto)
  then show ?case using exec_all_append [OF step] by (simp add: compiled_all_def)
qed (simp add: compiled_all_def)

text \<open>The migration, table by table: the statements are those of the models, with the text of the default and the
  indexes in the order of their names.\<close>

definition textual :: "ddl_column \<Rightarrow> ddl_column" where
  "textual c = (if dc_default c = FuncNow then c\<lparr>dc_default := TextDefault ''now()''\<rparr> else c)"

definition table_ops :: "model \<times> (string \<times> string list \<times> bool) list \<Rightarrow> ddl list" where
  "table_ops = (\<lambda>(m, ixs). CreateTable (md_table m) (map (textual \<circ> model_column) (md_columns m)) (map mc_name (filter mc_pk (md_columns m)))
     (model_fkeys m) (model_uniques m) # index_ops (md_table m) ixs)"

definition migrated :: "(model \<times> (string \<times> string list \<times> bool) list) list" where
  "migrated =
    [(MachineModel, [(''ix_lf_machine_created_at'', [''created_at''], False), (''ix_lf_machine_location'', [''location''], False), (''ix_lf_machine_name'', [''name''], True), (''ix_lf_machine_provider'', [''provider''], False)]),
     (UserModel, [(''ix_lf_user_email'', [''email''], False), (''ix_lf_user_is_agent'', [''is_agent''], False), (''ix_lf_user_username'', [''username''], True)]),
     (ProjectModel, [(''ix_lf_project_projectid'', [''projectid''], True)]),
     (HistoryModel, [(''ix_lf_history_created_at'', [''created_at''], False), (''ix_lf_history_status'', [''status''], False)]),
     (NotebookFile, [(''ix_lf_notebook_file_nb_name'', [''nb_name''], False), (''ix_lf_notebook_file_runtimeid'', [''runtimeid''], False)]),
     (assoc_projects_users, []),
     (RuntimeModel, [(''ix_lf_runtime_created_at'', [''created_at''], False), (''ix_lf_runtime_runtime_name'', [''runtime_name''], False), (''ix_lf_runtime_runtimeid'', [''runtimeid''], True)]),
     (WorkflowModel, [(''ix_lf_workflow_alias'', [''alias''], False), (''ix_lf_workflow_wfid'', [''wfid''], True)])]"

lemmas migration_simps = table_ops_def textual_def model_column_def mig_col_def mig_now_def mig_fk_def model_fkeys_def model_uniques_def
  index_ops_def column_defs

lemma referred_types: "referred_type ''lf_project'' ''projectid'' = SString (Some 16)" "referred_type ''lf_user'' ''id'' = SBigInteger"
  by (simp_all add: referred_type_def model_metadata_def model_defs column_defs)

lemma ops_MachineModel:
  "table_ops (MachineModel, [(''ix_lf_machine_created_at'', [''created_at''], False), (''ix_lf_machine_location'', [''location''], False), (''ix_lf_machine_name'', [''name''], True), (''ix_lf_machine_provider'', [''provider''], False)]) =
    [CreateTable ''lf_machine''
       [mig_col ''id'' SInteger False, mig_col ''name'' (SString None) False, mig_col ''location'' (SString None) False,
        mig_col ''provider'' (SString None) False, mig_col ''desc'' (SString None) True, mig_col ''machine_type'' SJSON False,
        mig_col ''gpu'' SJSON True, mig_col ''volumes'' SJSON True, mig_now ''created_at'' False,
        mig_now ''updated_at'' False]
       [''id''] [] [(Some ''_lf_machine__name_provider'', [''name'', ''provider''])],
     CreateIndex ''ix_lf_machine_created_at'' ''lf_machine'' [''created_at''] False,
     CreateIndex ''ix_lf_machine_location'' ''lf_machine'' [''location''] False,
     CreateIndex ''ix_lf_machine_name'' ''lf_machine'' [''name''] True,
     CreateIndex ''ix_lf_machine_provider'' ''lf_machine'' [''provider''] False]"
  by (simp add: MachineModel_def migration_simps)

lemma ops_UserModel:
  "table_ops (UserModel, [(''ix_lf_user_email'', [''email''], False), (''ix_lf_user_is_agent'', [''is_agent''], False), (''ix_lf_user_username'', [''username''], True)]) =
    [CreateTable ''lf_user''
       [mig_col ''id'' SBigInteger False, mig_col ''password'' SBinary True, mig_col ''is_superuser'' SBoolean False,
        mig_col ''is_active'' SBoolean False, mig_col ''scopes'' (SString None) False, mig_now ''created_at'' False,
        mig_now ''updated_at'' False, mig_col ''username'' (SString None) False, mig_col ''email'' (SString None) True,
        mig_col ''is_agent'' SBoolean False]
       [''id''] [] [],
     CreateIndex ''ix_lf_user_email'' ''lf_user'' [''email''] False,
     CreateIndex ''ix_lf_user_is_agent'' ''lf_user'' [''is_agent''] False,
     CreateIndex ''ix_lf_user_username'' ''lf_user'' [''username''] True]"
  by (simp add: UserModel_def migration_simps)

lemma ops_ProjectModel:
  "table_ops (ProjectModel, [(''ix_lf_project_projectid'', [''projectid''], True)]) =
    [CreateTable ''lf_project''
       [mig_col ''id'' SBigInteger False, mig_col ''projectid'' (SString (Some 16)) False, mig_col ''name'' (SString (Some 128)) False,
        mig_col ''private_key'' SBinary False, mig_col ''description'' (SString None) True, mig_col ''repository'' (SString (Some 2048)) True,
        mig_col ''owner_id'' SBigInteger True, mig_now ''created_at'' False, mig_now ''updated_at'' False]
       [''id''] [mig_fk ''owner_id'' ''lf_user'' ''id'' (Some ''SET NULL'')] [(None, [''name''])],
     CreateIndex ''ix_lf_project_projectid'' ''lf_project'' [''projectid''] True]"
  by (simp add: ProjectModel_def migration_simps)

lemma ops_HistoryModel:
  "table_ops (HistoryModel, [(''ix_lf_history_created_at'', [''created_at''], False), (''ix_lf_history_status'', [''status''], False)]) =
    [CreateTable ''lf_history''
       [mig_col ''id'' SBigInteger False, mig_col ''wfid'' (SString (Some 24)) True, mig_col ''execid'' (SString (Some 24)) True,
        mig_col ''nb_name'' (SString None) False, mig_col ''result'' SJSON False, mig_col ''elapsed_secs'' SFloat False,
        mig_col ''status'' SInteger True, mig_now ''created_at'' False, mig_col ''project_id'' (SString (Some 16)) True]
       [''id''] [mig_fk ''project_id'' ''lf_project'' ''projectid'' (Some ''SET NULL'')] [],
     CreateIndex ''ix_lf_history_created_at'' ''lf_history'' [''created_at''] False,
     CreateIndex ''ix_lf_history_status'' ''lf_history'' [''status''] False]"
  by (simp add: HistoryModel_def migration_simps)

lemma ops_NotebookFile:
  "table_ops (NotebookFile, [(''ix_lf_notebook_file_nb_name'', [''nb_name''], False), (''ix_lf_notebook_file_runtimeid'', [''runtimeid''], False)]) =
    [CreateTable ''lf_notebook_file''
       [mig_col ''id'' SInteger False, mig_col ''nb_name'' (SString (Some 24)) True, mig_col ''remote_path'' (SString (Some 24)) True,
        mig_col ''params'' (SString None) True, mig_col ''runtimeid'' (SString None) False, mig_col ''owner_id'' SBigInteger False,
        mig_now ''created_at'' False, mig_col ''project_id'' (SString (Some 16)) True]
       [''id''] [mig_fk ''owner_id'' ''lf_user'' ''id'' (Some ''SET NULL''), mig_fk ''project_id'' ''lf_project'' ''projectid'' (Some ''SET NULL'')] [(Some ''_lf_notebook_file__name_project'', [''nb_name'', ''project_id''])],
     CreateIndex ''ix_lf_notebook_file_nb_name'' ''lf_notebook_file'' [''nb_name''] False,
     CreateIndex ''ix_lf_notebook_file_runtimeid'' ''lf_notebook_file'' [''runtimeid''] False]"
  by (simp add: NotebookFile_def migration_simps)

lemma ops_assoc_projects_users:
  "table_ops (assoc_projects_users, []) =
    [CreateTable ''lf_projects_users''
       [mig_col ''project_id'' (SString (Some 16)) True, mig_col ''user_id'' SBigInteger True]
       [] [mig_fk ''project_id'' ''lf_project'' ''projectid'' None, mig_fk ''user_id'' ''lf_user'' ''id'' None] []]"
  by (simp add: assoc_projects_users_def migration_simps referred_types)

lemma ops_RuntimeModel:
  "table_ops (RuntimeModel, [(''ix_lf_runtime_created_at'', [''created_at''], False), (''ix_lf_runtime_runtime_name'', [''runtime_name''], False), (''ix_lf_runtime_runtimeid'', [''runtimeid''], True)]) =
    [CreateTable ''lf_runtime''
       [mig_col ''id'' SInteger False, mig_col ''runtimeid'' (SString None) False, mig_col ''runtime_name'' (SString None) False,
        mig_col ''docker_name'' (SString None) False, mig_col ''spec'' SJSON False, mig_col ''version'' (SString None) False,
        mig_col ''registry'' (SString None) True, mig_now ''created_at'' False, mig_col ''project_id'' (SString (Some 16)) True]
       [''id''] [mig_fk ''project_id'' ''lf_project'' ''projectid'' (Some ''SET NULL'')] [],
     CreateIndex ''ix_lf_runtime_created_at'' ''lf_runtime'' [''created_at''] False,
     CreateIndex ''ix_lf_runtime_runtime_name'' ''lf_runtime'' [''runtime_name''] False,
     CreateIndex ''ix_lf_runtime_runtimeid'' ''lf_runtime'' [''runtimeid''] True]"
  by (simp add: RuntimeModel_def migration_simps)

lemma ops_WorkflowModel:
  "table_ops (WorkflowModel, [(''ix_lf_workflow_alias'', [''alias''], False), (''ix_lf_workflow_wfid'', [''wfid''], True)]) =
    [CreateTable ''lf_workflow''
       [mig_col ''id'' SInteger False, mig_col ''wfid'' (SString (Some 24)) True, mig_col ''alias'' (SString (Some 33)) False,
        mig_col ''nbtask'' SJSON False, mig_col ''schedule'' SJSON False, mig_col ''enabled'' SBoolean False,
        mig_now ''created_at'' False, mig_now ''updated_at'' True, mig_col ''project_id'' (SString (Some 16)) True]
       [''id''] [mig_fk ''project_id'' ''lf_project'' ''projectid'' (Some ''SET NULL'')] [(Some ''_lf_workflow__project_alias'', [''alias'', ''project_id''])],
     CreateIndex ''ix_lf_workflow_alias'' ''lf_workflow'' [''alias''] False,
     CreateIndex ''ix_lf_workflow_wfid'' ''lf_workflow'' [''wfid''] True]"
  by (simp add: WorkflowModel_def migration_simps)

lemma upgrade_tables: "upgrade = concat (map table_ops migrated)"
  by (simp only: upgrade_def migrated_def list.map concat.simps append_Cons append_Nil ops_MachineModel ops_UserModel ops_ProjectModel ops_HistoryModel ops_NotebookFile ops_assoc_projects_users ops_RuntimeModel ops_WorkflowModel)


text \<open>What the migration makes is what the models declare.\<close>

lemma migrated_tables:
  "set (map fst migrated) = set model_metadata" "distinct (map fst migrated)" "refs_first [] (map fst migrated)"
proof -
  show "set (map fst migrated) = set model_metadata" by (simp add: migrated_def model_metadata_def insert_commute)
  have "distinct (map md_table (map fst migrated))" by (simp add: migrated_def model_tables)
  then show "distinct (map fst migrated)" by (simp only: distinct_map)
  show "refs_first [] (map fst migrated)" by (simp add: migrated_def model_fkeys_def model_defs column_defs)
qed

lemma migrated_indexes:
  "(m, ixs) \<in> set migrated \<Longrightarrow> set ixs = set (model_indexes m)"
  "(m, ixs) \<in> set migrated \<Longrightarrow> distinct (map fst ixs)"
proof -
  have "list_all (\<lambda>(m, ixs). set ixs = set (model_indexes m) \<and> distinct (map fst ixs)) migrated"
    by (simp add: migrated_def model_indexes_def model_defs column_defs insert_commute)
  then show "(m, ixs) \<in> set migrated \<Longrightarrow> set ixs = set (model_indexes m)" "(m, ixs) \<in> set migrated \<Longrightarrow> distinct (map fst ixs)"
    by (auto simp: list_all_iff)
qed

lemma textual_column: "di_now D = ''now()'' \<Longrightarrow> column_of D (textual c) = column_of D c"
  by (simp add: column_of_def textual_def)

lemma textual_default: "di_now D = ''now()'' \<Longrightarrow> default_sql D (dc_default (textual c)) = default_sql D (dc_default c)"
  by (simp add: textual_def)

lemma textual_ok: "di_now D = ''now()'' \<Longrightarrow> defaults_ok D (map (textual \<circ> f) cs) = defaults_ok D (map f cs)"
  by (simp add: defaults_ok_def list_all_iff textual_default)

lemma exec_migrated:
  assumes "refs_first seen (map fst ms)" and "set ms \<subseteq> set migrated" and "distinct (map fst ms)"
    and D: "di_now D = ''now()''" "di_default_ok D ''now()''"
    and "set seen \<subseteq> fst ` set s" and "fst ` set s \<inter> md_table ` fst ` set ms = {}"
  shows "exec_all D (concat (map table_ops ms)) s = (None, s @ compiled_all D (map fst ms))"
  using assms(1-3,6,7)
proof (induction ms arbitrary: seen s)
  case (Cons p ms)
  obtain m ixs where p: "p = (m, ixs)" by (cases p)
  let ?s = "s @ [(md_table m, compiled D m)]"
  have m: "m \<in> set model_metadata" using Cons.prems(2) migrated_tables(1) by (force simp: p)
  have ok: "defaults_ok D (map (textual \<circ> model_column) (md_columns m))"
    using model_defaults_ok [of D "md_columns m"] D by (simp add: textual_ok)
  have fks: "list_all (\<lambda>k. fk_table k \<in> insert (md_table m) (fst ` set s)) (model_fkeys m)"
    using Cons.prems(1,4) by (auto simp: list_all_iff p)
  have ixs: "set ixs = set (model_indexes m)" "distinct (map fst ixs)" using Cons.prems(2) migrated_indexes by (auto simp: p)
  have fresh: "md_table m \<notin> fst ` set s" using Cons.prems(5) by (auto simp: p)
  have step: "exec_all D (table_ops p) s = (None, ?s)"
    using exec_table [OF fresh ok fks ixs(2)]
    by (simp add: table_ops_def p compiled_def ixs(1) textual_column [OF D(1)] comp_def del: exec_all.simps)
  have new: "md_table m \<notin> md_table ` fst ` set ms"
  proof
    assume "md_table m \<in> md_table ` fst ` set ms"
    then obtain m' where m': "m' \<in> fst ` set ms" "md_table m = md_table m'" by blast
    then have "m' \<in> set model_metadata" using Cons.prems(2) migrated_tables(1) by auto
    then show False using model_names(2) [OF m] m' Cons.prems(3) by (auto simp: p)
  qed
  have "exec_all D (concat (map table_ops ms)) ?s = (None, ?s @ compiled_all D (map fst ms))"
  proof (rule Cons.IH)
    show "refs_first (md_table m # seen) (map fst ms)" using Cons.prems(1) by (simp add: p)
    show "fst ` set ?s \<inter> md_table ` fst ` set ms = {}" using Cons.prems(5) new by auto
  qed (use Cons.prems in \<open>auto simp: p\<close>)
  then show ?case using exec_all_append [OF step] by (simp add: compiled_all_def p)
qed (simp add: compiled_all_def)

lemma exec_upgrade:
  assumes "di_now D = ''now()''" and "di_default_ok D ''now()''"
  shows "exec_all D upgrade [] = (None, compiled_all D (map fst migrated))"
  using exec_migrated [OF migrated_tables(3) _ migrated_tables(2) assms, of "[]"] by (simp add: upgrade_tables)

lemma create_from_nothing:
  assumes "load_order order" and "di_default_ok D (di_now D)"
  shows "metadata_create_all D order [] = (None, compiled_all D order)"
  using assms exec_create_all [of "[]" order D "[]"] by (simp add: load_order_def metadata_create_all_def)

lemma compiled_names: "fst ` set (compiled_all D ms) = md_table ` set ms"
  by (auto simp: compiled_all_def image_image)

lemma compiled_set: "set (compiled_all D ms) = (\<lambda>m. (md_table m, compiled D m)) ` set ms"
  by (simp add: compiled_all_def)

lemma create_again:
  assumes "load_order order" and "md_table ` set model_metadata \<subseteq> fst ` set s"
  shows "metadata_create_all D order s = (None, s)"
proof -
  have "filter (\<lambda>m. md_table m \<notin> fst ` set s) order = []" using assms by (auto simp: load_order_def filter_empty_conv)
  then show ?thesis by (simp add: metadata_create_all_def)
qed

section \<open>And back\<close>

definition drop_ops :: "model \<times> (string \<times> string list \<times> bool) list \<Rightarrow> ddl list" where
  "drop_ops = (\<lambda>(m, ixs). map (\<lambda>ix. DropIndex (fst ix) (md_table m)) (rev ixs) @ [DropTable (md_table m)])"

lemma downgrade_tables: "downgrade = concat (map drop_ops (rev migrated))"
  by (simp add: downgrade_def migrated_def drop_ops_def model_tables)

lemma refs_first_append: "refs_first seen (ms @ ms') \<longleftrightarrow> refs_first seen ms \<and> refs_first (rev (map md_table ms) @ seen) ms'"
  by (induction ms arbitrary: seen) auto

lemma refs_first_closed:
  "refs_first seen ms \<Longrightarrow> m \<in> set ms \<Longrightarrow> k \<in> set (model_fkeys m) \<Longrightarrow> fk_table k \<in> set seen \<union> md_table ` set ms"
  by (induction ms arbitrary: seen) (fastforce simp: list_all_iff)+

lemma exec_drop_indexes:
  assumes "n \<notin> fst ` set s" and "distinct is" and "set is \<subseteq> fst ` tb_indexes t"
  shows "\<exists>t'. exec_all D (map (\<lambda>i. DropIndex i n) is) (s @ [(n, t)]) = (None, s @ [(n, t')])"
  using assms(2,3)
proof (induction "is" arbitrary: t)
  case (Cons i js)
  have "set js \<subseteq> fst ` tb_indexes (t\<lparr>tb_indexes := {x \<in> tb_indexes t. fst x \<noteq> i}\<rparr>)" using Cons.prems by fastforce
  from Cons.IH [OF _ this] show ?case
    using Cons.prems by (auto simp: map_of_last at_table_last assms(1) simp del: map_of_append)
qed simp

lemma exec_dropped:
  assumes "refs_first [] (map fst ms)" and "set ms \<subseteq> set migrated" and "distinct (map fst ms)"
  shows "exec_all D (concat (map drop_ops (rev ms))) (compiled_all D (map fst ms)) = (None, [])"
  using assms
proof (induction ms rule: rev_induct)
  case (snoc p ms)
  obtain m ixs where p: "p = (m, ixs)" by (cases p)
  let ?s = "compiled_all D (map fst ms)"
  have m: "m \<in> set model_metadata" using snoc.prems(2) migrated_tables(1) by (force simp: p)
  have sub: "fst ` set ms \<subseteq> set model_metadata" using snoc.prems(2) migrated_tables(1) by auto
  have "md_table m \<notin> md_table ` fst ` set ms"
  proof
    assume "md_table m \<in> md_table ` fst ` set ms"
    then obtain m' where "m' \<in> fst ` set ms" "md_table m = md_table m'" by blast
    then show False using model_names(2) [OF m, of m'] snoc.prems(3) sub by (auto simp: p)
  qed
  then have fresh: "md_table m \<notin> fst ` set ?s" by (simp add: compiled_names image_image)
  have ixs: "set ixs = set (model_indexes m)" "distinct (map fst ixs)" using snoc.prems(2) migrated_indexes by (auto simp: p)
  have refs: "refs_first [] (map fst ms)" using snoc.prems(1) by (simp add: refs_first_append)
  obtain t' where t': "exec_all D (map (\<lambda>i. DropIndex i (md_table m)) (rev (map fst ixs))) (?s @ [(md_table m, compiled D m)]) =
      (None, ?s @ [(md_table m, t')])"
    using exec_drop_indexes [OF fresh, of "rev (map fst ixs)" "compiled D m" D] ixs by (auto simp: compiled_def)
  have unreferred: "fk_table k \<noteq> md_table m" if nt: "(n, t) \<in> set ?s" "k \<in> set (tb_fkeys t)" for n t k
  proof -
    obtain m' where "m' \<in> set (map fst ms)" "k \<in> set (model_fkeys m')" using nt by (force simp: compiled_all_def compiled_def)
    then have "fk_table k \<in> md_table ` set (map fst ms)" using refs_first_closed [OF refs] by simp
    then show ?thesis using fresh by (metis compiled_names)
  qed
  have "\<not> list_ex (\<lambda>(m', t). m' \<noteq> md_table m \<and> list_ex (\<lambda>k. fk_table k = md_table m) (tb_fkeys t)) ?s"
    using unreferred by (auto simp: list_ex_iff)
  moreover have "filter (\<lambda>(n, t). n \<noteq> md_table m) ?s = ?s" by (subst filter_id_conv) (use fresh in force)
  ultimately have "exec_all D [DropTable (md_table m)] (?s @ [(md_table m, t')]) = (None, ?s)" by simp
  then have "exec_all D (drop_ops p) (?s @ [(md_table m, compiled D m)]) = (None, ?s)"
    using exec_all_append [OF t'] by (simp add: drop_ops_def p rev_map comp_def del: exec_all.simps)
  moreover have "exec_all D (concat (map drop_ops (rev ms))) ?s = (None, [])" using snoc refs by simp
  ultimately show ?case using exec_all_append by (simp add: compiled_all_def p)
qed (simp add: compiled_all_def)

section \<open>Dropping what is there\<close>

lemma exec_drop_constraints:
  assumes "\<forall>d \<in> set ds. \<exists>n k. d = DropConstraint n k"
  shows "\<exists>s'. exec_all D ds s = (None, s') \<and> map fst s' = map fst s \<and>
    (\<forall>n t k. (n, t) \<in> set s' \<and> k \<in> set (tb_fkeys t) \<longrightarrow>
      DropConstraint n k \<notin> set ds \<and> (\<exists>t'. (n, t') \<in> set s \<and> k \<in> set (tb_fkeys t')))"
  using assms
proof (induction ds arbitrary: s)
  case (Cons d ds)
  obtain n k where d: "d = DropConstraint n k" using Cons.prems by auto
  let ?s = "at_table n (\<lambda>t. t\<lparr>tb_fkeys := filter (\<lambda>x. x \<noteq> k) (tb_fkeys t)\<rparr>) s"
  have fst: "map fst ?s = map fst s" by (auto simp: at_table_def)
  have old: "(m \<noteq> n \<or> j \<noteq> k) \<and> (\<exists>t'. (m, t') \<in> set s \<and> j \<in> set (tb_fkeys t'))" if mt: "(m, t) \<in> set ?s" "j \<in> set (tb_fkeys t)" for m t j
    using mt by (auto simp: at_table_def split: if_splits)
  obtain s' where s': "exec_all D ds ?s = (None, s')" "map fst s' = map fst ?s"
      "\<forall>m t j. (m, t) \<in> set s' \<and> j \<in> set (tb_fkeys t) \<longrightarrow> DropConstraint m j \<notin> set ds \<and> (\<exists>t'. (m, t') \<in> set ?s \<and> j \<in> set (tb_fkeys t'))"
    using Cons.IH [of ?s] Cons.prems by auto
  have run: "exec_all D (d # ds) s = (None, s')" using s'(1) by (simp add: d)
  have old': "DropConstraint m j \<notin> set (d # ds) \<and> (\<exists>t'. (m, t') \<in> set s \<and> j \<in> set (tb_fkeys t'))"
    if mt: "(m, t) \<in> set s'" "j \<in> set (tb_fkeys t)" for m t j
  proof -
    obtain t' where t': "(m, t') \<in> set ?s" "j \<in> set (tb_fkeys t')" and new: "DropConstraint m j \<notin> set ds" using s'(3) mt by blast
    show ?thesis using old [OF t'] new by (auto simp: d)
  qed
  show ?case
  proof (intro exI [of _ s'] conjI allI impI)
    show "exec_all D (d # ds) s = (None, s')" by (rule run)
    show "map fst s' = map fst s" using s'(2) fst by (rule trans)
  qed (use old' in blast)+
qed auto

lemma exec_drop_tables:
  assumes "distinct (map fst s)" and "di_fk_enforced D \<Longrightarrow> \<forall>(n, t) \<in> set s. tb_fkeys t = []"
  shows "exec_all D (map DropTable (map fst s)) s = (None, [])"
  using assms
proof (induction s)
  case (Cons p s)
  obtain n t where p: "p = (n, t)" by (cases p)
  have "filter (\<lambda>(m, t). m \<noteq> n) s = s" using Cons.prems(1) by (subst filter_id_conv) (force simp: p)
  moreover have "\<not> (di_fk_enforced D \<and> list_ex (\<lambda>(m, t). m \<noteq> n \<and> list_ex (\<lambda>k. fk_table k = n) (tb_fkeys t)) (p # s))"
    using Cons.prems(2) by (force simp: list_ex_iff)
  ultimately show ?case using Cons by (simp add: p)
qed simp

text \<open>What dropping everything relies on: a database that looks at its foreign keys gives them names.\<close>

locale sql_dialect =
  fixes D :: db_dialect
  assumes named: "di_fk_enforced D \<Longrightarrow> di_fk_named D"
begin

lemma drops_everything:
  assumes "distinct (map fst (sd_tables db))"
  shows "drop_everything D db = (None, empty_sql)"
proof -
  let ?s = "sd_tables db"
  let ?ds = "concat (map (\<lambda>(n, t). map (DropConstraint n) (if di_fk_named D then tb_fkeys t else [])) ?s)"
  have all: "\<forall>d \<in> set ?ds. \<exists>n k. d = DropConstraint n k" by auto
  obtain s' where s': "exec_all D ?ds ?s = (None, s')" "map fst s' = map fst ?s"
      "\<forall>n t k. (n, t) \<in> set s' \<and> k \<in> set (tb_fkeys t) \<longrightarrow> DropConstraint n k \<notin> set ?ds \<and> (\<exists>t'. (n, t') \<in> set ?s \<and> k \<in> set (tb_fkeys t'))"
    using exec_drop_constraints [OF all, of D ?s] by blast
  have "\<forall>(n, t) \<in> set s'. tb_fkeys t = []" if enf: "di_fk_enforced D"
  proof clarify
    fix n t assume nt: "(n, t) \<in> set s'"
    have no: "k \<notin> set (tb_fkeys t)" for k
    proof
      assume "k \<in> set (tb_fkeys t)"
      then obtain t' where t': "DropConstraint n k \<notin> set ?ds" "(n, t') \<in> set ?s" "k \<in> set (tb_fkeys t')" using s'(3) nt by blast
      then show False using named [OF enf] by (force simp: image_iff)
    qed
    show "tb_fkeys t = []" using no by (cases "tb_fkeys t") auto
  qed
  then have "exec_all D (map DropTable (map fst s')) s' = (None, [])" using s'(2) assms by (intro exec_drop_tables) auto
  then have "exec_all D (?ds @ map (DropTable \<circ> fst) ?s) ?s = (None, [])" using exec_all_append [OF s'(1)] s'(2) by (simp flip: map_map)
  then show ?thesis by (simp add: drop_everything_def transacted_def empty_sql_def)
qed

end

text \<open>The two databases the program is run on, as far as their manuals say: PostgreSQL writes \<open>functions.now()\<close> as
  \<open>now()\<close>; SQLite writes it in parentheses, and takes no call as a default without them.\<close>

definition plain_type :: "sql_type \<Rightarrow> string" where
  "plain_type t = (case t of SInteger \<Rightarrow> ''INTEGER'' | SBigInteger \<Rightarrow> ''BIGINT'' | SString None \<Rightarrow> ''VARCHAR''
     | SString (Some n) \<Rightarrow> ''VARCHAR('' @ str_nat n @ '')'' | SBoolean \<Rightarrow> ''BOOLEAN'' | SFloat \<Rightarrow> ''FLOAT'' | SDateTime \<Rightarrow> ''TIMESTAMP''
     | SJSON \<Rightarrow> ''JSON'' | SBinary \<Rightarrow> ''BLOB'')"

definition postgres :: db_dialect where
  "postgres = \<lparr>di_name = ''postgresql'', di_generic = plain_type, di_now = ''now()'', di_default_ok = (\<lambda>_. True),
     di_fk_named = True, di_fk_enforced = True, di_transactional = True\<rparr>"

definition sqlite :: db_dialect where
  "sqlite = \<lparr>di_name = ''sqlite'', di_generic = plain_type, di_now = ''(CURRENT_TIMESTAMP)'', di_default_ok = (\<lambda>e. e \<noteq> ''now()''),
     di_fk_named = False, di_fk_enforced = False, di_transactional = False\<rparr>"

interpretation pg: sql_dialect postgres
  by unfold_locales (simp add: postgres_def)

interpretation lite: sql_dialect sqlite
  by unfold_locales (simp add: sqlite_def)

section \<open>What the commands do\<close>

text \<open>C13. The migration and the models are the same schema. On a database that takes \<open>now()\<close> as a default and
  writes \<open>functions.now()\<close> so, the statements of the first migration make, on an empty database, the
  tables that the models make in any order the library takes, with the same columns, keys,
  constraints and indexes; making them again changes nothing, and the downgrade takes every one away.
  On a database that refuses the call \<open>now()\<close>, as SQLite does, which the settings name when nothing
  else is set, the upgrade fails at its first statement and leaves the database empty.\<close>

theorem migration_is_the_models:
  assumes order: "load_order order" and now: "di_now D = ''now()''" "di_default_ok D ''now()''" and refuses: "\<not> di_default_ok D' ''now()''"
  shows "\<exists>s s'. exec_all D upgrade [] = (None, s) \<and> metadata_create_all D order [] = (None, s') \<and> set s = set s' \<and>
      distinct (map fst s) \<and> metadata_create_all D order s = (None, s) \<and> exec_all D downgrade s = (None, []) \<and>
      run_migrations_online D' empty_sql = (Some OperationalError, empty_sql)"
proof (intro exI conjI)
  let ?s = "compiled_all D (map fst migrated)"
  show "exec_all D upgrade [] = (None, ?s)" by (rule exec_upgrade [OF now])
  show "metadata_create_all D order [] = (None, compiled_all D order)" using create_from_nothing [OF order] now by simp
  show "set ?s = set (compiled_all D order)" using order by (simp only: compiled_set migrated_tables load_order_def)
  show "distinct (map fst ?s)" by (simp add: compiled_all_def migrated_def model_tables)
  show "metadata_create_all D order ?s = (None, ?s)" by (intro create_again [OF order]) (simp only: compiled_names migrated_tables order_refl)
  show "exec_all D downgrade ?s = (None, [])" using exec_dropped [OF migrated_tables(3) _ migrated_tables(2)] by (simp add: downgrade_tables)
  show "run_migrations_online D' empty_sql = (Some OperationalError, empty_sql)"
    using refuses by (simp add: run_migrations_online_def empty_sql_def upgrade_def defaults_ok_def mig_now_def mig_col_def transacted_def)
qed

lemma migrated_order: "load_order (map fst migrated)"
  using migrated_tables by (simp add: load_order_def)

theorem migration_is_the_models_witness:
  "\<exists>s. exec_all postgres upgrade [] = (None, s) \<and> metadata_create_all postgres (map fst migrated) s = (None, s) \<and>
     exec_all postgres downgrade s = (None, []) \<and> run_migrations_online sqlite empty_sql = (Some OperationalError, empty_sql)"
  using migration_is_the_models [OF migrated_order, of postgres sqlite] by (auto simp: postgres_def sqlite_def)

text \<open>C35. The upgrade goes to another database than the command says. The address given with the option is where
  create and drop work; the upgrade migrates the database of the settings and leaves the one that was
  named as it is. Tables made with create have no version, so the upgrade of that database fails at the
  first table and changes nothing; dropping everything clears it for either.\<close>

theorem upgrade_elsewhere:
  assumes order: "load_order order" and D: "di_now (dialect S) = ''now()''" "di_default_ok (dialect S) ''now()''" "sql_dialect (dialect S)"
    and "u \<noteq> S" and none: "dbs S = empty_sql"
  shows "(\<exists>s. manager_db dialect order S (Some u) DbUpgrade dbs = (None, [], dbs(S := \<lparr>sd_tables = s, sd_version = Some ''0000''\<rparr>)) \<and>
      md_table ` set model_metadata = fst ` set s) \<and>
    (\<exists>dbs1. manager_db dialect order S (Some S) DbCreate dbs = (None, [''Created...''], dbs1) \<and> (\<forall>v. v \<noteq> S \<longrightarrow> dbs1 v = dbs v) \<and>
      manager_db dialect order S None DbUpgrade dbs1 = (Some ProgrammingError, [], dbs1) \<and>
      manager_db dialect order S None DbDrop dbs1 = (None, [''Droped...''], dbs))"
proof (intro conjI)
  let ?D = "dialect S"
  have names: "md_table ` set model_metadata = fst ` set (compiled_all ?D (map fst migrated))" by (simp only: compiled_names migrated_tables)
  have "run_migrations_online ?D empty_sql = (None, \<lparr>sd_tables = compiled_all ?D (map fst migrated), sd_version = Some ''0000''\<rparr>)"
    by (simp add: run_migrations_online_def empty_sql_def exec_upgrade [OF D(1,2)] transacted_def)
  then show "\<exists>s. manager_db dialect order S (Some u) DbUpgrade dbs = (None, [], dbs(S := \<lparr>sd_tables = s, sd_version = Some ''0000''\<rparr>)) \<and>
      md_table ` set model_metadata = fst ` set s"
    using names by (intro exI [of _ "compiled_all ?D (map fst migrated)"]) (simp add: manager_db_def alembic_ugprade_def none)
  let ?c = "\<lparr>sd_tables = compiled_all ?D order, sd_version = None\<rparr>"
  have made: "create_all ?D order empty_sql = (None, ?c)"
    using create_from_nothing [OF order] D by (simp add: create_all_def empty_sql_def transacted_def)
  have "''lf_machine'' \<in> fst ` set (compiled_all ?D order)"
    using order by (force simp: compiled_names load_order_def model_metadata_def model_tables)
  then have refused: "run_migrations_online ?D ?c = (Some ProgrammingError, ?c)"
    by (simp add: run_migrations_online_def upgrade_def transacted_def)
  have "inj_on md_table (set order)" using order model_names(2) by (auto simp: load_order_def inj_on_def)
  then have "distinct (map fst (sd_tables ?c))" using order by (simp add: compiled_all_def distinct_map load_order_def comp_def)
  then have "drop_everything ?D ?c = (None, empty_sql)" by (rule sql_dialect.drops_everything [OF D(3)])
  moreover have "dbs(S := empty_sql) = dbs" using none by auto
  ultimately show "\<exists>dbs1. manager_db dialect order S (Some S) DbCreate dbs = (None, [''Created...''], dbs1) \<and> (\<forall>v. v \<noteq> S \<longrightarrow> dbs1 v = dbs v) \<and>
      manager_db dialect order S None DbUpgrade dbs1 = (Some ProgrammingError, [], dbs1) \<and>
      manager_db dialect order S None DbDrop dbs1 = (None, [''Droped...''], dbs)"
    using made refused none by (intro exI [of _ "dbs(S := ?c)"]) (simp add: manager_db_def alembic_ugprade_def)
qed

theorem upgrade_elsewhere_witness:
  "\<exists>s. manager_db (\<lambda>_. postgres) (map fst migrated) ''postgresql://main'' (Some ''postgresql://test'') DbUpgrade (\<lambda>_. empty_sql) =
     (None, [], (\<lambda>_. empty_sql)(''postgresql://main'' := \<lparr>sd_tables = s, sd_version = Some ''0000''\<rparr>))"
  using upgrade_elsewhere [OF migrated_order, of "\<lambda>_. postgres" "''postgresql://main''" "''postgresql://test''" "\<lambda>_. empty_sql"]
    pg.sql_dialect_axioms by (auto simp: postgres_def)

end
