(* ===== verification/Schema_Rows.thy ===== *)
theory Schema_Rows
  imports Schema
begin

text \<open>
  Rows under the declared schema. A statement that inserts names the columns it gives; the database fills
  the others, and refuses the row when a column that must not be \<open>NULL\<close> is, when a unique key is taken or
  when a foreign key names nothing. The writes of \<open>Database\<close>, which the managers are modelled on, are shown
  to be this on the tables the migration makes. Widths of columns are not looked at.
\<close>

section \<open>Inserting under a schema\<close>

text \<open>The values of columns; a JSON column holds the record the code stores in it.\<close>

datatype sql_value = VNull | VInt int | VStr string | VBool bool | VTime nat | VElapsed int
  | VTask nbtask | VSched "schedule_data option" | VSpec runtime_spec | VResult exec_result

type_synonym sql_row = "string \<rightharpoonup> sql_value"

type_synonym sql_tables = "string \<Rightarrow> sql_row list"

text \<open>A column that is not given takes its default, a primary key the next number of its sequence.\<close>

definition filled :: "table_def \<Rightarrow> sql_row \<Rightarrow> bool" where
  "filled t row = list_all (\<lambda>c. cl_nullable c \<or>
     (case row (cl_name c) of Some v \<Rightarrow> v \<noteq> VNull | None \<Rightarrow> cl_default c \<noteq> None \<or> tb_pk t = [cl_name c])) (tb_columns t)"

definition key_sets :: "table_def \<Rightarrow> string list set" where
  "key_sets t = (if tb_pk t = [] then {} else {tb_pk t}) \<union> snd ` set (tb_uniques t) \<union> (fst \<circ> snd) ` {x \<in> tb_indexes t. snd (snd x)}"

text \<open>Two rows with a \<open>NULL\<close> in a key do not clash on it.\<close>

definition clash :: "string list \<Rightarrow> sql_row \<Rightarrow> sql_row \<Rightarrow> bool" where
  "clash cs row r = list_all (\<lambda>c. row c \<noteq> None \<and> row c \<noteq> Some VNull \<and> r c = row c) cs"

definition refers_to :: "sql_tables \<Rightarrow> sql_row \<Rightarrow> fkey \<Rightarrow> bool" where
  "refers_to tabs row k =
     (row (fk_col k) = None \<or> row (fk_col k) = Some VNull \<or> list_ex (\<lambda>r. r (fk_refcol k) = row (fk_col k)) (tabs (fk_table k)))"

definition sql_insert :: "schema \<Rightarrow> string \<Rightarrow> sql_row \<Rightarrow> sql_tables \<Rightarrow> sql_tables result" where
  "sql_insert s n row tabs =
     (case map_of s n of
        None \<Rightarrow> Inl IntegrityError
      | Some t \<Rightarrow>
          if filled t row \<and> (\<forall>cs \<in> key_sets t. \<not> list_ex (clash cs row) (tabs n)) \<and> list_all (refers_to tabs row) (tb_fkeys t)
          then Inr (tabs(n := tabs n @ [row])) else Inl IntegrityError)"

section \<open>The rows of the managers\<close>

definition v_opt :: "('a \<Rightarrow> sql_value) \<Rightarrow> 'a option \<Rightarrow> sql_value" where
  "v_opt f x = (case x of None \<Rightarrow> VNull | Some y \<Rightarrow> f y)"

definition v_id :: "nat \<Rightarrow> sql_value" where
  "v_id i = VInt (int i)"

definition user_cols :: "user_row \<Rightarrow> sql_row" where
  "user_cols u = map_of [(''id'', v_id (us_id u)), (''username'', VStr (us_username u)), (''email'', v_opt VStr (us_email u)),
     (''password'', v_opt VStr (us_password u)), (''scopes'', VStr (us_scopes u)), (''is_superuser'', VBool (us_is_superuser u)),
     (''is_active'', VBool (us_is_active u)), (''is_agent'', VBool (us_is_agent u)), (''updated_at'', VTime (us_updated_at u))]"

definition project_cols :: "project_row \<Rightarrow> sql_row" where
  "project_cols p = map_of [(''id'', v_id (pr_id p)), (''projectid'', VStr (pr_projectid p)), (''name'', VStr (pr_name p)),
     (''private_key'', VStr (pr_private_key p)), (''description'', v_opt VStr (pr_description p)),
     (''repository'', v_opt VStr (pr_repository p)), (''owner_id'', v_opt v_id (pr_owner_id p)), (''updated_at'', VTime (pr_updated_at p))]"

definition member_cols :: "string \<times> nat \<Rightarrow> sql_row" where
  "member_cols m = map_of [(''project_id'', VStr (fst m)), (''user_id'', v_id (snd m))]"

definition workflow_cols :: "workflow_row \<Rightarrow> sql_row" where
  "workflow_cols w = map_of [(''wfid'', VStr (wf_wfid w)), (''alias'', VStr (wf_alias w)), (''nbtask'', VTask (wf_nbtask w)),
     (''schedule'', VSched (wf_schedule w)), (''enabled'', VBool (wf_enabled w)), (''project_id'', v_opt VStr (wf_project_id w)),
     (''updated_at'', VTime (wf_updated_at w))]"

definition runtime_cols :: "runtime_row \<Rightarrow> sql_row" where
  "runtime_cols r = map_of [(''id'', v_id (rt_id r)), (''runtimeid'', VStr (rt_runtimeid r)), (''runtime_name'', VStr (rt_runtime_name r)),
     (''docker_name'', VStr (rt_docker_name r)), (''spec'', VSpec (rt_spec r)), (''version'', VStr (rt_version r)),
     (''registry'', v_opt VStr (rt_registry r)), (''project_id'', v_opt VStr (rt_project_id r)), (''created_at'', VTime (rt_created_at r))]"

definition history_cols :: "history_row \<Rightarrow> sql_row" where
  "history_cols h = map_of [(''wfid'', VStr (hs_wfid h)), (''execid'', VStr (hs_execid h)), (''nb_name'', VStr (hs_nb_name h)),
     (''result'', VResult (hs_result h)), (''elapsed_secs'', VElapsed (hs_elapsed_cs h)), (''status'', VInt (hs_status h)),
     (''project_id'', v_opt VStr (hs_project_id h)), (''created_at'', VTime (hs_created_at h))]"

definition tables_of :: "db \<Rightarrow> sql_tables" where
  "tables_of db =
     (\<lambda>_. [])(''lf_user'' := map user_cols (db_users db), ''lf_project'' := map project_cols (db_projects db),
       ''lf_projects_users'' := map member_cols (db_members db), ''lf_workflow'' := map workflow_cols (db_workflows db),
       ''lf_runtime'' := map runtime_cols (db_runtimes db), ''lf_history'' := map history_cols (db_history db))"

section \<open>The writes are the constraints\<close>

lemma v_opt_simps [simp]:
  "v_opt f None = VNull" "v_opt f (Some x) = f x" "v_id i \<noteq> VNull" "VNull \<noteq> v_id i" "v_id i = v_id j \<longleftrightarrow> i = j"
  by (simp_all add: v_opt_def v_id_def)

lemma v_opt_eq [simp]: "v_opt VStr x = VNull \<longleftrightarrow> x = None" "v_opt v_id y = VNull \<longleftrightarrow> y = None"
    "VStr a = v_opt VStr x \<longleftrightarrow> x = Some a" "v_opt VStr x = VStr a \<longleftrightarrow> x = Some a"
    "v_opt VStr x = v_opt VStr x' \<longleftrightarrow> x = x'" "v_id i = v_opt v_id y \<longleftrightarrow> y = Some i"
  by (auto simp: v_opt_def split: option.splits)

lemmas cols_defs = user_cols_def project_cols_def member_cols_def workflow_cols_def runtime_cols_def history_cols_def

lemma migrated_table:
  "map_of (compiled_all D (map fst migrated)) ''lf_user'' = Some (compiled D UserModel)"
  "map_of (compiled_all D (map fst migrated)) ''lf_project'' = Some (compiled D ProjectModel)"
  "map_of (compiled_all D (map fst migrated)) ''lf_projects_users'' = Some (compiled D assoc_projects_users)"
  "map_of (compiled_all D (map fst migrated)) ''lf_workflow'' = Some (compiled D WorkflowModel)"
  "map_of (compiled_all D (map fst migrated)) ''lf_runtime'' = Some (compiled D RuntimeModel)"
  "map_of (compiled_all D (map fst migrated)) ''lf_history'' = Some (compiled D HistoryModel)"
  by (simp_all add: compiled_all_def migrated_def model_tables)

lemma key_sets_list:
  "key_sets (compiled D m) = set ((if filter mc_pk (md_columns m) = [] then [] else [map mc_name (filter mc_pk (md_columns m))]) @ map snd (model_uniques m) @
     map (fst \<circ> snd) (filter (snd \<circ> snd) (model_indexes m)))"
  by (simp add: key_sets_def compiled_def Un_assoc comp_def)

lemma key_sets_compiled:
  "key_sets (compiled D UserModel) = {[''id''], [''username'']}"
  "key_sets (compiled D ProjectModel) = {[''id''], [''name''], [''projectid'']}"
  "key_sets (compiled D assoc_projects_users) = {}"
  "key_sets (compiled D WorkflowModel) = {[''id''], [''alias'', ''project_id''], [''wfid'']}"
  "key_sets (compiled D RuntimeModel) = {[''id''], [''runtimeid'']}"
  "key_sets (compiled D HistoryModel) = {[''id'']}"
  by (simp_all add: key_sets_list model_indexes_def model_uniques_def model_defs column_defs)

lemma compiled_fkeys:
  "tb_fkeys (compiled D UserModel) = []"
  "tb_fkeys (compiled D ProjectModel) = [mig_fk ''owner_id'' ''lf_user'' ''id'' (Some ''SET NULL'')]"
  "tb_fkeys (compiled D assoc_projects_users) = [mig_fk ''project_id'' ''lf_project'' ''projectid'' None, mig_fk ''user_id'' ''lf_user'' ''id'' None]"
  "tb_fkeys (compiled D WorkflowModel) = [mig_fk ''project_id'' ''lf_project'' ''projectid'' (Some ''SET NULL'')]"
  "tb_fkeys (compiled D RuntimeModel) = [mig_fk ''project_id'' ''lf_project'' ''projectid'' (Some ''SET NULL'')]"
  "tb_fkeys (compiled D HistoryModel) = [mig_fk ''project_id'' ''lf_project'' ''projectid'' (Some ''SET NULL'')]"
  by (simp_all add: compiled_def model_fkeys_def mig_fk_def model_defs column_defs)

lemma rows_filled:
  "filled (compiled D UserModel) (user_cols u)"
  "filled (compiled D ProjectModel) (project_cols p)"
  "filled (compiled D assoc_projects_users) (member_cols m)"
  "filled (compiled D WorkflowModel) (workflow_cols w)"
  "filled (compiled D RuntimeModel) (runtime_cols r)"
  "filled (compiled D HistoryModel) (history_cols h)"
  by (simp_all add: filled_def compiled_def column_of_def model_column_def model_defs column_defs cols_defs)

lemma tables_of_simps:
  "tables_of db ''lf_user'' = map user_cols (db_users db)" "tables_of db ''lf_project'' = map project_cols (db_projects db)"
  "tables_of db ''lf_projects_users'' = map member_cols (db_members db)" "tables_of db ''lf_workflow'' = map workflow_cols (db_workflows db)"
  "tables_of db ''lf_runtime'' = map runtime_cols (db_runtimes db)" "tables_of db ''lf_history'' = map history_cols (db_history db)"
  by (simp_all add: tables_of_def)

lemma tables_of_grown:
  "tables_of (db\<lparr>db_users := us, db_seq := i\<rparr>) = (tables_of db)(''lf_user'' := map user_cols us)"
  "tables_of (db\<lparr>db_projects := ps, db_seq := i\<rparr>) = (tables_of db)(''lf_project'' := map project_cols ps)"
  "tables_of (db\<lparr>db_members := ms\<rparr>) = (tables_of db)(''lf_projects_users'' := map member_cols ms)"
  "tables_of (db\<lparr>db_workflows := ws, db_seq := i\<rparr>) = (tables_of db)(''lf_workflow'' := map workflow_cols ws)"
  "tables_of (db\<lparr>db_runtimes := rs, db_seq := i\<rparr>) = (tables_of db)(''lf_runtime'' := map runtime_cols rs)"
  "tables_of (db\<lparr>db_history := hs, db_seq := i\<rparr>) = (tables_of db)(''lf_history'' := map history_cols hs)"
  by (rule ext, simp add: tables_of_def)+

text \<open>The references, as the schema sees them and as the writes do.\<close>

lemma refers_user: "list_ex (\<lambda>r. r ''id'' = Some (v_id i)) (map user_cols (db_users db)) \<longleftrightarrow> i \<in> userids db"
  by (auto simp: list_ex_iff userids_def user_cols_def)

lemma refers_project: "list_ex (\<lambda>r. r ''projectid'' = Some (VStr x)) (map project_cols (db_projects db)) \<longleftrightarrow> x \<in> projectids db"
  by (auto simp: list_ex_iff projectids_def project_cols_def)

lemma refers_project_opt:
  "row ''project_id'' = Some (v_opt VStr x) \<Longrightarrow>
     refers_to (tables_of db) row (mig_fk ''project_id'' ''lf_project'' ''projectid'' d) \<longleftrightarrow> ref_ok x (projectids db)"
  by (cases x) (simp_all add: refers_to_def mig_fk_def tables_of_simps refers_project)

lemma refers_owner:
  "refers_to (tables_of db) (project_cols p) (mig_fk ''owner_id'' ''lf_user'' ''id'' d) \<longleftrightarrow> ref_ok (pr_owner_id p) (userids db)"
  by (cases "pr_owner_id p") (simp_all add: refers_to_def mig_fk_def tables_of_simps refers_user project_cols_def)

lemma refers_member:
  "refers_to (tables_of db) (member_cols (x, i)) (mig_fk ''project_id'' ''lf_project'' ''projectid'' d) \<longleftrightarrow> x \<in> projectids db"
  "refers_to (tables_of db) (member_cols (x, i)) (mig_fk ''user_id'' ''lf_user'' ''id'' d) \<longleftrightarrow> i \<in> userids db"
  by (simp_all add: refers_to_def mig_fk_def tables_of_simps refers_user refers_project member_cols_def)

lemma ex_image: "(\<exists>x \<in> A. f x = a) \<longleftrightarrow> a \<in> f ` A"
  by force

lemma clash_user:
  "list_ex (clash [''id''] (user_cols u)) (map user_cols us) \<longleftrightarrow> us_id u \<in> us_id ` set us"
  "list_ex (clash [''username''] (user_cols u)) (map user_cols us) \<longleftrightarrow> us_username u \<in> us_username ` set us"
  by (simp_all add: list_ex_iff clash_def user_cols_def) (simp_all add: ex_image)

lemma clash_project:
  "list_ex (clash [''id''] (project_cols p)) (map project_cols ps) \<longleftrightarrow> pr_id p \<in> pr_id ` set ps"
  "list_ex (clash [''projectid''] (project_cols p)) (map project_cols ps) \<longleftrightarrow> pr_projectid p \<in> pr_projectid ` set ps"
  "list_ex (clash [''name''] (project_cols p)) (map project_cols ps) \<longleftrightarrow> pr_name p \<in> pr_name ` set ps"
  by (simp_all add: list_ex_iff clash_def project_cols_def) (simp_all add: ex_image)

lemma clash_runtime:
  "list_ex (clash [''id''] (runtime_cols r)) (map runtime_cols rs) \<longleftrightarrow> rt_id r \<in> rt_id ` set rs"
  "list_ex (clash [''runtimeid''] (runtime_cols r)) (map runtime_cols rs) \<longleftrightarrow> rt_runtimeid r \<in> rt_runtimeid ` set rs"
  by (simp_all add: list_ex_iff clash_def runtime_cols_def) (simp_all add: ex_image)

lemma clash_history: "\<not> list_ex (clash [''id''] (history_cols h)) rs"
  by (simp add: list_ex_iff clash_def history_cols_def)

lemma clash_workflow:
  "\<not> list_ex (clash [''id''] (workflow_cols w)) rs"
  "list_ex (clash [''wfid''] (workflow_cols w)) (map workflow_cols ws) \<longleftrightarrow> wf_wfid w \<in> wf_wfid ` set ws"
  "list_ex (clash [''alias'', ''project_id''] (workflow_cols w)) (map workflow_cols ws) \<longleftrightarrow> set (alias_keys [w]) \<inter> set (alias_keys ws) \<noteq> {}"
proof -
  show "\<not> list_ex (clash [''id''] (workflow_cols w)) rs" by (simp add: list_ex_iff clash_def workflow_cols_def)
  show "list_ex (clash [''wfid''] (workflow_cols w)) (map workflow_cols ws) \<longleftrightarrow> wf_wfid w \<in> wf_wfid ` set ws"
    by (simp add: list_ex_iff clash_def workflow_cols_def) (simp add: ex_image)
  have "clash [''alias'', ''project_id''] (workflow_cols w) (workflow_cols v) \<longleftrightarrow>
      wf_alias v = wf_alias w \<and> wf_project_id v = wf_project_id w \<and> wf_project_id w \<noteq> None" for v
    by (auto simp: clash_def workflow_cols_def)
  then show "list_ex (clash [''alias'', ''project_id''] (workflow_cols w)) (map workflow_cols ws) \<longleftrightarrow> set (alias_keys [w]) \<inter> set (alias_keys ws) \<noteq> {}"
    by (cases "wf_project_id w") (auto simp: list_ex_iff in_alias_keys alias_keys_def [of "[w]"])
qed


text \<open>One column of the schema contradicts itself: a notebook file must have an owner, and loses it when the user
  is deleted.\<close>

lemma notebook_owner_contradiction:
  assumes "m \<in> set model_metadata" and "c \<in> set (md_columns m)" and "mc_fk c = Some (t, x, Some ''SET NULL'')"
  shows "mc_nullable c = Some False \<longleftrightarrow> md_table m = ''lf_notebook_file'' \<and> mc_name c = ''owner_id''"
proof -
  have "list_all (\<lambda>m. list_all (\<lambda>c. case mc_fk c of Some (t, x, Some d) \<Rightarrow>
      mc_nullable c = Some False \<longleftrightarrow> md_table m = ''lf_notebook_file'' \<and> mc_name c = ''owner_id'' | _ \<Rightarrow> True) (md_columns m)) model_metadata"
    by (simp add: model_metadata_def model_defs column_defs)
  then show ?thesis using assms by (fastforce simp: list_all_iff)
qed


end
