(* ===== verification/Heartbeat.thy ===== *)
theory Heartbeat
  imports Agents
begin

text \<open>
  The heartbeat of an agent (\<open>control_plane/heartbeat.py\<close>): a thread that writes a key that expires, sleeps, and
  looks at a flag before it writes again, and the agent's own thread, which deletes the key and sets the flag when
  its work is over. The two interleave step by step; what they do between two waits takes no time, so time passes only
  while the thread of the heartbeat sleeps or is over. Times are seconds.
\<close>

datatype beat_pc = Looking | Setting | Sleeping nat | Ended

text \<open>The agent: at work, with the key deleted, or done since a moment.\<close>

datatype agent_pc = Serving | Deleted | Left nat

record heart =
  hb_now :: nat
  hb_until :: "nat option"
  hb_shutdown :: bool
  hb_pc :: beat_pc
  hb_agent :: agent_pc
  hb_beaten :: bool

definition heart_init :: "nat \<Rightarrow> heart" where
  "heart_init t = \<lparr>hb_now = t, hb_until = None, hb_shutdown = False, hb_pc = Looking, hb_agent = Serving, hb_beaten = False\<rparr>"

definition alive :: "heart \<Rightarrow> bool" where
  "alive s = (case hb_until s of None \<Rightarrow> False | Some u \<Rightarrow> hb_now s < u)"

inductive heart_step :: "nat \<Rightarrow> nat \<Rightarrow> heart \<Rightarrow> heart \<Rightarrow> bool" for ttl_secs check_every :: nat where
  look: "hb_pc s = Looking \<Longrightarrow> \<not> hb_shutdown s \<Longrightarrow> heart_step ttl_secs check_every s (s\<lparr>hb_pc := Setting\<rparr>)"
| stop: "hb_pc s = Looking \<Longrightarrow> hb_shutdown s \<Longrightarrow> heart_step ttl_secs check_every s (s\<lparr>hb_pc := Ended\<rparr>)"
| beat: "hb_pc s = Setting \<Longrightarrow>
    heart_step ttl_secs check_every s (s\<lparr>hb_until := Some (hb_now s + ttl_secs), hb_pc := Sleeping (hb_now s + check_every), hb_beaten := True\<rparr>)"
| wake: "hb_pc s = Sleeping w \<Longrightarrow> w \<le> hb_now s \<Longrightarrow> heart_step ttl_secs check_every s (s\<lparr>hb_pc := Looking\<rparr>)"
| delete: "hb_agent s = Serving \<Longrightarrow> heart_step ttl_secs check_every s (s\<lparr>hb_until := None, hb_agent := Deleted\<rparr>)"
| shutdown: "hb_agent s = Deleted \<Longrightarrow> heart_step ttl_secs check_every s (s\<lparr>hb_shutdown := True, hb_agent := Left (hb_now s)\<rparr>)"
| tick: "(\<exists>w. hb_pc s = Sleeping w \<and> hb_now s < w) \<or> hb_pc s = Ended \<Longrightarrow> hb_agent s \<noteq> Deleted \<Longrightarrow>
    heart_step ttl_secs check_every s (s\<lparr>hb_now := Suc (hb_now s)\<rparr>)"

inductive heart_reach :: "nat \<Rightarrow> nat \<Rightarrow> nat \<Rightarrow> heart \<Rightarrow> bool" for ttl_secs check_every t where
  start: "heart_reach ttl_secs check_every t (heart_init t)"
| step: "heart_reach ttl_secs check_every t s \<Longrightarrow> heart_step ttl_secs check_every s s' \<Longrightarrow> heart_reach ttl_secs check_every t s'"

inductive_cases heart_stepE: "heart_step ttl_secs check_every s s'"

text \<open>What holds at every moment: a sleeping thread wakes within its interval, the last beat was at the start of
  the current interval as long as the agent serves, and the key never outlives the last beat that could follow the agent's end.\<close>

definition heart_inv :: "nat \<Rightarrow> nat \<Rightarrow> heart \<Rightarrow> bool" where
  "heart_inv ttl_secs check_every s \<longleftrightarrow>
     (\<forall>w. hb_pc s = Sleeping w \<longrightarrow> hb_now s \<le> w \<and> w \<le> hb_now s + check_every \<and>
        (hb_agent s = Serving \<longrightarrow> hb_until s = Some (w - check_every + ttl_secs) \<and> check_every \<le> w)) \<and>
     (hb_shutdown s \<longleftrightarrow> (\<exists>t. hb_agent s = Left t)) \<and> (hb_pc s = Ended \<longrightarrow> hb_shutdown s) \<and>
     (hb_agent s = Serving \<and> hb_beaten s \<and> hb_pc s \<in> {Looking, Setting} \<longrightarrow> hb_until s = Some (hb_now s - check_every + ttl_secs) \<and> check_every \<le> hb_now s) \<and>
     (\<not> hb_beaten s \<longrightarrow> hb_pc s \<in> {Looking, Setting, Ended} \<and> hb_until s = None) \<and>
     (hb_agent s = Deleted \<longrightarrow> (\<forall>u. hb_until s = Some u \<longrightarrow> u \<le> hb_now s + ttl_secs)) \<and>
     (\<forall>t. hb_agent s = Left t \<longrightarrow> t \<le> hb_now s \<and> (\<forall>u. hb_until s = Some u \<longrightarrow> u \<le> t + ttl_secs) \<and>
        (hb_pc s = Setting \<longrightarrow> hb_now s = t) \<and> (\<forall>w. hb_pc s = Sleeping w \<longrightarrow> w \<le> t + check_every) \<and>
        (hb_pc s = Looking \<longrightarrow> hb_now s \<le> t + check_every))"

lemma heart_inv_init: "heart_inv ttl_secs check_every (heart_init t)"
  by (simp add: heart_inv_def heart_init_def)

lemma heart_inv_step:
  assumes "heart_inv ttl_secs check_every s" and "heart_step ttl_secs check_every s s'"
  shows "heart_inv ttl_secs check_every s'"
  using assms(2,1) by cases (auto simp: heart_inv_def)

lemma heart_reach_inv: "heart_reach ttl_secs check_every t s \<Longrightarrow> heart_inv ttl_secs check_every s"
  by (induction rule: heart_reach.induct) (auto intro: heart_inv_init heart_inv_step)

text \<open>A run of the thread alone: the first beat, and then only time.\<close>

definition slept :: "nat \<Rightarrow> nat \<Rightarrow> nat \<Rightarrow> nat \<Rightarrow> heart" where
  "slept ttl_secs check_every t n = \<lparr>hb_now = t + n, hb_until = Some (t + ttl_secs), hb_shutdown = False,
     hb_pc = Sleeping (t + check_every), hb_agent = Serving, hb_beaten = True\<rparr>"

lemma slept_reached: "n \<le> check_every \<Longrightarrow> heart_reach ttl_secs check_every t (slept ttl_secs check_every t n)"
proof (induction n)
  case 0
  have "heart_reach ttl_secs check_every t (heart_init t\<lparr>hb_pc := Setting\<rparr>)"
    by (rule step [OF start look]) (simp_all add: heart_init_def)
  from step [OF this beat] show ?case by (simp add: heart_init_def slept_def)
next
  case (Suc n)
  from step [OF Suc.IH tick] Suc.prems show ?case by (simp add: slept_def)
qed

lemma late_beat_reached:
  "heart_reach ttl_secs check_every t \<lparr>hb_now = t, hb_until = Some (t + ttl_secs), hb_shutdown = True,
     hb_pc = Sleeping (t + check_every), hb_agent = Left t, hb_beaten = True\<rparr>"
proof -
  have "heart_reach ttl_secs check_every t (heart_init t\<lparr>hb_pc := Setting\<rparr>)"
    by (rule step [OF start look]) (simp_all add: heart_init_def)
  from step [OF step [OF step [OF this delete] shutdown] beat] show ?thesis by (simp add: heart_init_def)
qed

text \<open>The defaults of the settings of the server.\<close>

definition AGENT_HEARTBEAT_CHECK :: nat where "AGENT_HEARTBEAT_CHECK = 60 * 5"

definition AGENT_HEARTBEAT_TTL :: nat where "AGENT_HEARTBEAT_TTL = 80 * 3"

text \<open>C31. When the key of a heartbeat is there. From the first beat on an agent at work always has its key, if the
  key lives longer than the thread sleeps; an agent that has left loses it within the life of one key, and
  its thread ends within one interval. But the settings' defaults are the other way round, so the key of
  an agent at work is gone for a part of every interval; and a beat that was already on its way when
  the agent deleted the key brings it back after the agent left.\<close>

theorem heartbeat_bounds:
  assumes "heart_reach ttl_secs check_every t s"
  shows "(hb_agent s = Serving \<and> hb_beaten s \<and> check_every < ttl_secs \<longrightarrow> alive s) \<and>
    (\<forall>left. hb_agent s = Left left \<longrightarrow> (alive s \<longrightarrow> hb_now s < left + ttl_secs) \<and> (hb_pc s \<noteq> Ended \<longrightarrow> hb_now s \<le> left + check_every)) \<and>
    (\<exists>s'. heart_reach AGENT_HEARTBEAT_TTL AGENT_HEARTBEAT_CHECK t s' \<and> hb_agent s' = Serving \<and> hb_beaten s' \<and> \<not> alive s') \<and>
    (0 < ttl_secs \<longrightarrow> (\<exists>s'. heart_reach ttl_secs check_every t s' \<and> hb_agent s' = Left t \<and> alive s'))"
proof (intro conjI)
  note inv = heart_reach_inv [OF assms, unfolded heart_inv_def]
  show "hb_agent s = Serving \<and> hb_beaten s \<and> check_every < ttl_secs \<longrightarrow> alive s"
    using inv by (cases "hb_pc s") (auto simp: alive_def)
  show "\<forall>left. hb_agent s = Left left \<longrightarrow> (alive s \<longrightarrow> hb_now s < left + ttl_secs) \<and> (hb_pc s \<noteq> Ended \<longrightarrow> hb_now s \<le> left + check_every)"
    using inv by (cases "hb_pc s") (auto simp: alive_def split: option.splits)
  let ?s = "slept AGENT_HEARTBEAT_TTL AGENT_HEARTBEAT_CHECK t AGENT_HEARTBEAT_TTL"
  have "heart_reach AGENT_HEARTBEAT_TTL AGENT_HEARTBEAT_CHECK t ?s"
    by (rule slept_reached) (simp add: AGENT_HEARTBEAT_TTL_def AGENT_HEARTBEAT_CHECK_def)
  then show "\<exists>s'. heart_reach AGENT_HEARTBEAT_TTL AGENT_HEARTBEAT_CHECK t s' \<and> hb_agent s' = Serving \<and> hb_beaten s' \<and> \<not> alive s'"
    by (rule exI [of _ ?s, OF conjI]) (simp add: slept_def alive_def)
  show "0 < ttl_secs \<longrightarrow> (\<exists>s'. heart_reach ttl_secs check_every t s' \<and> hb_agent s' = Left t \<and> alive s')"
    using late_beat_reached [of ttl_secs check_every t] by (auto simp: alive_def intro!: exI)
qed

theorem heartbeat_bounds_witness:
  "alive (slept 15 10 0 10) \<and> (\<exists>s'. heart_reach 15 10 0 s' \<and> hb_agent s' = Left 0 \<and> alive s')"
  using heartbeat_bounds [OF slept_reached [of 10 10 15 0]] by (simp add: slept_def)

end
