(* ===== verification/Web_Projects.thy ===== *)
theory Web_Projects
  imports Web_App
begin

text \<open>
  The web application (\<open>Web_App\<close>) over the handlers of projects (\<open>Projects\<close>): what a request with a valid token
  gets to see and to change of a project it has nothing to do with.
\<close>

section \<open>The handlers by name\<close>

text \<open>The state is the database; \<open>others\<close> are the handlers of the other blueprints.\<close>

definition project_handlers ::
  "nanoid \<Rightarrow> nanoid \<Rightarrow> nat \<Rightarrow> (string \<Rightarrow> db handler) \<Rightarrow> string \<Rightarrow> string \<Rightarrow> string \<Rightarrow> db handler" where
  "project_handlers ga gx now others projectid agentname h token db =
     (if h = ''project_list'' then (project_list token db, db)
      else if h = ''project_get_one'' then (project_get_one projectid token db, db)
      else if h = ''project_delete'' then project_delete projectid db
      else if h = ''project_create_user_agent'' then project_create_user_agent ga gx now projectid db
      else if h = ''project_delete_user_agent'' then project_delete_user_agent projectid agentname db
      else if h = ''project_agents_list'' then (Inr (project_agents_list projectid db), db)
      else if h = ''project_private_key'' then (Inr (project_private_key projectid db), db)
      else others h token db)"

text \<open>A request of the client as the application serves it.\<close>

definition serve_call ::
  "(route list \<Rightarrow> string \<Rightarrow> string list \<Rightarrow> route option) \<Rightarrow> jwt_lib \<Rightarrow> jwt_config \<Rightarrow> int \<Rightarrow> web_app \<Rightarrow> (string \<Rightarrow> 's handler) \<Rightarrow>
   string \<Rightarrow> api_call \<Rightarrow> request \<Rightarrow> 's \<Rightarrow> response result option \<times> 's" where
  "serve_call dispatch J conf now app handlers pid c req st =
     serve dispatch J conf now app handlers (fst (api_request pid c)) (url_path (snd (api_request pid c))) req st"

lemma serve_call_valid:
  assumes router: "web_router label_ok dispatch" and app: "webcli cluster_file apps = Inr app"
    and target: "api_target c = (bp, h, args)" "bp_prefix bp \<in> set (split_on CHR '','' apps)" "h \<notin> set open_handlers"
    and plain: "plain_seg pid" "list_all plain_seg args" "\<forall>rid. c \<noteq> Prj (RtDelete rid)"
    and token: "req_token req = Some tok" "tok \<noteq> []" "auth_decode J conf now tok True True None None = Inr claims"
    and f: "fst (handlers h claims st) \<noteq> Inl AuthValidationFailed"
  shows "serve_call dispatch J conf now app handlers pid c req st = (Some (fst (handlers h claims st)), snd (handlers h claims st))"
proof -
  have "map_option rt_handler (dispatch (app_routes app) (fst (api_request pid c)) (url_path (snd (api_request pid c)))) = Some h"
    using web_router.call_served [OF router app target(1) plain] target(2) by simp
  then obtain r where "dispatch (app_routes app) (fst (api_request pid c)) (url_path (snd (api_request pid c))) = Some r" "rt_handler r = h"
    by blast
  from serve_valid [where handlers = handlers and st = st, OF router app this target(3) token f] show ?thesis by (simp add: serve_call_def)
qed

section \<open>Somebody else's project\<close>

lemma stranger_sees_nothing:
  assumes "map_of claims ''usr'' = Some (PStr name)" and "get_user_async name None db = Some u" and "us_id u \<noteq> 0"
    and "\<forall>p \<in> set (db_projects db). pr_projectid p = pid \<longrightarrow> pr_owner_id p \<noteq> Some (us_id u)"
  shows "project_get_one pid claims db = Inr (json (msg ''Not found'') 200)"
proof -
  have "filter (\<lambda>p. pr_projectid p = pid \<and> owned_by (Some (us_id u)) p) (db_projects db) = []"
    using assms(3,4) by (auto simp: filter_empty_conv owned_by_def)
  then show ?thesis using assms(1,2)
    by (simp add: project_get_one_def inject_user_def dict_get_def get_by_projectid_def first_row_def model2orm_def)
qed

text \<open>C10. The key of a project is given to anyone with a token. For a user that is not the owner, a project does not
  exist: asking for it answers that nothing was found. The same user's token, valid for whatever reason,
  gets the project's private key, the one its secrets are encrypted with, and the names of its agents;
  neither endpoint looks at the token again.\<close>

theorem key_for_any_token:
  assumes router: "web_router label_ok dispatch" and app: "webcli cluster_file apps = Inr app" "''projects'' \<in> set (split_on CHR '','' apps)"
    and token: "req_token req = Some tok" "tok \<noteq> []" "auth_decode J conf now tok True True None None = Inr claims"
    and user: "map_of claims ''usr'' = Some (PStr name)" "get_user_async name None db = Some u" "us_id u \<noteq> 0"
    and project: "get_by_projectid_model pid db = Some p" "pr_private_key p \<noteq> []" "plain_seg pid"
    and stranger: "\<forall>p \<in> set (db_projects db). pr_projectid p = pid \<longrightarrow> pr_owner_id p \<noteq> Some (us_id u)"
  shows "(let ask = \<lambda>c. serve_call dispatch J conf now app (project_handlers ga gx t others pid a) pid (Prj c) req db in
    ask PrjGet = (Some (Inr (json (msg ''Not found'') 200)), db) \<and>
    ask PrivateKey = (Some (Inr (json (PDict [(''private_key'', PStr (pr_private_key p))]) 200)), db) \<and>
    ask AgList = (Some (Inr (json (PList (map PStr (get_agent_list (Some pid) db))) 200)), db))"
proof -
  let ?h = "project_handlers ga gx t others pid a"
  have prefix: "bp_prefix projects_bp \<in> set (split_on CHR '','' apps)" using app(2) by simp
  have h: "''project_get_one'' \<notin> set open_handlers" "''project_private_key'' \<notin> set open_handlers" "''project_agents_list'' \<notin> set open_handlers"
    by (simp_all add: open_handlers_def)
  note ask = serve_call_valid [OF router app(1) _ prefix _ project(3) _ _ token, where handlers = ?h and st = db]
  have "?h ''project_get_one'' claims db = (Inr (json (msg ''Not found'') 200), db)"
    using stranger_sees_nothing [OF user stranger] by (simp add: project_handlers_def)
  moreover have "?h ''project_private_key'' claims db = (Inr (json (PDict [(''private_key'', PStr (pr_private_key p))]) 200), db)"
    using project by (simp add: project_handlers_def project_private_key_def get_private_key_def)
  moreover have "?h ''project_agents_list'' claims db = (Inr (json (PList (map PStr (get_agent_list (Some pid) db))) 200), db)"
    by (simp add: project_handlers_def project_agents_list_def)
  ultimately show ?thesis
    using ask [of "Prj PrjGet" "''project_get_one''" "[]"] ask [of "Prj PrivateKey" "''project_private_key''" "[]"]
      ask [of "Prj AgList" "''project_agents_list''" "[]"] h
    by (simp add: Let_def)
qed

definition stranger_db :: db where
  "stranger_db = admin_db\<lparr>db_users := [demo_admin, demo_user\<lparr>us_id := 8, us_username := ''eve''\<rparr>]\<rparr>"

theorem key_for_any_token_witness:
  "\<exists>app. webcli None DEFAULT_APPS = Inr app \<and>
     serve_call plain_dispatch (expiring_jwt [(''usr'', PStr ''eve''), (''exp'', PInt 9)] 9) demo_conf 5 app
       (project_handlers (\<lambda>_ _. []) (\<lambda>_ _. []) 0 (\<lambda>_ _ st. (Inl NotImplementedError, st)) ''pid'' []) ''pid'' (Prj PrivateKey)
       \<lparr>req_token = Some ''tk'', req_json = PNone\<rparr> stranger_db =
     (Some (Inr (json (PDict [(''private_key'', PStr ''k'')]) 200)), stranger_db)"
proof -
  let ?claims = "[(''usr'', PStr ''eve''), (''exp'', PInt 9)]" and ?req = "\<lparr>req_token = Some ''tk'', req_json = PNone\<rparr>"
  have "\<exists>app. webcli None DEFAULT_APPS = Inr app"
    by (simp add: webcli_def create_app_def init_blueprints_def DEFAULT_APPS_def web_module_def security_module_def)
  then obtain app where app: "webcli None DEFAULT_APPS = Inr app" by blast
  have user: "get_user_async ''eve'' None stranger_db = Some (demo_user\<lparr>us_id := 8, us_username := ''eve''\<rparr>)"
    by (simp add: get_user_async_def stranger_db_def first_row_def demo_admin_def demo_user_def)
  have project: "get_by_projectid_model ''pid'' stranger_db = Some demo_project" "plain_seg ''pid''"
    by (simp_all add: get_by_projectid_model_def stranger_db_def admin_db_def first_row_def demo_project_def plain_seg_def)
  have token: "auth_decode (expiring_jwt ?claims 9) demo_conf 5 ''tk'' True True None None = Inr ?claims"
    by (simp add: auth_decode_def expiring_jwt_def)
  have "\<forall>p \<in> set (db_projects stranger_db). pr_projectid p = ''pid'' \<longrightarrow> pr_owner_id p \<noteq> Some (us_id (demo_user\<lparr>us_id := 8, us_username := ''eve''\<rparr>))"
    by (simp add: stranger_db_def admin_db_def demo_project_def)
  from key_for_any_token [OF plain.web_router_axioms app _ _ _ token _ user _ project(1) _ project(2) this, of ?req]
  show ?thesis using app by (simp add: default_apps demo_project_def Let_def)
qed

end
